(* ===== verification/Prelude.thy ===== *)
theory Prelude
  imports Main "HOL-Library.Word" "HOL-Library.Sublist"
begin

text \<open>
  The shared base of the development: the machine integers of the crate, the operations of
  Rust's standard library that the source uses (checked and saturating arithmetic, \<open>div_ceil\<close>,
  \<open>try_from\<close>, \<open>slice::get\<close>, little-endian byte arrays), results with errors as values, and the
  generic lemmas on them. \<open>usize\<close> is a \<open>nat\<close>: lengths of Rust slices are below \<open>2 ^ 63\<close>, and the
  two places where the source guards a \<open>usize\<close> computation write their bound out.
\<close>

named_theorems rust_arith "the values of the modelled machine operations, as natural numbers or integers"
named_theorems result_simps "decomposition of results"

declare of_nat_unat [simp del]

lemma word_of_nat_unat [simp]: "word_of_nat (unat w) = (w :: 'a::len word)"
  by (simp add: of_nat_unat)

section \<open>Machine integers\<close>

type_synonym u8 = "8 word"
type_synonym u16 = "16 word"
type_synonym u32 = "32 word"
type_synonym u64 = "64 word"
type_synonym u128 = "128 word"
type_synonym i64 = "64 word"
type_synonym i128 = "128 word"
type_synonym bytes = "u8 list"

definition u64_MAX :: u64 where
  "u64_MAX = 18446744073709551615"

definition checked_sub :: "'a::len word \<Rightarrow> 'a word \<Rightarrow> 'a word option" where
  "checked_sub a b = (if b \<le> a then Some (a - b) else None)"

definition saturating_sub :: "'a::len word \<Rightarrow> 'a word \<Rightarrow> 'a word" where
  "saturating_sub a b = (if a < b then 0 else a - b)"

definition saturating_add :: "'a::len word \<Rightarrow> 'a word \<Rightarrow> 'a word" where
  "saturating_add a b = (if unat a + unat b < 2 ^ LENGTH('a) then a + b else - 1)"

definition div_ceil :: "'a::len word \<Rightarrow> 'a word \<Rightarrow> 'a word" where
  "div_ceil a b = (if a mod b = 0 then a div b else a div b + 1)"

definition u64_try_from :: "u128 \<Rightarrow> u64 option" where
  "u64_try_from x = (if unat x < 2 ^ 64 then Some (ucast x) else None)"

definition unwrap_or :: "'a option \<Rightarrow> 'a \<Rightarrow> 'a" where
  "unwrap_or x d = (case x of None \<Rightarrow> d | Some y \<Rightarrow> y)"

text \<open>\<open>i128::saturating_add\<close>, on words read as two's complement.\<close>

definition saturating_add_i128 :: "i128 \<Rightarrow> i128 \<Rightarrow> i128" where
  "saturating_add_i128 a b =
     word_of_int (max (- (2 ^ 127)) (min (2 ^ 127 - 1) (sint a + sint b)))"

lemma unwrap_or_simps [simp]:
  "unwrap_or None d = d"
  "unwrap_or (Some x) d = x"
  by (simp_all add: unwrap_or_def)

lemma unat_u64_MAX [rust_arith]: "unat u64_MAX = 2 ^ 64 - 1"
  by (simp add: u64_MAX_def)

lemma unat_u64_less [simp]: "unat (x :: u64) < 18446744073709551616"
  using unsigned_less [of x] by simp

lemma unat_u64_le [simp]: "unat (x :: u64) \<le> 18446744073709551615"
  using unat_u64_less [of x] by linarith

lemma unat_u64_le_exp: "unat (x :: u64) \<le> 2 ^ 64 - 1"
  by simp

lemma u64_le_MAX [simp]: "(x :: u64) \<le> u64_MAX"
  unfolding word_le_nat_alt unat_u64_MAX by (rule unat_u64_le_exp)

lemma unat_less_MAX: "(x :: u64) \<noteq> u64_MAX \<Longrightarrow> unat x < 2 ^ 64 - 1"
  using unat_u64_le_exp [of x] unfolding word_unat_eq_iff unat_u64_MAX by (rule le_neq_implies_less)

lemma unat_saturating_sub [rust_arith]: "unat (saturating_sub a b) = unat a - unat b"
proof (cases "a < b")
  case True
  then show ?thesis by (simp add: saturating_sub_def word_less_nat_alt)
next
  case False
  then show ?thesis by (simp add: saturating_sub_def unat_sub linorder_not_less)
qed

lemma unat_saturating_add [rust_arith]:
  fixes a b :: "'a::len word"
  shows "unat (saturating_add a b) = min (unat a + unat b) (2 ^ LENGTH('a) - 1)"
proof (cases "unat a + unat b < 2 ^ LENGTH('a)")
  case True
  then show ?thesis
    by (simp add: saturating_add_def unat_word_ariths min_def less_Suc_eq_le [symmetric])
next
  case False
  then show ?thesis
    using unsigned_minus_1_eq_mask [where 'a = nat and 'b = 'a]
    by (simp add: saturating_add_def mask_eq_exp_minus_1 min_absorb2)
qed

lemma checked_sub_eq_Some_iff: "checked_sub a b = Some c \<longleftrightarrow> b \<le> a \<and> c = a - b"
  by (auto simp: checked_sub_def)

lemma checked_sub_eq_None_iff: "checked_sub a b = None \<longleftrightarrow> a < b"
  by (auto simp: checked_sub_def)

lemma unat_div_ceil [rust_arith]:
  fixes a b :: "'a::len word"
  assumes "b \<noteq> 0"
  shows "unat (div_ceil a b) = (unat a + unat b - 1) div unat b"
proof -
  have b: "0 < unat b" using assms by (simp add: unat_gt_0)
  have eq: "unat a = unat b * (unat a div unat b) + unat a mod unat b" by simp
  show ?thesis
  proof (cases "a mod b = 0")
    case True
    then have m: "unat a mod unat b = 0" by (metis unat_mod_distrib unat_0)
    have "(unat a + unat b - 1) div unat b = unat a div unat b"
    proof -
      have "unat a + unat b - 1 = (unat b - 1) + unat b * (unat a div unat b)"
        using m b eq by linarith
      then have "(unat a + unat b - 1) div unat b = unat a div unat b + (unat b - 1) div unat b"
        using b by (simp only: div_mult_self2)
      then show ?thesis using b by simp
    qed
    then show ?thesis using True by (simp add: div_ceil_def unat_div_distrib)
  next
    case False
    have m: "0 < unat a mod unat b"
      using False by (metis gr0I unat_eq_zero unat_mod_distrib)
    have "unat a div unat b < 2 ^ LENGTH('a) - 1"
    proof -
      have "unat b \<noteq> 1" using m by (intro notI) simp
      then have "2 \<le> unat b" using b by simp
      then have "unat a div unat b \<le> unat a div 2" by (rule div_le_mono2 [rotated]) simp
      moreover have "0 < unat a" using m by (cases "unat a = 0") auto
      then have "unat a div 2 < unat a" by simp
      moreover have "unat a < 2 ^ LENGTH('a)" by (rule unsigned_less)
      ultimately show ?thesis by linarith
    qed
    then have up: "unat (a div b + 1) = unat a div unat b + 1"
      by (simp add: unat_word_ariths unat_div_distrib)
    have "(unat a + unat b - 1) div unat b = unat a div unat b + 1"
    proof -
      have "unat a + unat b - 1 = unat b * (unat a div unat b + 1) + (unat a mod unat b - 1)"
        using m b eq unfolding distrib_left by linarith
      moreover have "unat a mod unat b - 1 < unat b"
        using b by (metis less_imp_diff_less mod_less_divisor)
      ultimately show ?thesis
        by (metis div_less div_mult_self4 add.right_neutral b less_not_refl2 add.commute)
    qed
    then show ?thesis using False up by (simp add: div_ceil_def)
  qed
qed

lemma u64_try_from_or_max [rust_arith]:
  "unat (unwrap_or (u64_try_from x) u64_MAX) = min (unat x) (2 ^ 64 - 1)"
  by (auto simp: u64_try_from_def rust_arith min_def unsigned_ucast_eq take_bit_nat_eq_self
      split: if_splits)

lemma sint_i128_bounds: "- (2 ^ 127) \<le> sint (x :: i128)" "sint (x :: i128) < 2 ^ 127"
  using sint_range_size [of x] by (simp_all add: word_size)

lemma sint_saturating_add_i128 [rust_arith]:
  "sint (saturating_add_i128 a b) = max (- (2 ^ 127)) (min (2 ^ 127 - 1) (sint a + sint b))"
  unfolding saturating_add_i128_def
  by (subst signed_of_int, simp, rule signed_take_bit_int_eq_self) simp_all

text \<open>Widening to \<open>u128\<close> and the products and sums of two widened \<open>u64\<close> never wrap.\<close>

lemma unat_u128_of_u64 [simp]: "unat (ucast (x :: u64) :: u128) = unat x"
  by (simp add: unsigned_ucast_eq take_bit_nat_eq_self order_less_trans [OF unat_u64_less])

lemma u64_mult_bound: "unat (x :: u64) * unat (y :: u64) \<le> (2 ^ 64 - 1) * (2 ^ 64 - 1)"
  by (rule mult_le_mono) simp_all

lemma unat_u128_mult [rust_arith]:
  "unat ((ucast (x :: u64) :: u128) * ucast (y :: u64)) = unat x * unat y"
  using u64_mult_bound [of x y] by (simp add: unat_word_ariths)

lemma unat_u128_add [rust_arith]:
  "unat ((ucast (x :: u64) :: u128) + ucast (y :: u64)) = unat x + unat y"
proof -
  have "unat x + unat y < 340282366920938463463374607431768211456"
    using unat_u64_le [of x] unat_u64_le [of y] by linarith
  then show ?thesis by (simp add: unat_word_ariths)
qed

section \<open>Results and errors\<close>

text \<open>
  One constructor per way a function of the crate can fail. \<open>Panic\<close> is a Rust panic (an
  arithmetic overflow under overflow checks, a failed \<open>expect\<close>); the others are \<open>anyhow\<close> errors.
\<close>

datatype pubkey = Pubkey (pk_bytes: bytes)

text \<open>An RPC error either carries a message meant for the user (\<open>RpcError::ForUser\<close>) or is of
another kind.\<close>

datatype rpc_error = ForUser string | OtherRpcError string

datatype err =
    Panic string
  | TooShortForDiscriminator string
  | UnexpectedDiscriminator string bytes bytes
  | OffsetOverflow
  | Truncated nat nat
  | InvalidBool u8
  | VecTooLong nat nat
  | InvalidConfigStatus u8
  | DataSizeMismatch nat nat
  | PoolTooShort nat nat
  | NotBondingCurve
  | TokenAccountTooShort nat
  | MintTooShort nat
  | AccountNotFound string pubkey
  | CannotQuoteFees pubkey pubkey
  | NoSharingConfig pubkey pubkey
  | SharingConfigInactive pubkey
  | FeeSharingPool pubkey
  | EmptyEndpoints
  | ZeroLpBalance
  | ParseError string
  | NoUiAmount string
  | FetchRetriesExhausted
  | SendRetriesExhausted nat
  | BundleUuidMissing
  | RpcError rpc_error
  | EnvNotSet string
  | InvalidSolAmount string
  | InstructionNotFound
  | External string

type_synonym 'a res = "err + 'a"

text \<open>The \<open>?\<close> operator: the first error ends the function.\<close>

fun bindE :: "'e + 'a \<Rightarrow> ('a \<Rightarrow> 'e + 'b) \<Rightarrow> 'e + 'b" where
  "bindE (Inl e) f = Inl e"
| "bindE (Inr x) f = f x"

definition ok_or :: "'a option \<Rightarrow> 'e \<Rightarrow> 'e + 'a" where
  "ok_or x e = (case x of None \<Rightarrow> Inl e | Some y \<Rightarrow> Inr y)"

lemma bindE_eq_Inr_iff [result_simps]:
  "bindE m f = Inr y \<longleftrightarrow> (\<exists>x. m = Inr x \<and> f x = Inr y)"
  by (cases m) auto

lemma bindE_eq_Inl_iff [result_simps]:
  "bindE m f = Inl e \<longleftrightarrow> m = Inl e \<or> (\<exists>x. m = Inr x \<and> f x = Inl e)"
  by (cases m) auto

lemma ok_or_simps [simp]:
  "ok_or None e = Inl e"
  "ok_or (Some x) e = Inr x"
  by (simp_all add: ok_or_def)

lemma ok_or_eq_Inr_iff [result_simps]: "ok_or x e = Inr y \<longleftrightarrow> x = Some y"
  by (cases x) auto

lemma if_Inl_eq_Inr_iff [result_simps]:
  "(if b then Inl e else m) = Inr y \<longleftrightarrow> \<not> b \<and> m = Inr y"
  by simp

section \<open>Slices and little-endian bytes\<close>

text \<open>\<open>data.get(a..b)\<close>: \<open>None\<close> unless \<open>a \<le> b\<close> and \<open>b\<close> is within the slice.\<close>

definition slice_get :: "'a list \<Rightarrow> nat \<Rightarrow> nat \<Rightarrow> 'a list option" where
  "slice_get d a b = (if a \<le> b \<and> b \<le> length d then Some (take (b - a) (drop a d)) else None)"

definition byte_get :: "'a list \<Rightarrow> nat \<Rightarrow> 'a option" where
  "byte_get d i = (if i < length d then Some (d ! i) else None)"

fun le_val :: "bytes \<Rightarrow> nat" where
  "le_val [] = 0"
| "le_val (b # bs) = unat b + 256 * le_val bs"

text \<open>\<open>from_le_bytes\<close> at any width.\<close>

definition from_le_bytes :: "bytes \<Rightarrow> 'a::len word" where
  "from_le_bytes bs = word_of_nat (le_val bs)"

fun le_bytes :: "nat \<Rightarrow> nat \<Rightarrow> bytes" where
  "le_bytes 0 v = []"
| "le_bytes (Suc n) v = word_of_nat (v mod 256) # le_bytes n (v div 256)"

text \<open>\<open>to_le_bytes\<close>: as many bytes as the width needs.\<close>

definition to_le_bytes :: "'a::len word \<Rightarrow> bytes" where
  "to_le_bytes w = le_bytes (LENGTH('a) div 8) (unat w)"

lemma length_le_bytes [simp]: "length (le_bytes n v) = n"
  by (induction n arbitrary: v) auto

lemma unat_u8_less: "unat (b :: u8) < 256"
  using unsigned_less [of b] by simp

lemma le_val_less: "le_val bs < 256 ^ length bs"
proof (induction bs)
  case (Cons b bs)
  have "unat b + 256 * le_val bs < 256 * (le_val bs + 1)" using unat_u8_less [of b] by simp
  also have "\<dots> \<le> 256 * 256 ^ length bs" using Cons.IH by (intro mult_le_mono) simp_all
  finally show ?case by simp
qed simp

lemma le_val_le_bytes: "v < 256 ^ n \<Longrightarrow> le_val (le_bytes n v) = v"
proof (induction n arbitrary: v)
  case (Suc n)
  then have "v div 256 < 256 ^ n" by (simp add: less_mult_imp_div_less mult.commute)
  then show ?case using Suc.IH by (simp add: unat_of_nat)
qed simp

lemma le_bytes_le_val: "le_bytes (length bs) (le_val bs) = bs"
proof (induction bs)
  case (Cons b bs)
  have "(unat b + 256 * le_val bs) div 256 = le_val bs"
    "(unat b + 256 * le_val bs) mod 256 = unat b"
    using unat_u8_less [of b] by simp_all
  then show ?case using Cons.IH by simp
qed simp

lemma length_to_le_bytes [simp]: "length (to_le_bytes (w :: 'a::len word)) = LENGTH('a) div 8"
  by (simp add: to_le_bytes_def)

lemma from_le_to_le:
  fixes w :: "'a::len word"
  assumes "LENGTH('a) = 8 * k"
  shows "from_le_bytes (to_le_bytes w) = w"
proof -
  have "unat w < 256 ^ k"
    using unsigned_less [of w] assms by (simp add: power_mult)
  then show ?thesis
    using assms by (simp add: from_le_bytes_def to_le_bytes_def le_val_le_bytes)
qed

lemma to_le_from_le:
  fixes bs :: bytes
  assumes "LENGTH('a::len) = 8 * k" and "length bs = k"
  shows "to_le_bytes (from_le_bytes bs :: 'a word) = bs"
proof -
  have "le_val bs < 2 ^ LENGTH('a)"
    using le_val_less [of bs] assms by (simp add: power_mult)
  then show ?thesis
    using assms le_bytes_le_val [of bs]
    by (simp add: from_le_bytes_def to_le_bytes_def unsigned_of_nat take_bit_nat_eq_self)
qed

lemma to_le_bytes_eq_iff:
  fixes w :: "'a::len word"
  assumes "LENGTH('a) = 8 * k" and "length bs = k"
  shows "bs = to_le_bytes w \<longleftrightarrow> from_le_bytes bs = w"
  using from_le_to_le [OF assms(1)] to_le_from_le [OF assms] by metis

section \<open>Generic list lemmas\<close>

lemma prefix_append_iff:
  "prefix (a @ b) xs \<longleftrightarrow> prefix a xs \<and> prefix b (drop (length a) xs)"
  by (auto simp: prefix_def)

lemma prefix_take_iff: "prefix a xs \<longleftrightarrow> length a \<le> length xs \<and> take (length a) xs = a"
  by (metis append_eq_conv_conj append_take_drop_id length_take min_def prefix_def
      prefix_length_le take_all)

lemma slice_get_append:
  "length pre = a \<Longrightarrow> b = a + length mid \<Longrightarrow> slice_get (pre @ mid @ post) a b = Some mid"
  by (simp add: slice_get_def)

end
