(* ===== verification/Reader.thy ===== *)
theory Reader
  imports Prelude
begin

text \<open>
  The sequential borsh reader of \<open>state.rs\<close> (\<open>struct Reader\<close>) and its contract. Each read is a
  function from the reader to an error or a value and the advanced reader. The locale
  \<open>borsh_codec\<close> is the interface the account decoders rely on: it pairs a read with an encoder
  and says, in one equivalence, when the read succeeds and with what. Inside it the arrays
  and vectors of the source are shown to be codecs again; the interpretations are the
  primitive reads of the source.
\<close>

named_theorems reader_intros "how the reads of a decoder compose"

section \<open>The reader\<close>

record reader =
  rd_data :: bytes
  rd_pos :: nat

definition rd_after_discriminator :: "bytes \<Rightarrow> bytes \<Rightarrow> string \<Rightarrow> reader res" where
  "rd_after_discriminator data expected account =
     bindE (ok_or (slice_get data 0 8) (TooShortForDiscriminator account)) (\<lambda>found.
     if found \<noteq> expected then Inl (UnexpectedDiscriminator account found expected)
     else Inr \<lparr>rd_data = data, rd_pos = 8\<rparr>)"

definition rd_take :: "nat \<Rightarrow> reader \<Rightarrow> (bytes \<times> reader) res" where
  "rd_take len r =
     (if 2 ^ 64 \<le> rd_pos r + len then Inl OffsetOverflow
      else let e = rd_pos r + len in
        bindE (ok_or (slice_get (rd_data r) (rd_pos r) e) (Truncated e (length (rd_data r))))
          (\<lambda>slice. Inr (slice, r\<lparr>rd_pos := e\<rparr>)))"

definition rd_u8 :: "reader \<Rightarrow> (u8 \<times> reader) res" where
  "rd_u8 r = bindE (rd_take 1 r) (\<lambda>(s, r). Inr (s ! 0, r))"

definition rd_u16 :: "reader \<Rightarrow> (u16 \<times> reader) res" where
  "rd_u16 r = bindE (rd_take 2 r) (\<lambda>(s, r). Inr (from_le_bytes s, r))"

definition rd_bool :: "reader \<Rightarrow> (bool \<times> reader) res" where
  "rd_bool r = bindE (rd_u8 r) (\<lambda>(b, r).
     if b = 0 then Inr (False, r) else if b = 1 then Inr (True, r) else Inl (InvalidBool b))"

definition rd_u32 :: "reader \<Rightarrow> (u32 \<times> reader) res" where
  "rd_u32 r = bindE (rd_take 4 r) (\<lambda>(s, r). Inr (from_le_bytes s, r))"

definition rd_u64 :: "reader \<Rightarrow> (u64 \<times> reader) res" where
  "rd_u64 r = bindE (rd_take 8 r) (\<lambda>(s, r). Inr (from_le_bytes s, r))"

definition rd_u128 :: "reader \<Rightarrow> (u128 \<times> reader) res" where
  "rd_u128 r = bindE (rd_take 16 r) (\<lambda>(s, r). Inr (from_le_bytes s, r))"

definition rd_i64 :: "reader \<Rightarrow> (i64 \<times> reader) res" where
  "rd_i64 r = bindE (rd_take 8 r) (\<lambda>(s, r). Inr (from_le_bytes s, r))"

definition rd_pubkey :: "reader \<Rightarrow> (pubkey \<times> reader) res" where
  "rd_pubkey r = bindE (rd_take 32 r) (\<lambda>(s, r). Inr (Pubkey s, r))"

text \<open>\<open>n\<close> reads in a row, the first error ending the loop: the loop of the two array reads and
  the \<open>collect\<close> of \<open>vec\<close>.\<close>

fun rd_many :: "(reader \<Rightarrow> ('a \<times> reader) res) \<Rightarrow> nat \<Rightarrow> reader \<Rightarrow> ('a list \<times> reader) res" where
  "rd_many rd 0 r = Inr ([], r)"
| "rd_many rd (Suc n) r =
     bindE (rd r) (\<lambda>(x, r). bindE (rd_many rd n r) (\<lambda>(xs, r). Inr (x # xs, r)))"

definition rd_u64_array :: "nat \<Rightarrow> reader \<Rightarrow> (u64 list \<times> reader) res" where
  "rd_u64_array n r = rd_many rd_u64 n r"

definition rd_pubkey_array :: "nat \<Rightarrow> reader \<Rightarrow> (pubkey list \<times> reader) res" where
  "rd_pubkey_array n r = rd_many rd_pubkey n r"

text \<open>\<open>len.saturating_mul(min_element_len)\<close> is on \<open>usize\<close>.\<close>

definition rd_vec :: "nat \<Rightarrow> (reader \<Rightarrow> ('a \<times> reader) res) \<Rightarrow> reader \<Rightarrow> ('a list \<times> reader) res" where
  "rd_vec min_element_len rd r =
     bindE (rd_u32 r) (\<lambda>(n, r).
     let len = unat n; remaining = length (rd_data r) - rd_pos r in
     if remaining < min (len * min_element_len) (2 ^ 64 - 1) then Inl (VecTooLong len remaining)
     else rd_many rd len r)"

section \<open>The contract of a read\<close>

definition rd_wf :: "reader \<Rightarrow> bool" where
  "rd_wf r \<longleftrightarrow> rd_pos r \<le> length (rd_data r) \<and> length (rd_data r) < 2 ^ 64"

definition rd_rest :: "reader \<Rightarrow> bytes" where
  "rd_rest r = drop (rd_pos r) (rd_data r)"

definition rd_adv :: "reader \<Rightarrow> nat \<Rightarrow> reader" where
  "rd_adv r n = r\<lparr>rd_pos := rd_pos r + n\<rparr>"

lemma rd_adv_0 [simp]: "rd_adv r 0 = r"
  by (simp add: rd_adv_def)

lemma rd_adv_adv [simp]: "rd_adv (rd_adv r m) n = rd_adv r (m + n)"
  by (simp add: rd_adv_def)

lemma rd_rest_adv [simp]: "rd_rest (rd_adv r n) = drop n (rd_rest r)"
  by (simp add: rd_rest_def rd_adv_def add.commute)

lemma rd_adv_sel [simp]:
  "rd_data (rd_adv r n) = rd_data r"
  "rd_pos (rd_adv r n) = rd_pos r + n"
  by (simp_all add: rd_adv_def)

lemma rd_wf_adv: "rd_wf r \<Longrightarrow> n \<le> length (rd_rest r) \<Longrightarrow> rd_wf (rd_adv r n)"
  by (auto simp: rd_wf_def rd_rest_def)

lemma rd_wf_adv_prefix [simp]:
  "rd_wf r \<Longrightarrow> prefix a (rd_rest r) \<Longrightarrow> rd_wf (rd_adv r (length a))"
  by (simp add: rd_wf_adv prefix_length_le)

lemma rd_take_eq_Inr_iff:
  assumes "rd_wf r"
  shows "rd_take n r = Inr (s, r') \<longleftrightarrow> length s = n \<and> prefix s (rd_rest r) \<and> r' = rd_adv r n"
  using assms
  by (auto simp: rd_take_def rd_wf_def rd_rest_def rd_adv_def slice_get_def ok_or_def
      prefix_take_iff Let_def split: if_splits)

lemma rd_take_no_overflow: "rd_wf r \<Longrightarrow> rd_take n r = Inl e \<Longrightarrow> e \<noteq> Truncated (rd_pos r + n) (length (rd_data r))
    \<Longrightarrow> e = OffsetOverflow \<and> length (rd_data r) < n + rd_pos r"
  by (auto simp: rd_take_def rd_wf_def slice_get_def ok_or_def Let_def split: if_splits)

text \<open>
  What a sequence of reads accepts. \<open>P z bs\<close> says that \<open>bs\<close> is an encoding of the result \<open>z\<close>:
  \<open>parses\<close> is for reads that hand the reader on, \<open>decodes\<close> for the end of an account decoder,
  which drops it and so ignores trailing bytes.
\<close>

definition parses :: "(reader \<Rightarrow> ('a \<times> reader) res) \<Rightarrow> ('a \<Rightarrow> bytes \<Rightarrow> bool) \<Rightarrow> bool" where
  "parses k P \<longleftrightarrow> (\<forall>r z r'. rd_wf r \<longrightarrow>
     (k r = Inr (z, r') \<longleftrightarrow> (\<exists>bs. P z bs \<and> prefix bs (rd_rest r) \<and> r' = rd_adv r (length bs))))"

definition decodes :: "(reader \<Rightarrow> 'a res) \<Rightarrow> ('a \<Rightarrow> bytes \<Rightarrow> bool) \<Rightarrow> bool" where
  "decodes k P \<longleftrightarrow> (\<forall>r z. rd_wf r \<longrightarrow> (k r = Inr z \<longleftrightarrow> (\<exists>bs. P z bs \<and> prefix bs (rd_rest r))))"

lemma parses_return [reader_intros]: "parses (\<lambda>r. Inr (z0, r)) (\<lambda>z bs. z = z0 \<and> bs = [])"
  by (auto simp: parses_def)

lemma decodes_return [reader_intros]: "decodes (\<lambda>r. Inr z0) (\<lambda>z bs. z = z0 \<and> bs = [])"
  by (auto simp: decodes_def)

locale borsh_codec =
  fixes rd :: "reader \<Rightarrow> ('a \<times> reader) res"
    and enc :: "'a \<Rightarrow> bytes"
    and ok :: "'a \<Rightarrow> bool"
  assumes rd_iff: "rd_wf r \<Longrightarrow> rd r = Inr (x, r') \<longleftrightarrow>
      ok x \<and> prefix (enc x) (rd_rest r) \<and> r' = rd_adv r (length (enc x))"
begin

text \<open>Sequencing: the rest of a decoder runs on the reader advanced past the encoding.\<close>

lemma bind_iff:
  "rd_wf r \<Longrightarrow> bindE (rd r) k = Inr z \<longleftrightarrow>
    (\<exists>x. ok x \<and> prefix (enc x) (rd_rest r) \<and> k (x, rd_adv r (length (enc x))) = Inr z)"
  by (auto simp: bindE_eq_Inr_iff rd_iff)

lemma ex_enc:
  "(\<exists>bs. (\<exists>x b. ok x \<and> bs = enc x @ b \<and> P x b) \<and> Q bs) \<longleftrightarrow> (\<exists>x b. ok x \<and> P x b \<and> Q (enc x @ b))"
  by blast

lemma parses_bind [reader_intros]:
  assumes "\<And>x. parses (k x) (P x)"
  shows "parses (\<lambda>r. bindE (rd r) (\<lambda>(x, r). k x r)) (\<lambda>z bs. \<exists>x b. ok x \<and> bs = enc x @ b \<and> P x z b)"
  unfolding parses_def
proof (intro allI impI)
  fix r z r'
  assume wf: "rd_wf r"
  have "bindE (rd r) (\<lambda>(x, r). k x r) = Inr (z, r') \<longleftrightarrow>
      (\<exists>x. ok x \<and> prefix (enc x) (rd_rest r) \<and> k x (rd_adv r (length (enc x))) = Inr (z, r'))"
    by (simp add: bind_iff [OF wf])
  also have "\<dots> \<longleftrightarrow> (\<exists>x b. ok x \<and> P x z b \<and> prefix (enc x @ b) (rd_rest r) \<and>
      r' = rd_adv r (length (enc x @ b)))"
  proof -
    have "rd_wf q \<Longrightarrow> k x q = Inr (z, r') \<longleftrightarrow>
        (\<exists>b. P x z b \<and> prefix b (rd_rest q) \<and> r' = rd_adv q (length b))" for x q
      using assms by (simp add: parses_def)
    then show ?thesis by (simp add: wf prefix_append_iff cong: conj_cong) blast
  qed
  finally show "bindE (rd r) (\<lambda>(x, r). k x r) = Inr (z, r') \<longleftrightarrow>
      (\<exists>bs. (\<exists>x b. ok x \<and> bs = enc x @ b \<and> P x z b) \<and> prefix bs (rd_rest r) \<and>
        r' = rd_adv r (length bs))"
    by (simp only: ex_enc)
qed

lemma decodes_bind [reader_intros]:
  assumes "\<And>x. decodes (k x) (P x)"
  shows "decodes (\<lambda>r. bindE (rd r) (\<lambda>(x, r). k x r)) (\<lambda>z bs. \<exists>x b. ok x \<and> bs = enc x @ b \<and> P x z b)"
  unfolding decodes_def
proof (intro allI impI)
  fix r z
  assume wf: "rd_wf r"
  have "bindE (rd r) (\<lambda>(x, r). k x r) = Inr z \<longleftrightarrow>
      (\<exists>x. ok x \<and> prefix (enc x) (rd_rest r) \<and> k x (rd_adv r (length (enc x))) = Inr z)"
    by (simp add: bind_iff [OF wf])
  also have "\<dots> \<longleftrightarrow> (\<exists>x b. ok x \<and> P x z b \<and> prefix (enc x @ b) (rd_rest r))"
  proof -
    have "rd_wf q \<Longrightarrow> k x q = Inr z \<longleftrightarrow> (\<exists>b. P x z b \<and> prefix b (rd_rest q))" for x q
      using assms by (simp add: decodes_def)
    then show ?thesis by (simp add: wf prefix_append_iff cong: conj_cong) blast
  qed
  finally show "bindE (rd r) (\<lambda>(x, r). k x r) = Inr z \<longleftrightarrow>
      (\<exists>bs. (\<exists>x b. ok x \<and> bs = enc x @ b \<and> P x z b) \<and> prefix bs (rd_rest r))"
    by (simp only: ex_enc)
qed

lemma rd_enc: "rd_wf r \<Longrightarrow> ok x \<Longrightarrow> rd_rest r = enc x @ post \<Longrightarrow> rd r = Inr (x, rd_adv r (length (enc x)))"
  by (simp add: rd_iff)

lemma many_iff:
  "rd_wf r \<Longrightarrow> rd_many rd n r = Inr (xs, r') \<longleftrightarrow>
    length xs = n \<and> list_all ok xs \<and> prefix (concat (map enc xs)) (rd_rest r) \<and>
    r' = rd_adv r (length (concat (map enc xs)))"
proof (induction n arbitrary: r xs r')
  case 0
  then show ?case by auto
next
  case (Suc n)
  have "rd_many rd (Suc n) r = Inr (xs, r') \<longleftrightarrow>
      (\<exists>x ys. xs = x # ys \<and> ok x \<and> prefix (enc x) (rd_rest r) \<and>
        rd_many rd n (rd_adv r (length (enc x))) = Inr (ys, r'))"
    using Suc.prems by (auto simp: bindE_eq_Inr_iff rd_iff)
  also have "\<dots> \<longleftrightarrow> (\<exists>x ys. xs = x # ys \<and> ok x \<and> prefix (enc x) (rd_rest r) \<and>
        length ys = n \<and> list_all ok ys \<and>
        prefix (concat (map enc ys)) (drop (length (enc x)) (rd_rest r)) \<and>
        r' = rd_adv r (length (enc x) + length (concat (map enc ys))))"
    by (simp add: Suc.IH Suc.prems cong: conj_cong)
  also have "\<dots> \<longleftrightarrow> length xs = Suc n \<and> list_all ok xs \<and>
      prefix (concat (map enc xs)) (rd_rest r) \<and> r' = rd_adv r (length (concat (map enc xs)))"
    by (cases xs) (auto simp: prefix_append_iff)
  finally show ?case .
qed

lemma array_codec:
  "borsh_codec (rd_many rd n) (\<lambda>xs. concat (map enc xs)) (\<lambda>xs. length xs = n \<and> list_all ok xs)"
  by (standard, simp only: many_iff conj_assoc)

end

lemma parses_codec:
  "parses rd P \<Longrightarrow> (\<And>z bs. P z bs \<longleftrightarrow> ok z \<and> bs = enc z) \<Longrightarrow> borsh_codec rd enc ok"
  by (standard, simp add: parses_def)

text \<open>
  A codec of fixed width: arrays of it are again of fixed width, and the length check of a
  vector, which compares the remaining bytes with the width of the elements, never rejects
  a well-formed encoding.
\<close>

definition enc_vec :: "('a \<Rightarrow> bytes) \<Rightarrow> 'a list \<Rightarrow> bytes" where
  "enc_vec enc xs = to_le_bytes (word_of_nat (length xs) :: u32) @ concat (map enc xs)"

definition vec_ok :: "('a \<Rightarrow> bool) \<Rightarrow> 'a list \<Rightarrow> bool" where
  "vec_ok ok xs \<longleftrightarrow> length xs < 2 ^ 32 \<and> list_all ok xs"

locale borsh_fixed = borsh_codec +
  fixes width :: nat
  assumes enc_length: "ok x \<Longrightarrow> length (enc x) = width"
begin

lemma concat_length: "list_all ok xs \<Longrightarrow> length (concat (map enc xs)) = length xs * width"
  by (induction xs) (simp_all add: enc_length)

lemma array_fixed:
  "borsh_fixed (rd_many rd n) (\<lambda>xs. concat (map enc xs))
     (\<lambda>xs. length xs = n \<and> list_all ok xs) (n * width)"
  by (intro borsh_fixed.intro borsh_fixed_axioms.intro array_codec) (auto simp: concat_length)

end

section \<open>The primitive reads meet the contract\<close>

definition enc_bool :: "bool \<Rightarrow> bytes" where
  "enc_bool b = [if b then 1 else 0]"

lemma from_le_codec:
  assumes "LENGTH('a::len) = 8 * k"
    and "\<And>r. rd r = bindE (rd_take k r) (\<lambda>(s, r). Inr (from_le_bytes s :: 'a word, r))"
  shows "borsh_fixed rd to_le_bytes (\<lambda>_. True) k"
proof
  fix r r' and x :: "'a word"
  have len: "length (to_le_bytes x) = k" using assms(1) by simp
  assume wf: "rd_wf r"
  have "rd r = Inr (x, r') \<longleftrightarrow>
      (\<exists>s. length s = k \<and> prefix s (rd_rest r) \<and> r' = rd_adv r k \<and> from_le_bytes s = x)"
    by (auto simp: assms(2) bindE_eq_Inr_iff rd_take_eq_Inr_iff [OF wf])
  also have "\<dots> \<longleftrightarrow> (\<exists>s. length s = k \<and> prefix s (rd_rest r) \<and> r' = rd_adv r k \<and> s = to_le_bytes x)"
    using to_le_bytes_eq_iff [OF assms(1)] by metis
  finally show "rd r = Inr (x, r') \<longleftrightarrow>
      True \<and> prefix (to_le_bytes x) (rd_rest r) \<and> r' = rd_adv r (length (to_le_bytes x))"
    using len by auto
qed (use assms(1) in simp)

interpretation u16_codec: borsh_fixed rd_u16 to_le_bytes "\<lambda>_. True" 2
  by (rule from_le_codec) (simp_all add: rd_u16_def)

interpretation u32_codec: borsh_fixed rd_u32 to_le_bytes "\<lambda>_. True" 4
  by (rule from_le_codec) (simp_all add: rd_u32_def)

interpretation u64_codec: borsh_fixed rd_u64 to_le_bytes "\<lambda>_. True" 8
  by (rule from_le_codec) (simp_all add: rd_u64_def)

interpretation u128_codec: borsh_fixed rd_u128 to_le_bytes "\<lambda>_. True" 16
  by (rule from_le_codec) (simp_all add: rd_u128_def)

interpretation i64_codec: borsh_fixed rd_i64 to_le_bytes "\<lambda>_. True" 8
  by (rule from_le_codec) (simp_all add: rd_i64_def)

interpretation u8_codec: borsh_fixed rd_u8 "\<lambda>b. [b]" "\<lambda>_. True" 1
proof
  fix r r' and x :: u8
  assume wf: "rd_wf r"
  show "rd_u8 r = Inr (x, r') \<longleftrightarrow> True \<and> prefix [x] (rd_rest r) \<and> r' = rd_adv r (length [x])"
    by (auto simp: rd_u8_def bindE_eq_Inr_iff rd_take_eq_Inr_iff [OF wf] length_Suc_conv)
qed simp

interpretation bool_codec: borsh_fixed rd_bool enc_bool "\<lambda>_. True" 1
proof
  fix r r' and x :: bool
  assume wf: "rd_wf r"
  show "rd_bool r = Inr (x, r') \<longleftrightarrow>
      True \<and> prefix (enc_bool x) (rd_rest r) \<and> r' = rd_adv r (length (enc_bool x))"
    by (auto simp: rd_bool_def bindE_eq_Inr_iff u8_codec.rd_iff [OF wf] enc_bool_def
        split: if_splits intro: exI [of _ 0] exI [of _ 1])
qed (simp add: enc_bool_def)

abbreviation pk_ok :: "pubkey \<Rightarrow> bool" where
  "pk_ok k \<equiv> length (pk_bytes k) = 32"

interpretation pubkey_codec: borsh_fixed rd_pubkey pk_bytes pk_ok 32
proof
  fix r r' x
  assume wf: "rd_wf r"
  show "rd_pubkey r = Inr (x, r') \<longleftrightarrow>
      pk_ok x \<and> prefix (pk_bytes x) (rd_rest r) \<and> r' = rd_adv r (length (pk_bytes x))"
    by (cases x) (auto simp: rd_pubkey_def bindE_eq_Inr_iff rd_take_eq_Inr_iff [OF wf])
qed simp

definition enc_u64s :: "u64 list \<Rightarrow> bytes" where
  "enc_u64s xs = concat (map to_le_bytes xs)"

definition enc_pubkeys :: "pubkey list \<Rightarrow> bytes" where
  "enc_pubkeys ks = concat (map pk_bytes ks)"

lemma list_all_True [simp]: "list_all (\<lambda>_. True) xs"
  by (simp add: list_all_iff)

interpretation u64_array_codec: borsh_fixed "rd_u64_array n" enc_u64s "\<lambda>xs. length xs = n" "n * 8" for n
  using u64_codec.array_fixed [of n]
  unfolding rd_u64_array_def [abs_def] enc_u64s_def [abs_def] by simp

interpretation pubkey_array_codec: borsh_fixed "rd_pubkey_array n" enc_pubkeys
    "\<lambda>ks. length ks = n \<and> list_all pk_ok ks" "n * 32" for n
  using pubkey_codec.array_fixed [of n]
  unfolding rd_pubkey_array_def [abs_def] enc_pubkeys_def [abs_def] by simp

section \<open>Vectors\<close>

context borsh_fixed
begin

lemma vec_codec: "borsh_codec (rd_vec width rd) (enc_vec enc) (vec_ok ok)"
proof
  fix r r' xs
  assume wf: "rd_wf r"
  let ?n = "word_of_nat (length xs) :: u32" and ?c = "concat (map enc xs)"
  have fits: "min (length xs * width) (2 ^ 64 - 1) \<le> length (rd_data r) - rd_pos r - 4"
    if "list_all ok xs" and "prefix ?c (drop 4 (rd_rest r))"
    using prefix_length_le [OF that(2)] concat_length [OF that(1)]
    by (simp add: rd_rest_def min.coboundedI1)
  have len: "unat ?n = length xs" if "length xs < 2 ^ 32"
    using that by (simp add: unsigned_of_nat take_bit_nat_eq_self)
  have "rd_vec width rd r = Inr (xs, r') \<longleftrightarrow>
      (\<exists>n :: u32. prefix (to_le_bytes n) (rd_rest r) \<and>
        min (unat n * width) (2 ^ 64 - 1) \<le> length (rd_data r) - rd_pos r - 4 \<and>
        length xs = unat n \<and> list_all ok xs \<and> prefix ?c (drop 4 (rd_rest r)) \<and>
        r' = rd_adv r (4 + length ?c))" (is "_ = (\<exists>n. ?P n)")
  proof -
    have adv: "rd_wf (rd_adv r 4)" if "prefix (to_le_bytes (n :: u32)) (rd_rest r)" for n
      using rd_wf_adv_prefix [OF wf that] by simp
    show ?thesis
      by (simp add: rd_vec_def u32_codec.bind_iff [OF wf] Let_def if_Inl_eq_Inr_iff many_iff adv
          not_less min_le_iff_disj cong: conj_cong)
  qed
  also have "\<dots> \<longleftrightarrow> length xs < 2 ^ 32 \<and> ?P ?n"
  proof
    assume "\<exists>n. ?P n"
    then obtain n where n: "?P n" ..
    then have l: "length xs = unat n" by (elim conjE)
    have "n = ?n" unfolding l by simp
    moreover have "length xs < 2 ^ 32" unfolding l using unsigned_less [of n] by simp
    ultimately show "length xs < 2 ^ 32 \<and> ?P ?n" using n by metis
  qed blast
  also have "\<dots> \<longleftrightarrow> vec_ok ok xs \<and> prefix (enc_vec enc xs) (rd_rest r) \<and>
      r' = rd_adv r (length (enc_vec enc xs))"
    using fits len by (auto simp: vec_ok_def enc_vec_def prefix_append_iff)
  finally show "rd_vec width rd r = Inr (xs, r') \<longleftrightarrow> vec_ok ok xs \<and>
      prefix (enc_vec enc xs) (rd_rest r) \<and> r' = rd_adv r (length (enc_vec enc xs))" .
qed

end

section \<open>Accounts behind a discriminator\<close>

lemma rd_after_discriminator_eq_Inr_iff:
  "length disc = 8 \<Longrightarrow> rd_after_discriminator data disc nm = Inr r \<longleftrightarrow>
    prefix disc data \<and> r = \<lparr>rd_data = data, rd_pos = 8\<rparr>"
  by (auto simp: rd_after_discriminator_def ok_or_def slice_get_def prefix_take_iff
      split: if_splits)

lemma rd_start [simp]:
  "rd_rest \<lparr>rd_data = data, rd_pos = n\<rparr> = drop n data"
  "rd_wf \<lparr>rd_data = data, rd_pos = n\<rparr> \<longleftrightarrow> n \<le> length data \<and> length data < 2 ^ 64"
  by (simp_all add: rd_rest_def rd_wf_def)

text \<open>
  How an account decoder is shown to be a codec: the discriminator, then the fields.
\<close>

lemma account_iff:
  assumes "length disc = 8" and "length data < 2 ^ 64"
    and "decodes decode P" and "\<And>z bs. P z bs \<longleftrightarrow> ok z \<and> bs = enc z"
  shows "bindE (rd_after_discriminator data disc nm) decode = Inr x \<longleftrightarrow>
    ok x \<and> prefix (disc @ enc x) data"
proof -
  have "8 \<le> length data" if "prefix disc data"
    using prefix_length_le [OF that] assms(1) by simp
  then show ?thesis
    using assms
    by (auto simp: bindE_eq_Inr_iff rd_after_discriminator_eq_Inr_iff prefix_append_iff decodes_def)
qed

end
