(* ===== verification/Instruction_Args.thy ===== *)
theory Instruction_Args
  imports Reader
begin

text \<open>
  The argument structs of \<open>instruction.rs\<close> and their serialisation. The structs that derive
  \<open>Pod\<close> hold their discriminator as a field and are serialised by \<open>bytemuck::bytes_of\<close>, the
  fields in declaration order (all of them are 8-byte aligned, so without padding); the others
  push their bytes one by one. An on-chain Anchor program reads the discriminator and then the
  arguments in borsh: the locale \<open>anchor_args\<close> states that contract, and the
  interpretations show that every struct meets it, so that the serialisation loses nothing.
\<close>

section \<open>The structs\<close>

text \<open>\<open>b as u8\<close>.\<close>

definition bool_as_u8 :: "bool \<Rightarrow> u8" where
  "bool_as_u8 b = (if b then 1 else 0)"

record BuyInstruction =
  bi_base_amount_out :: u64
  bi_max_quote_amount_in :: u64
  bi_track_volume :: bool

definition BuyInstruction_DISCRIMINATOR :: bytes where
  "BuyInstruction_DISCRIMINATOR = [102, 6, 61, 18, 1, 218, 235, 234]"

definition BuyInstruction_new :: "u64 \<Rightarrow> u64 \<Rightarrow> bool \<Rightarrow> BuyInstruction" where
  "BuyInstruction_new base_out max_in track_volume = \<lparr>bi_base_amount_out = base_out,
     bi_max_quote_amount_in = max_in, bi_track_volume = track_volume\<rparr>"

definition BuyInstruction_to_vec :: "BuyInstruction \<Rightarrow> bytes" where
  "BuyInstruction_to_vec x = BuyInstruction_DISCRIMINATOR @ to_le_bytes (bi_base_amount_out x)
     @ to_le_bytes (bi_max_quote_amount_in x) @ [bool_as_u8 (bi_track_volume x)]"

record BuyExactQuoteInInstruction =
  be_spendable_quote_in :: u64
  be_min_base_amount_out :: u64
  be_track_volume :: bool

definition BuyExactQuoteInInstruction_DISCRIMINATOR :: bytes where
  "BuyExactQuoteInInstruction_DISCRIMINATOR = [198, 46, 21, 82, 180, 217, 232, 112]"

definition BuyExactQuoteInInstruction_new :: "u64 \<Rightarrow> u64 \<Rightarrow> bool \<Rightarrow> BuyExactQuoteInInstruction" where
  "BuyExactQuoteInInstruction_new spendable min_out track_volume =
     \<lparr>be_spendable_quote_in = spendable, be_min_base_amount_out = min_out,
      be_track_volume = track_volume\<rparr>"

definition BuyExactQuoteInInstruction_to_vec :: "BuyExactQuoteInInstruction \<Rightarrow> bytes" where
  "BuyExactQuoteInInstruction_to_vec x = BuyExactQuoteInInstruction_DISCRIMINATOR
     @ to_le_bytes (be_spendable_quote_in x) @ to_le_bytes (be_min_base_amount_out x)
     @ [bool_as_u8 (be_track_volume x)]"

record SellInstruction =
  si_discriminator :: bytes
  si_base_amount_in :: u64
  si_min_quote_amount_out :: u64

definition SellInstruction_new :: "u64 \<Rightarrow> u64 \<Rightarrow> SellInstruction" where
  "SellInstruction_new base_in min_out =
     \<lparr>si_discriminator = [51, 230, 133, 164, 1, 127, 131, 173],
      si_base_amount_in = base_in, si_min_quote_amount_out = min_out\<rparr>"

definition SellInstruction_to_vec :: "SellInstruction \<Rightarrow> bytes" where
  "SellInstruction_to_vec x = si_discriminator x @ to_le_bytes (si_base_amount_in x)
     @ to_le_bytes (si_min_quote_amount_out x)"

record DepositInstruction =
  di_discriminator :: bytes
  di_lp_token_amount_out :: u64
  di_max_base_amount_in :: u64
  di_max_quote_amount_in :: u64

definition DepositInstruction_new :: "u64 \<Rightarrow> u64 \<Rightarrow> u64 \<Rightarrow> DepositInstruction" where
  "DepositInstruction_new lp_out max_base max_quote =
     \<lparr>di_discriminator = [242, 35, 198, 137, 82, 225, 242, 182],
      di_lp_token_amount_out = lp_out, di_max_base_amount_in = max_base,
      di_max_quote_amount_in = max_quote\<rparr>"

definition DepositInstruction_to_vec :: "DepositInstruction \<Rightarrow> bytes" where
  "DepositInstruction_to_vec x = di_discriminator x @ to_le_bytes (di_lp_token_amount_out x)
     @ to_le_bytes (di_max_base_amount_in x) @ to_le_bytes (di_max_quote_amount_in x)"

definition ClaimCashbackInstruction_DISCRIMINATOR :: bytes where
  "ClaimCashbackInstruction_DISCRIMINATOR = [37, 58, 35, 126, 190, 53, 228, 197]"

definition ClaimCashbackInstruction_to_vec :: bytes where
  "ClaimCashbackInstruction_to_vec = ClaimCashbackInstruction_DISCRIMINATOR"

record CreatePoolInstruction =
  cp_discriminator :: bytes
  cp_index :: u16
  cp_base_amount_in :: u64
  cp_quote_amount_in :: u64
  cp_coin_creator :: pubkey
  cp_is_mayhem_mode :: u8
  cp_is_cashback_coin :: u8

definition CreatePoolInstruction_new_with_options ::
  "u16 \<Rightarrow> u64 \<Rightarrow> u64 \<Rightarrow> pubkey \<Rightarrow> bool \<Rightarrow> bool \<Rightarrow> CreatePoolInstruction" where
  "CreatePoolInstruction_new_with_options index base_in quote_in coin_creator mayhem cashback =
     \<lparr>cp_discriminator = [233, 146, 209, 142, 207, 104, 64, 188],
      cp_index = index, cp_base_amount_in = base_in, cp_quote_amount_in = quote_in,
      cp_coin_creator = coin_creator, cp_is_mayhem_mode = bool_as_u8 mayhem,
      cp_is_cashback_coin = bool_as_u8 cashback\<rparr>"

definition CreatePoolInstruction_new :: "u64 \<Rightarrow> u64 \<Rightarrow> pubkey \<Rightarrow> CreatePoolInstruction" where
  "CreatePoolInstruction_new base_in quote_in coin_creator =
     CreatePoolInstruction_new_with_options 0 base_in quote_in coin_creator False False"

definition CreatePoolInstruction_to_vec :: "CreatePoolInstruction \<Rightarrow> bytes" where
  "CreatePoolInstruction_to_vec x = cp_discriminator x @ to_le_bytes (cp_index x)
     @ to_le_bytes (cp_base_amount_in x) @ to_le_bytes (cp_quote_amount_in x)
     @ pk_bytes (cp_coin_creator x) @ [cp_is_mayhem_mode x] @ [cp_is_cashback_coin x]"

record WithdrawInstruction =
  wi_discriminator :: bytes
  wi_lp_token_amount_in :: u64
  wi_min_base_amount_out :: u64
  wi_min_quote_amount_out :: u64

definition WithdrawInstruction_new :: "u64 \<Rightarrow> u64 \<Rightarrow> u64 \<Rightarrow> WithdrawInstruction" where
  "WithdrawInstruction_new lp_in min_base min_quote =
     \<lparr>wi_discriminator = [183, 18, 70, 156, 148, 109, 161, 34],
      wi_lp_token_amount_in = lp_in, wi_min_base_amount_out = min_base,
      wi_min_quote_amount_out = min_quote\<rparr>"

definition WithdrawInstruction_to_vec :: "WithdrawInstruction \<Rightarrow> bytes" where
  "WithdrawInstruction_to_vec x = wi_discriminator x @ to_le_bytes (wi_lp_token_amount_in x)
     @ to_le_bytes (wi_min_base_amount_out x) @ to_le_bytes (wi_min_quote_amount_out x)"

section \<open>The contract with the program\<close>

text \<open>How a program reads the data of an instruction: its discriminator, then its arguments.\<close>

definition anchor_decode :: "bytes \<Rightarrow> (reader \<Rightarrow> ('a \<times> reader) res) \<Rightarrow> bytes \<Rightarrow> 'a option" where
  "anchor_decode disc rd data =
     (case bindE (rd_after_discriminator data disc ''instruction'') rd of
        Inl _ \<Rightarrow> None | Inr (x, _) \<Rightarrow> Some x)"

text \<open>
  \<open>body\<close> is the borsh encoding of a value's arguments; \<open>to_vec\<close>, the source's serialisation,
  has to be the discriminator followed by it.
\<close>

locale anchor_args = borsh_fixed rd body ok width
  for rd :: "reader \<Rightarrow> ('a \<times> reader) res"
    and body :: "'a \<Rightarrow> bytes" and ok :: "'a \<Rightarrow> bool" and width :: nat +
  fixes disc :: bytes
    and to_vec :: "'a \<Rightarrow> bytes"
  assumes disc_length: "length disc = 8"
    and to_vec_eq: "ok x \<Longrightarrow> to_vec x = disc @ body x"
    and width_small: "width < 1000"
begin

lemma to_vec_length: "ok x \<Longrightarrow> length (to_vec x) = 8 + width"
  by (simp add: to_vec_eq disc_length enc_length)

lemma decode_iff:
  assumes "length data < 2 ^ 64"
  shows "anchor_decode disc rd data = Some x \<longleftrightarrow> ok x \<and> prefix (disc @ body x) data"
proof -
  let ?r = "\<lparr>rd_data = data, rd_pos = 8\<rparr>"
  have wf: "rd_wf ?r" if "prefix disc data"
    using prefix_length_le [OF that] disc_length assms by simp
  have "anchor_decode disc rd data = Some x \<longleftrightarrow>
      (\<exists>r. bindE (rd_after_discriminator data disc ''instruction'') rd = Inr (x, r))"
    by (auto simp: anchor_decode_def split: sum.splits)
  also have "\<dots> \<longleftrightarrow> prefix disc data \<and> (\<exists>r. rd ?r = Inr (x, r))"
    by (auto simp: bindE_eq_Inr_iff rd_after_discriminator_eq_Inr_iff [OF disc_length])
  also have "\<dots> \<longleftrightarrow> prefix disc data \<and> ok x \<and> prefix (body x) (drop 8 data)"
    using rd_iff [OF wf] by auto
  also have "\<dots> \<longleftrightarrow> ok x \<and> prefix (disc @ body x) data"
    by (auto simp: prefix_append_iff disc_length)
  finally show ?thesis .
qed

lemma roundtrip: "ok x \<Longrightarrow> anchor_decode disc rd (to_vec x) = Some x"
  using width_small to_vec_length [of x] by (subst decode_iff) (simp_all add: to_vec_eq)

lemma to_vec_inj: "ok x \<Longrightarrow> ok y \<Longrightarrow> to_vec x = to_vec y \<Longrightarrow> x = y"
  by (metis option.inject roundtrip)

text \<open>The data of an instruction is not decoded under another discriminator.\<close>

lemma other_discriminator:
  assumes "ok x" and "disc' \<noteq> disc" and "length disc' = 8"
  shows "anchor_decode disc' rd' (to_vec x) = None"
  using assms disc_length
  by (simp add: anchor_decode_def rd_after_discriminator_def to_vec_eq slice_get_def)

end

section \<open>Every struct meets it\<close>

definition buy_args_read :: "reader \<Rightarrow> (BuyInstruction \<times> reader) res" where
  "buy_args_read r =
     bindE (rd_u64 r) (\<lambda>(a, r).
     bindE (rd_u64 r) (\<lambda>(b, r).
     bindE (rd_bool r) (\<lambda>(c, r).
     Inr (BuyInstruction_new a b c, r))))"

definition enc_buy_args :: "BuyInstruction \<Rightarrow> bytes" where
  "enc_buy_args x = to_le_bytes (bi_base_amount_out x) @ to_le_bytes (bi_max_quote_amount_in x) @ enc_bool (bi_track_volume x)"

interpretation buy_args: anchor_args buy_args_read enc_buy_args "\<lambda>_. True" 17
    "BuyInstruction_DISCRIMINATOR" BuyInstruction_to_vec
proof (intro anchor_args.intro borsh_fixed.intro borsh_fixed_axioms.intro anchor_args_axioms.intro)
  show "borsh_codec buy_args_read enc_buy_args (\<lambda>_. True)"
    unfolding buy_args_read_def [abs_def]
    by (rule parses_codec, (rule reader_intros)+)
      (auto simp: enc_buy_args_def BuyInstruction_new_def,
        (rule exI conjI refl | assumption)+, simp)
qed (simp_all add: enc_buy_args_def BuyInstruction_to_vec_def bool_as_u8_def enc_bool_def BuyInstruction_DISCRIMINATOR_def)

definition buy_exact_args_read :: "reader \<Rightarrow> (BuyExactQuoteInInstruction \<times> reader) res" where
  "buy_exact_args_read r =
     bindE (rd_u64 r) (\<lambda>(a, r).
     bindE (rd_u64 r) (\<lambda>(b, r).
     bindE (rd_bool r) (\<lambda>(c, r).
     Inr (BuyExactQuoteInInstruction_new a b c, r))))"

definition enc_buy_exact_args :: "BuyExactQuoteInInstruction \<Rightarrow> bytes" where
  "enc_buy_exact_args x = to_le_bytes (be_spendable_quote_in x) @ to_le_bytes (be_min_base_amount_out x) @ enc_bool (be_track_volume x)"

interpretation buy_exact_args: anchor_args buy_exact_args_read enc_buy_exact_args "\<lambda>_. True" 17
    "BuyExactQuoteInInstruction_DISCRIMINATOR" BuyExactQuoteInInstruction_to_vec
proof (intro anchor_args.intro borsh_fixed.intro borsh_fixed_axioms.intro anchor_args_axioms.intro)
  show "borsh_codec buy_exact_args_read enc_buy_exact_args (\<lambda>_. True)"
    unfolding buy_exact_args_read_def [abs_def]
    by (rule parses_codec, (rule reader_intros)+)
      (auto simp: enc_buy_exact_args_def BuyExactQuoteInInstruction_new_def,
        (rule exI conjI refl | assumption)+, simp)
qed (simp_all add: enc_buy_exact_args_def BuyExactQuoteInInstruction_to_vec_def bool_as_u8_def enc_bool_def BuyExactQuoteInInstruction_DISCRIMINATOR_def)

definition sell_args_read :: "reader \<Rightarrow> (SellInstruction \<times> reader) res" where
  "sell_args_read r =
     bindE (rd_u64 r) (\<lambda>(a, r).
     bindE (rd_u64 r) (\<lambda>(b, r).
     Inr (SellInstruction_new a b, r)))"

definition enc_sell_args :: "SellInstruction \<Rightarrow> bytes" where
  "enc_sell_args x = to_le_bytes (si_base_amount_in x) @ to_le_bytes (si_min_quote_amount_out x)"

definition sell_args_ok :: "SellInstruction \<Rightarrow> bool" where
  "sell_args_ok x \<longleftrightarrow> si_discriminator x = [51, 230, 133, 164, 1, 127, 131, 173]"

interpretation sell_args: anchor_args sell_args_read enc_sell_args "sell_args_ok" 16
    "[51, 230, 133, 164, 1, 127, 131, 173]" SellInstruction_to_vec
proof (intro anchor_args.intro borsh_fixed.intro borsh_fixed_axioms.intro anchor_args_axioms.intro)
  show "borsh_codec sell_args_read enc_sell_args (sell_args_ok)"
    unfolding sell_args_read_def [abs_def]
    by (rule parses_codec, (rule reader_intros)+)
      (auto simp: enc_sell_args_def SellInstruction_new_def sell_args_ok_def,
        (rule exI conjI refl | assumption)+, simp)
qed (simp_all add: enc_sell_args_def SellInstruction_to_vec_def sell_args_ok_def bool_as_u8_def enc_bool_def)

definition deposit_args_read :: "reader \<Rightarrow> (DepositInstruction \<times> reader) res" where
  "deposit_args_read r =
     bindE (rd_u64 r) (\<lambda>(a, r).
     bindE (rd_u64 r) (\<lambda>(b, r).
     bindE (rd_u64 r) (\<lambda>(c, r).
     Inr (DepositInstruction_new a b c, r))))"

definition enc_deposit_args :: "DepositInstruction \<Rightarrow> bytes" where
  "enc_deposit_args x = to_le_bytes (di_lp_token_amount_out x) @ to_le_bytes (di_max_base_amount_in x) @ to_le_bytes (di_max_quote_amount_in x)"

definition deposit_args_ok :: "DepositInstruction \<Rightarrow> bool" where
  "deposit_args_ok x \<longleftrightarrow> di_discriminator x = [242, 35, 198, 137, 82, 225, 242, 182]"

interpretation deposit_args: anchor_args deposit_args_read enc_deposit_args "deposit_args_ok" 24
    "[242, 35, 198, 137, 82, 225, 242, 182]" DepositInstruction_to_vec
proof (intro anchor_args.intro borsh_fixed.intro borsh_fixed_axioms.intro anchor_args_axioms.intro)
  show "borsh_codec deposit_args_read enc_deposit_args (deposit_args_ok)"
    unfolding deposit_args_read_def [abs_def]
    by (rule parses_codec, (rule reader_intros)+)
      (auto simp: enc_deposit_args_def DepositInstruction_new_def deposit_args_ok_def,
        (rule exI conjI refl | assumption)+, simp)
qed (simp_all add: enc_deposit_args_def DepositInstruction_to_vec_def deposit_args_ok_def bool_as_u8_def enc_bool_def)

definition create_pool_args_read :: "reader \<Rightarrow> (CreatePoolInstruction \<times> reader) res" where
  "create_pool_args_read r =
     bindE (rd_u16 r) (\<lambda>(a, r).
     bindE (rd_u64 r) (\<lambda>(b, r).
     bindE (rd_u64 r) (\<lambda>(c, r).
     bindE (rd_pubkey r) (\<lambda>(d, r).
     bindE (rd_u8 r) (\<lambda>(e, r).
     bindE (rd_u8 r) (\<lambda>(f, r).
     Inr (\<lparr>cp_discriminator = [233, 146, 209, 142, 207, 104, 64, 188], cp_index = a,
       cp_base_amount_in = b, cp_quote_amount_in = c, cp_coin_creator = d,
       cp_is_mayhem_mode = e, cp_is_cashback_coin = f\<rparr>, r)))))))"

definition enc_create_pool_args :: "CreatePoolInstruction \<Rightarrow> bytes" where
  "enc_create_pool_args x = to_le_bytes (cp_index x) @ to_le_bytes (cp_base_amount_in x) @ to_le_bytes (cp_quote_amount_in x) @ pk_bytes (cp_coin_creator x) @ [cp_is_mayhem_mode x] @ [cp_is_cashback_coin x]"

definition create_pool_args_ok :: "CreatePoolInstruction \<Rightarrow> bool" where
  "create_pool_args_ok x \<longleftrightarrow> cp_discriminator x = [233, 146, 209, 142, 207, 104, 64, 188] \<and> pk_ok (cp_coin_creator x)"

interpretation create_pool_args: anchor_args create_pool_args_read enc_create_pool_args "create_pool_args_ok" 52
    "[233, 146, 209, 142, 207, 104, 64, 188]" CreatePoolInstruction_to_vec
proof (intro anchor_args.intro borsh_fixed.intro borsh_fixed_axioms.intro anchor_args_axioms.intro)
  show "borsh_codec create_pool_args_read enc_create_pool_args (create_pool_args_ok)"
    unfolding create_pool_args_read_def [abs_def]
    by (rule parses_codec, (rule reader_intros)+)
      (auto simp: enc_create_pool_args_def create_pool_args_ok_def,
        (rule exI conjI refl | assumption)+, simp)
qed (simp_all add: enc_create_pool_args_def CreatePoolInstruction_to_vec_def create_pool_args_ok_def bool_as_u8_def enc_bool_def)

definition withdraw_args_read :: "reader \<Rightarrow> (WithdrawInstruction \<times> reader) res" where
  "withdraw_args_read r =
     bindE (rd_u64 r) (\<lambda>(a, r).
     bindE (rd_u64 r) (\<lambda>(b, r).
     bindE (rd_u64 r) (\<lambda>(c, r).
     Inr (WithdrawInstruction_new a b c, r))))"

definition enc_withdraw_args :: "WithdrawInstruction \<Rightarrow> bytes" where
  "enc_withdraw_args x = to_le_bytes (wi_lp_token_amount_in x) @ to_le_bytes (wi_min_base_amount_out x) @ to_le_bytes (wi_min_quote_amount_out x)"

definition withdraw_args_ok :: "WithdrawInstruction \<Rightarrow> bool" where
  "withdraw_args_ok x \<longleftrightarrow> wi_discriminator x = [183, 18, 70, 156, 148, 109, 161, 34]"

interpretation withdraw_args: anchor_args withdraw_args_read enc_withdraw_args "withdraw_args_ok" 24
    "[183, 18, 70, 156, 148, 109, 161, 34]" WithdrawInstruction_to_vec
proof (intro anchor_args.intro borsh_fixed.intro borsh_fixed_axioms.intro anchor_args_axioms.intro)
  show "borsh_codec withdraw_args_read enc_withdraw_args (withdraw_args_ok)"
    unfolding withdraw_args_read_def [abs_def]
    by (rule parses_codec, (rule reader_intros)+)
      (auto simp: enc_withdraw_args_def WithdrawInstruction_new_def withdraw_args_ok_def,
        (rule exI conjI refl | assumption)+, simp)
qed (simp_all add: enc_withdraw_args_def WithdrawInstruction_to_vec_def withdraw_args_ok_def bool_as_u8_def enc_bool_def)

end
