(* ===== verification/World.thy ===== *)
theory World
  imports Prelude
begin

text \<open>
  What the crate takes from outside: the Solana, SPL Token, rand and bs58 crates, and the build
  profile. Their functions are the fields of the record \<open>ext\<close>, which every definition that
  calls them takes as its first argument; nothing about them is assumed by the definitions. The
  documented behaviour that some theorems need is stated once, as \<open>ext_documented\<close>.
  \<open>constants.rs\<close> follows: each address is the \<open>pubkey!\<close> macro applied to the source's literal.
\<close>

section \<open>Instructions\<close>

record account_meta =
  am_pubkey :: pubkey
  am_is_signer :: bool
  am_is_writable :: bool

record instruction =
  ix_program_id :: pubkey
  ix_accounts :: "account_meta list"
  ix_data :: bytes

text \<open>\<open>AccountMeta::new\<close> is writable, \<open>AccountMeta::new_readonly\<close> is not.\<close>

definition meta_new :: "pubkey \<Rightarrow> bool \<Rightarrow> account_meta" where
  "meta_new k signer = \<lparr>am_pubkey = k, am_is_signer = signer, am_is_writable = True\<rparr>"

definition meta_readonly :: "pubkey \<Rightarrow> bool \<Rightarrow> account_meta" where
  "meta_readonly k signer = \<lparr>am_pubkey = k, am_is_signer = signer, am_is_writable = False\<rparr>"

lemma meta_sel [simp]:
  "am_pubkey (meta_new k s) = k" "am_is_signer (meta_new k s) = s" "am_is_writable (meta_new k s)"
  "am_pubkey (meta_readonly k s) = k" "am_is_signer (meta_readonly k s) = s"
  "\<not> am_is_writable (meta_readonly k s)"
  by (simp_all add: meta_new_def meta_readonly_def)

text \<open>\<open>Pubkey::default()\<close> is 32 zero bytes.\<close>

definition pubkey_default :: pubkey where
  "pubkey_default = Pubkey (replicate 32 0)"

section \<open>External functions\<close>

record ext =
  x_pubkey :: "string \<Rightarrow> pubkey"
  x_find_program_address :: "bytes list \<Rightarrow> pubkey \<Rightarrow> pubkey \<times> u8"
  x_create_with_seed :: "pubkey \<Rightarrow> string \<Rightarrow> pubkey \<Rightarrow> pubkey res"
  x_get_ata :: "pubkey \<Rightarrow> pubkey \<Rightarrow> pubkey \<Rightarrow> pubkey"
  x_create_ata_idempotent :: "pubkey \<Rightarrow> pubkey \<Rightarrow> pubkey \<Rightarrow> pubkey \<Rightarrow> instruction"
  x_spl_token_ID :: pubkey
  x_spl_token_2022_ID :: pubkey
  x_ata_program_ID :: pubkey
  x_system_program_ID :: pubkey
  x_choose :: "pubkey list \<Rightarrow> nat \<Rightarrow> pubkey option"
  x_bs58_encode :: "bytes \<Rightarrow> string"
  x_create_account_with_seed ::
    "pubkey \<Rightarrow> pubkey \<Rightarrow> pubkey \<Rightarrow> string \<Rightarrow> u64 \<Rightarrow> u64 \<Rightarrow> pubkey \<Rightarrow> instruction"
  x_initialize_account :: "pubkey \<Rightarrow> pubkey \<Rightarrow> pubkey \<Rightarrow> pubkey \<Rightarrow> instruction res"
  x_close_account :: "pubkey \<Rightarrow> pubkey \<Rightarrow> pubkey \<Rightarrow> pubkey \<Rightarrow> instruction res"
  x_sync_native :: "pubkey \<Rightarrow> pubkey \<Rightarrow> instruction res"
  x_transfer :: "pubkey \<Rightarrow> pubkey \<Rightarrow> u64 \<Rightarrow> instruction"
  x_token_account_LEN :: nat
  x_minimum_balance :: "nat \<Rightarrow> u64"
  x_set_compute_unit_limit :: "u32 \<Rightarrow> instruction"
  x_set_compute_unit_price :: "u64 \<Rightarrow> instruction"
  x_overflow_checks :: bool

text \<open>
  Plain \<open>+\<close>, \<open>*\<close> and \<open>-\<close> on fixed-width integers: a panic on overflow when the build has overflow
  checks (the debug profile), two's complement wrapping when it has not (the release profile).
\<close>

definition add_u64 :: "ext \<Rightarrow> u64 \<Rightarrow> u64 \<Rightarrow> u64 res" where
  "add_u64 e a b =
     (if x_overflow_checks e \<and> 2 ^ 64 \<le> unat a + unat b
      then Inl (Panic ''attempt to add with overflow'') else Inr (a + b))"

definition mul_u64 :: "ext \<Rightarrow> u64 \<Rightarrow> u64 \<Rightarrow> u64 res" where
  "mul_u64 e a b =
     (if x_overflow_checks e \<and> 2 ^ 64 \<le> unat a * unat b
      then Inl (Panic ''attempt to multiply with overflow'') else Inr (a * b))"

definition sub_i64 :: "ext \<Rightarrow> i64 \<Rightarrow> i64 \<Rightarrow> i64 res" where
  "sub_i64 e a b =
     (if x_overflow_checks e \<and> (sint a - sint b < - (2 ^ 63) \<or> 2 ^ 63 \<le> sint a - sint b)
      then Inl (Panic ''attempt to subtract with overflow'') else Inr (a - b))"

lemma add_u64_exact:
  "unat a + unat b < 2 ^ 64 \<Longrightarrow> \<exists>c. add_u64 e a b = Inr c \<and> unat c = unat a + unat b"
  by (simp add: add_u64_def unat_word_ariths)

lemma mul_u64_exact:
  "unat a * unat b < 2 ^ 64 \<Longrightarrow> \<exists>c. mul_u64 e a b = Inr c \<and> unat c = unat a * unat b"
  by (simp add: mul_u64_def unat_word_ariths)

section \<open>The addresses of constants.rs\<close>

definition PUMP_SWAP_PROGRAM_ID :: "ext \<Rightarrow> pubkey" where
  "PUMP_SWAP_PROGRAM_ID e = x_pubkey e ''pAMMBay6oceH9fJKBRHGP5D4bD4sWpmSwMn52FMfXEA''"

definition PUMPFUN_PROGRAM :: "ext \<Rightarrow> pubkey" where
  "PUMPFUN_PROGRAM e = x_pubkey e ''6EF8rrecthR5Dkzon8Nwu78hRvfCKubJ14M5uBEwF6P''"

definition PUMPFUN_GLOBAL :: "ext \<Rightarrow> pubkey" where
  "PUMPFUN_GLOBAL e = x_pubkey e ''4wTV1YmiEkRvAtNtsSGPtUrqRYQMe5SKy2uB4Jjaxnjf''"

definition PUMPFUN_EVENT_AUTHORITY :: "ext \<Rightarrow> pubkey" where
  "PUMPFUN_EVENT_AUTHORITY e = x_pubkey e ''Ce6TQqeHC9p8KetsN6JsjHK7UTZk7nasjjnr7XxXp9F1''"

definition PUMP_CREATOR_VAULT :: "ext \<Rightarrow> pubkey" where
  "PUMP_CREATOR_VAULT e = x_pubkey e ''8CoWk2ZYjsBZEy8yLqWEK9mtZ8tkAbAFrbmtyyuhEqGg''"

definition TOKEN_METADATA_PROGRAM :: "ext \<Rightarrow> pubkey" where
  "TOKEN_METADATA_PROGRAM e = x_pubkey e ''metaqbxxUerdq28cj1RbAWkYQm3ybzjb6a8bt518x1s''"

definition FEE_PROGRAM :: "ext \<Rightarrow> pubkey" where
  "FEE_PROGRAM e = x_pubkey e ''pfeeUxB6jkeY1Hxd7CsFCAjcbHA9rWtchMGdZ6VojVZ''"

definition EVENT_AUTHORITY :: "ext \<Rightarrow> pubkey" where
  "EVENT_AUTHORITY e = x_pubkey e ''GS4CU59F31iL7aR2Q8zVS8DRrcRnXX1yjQ66TqNVQnaR''"

definition GLOBAL_CONFIG :: "ext \<Rightarrow> pubkey" where
  "GLOBAL_CONFIG e = x_pubkey e ''ADyA8hdefvWN2dbGGWFotbzWxrAvLW83WG6QCVXvJKqw''"

definition POOL_ACCOUNT_NEW_SIZE :: nat where
  "POOL_ACCOUNT_NEW_SIZE = 301"

definition GLOBAL_VOLUME_ACCUMULATOR :: "ext \<Rightarrow> pubkey" where
  "GLOBAL_VOLUME_ACCUMULATOR e = x_pubkey e ''C2aFPdENg4A2HQsmrd5rTw5TaYBX5Ku887cWjbFKtZpw''"

definition WRAPPED_SOL_MINT :: "ext \<Rightarrow> pubkey" where
  "WRAPPED_SOL_MINT e = x_pubkey e ''So11111111111111111111111111111111111111112''"

definition PROTOCOL_FEE_RECIPIENTS :: "ext \<Rightarrow> pubkey list" where
  "PROTOCOL_FEE_RECIPIENTS e = map (x_pubkey e) [
     ''62qc2CNXwrYqQScmEdiZFFAnJR262PxWEuNQtxfafNgV'',
     ''7VtfL8fvgNfhz17qKRMjzQEXgbdpnHHHQRh54R9jP2RJ'',
     ''7hTckgnGnLQR6sdH7YkqFTAA7VwTfYFaZ6EhEsU3saCX'',
     ''9rPYyANsfQZw3DnDmKE3YCQF5E8oD89UXoHn9JFEhJUz'',
     ''AVmoTthdrX6tKt4nDjco2D775W2YK3sDhxPcMmzUAmTY'',
     ''FWsW1xNtWscwNmKv6wVsU1iTzRN6wmmk3MjxRP5tT7hz'',
     ''G5UZAVbAf46s7cKWoyKu8kYTip9DGTpbLZ2qa9Aq69dP'',
     ''JCRGumoE9Qi5BBgULTgdgTLjSgkCMSbF62ZZfGs84JeU'']"

definition RESERVED_FEE_RECIPIENTS :: "ext \<Rightarrow> pubkey list" where
  "RESERVED_FEE_RECIPIENTS e = map (x_pubkey e) [
     ''GesfTA3X2arioaHp8bbKdjG9vJtskViWACZoYvxp4twS'',
     ''4budycTjhs9fD6xw62VBducVTNgMgJJ5BgtKq7mAZwn6'',
     ''8SBKzEQU4nLSzcwF4a74F2iaUDQyTfjGndn6qUWBnrpR'',
     ''4UQeTP1T39KZ9Sfxzo3WR5skgsaP6NZa87BAkuazLEKH'',
     ''8sNeir4QsLsJdYpc9RZacohhK1Y5FLU3nC5LXgYB4aa6'',
     ''Fh9HmeLNUMVCvejxCtCL2DbYaRyBFVJ5xrWkLnMH6fdk'',
     ''463MEnMeGyJekNZFQSTUABBEbLnvMTALbT6ZmsxAbAdq'',
     ''6AUH3WEHucYZyC61hqpqYUWVto5qA5hjHuNQ32GNnNxA'']"

definition BUYBACK_FEE_RECIPIENTS :: "ext \<Rightarrow> pubkey list" where
  "BUYBACK_FEE_RECIPIENTS e = map (x_pubkey e) [
     ''5YxQFdt3Tr9zJLvkFccqXVUwhdTWJQc1fFg2YPbxvxeD'',
     ''9M4giFFMxmFGXtc3feFzRai56WbBqehoSeRE5GK7gf7'',
     ''GXPFM2caqTtQYC2cJ5yJRi9VDkpsYZXzYdwYpGnLmtDL'',
     ''3BpXnfJaUTiwXnJNe7Ej1rcbzqTTQUvLShZaWazebsVR'',
     ''5cjcW9wExnJJiqgLjq7DEG75Pm6JBgE1hNv4B2vHXUW6'',
     ''EHAAiTxcdDwQ3U4bU6YcMsQGaekdzLS3B5SmYo46kJtL'',
     ''5eHhjP8JaYkz83CWwvGU2uMUXefd3AazWGx4gpcuEEYD'',
     ''A7hAgCzFw14fejgCp387JUJRMNyz4j89JKnhtKU8piqW'']"

section \<open>Documented behaviour\<close>

text \<open>
  What the documentation of the external crates promises and theorems below use: \<open>choose\<close>
  returns an element of a non-empty slice; the SPL Token constructors accept their own program.
\<close>

definition choose_documented :: "ext \<Rightarrow> bool" where
  "choose_documented e \<longleftrightarrow> (\<forall>ks i. ks \<noteq> [] \<longrightarrow> (\<exists>k \<in> set ks. x_choose e ks i = Some k))"

definition spl_token_documented :: "ext \<Rightarrow> bool" where
  "spl_token_documented e \<longleftrightarrow>
     (\<forall>a m w. \<exists>ix. x_initialize_account e (x_spl_token_ID e) a m w = Inr ix) \<and>
     (\<forall>a d w. \<exists>ix. x_close_account e (x_spl_token_ID e) a d w = Inr ix) \<and>
     (\<forall>a. \<exists>ix. x_sync_native e (x_spl_token_ID e) a = Inr ix)"

text \<open>
  \<open>spl_token::instruction::close_account\<close>, the one constructor of the client that is given a token
  program of a pool, refuses every program but its own (\<open>check_program_account\<close>).
\<close>

definition close_checks_program :: "ext \<Rightarrow> bool" where
  "close_checks_program e \<longleftrightarrow>
     (\<forall>tp a d w. tp \<noteq> x_spl_token_ID e \<longrightarrow> (\<exists>err. x_close_account e tp a d w = Inl err))"

text \<open>The constructors that a swap sequence uses before its swap target their own programs.\<close>

definition spl_programs_documented :: "ext \<Rightarrow> bool" where
  "spl_programs_documented e \<longleftrightarrow>
     (\<forall>from to base seed lamports space owner.
       ix_program_id (x_create_account_with_seed e from to base seed lamports space owner) = x_system_program_ID e) \<and>
     (\<forall>payer owner mint tp. ix_program_id (x_create_ata_idempotent e payer owner mint tp) = x_ata_program_ID e) \<and>
     (\<forall>a m w ix. x_initialize_account e (x_spl_token_ID e) a m w = Inr ix \<longrightarrow> ix_program_id ix = x_spl_token_ID e) \<and>
     PUMP_SWAP_PROGRAM_ID e \<notin> {x_system_program_ID e, x_ata_program_ID e, x_spl_token_ID e}"

text \<open>
  One concrete outside world, for the instances that show the hypotheses can hold. Its
  instructions carry accounts the documentation names and a one-byte tag, with the lamports after it
  where a WSOL account is created.
\<close>

definition tagged :: "pubkey \<Rightarrow> u8 \<Rightarrow> account_meta list \<Rightarrow> instruction" where
  "tagged p t accounts = \<lparr>ix_program_id = p, ix_accounts = accounts, ix_data = [t]\<rparr>"

definition pad32 :: "bytes \<Rightarrow> pubkey" where
  "pad32 bs = Pubkey (take 32 (bs @ replicate 32 0))"

definition ext_example :: "bool \<Rightarrow> ext" where
  "ext_example checks = \<lparr>
     x_pubkey = (\<lambda>s. pad32 (map (\<lambda>c. word_of_nat (of_char c)) s)),
     x_find_program_address = (\<lambda>seeds p. (pad32 (concat seeds), 255)),
     x_create_with_seed = (\<lambda>base seed owner. Inr (pad32 (map (\<lambda>c. word_of_nat (of_char c)) seed))),
     x_get_ata = (\<lambda>owner mint tp. pad32 (map2 (+) (pk_bytes owner) (pk_bytes mint))),
     x_create_ata_idempotent = (\<lambda>payer owner mint tp. tagged (pad32 [8]) 1 [meta_new payer True]),
     x_spl_token_ID = pad32 [6], x_spl_token_2022_ID = pad32 [7], x_ata_program_ID = pad32 [8],
     x_system_program_ID = pad32 [9],
     x_choose = (\<lambda>ks i. if ks = [] then None else Some (ks ! (i mod length ks))),
     x_bs58_encode = map (\<lambda>b. char_of (unat b)),
     x_create_account_with_seed = (\<lambda>from to base seed lamports space owner.
       \<lparr>ix_program_id = pad32 [9], ix_accounts = [meta_new from True, meta_new to False], ix_data = 3 # to_le_bytes lamports\<rparr>),
     x_initialize_account = (\<lambda>tp account mint owner. Inr (tagged tp 1 [meta_new account False])),
     x_close_account = (\<lambda>tp account dest owner. if tp = pad32 [6] then Inr (tagged tp 4 [meta_new account False])
       else Inl (External ''IncorrectProgramId'')),
     x_sync_native = (\<lambda>tp account. Inr (tagged tp 5 [meta_new account False])),
     x_transfer = (\<lambda>from to lamports. tagged (pad32 [9]) 6 [meta_new from True, meta_new to False]),
     x_token_account_LEN = 165,
     x_minimum_balance = (\<lambda>n. word_of_nat (n * 6960)),
     x_set_compute_unit_limit = (\<lambda>n. tagged (pad32 [10]) 7 []),
     x_set_compute_unit_price = (\<lambda>n. tagged (pad32 [10]) 8 []),
     x_overflow_checks = checks\<rparr>"

abbreviation key :: "u8 \<Rightarrow> pubkey" where
  "key b \<equiv> Pubkey (replicate 32 b)"

lemma choose_documented_example: "choose_documented (ext_example c)"
  unfolding choose_documented_def
proof (intro allI impI)
  fix ks :: "pubkey list" and i :: nat
  assume "ks \<noteq> []"
  then show "\<exists>k \<in> set ks. x_choose (ext_example c) ks i = Some k"
    by (intro bexI [of _ "ks ! (i mod length ks)"]) (simp_all add: ext_example_def)
qed

lemma spl_programs_documented_example: "spl_programs_documented (ext_example c)"
  by (simp add: spl_programs_documented_def ext_example_def tagged_def PUMP_SWAP_PROGRAM_ID_def pad32_def)

lemma close_checks_program_example: "close_checks_program (ext_example c)"
  by (simp add: close_checks_program_def ext_example_def)

lemma spl_token_documented_example: "spl_token_documented (ext_example c)"
  by (simp add: spl_token_documented_def ext_example_def)

end
