(* ===== verification/Addresses.thy ===== *)
theory Addresses
  imports World
begin

text \<open>
  The address derivations and recipient choices of \<open>util.rs\<close>: program-derived addresses,
  associated token accounts, and the random picks from the fee-recipient tables. Each
  derivation is the seed list and program of the source handed to the external
  \<open>find_program_address\<close>. A seed literal \<open>b"..."\<close> is \<open>bytes_of_string\<close> of the literal. A random
  pick takes the randomness it consumes as an argument. The lemmas show that picks never
  panic and stay in the table of the pool's mode, and that distinct derivations have distinct
  seeds.
\<close>

definition bytes_of_string :: "string \<Rightarrow> bytes" where
  "bytes_of_string s = map (\<lambda>c. word_of_nat (of_char c)) s"

section \<open>Program-derived addresses\<close>

definition calc_pool_pda_with_index ::
  "ext \<Rightarrow> u16 \<Rightarrow> pubkey \<Rightarrow> pubkey \<Rightarrow> pubkey \<Rightarrow> pubkey \<times> u8" where
  "calc_pool_pda_with_index e index creator base_mint quote_mint =
     x_find_program_address e
       [bytes_of_string ''pool'', to_le_bytes index, pk_bytes creator, pk_bytes base_mint,
        pk_bytes quote_mint]
       (PUMP_SWAP_PROGRAM_ID e)"

definition calc_pool_pda :: "ext \<Rightarrow> pubkey \<Rightarrow> pubkey \<Rightarrow> pubkey \<Rightarrow> pubkey \<times> u8" where
  "calc_pool_pda e creator base_mint quote_mint =
     calc_pool_pda_with_index e 0 creator base_mint quote_mint"

definition calc_lp_mint_pda :: "ext \<Rightarrow> pubkey \<Rightarrow> pubkey \<times> u8" where
  "calc_lp_mint_pda e pool =
     x_find_program_address e [bytes_of_string ''pool_lp_mint'', pk_bytes pool] (PUMP_SWAP_PROGRAM_ID e)"

definition calc_user_pool_token_account :: "ext \<Rightarrow> pubkey \<Rightarrow> pubkey \<Rightarrow> pubkey \<times> u8" where
  "calc_user_pool_token_account e creator lp_mint =
     x_find_program_address e
       [pk_bytes creator, pk_bytes (x_spl_token_2022_ID e), pk_bytes lp_mint]
       (x_ata_program_ID e)"

definition find_user_vol_accumulator :: "ext \<Rightarrow> pubkey \<Rightarrow> pubkey" where
  "find_user_vol_accumulator e user =
     fst (x_find_program_address e
       [bytes_of_string ''user_volume_accumulator'', pk_bytes user] (PUMP_SWAP_PROGRAM_ID e))"

definition find_coin_creator_vault_authority :: "ext \<Rightarrow> pubkey \<Rightarrow> pubkey" where
  "find_coin_creator_vault_authority e coin_creator =
     fst (x_find_program_address e
       [bytes_of_string ''creator_vault'', pk_bytes coin_creator] (PUMP_SWAP_PROGRAM_ID e))"

definition find_coin_creator_vault_ata :: "ext \<Rightarrow> pubkey \<Rightarrow> pubkey \<Rightarrow> pubkey \<Rightarrow> pubkey" where
  "find_coin_creator_vault_ata e coin_creator_vault_authority quote_token_program quote_mint =
     x_get_ata e coin_creator_vault_authority quote_mint quote_token_program"

definition fee_config_pda :: "ext \<Rightarrow> pubkey" where
  "fee_config_pda e =
     fst (x_find_program_address e
       [bytes_of_string ''fee_config'', pk_bytes (PUMP_SWAP_PROGRAM_ID e)] (FEE_PROGRAM e))"

definition sharing_config_pda :: "ext \<Rightarrow> pubkey \<Rightarrow> pubkey" where
  "sharing_config_pda e mint =
     fst (x_find_program_address e [bytes_of_string ''sharing-config'', pk_bytes mint] (FEE_PROGRAM e))"

definition bonding_curve_pda :: "ext \<Rightarrow> pubkey \<Rightarrow> pubkey" where
  "bonding_curve_pda e mint =
     fst (x_find_program_address e [bytes_of_string ''bonding-curve'', pk_bytes mint] (PUMPFUN_PROGRAM e))"

definition pump_creator_vault_pda :: "ext \<Rightarrow> pubkey \<Rightarrow> pubkey" where
  "pump_creator_vault_pda e creator =
     fst (x_find_program_address e
       [bytes_of_string ''creator-vault'', pk_bytes creator] (PUMPFUN_PROGRAM e))"

definition pump_pool_authority_pda :: "ext \<Rightarrow> pubkey \<Rightarrow> pubkey" where
  "pump_pool_authority_pda e mint =
     fst (x_find_program_address e [bytes_of_string ''pool-authority'', pk_bytes mint] (PUMPFUN_PROGRAM e))"

definition canonical_pool_pda :: "ext \<Rightarrow> pubkey \<Rightarrow> pubkey \<Rightarrow> pubkey" where
  "canonical_pool_pda e mint quote_mint =
     fst (calc_pool_pda e (pump_pool_authority_pda e mint) mint quote_mint)"

definition token_metadata_pda :: "ext \<Rightarrow> pubkey \<Rightarrow> pubkey" where
  "token_metadata_pda e mint =
     fst (x_find_program_address e
       [bytes_of_string ''metadata'', pk_bytes (TOKEN_METADATA_PROGRAM e), pk_bytes mint]
       (TOKEN_METADATA_PROGRAM e))"

definition pool_v2_pda :: "ext \<Rightarrow> pubkey \<Rightarrow> pubkey" where
  "pool_v2_pda e base_mint =
     fst (x_find_program_address e [bytes_of_string ''pool-v2'', pk_bytes base_mint] (PUMP_SWAP_PROGRAM_ID e))"

definition user_volume_accumulator_quote_ata :: "ext \<Rightarrow> pubkey \<Rightarrow> pubkey \<Rightarrow> pubkey \<Rightarrow> pubkey" where
  "user_volume_accumulator_quote_ata e user quote_mint quote_token_program =
     x_get_ata e (find_user_vol_accumulator e user) quote_mint quote_token_program"

section \<open>Associated token accounts\<close>

definition create_ata_token_or_not_with_program ::
  "ext \<Rightarrow> pubkey \<Rightarrow> pubkey \<Rightarrow> pubkey \<Rightarrow> pubkey \<Rightarrow> bool \<Rightarrow> pubkey \<times> instruction option" where
  "create_ata_token_or_not_with_program e payer mint owner token_program create =
     (let token_acc = x_get_ata e owner mint token_program in
      if \<not> create then (token_acc, None)
      else (token_acc, Some (x_create_ata_idempotent e payer owner mint token_program)))"

definition create_ata_token_or_not ::
  "ext \<Rightarrow> pubkey \<Rightarrow> pubkey \<Rightarrow> pubkey \<Rightarrow> bool \<Rightarrow> pubkey \<times> instruction option" where
  "create_ata_token_or_not e payer mint owner create =
     create_ata_token_or_not_with_program e payer mint owner (x_spl_token_ID e) create"

text \<open>The seed is the first 32 characters of the base58 text of 32 random bytes.\<close>

definition gen_pubkey_with_seed :: "ext \<Rightarrow> bytes \<Rightarrow> pubkey \<Rightarrow> (pubkey \<times> string) res" where
  "gen_pubkey_with_seed e seed_bytes from_public_key =
     (let seed = take 32 (x_bs58_encode e seed_bytes) in
      bindE (x_create_with_seed e from_public_key seed (x_spl_token_ID e))
        (\<lambda>public_key. Inr (public_key, seed)))"

section \<open>Random picks\<close>

definition pick_protocol_fee_recipient :: "ext \<Rightarrow> nat \<Rightarrow> pubkey res" where
  "pick_protocol_fee_recipient e rng =
     ok_or (x_choose e (PROTOCOL_FEE_RECIPIENTS e) rng)
       (Panic ''PROTOCOL_FEE_RECIPIENTS is non-empty'')"

definition pick_reserved_fee_recipient :: "ext \<Rightarrow> nat \<Rightarrow> pubkey res" where
  "pick_reserved_fee_recipient e rng =
     ok_or (x_choose e (RESERVED_FEE_RECIPIENTS e) rng)
       (Panic ''RESERVED_FEE_RECIPIENTS is non-empty'')"

definition pick_protocol_fee_recipient_for_pool :: "ext \<Rightarrow> nat \<Rightarrow> bool \<Rightarrow> pubkey res" where
  "pick_protocol_fee_recipient_for_pool e rng is_mayhem_mode =
     (if is_mayhem_mode then pick_reserved_fee_recipient e rng
      else pick_protocol_fee_recipient e rng)"

definition pick_buyback_fee_recipient :: "ext \<Rightarrow> nat \<Rightarrow> pubkey res" where
  "pick_buyback_fee_recipient e rng =
     ok_or (x_choose e (BUYBACK_FEE_RECIPIENTS e) rng)
       (Panic ''BUYBACK_FEE_RECIPIENTS is non-empty'')"

definition fee_recipients :: "ext \<Rightarrow> bool \<Rightarrow> pubkey list" where
  "fee_recipients e is_mayhem_mode =
     (if is_mayhem_mode then RESERVED_FEE_RECIPIENTS e else PROTOCOL_FEE_RECIPIENTS e)"

lemma pick_ok:
  assumes "choose_documented e" and "ks \<noteq> []"
  shows "\<exists>k \<in> set ks. ok_or (x_choose e ks rng) err = Inr k"
proof -
  obtain k where "k \<in> set ks" "x_choose e ks rng = Some k"
    using assms unfolding choose_documented_def by blast
  then show ?thesis by (intro bexI [of _ k]) simp_all
qed

lemma recipients_nonempty [simp]:
  "PROTOCOL_FEE_RECIPIENTS e \<noteq> []" "RESERVED_FEE_RECIPIENTS e \<noteq> []" "BUYBACK_FEE_RECIPIENTS e \<noteq> []"
  by (simp_all add: PROTOCOL_FEE_RECIPIENTS_def RESERVED_FEE_RECIPIENTS_def BUYBACK_FEE_RECIPIENTS_def)

lemma pick_protocol_fee_recipient_for_pool_ok:
  "choose_documented e \<Longrightarrow>
    \<exists>k \<in> set (fee_recipients e m). pick_protocol_fee_recipient_for_pool e rng m = Inr k"
  by (simp add: pick_protocol_fee_recipient_for_pool_def pick_reserved_fee_recipient_def
      pick_protocol_fee_recipient_def fee_recipients_def pick_ok)

lemma pick_buyback_fee_recipient_ok:
  "choose_documented e \<Longrightarrow>
    \<exists>k \<in> set (BUYBACK_FEE_RECIPIENTS e). pick_buyback_fee_recipient e rng = Inr k"
  by (simp add: pick_buyback_fee_recipient_def pick_ok)

section \<open>The pump-amm derivations use distinct seed lists\<close>

text \<open>
  The two creator vaults differ in one character of their seed and in their program; none of
  the two-seed derivations of this file shares its first seed with another.
\<close>

lemma bytes_of_string_inj: "bytes_of_string s = bytes_of_string t \<longleftrightarrow> s = t"
proof -
  have "inj (\<lambda>c. word_of_nat (of_char c) :: u8)"
  proof (rule injI)
    fix c d :: char
    assume "(word_of_nat (of_char c) :: u8) = word_of_nat (of_char d)"
    then have "unat (word_of_nat (of_char c) :: u8) = unat (word_of_nat (of_char d) :: u8)" by simp
    then have "(of_char c :: nat) = of_char d"
      by (simp add: unsigned_of_nat take_bit_nat_eq_self nat_of_char_less_256)
    then show "c = d" by (simp only: of_char_eq_iff)
  qed
  then show ?thesis unfolding bytes_of_string_def by (simp add: inj_map_eq_map)
qed

end
