(* ===== verification/Config_Accounts.thy ===== *)
theory Config_Accounts
  imports World Reader
begin

text \<open>
  The configuration and bookkeeping accounts of \<open>state.rs\<close> besides the pool and the fee
  schedule: \<open>GlobalConfig\<close>, the two volume accumulators, \<open>SharingConfig\<close> and the creator fee of
  a bonding curve, each with its decoder and its queries. Every decoder is shown to accept
  exactly the encodings of its record, followed by anything; the day index is characterised
  by the interval of the timestamp, under both build profiles.
\<close>

section \<open>GlobalConfig\<close>

record GlobalConfig =
  gc_admin :: pubkey
  lp_fee_basis_points :: u64
  protocol_fee_basis_points :: u64
  disable_flags :: u8
  protocol_fee_recipients :: "pubkey list"
  coin_creator_fee_basis_points :: u64
  admin_set_coin_creator_authority :: pubkey
  whitelist_pda :: pubkey
  reserved_fee_recipient :: pubkey
  mayhem_mode_enabled :: bool
  reserved_fee_recipients :: "pubkey list"
  is_cashback_enabled :: bool
  buyback_fee_recipients :: "pubkey list"
  buyback_basis_points :: u64

definition GLOBAL_CONFIG_DISCRIMINATOR :: bytes where
  "GLOBAL_CONFIG_DISCRIMINATOR = [0x95, 0x08, 0x9c, 0xca, 0xa0, 0xfc, 0xb0, 0xd9]"

definition global_config_from_account_data :: "bytes \<Rightarrow> GlobalConfig res" where
  "global_config_from_account_data data =
     bindE (rd_after_discriminator data GLOBAL_CONFIG_DISCRIMINATOR ''GlobalConfig'') (\<lambda>r.
     bindE (rd_pubkey r) (\<lambda>(admin, r).
     bindE (rd_u64 r) (\<lambda>(lp_fee, r).
     bindE (rd_u64 r) (\<lambda>(protocol_fee, r).
     bindE (rd_u8 r) (\<lambda>(flags, r).
     bindE (rd_pubkey_array 8 r) (\<lambda>(protocol_recipients, r).
     bindE (rd_u64 r) (\<lambda>(coin_creator_fee, r).
     bindE (rd_pubkey r) (\<lambda>(set_authority, r).
     bindE (rd_pubkey r) (\<lambda>(whitelist, r).
     bindE (rd_pubkey r) (\<lambda>(reserved, r).
     bindE (rd_bool r) (\<lambda>(mayhem, r).
     bindE (rd_pubkey_array 7 r) (\<lambda>(reserveds, r).
     bindE (rd_bool r) (\<lambda>(cashback, r).
     bindE (rd_pubkey_array 8 r) (\<lambda>(buybacks, r).
     bindE (rd_u64 r) (\<lambda>(buyback_bps, r).
     Inr \<lparr>gc_admin = admin, lp_fee_basis_points = lp_fee,
       protocol_fee_basis_points = protocol_fee, disable_flags = flags,
       protocol_fee_recipients = protocol_recipients,
       coin_creator_fee_basis_points = coin_creator_fee,
       admin_set_coin_creator_authority = set_authority, whitelist_pda = whitelist,
       reserved_fee_recipient = reserved, mayhem_mode_enabled = mayhem,
       reserved_fee_recipients = reserveds, is_cashback_enabled = cashback,
       buyback_fee_recipients = buybacks, buyback_basis_points = buyback_bps\<rparr>)))))))))))))))"

text \<open>\<open>[first; 8]\<close> with \<open>out[1..]\<close> overwritten by the seven others.\<close>

definition all_reserved_fee_recipients :: "GlobalConfig \<Rightarrow> pubkey list" where
  "all_reserved_fee_recipients c =
     (let out = replicate 8 (reserved_fee_recipient c)
      in take 1 out @ reserved_fee_recipients c)"

definition enc_global_config :: "GlobalConfig \<Rightarrow> bytes" where
  "enc_global_config c = pk_bytes (gc_admin c) @ to_le_bytes (lp_fee_basis_points c)
     @ to_le_bytes (protocol_fee_basis_points c) @ disable_flags c # enc_pubkeys (protocol_fee_recipients c)
     @ to_le_bytes (coin_creator_fee_basis_points c) @ pk_bytes (admin_set_coin_creator_authority c)
     @ pk_bytes (whitelist_pda c) @ pk_bytes (reserved_fee_recipient c)
     @ enc_bool (mayhem_mode_enabled c) @ enc_pubkeys (reserved_fee_recipients c)
     @ enc_bool (is_cashback_enabled c) @ enc_pubkeys (buyback_fee_recipients c)
     @ to_le_bytes (buyback_basis_points c)"

definition global_config_ok :: "GlobalConfig \<Rightarrow> bool" where
  "global_config_ok c \<longleftrightarrow> pk_ok (gc_admin c) \<and> length (protocol_fee_recipients c) = 8
     \<and> list_all pk_ok (protocol_fee_recipients c) \<and> pk_ok (admin_set_coin_creator_authority c)
     \<and> pk_ok (whitelist_pda c) \<and> pk_ok (reserved_fee_recipient c)
     \<and> length (reserved_fee_recipients c) = 7 \<and> list_all pk_ok (reserved_fee_recipients c)
     \<and> length (buyback_fee_recipients c) = 8 \<and> list_all pk_ok (buyback_fee_recipients c)"

lemma global_config_decode_iff:
  assumes "length data < 2 ^ 64"
  shows "global_config_from_account_data data = Inr c \<longleftrightarrow>
    global_config_ok c \<and> prefix (GLOBAL_CONFIG_DISCRIMINATOR @ enc_global_config c) data"
  unfolding global_config_from_account_data_def
  by (rule account_iff [OF _ assms], simp add: GLOBAL_CONFIG_DISCRIMINATOR_def, (rule reader_intros)+)
    (auto simp: global_config_ok_def enc_global_config_def,
      (rule exI conjI refl | assumption)+, simp)

section \<open>Volume accumulators\<close>

definition VOLUME_ACCUMULATOR_DAYS :: nat where
  "VOLUME_ACCUMULATOR_DAYS = 30"

record UserVolumeAccumulator =
  uva_user :: pubkey
  needs_claim :: bool
  total_unclaimed_tokens :: u64
  total_claimed_tokens :: u64
  current_sol_volume :: u64
  last_update_timestamp :: i64
  has_total_claimed_tokens :: bool
  cashback_earned :: u64
  total_cashback_claimed :: u64

definition USER_VOLUME_ACCUMULATOR_DISCRIMINATOR :: bytes where
  "USER_VOLUME_ACCUMULATOR_DISCRIMINATOR = [0x56, 0xff, 0x70, 0x0e, 0x66, 0x35, 0x9a, 0xfa]"

definition UserVolumeAccumulator_ENCODED_LEN :: nat where
  "UserVolumeAccumulator_ENCODED_LEN = 8 + 32 + 1 + 8 * 3 + 8 + 1 + 8 * 2"

definition user_volume_accumulator_empty :: "pubkey \<Rightarrow> UserVolumeAccumulator" where
  "user_volume_accumulator_empty user = \<lparr>uva_user = user, needs_claim = False,
     total_unclaimed_tokens = 0, total_claimed_tokens = 0, current_sol_volume = 0,
     last_update_timestamp = 0, has_total_claimed_tokens = False, cashback_earned = 0,
     total_cashback_claimed = 0\<rparr>"

definition user_volume_accumulator_from_account_data :: "bytes \<Rightarrow> UserVolumeAccumulator res" where
  "user_volume_accumulator_from_account_data data =
     bindE (rd_after_discriminator data USER_VOLUME_ACCUMULATOR_DISCRIMINATOR
       ''UserVolumeAccumulator'') (\<lambda>r.
     bindE (rd_pubkey r) (\<lambda>(user, r).
     bindE (rd_bool r) (\<lambda>(needs, r).
     bindE (rd_u64 r) (\<lambda>(unclaimed, r).
     bindE (rd_u64 r) (\<lambda>(claimed, r).
     bindE (rd_u64 r) (\<lambda>(volume, r).
     bindE (rd_i64 r) (\<lambda>(last, r).
     bindE (rd_bool r) (\<lambda>(has_total, r).
     bindE (rd_u64 r) (\<lambda>(earned, r).
     bindE (rd_u64 r) (\<lambda>(cashback, r).
     Inr \<lparr>uva_user = user, needs_claim = needs, total_unclaimed_tokens = unclaimed,
       total_claimed_tokens = claimed, current_sol_volume = volume,
       last_update_timestamp = last, has_total_claimed_tokens = has_total,
       cashback_earned = earned, total_cashback_claimed = cashback\<rparr>))))))))))"

definition enc_user_volume_accumulator :: "UserVolumeAccumulator \<Rightarrow> bytes" where
  "enc_user_volume_accumulator a = pk_bytes (uva_user a) @ enc_bool (needs_claim a)
     @ to_le_bytes (total_unclaimed_tokens a) @ to_le_bytes (total_claimed_tokens a)
     @ to_le_bytes (current_sol_volume a) @ to_le_bytes (last_update_timestamp a)
     @ enc_bool (has_total_claimed_tokens a) @ to_le_bytes (cashback_earned a)
     @ to_le_bytes (total_cashback_claimed a)"

lemma user_volume_accumulator_decode_iff:
  assumes "length data < 2 ^ 64"
  shows "user_volume_accumulator_from_account_data data = Inr a \<longleftrightarrow>
    pk_ok (uva_user a) \<and>
    prefix (USER_VOLUME_ACCUMULATOR_DISCRIMINATOR @ enc_user_volume_accumulator a) data"
  unfolding user_volume_accumulator_from_account_data_def
  by (rule account_iff [OF _ assms], simp add: USER_VOLUME_ACCUMULATOR_DISCRIMINATOR_def,
      (rule reader_intros)+)
    (auto simp: enc_user_volume_accumulator_def, (rule exI conjI refl | assumption)+, simp)

record GlobalVolumeAccumulator =
  start_time :: i64
  end_time :: i64
  seconds_in_a_day :: i64
  gva_mint :: pubkey
  total_token_supply :: "u64 list"
  sol_volumes :: "u64 list"

definition GLOBAL_VOLUME_ACCUMULATOR_DISCRIMINATOR :: bytes where
  "GLOBAL_VOLUME_ACCUMULATOR_DISCRIMINATOR = [0xca, 0x2a, 0xf6, 0x2b, 0x8e, 0xbe, 0x1e, 0xff]"

definition GlobalVolumeAccumulator_ENCODED_LEN :: nat where
  "GlobalVolumeAccumulator_ENCODED_LEN = 8 + 8 * 3 + 32 + 8 * VOLUME_ACCUMULATOR_DAYS * 2"

definition global_volume_accumulator_from_account_data :: "bytes \<Rightarrow> GlobalVolumeAccumulator res" where
  "global_volume_accumulator_from_account_data data =
     bindE (rd_after_discriminator data GLOBAL_VOLUME_ACCUMULATOR_DISCRIMINATOR
       ''GlobalVolumeAccumulator'') (\<lambda>r.
     bindE (rd_i64 r) (\<lambda>(start, r).
     bindE (rd_i64 r) (\<lambda>(stop, r).
     bindE (rd_i64 r) (\<lambda>(seconds, r).
     bindE (rd_pubkey r) (\<lambda>(mint, r).
     bindE (rd_u64_array VOLUME_ACCUMULATOR_DAYS r) (\<lambda>(supply, r).
     bindE (rd_u64_array VOLUME_ACCUMULATOR_DAYS r) (\<lambda>(volumes, r).
     Inr \<lparr>start_time = start, end_time = stop, seconds_in_a_day = seconds, gva_mint = mint,
       total_token_supply = supply, sol_volumes = volumes\<rparr>)))))))"

definition enc_global_volume_accumulator :: "GlobalVolumeAccumulator \<Rightarrow> bytes" where
  "enc_global_volume_accumulator a = to_le_bytes (start_time a) @ to_le_bytes (end_time a)
     @ to_le_bytes (seconds_in_a_day a) @ pk_bytes (gva_mint a)
     @ enc_u64s (total_token_supply a) @ enc_u64s (sol_volumes a)"

definition global_volume_accumulator_ok :: "GlobalVolumeAccumulator \<Rightarrow> bool" where
  "global_volume_accumulator_ok a \<longleftrightarrow> pk_ok (gva_mint a)
     \<and> length (total_token_supply a) = VOLUME_ACCUMULATOR_DAYS
     \<and> length (sol_volumes a) = VOLUME_ACCUMULATOR_DAYS"

lemma global_volume_accumulator_decode_iff:
  assumes "length data < 2 ^ 64"
  shows "global_volume_accumulator_from_account_data data = Inr a \<longleftrightarrow>
    global_volume_accumulator_ok a \<and>
    prefix (GLOBAL_VOLUME_ACCUMULATOR_DISCRIMINATOR @ enc_global_volume_accumulator a) data"
  unfolding global_volume_accumulator_from_account_data_def
  by (rule account_iff [OF _ assms], simp add: GLOBAL_VOLUME_ACCUMULATOR_DISCRIMINATOR_def,
      (rule reader_intros)+)
    (auto simp: global_volume_accumulator_ok_def enc_global_volume_accumulator_def,
      (rule exI conjI refl | assumption)+, simp)

subsection \<open>Days of the incentive program\<close>

definition is_active_at :: "GlobalVolumeAccumulator \<Rightarrow> i64 \<Rightarrow> bool" where
  "is_active_at a unix_timestamp \<longleftrightarrow>
     sint (start_time a) \<le> sint unix_timestamp \<and> sint unix_timestamp < sint (end_time a)"

text \<open>
  \<open>i64\<close> division truncates towards zero; here the divisor is positive. \<open>usize::try_from\<close>
  fails on a negative quotient.
\<close>

definition day_index :: "ext \<Rightarrow> GlobalVolumeAccumulator \<Rightarrow> i64 \<Rightarrow> nat option res" where
  "day_index e a unix_timestamp =
     (if \<not> is_active_at a unix_timestamp \<or> sint (seconds_in_a_day a) \<le> 0 then Inr None
      else bindE (sub_i64 e unix_timestamp (start_time a)) (\<lambda>elapsed.
        let day = sgn (sint elapsed) * (\<bar>sint elapsed\<bar> div sint (seconds_in_a_day a))
        in Inr (if day < 0 then None
                else if nat day < VOLUME_ACCUMULATOR_DAYS then Some (nat day) else None)))"

lemma sint_i64_bounds: "- (2 ^ 63) \<le> sint (x :: i64)" "sint (x :: i64) < 2 ^ 63"
  using sint_range_size [of x] by (simp_all add: word_size)

lemma sub_i64_in_range:
  assumes "- (2 ^ 63) \<le> sint a - sint b" and "sint a - sint b < 2 ^ 63"
  shows "sub_i64 e a b = Inr (a - b)" and "sint (a - b) = sint a - sint b"
proof -
  show "sub_i64 e a b = Inr (a - b)" using assms by (simp add: sub_i64_def)
  have "a - b = word_of_int (sint a - sint b)" by simp
  then have "sint (a - b) = signed_take_bit 63 (sint a - sint b)"
    by (simp only: signed_of_int) simp
  then show "sint (a - b) = sint a - sint b"
    using assms by (simp add: signed_take_bit_int_eq_self)
qed

lemma day_index_in_range:
  assumes "sint t - sint (start_time a) < 2 ^ 63"
  shows "day_index e a t = Inr (if is_active_at a t \<and> 0 < sint (seconds_in_a_day a)
      \<and> (sint t - sint (start_time a)) div sint (seconds_in_a_day a) < int VOLUME_ACCUMULATOR_DAYS
    then Some (nat ((sint t - sint (start_time a)) div sint (seconds_in_a_day a))) else None)"
proof (cases "is_active_at a t \<and> 0 < sint (seconds_in_a_day a)")
  case True
  let ?d = "sint t - sint (start_time a)"
  have d: "0 \<le> ?d" using True by (simp add: is_active_at_def)
  have "sub_i64 e t (start_time a) = Inr (t - start_time a)" "sint (t - start_time a) = ?d"
    using sub_i64_in_range [of t "start_time a"] d assms by simp_all
  moreover have "sgn ?d * (\<bar>?d\<bar> div sint (seconds_in_a_day a)) = ?d div sint (seconds_in_a_day a)"
    using d by (cases "?d = 0") simp_all
  moreover have "0 \<le> ?d div sint (seconds_in_a_day a)"
    using d True by (simp add: pos_imp_zdiv_nonneg_iff)
  ultimately show ?thesis using True by (auto simp: day_index_def Let_def not_le)
qed (auto simp: day_index_def)

lemma floor_div_iff:
  fixes x :: int
  assumes "0 < b"
  shows "x div b = d \<longleftrightarrow> d * b \<le> x \<and> x < (d + 1) * b"
proof
  assume "x div b = d"
  then have "x = d * b + x mod b" by (metis div_mult_mod_eq)
  moreover have "0 \<le> x mod b" "x mod b < b" using assms by simp_all
  ultimately show "d * b \<le> x \<and> x < (d + 1) * b" by (simp only: distrib_right mult_1) linarith
next
  assume "d * b \<le> x \<and> x < (d + 1) * b"
  then show "x div b = d"
    using int_div_pos_eq [of x b d "x - d * b"] by (simp add: algebra_simps)
qed

lemma sub_i64_overflow:
  assumes "2 ^ 63 \<le> sint a - sint b"
  shows "sub_i64 e a b = (if x_overflow_checks e then Inl (Panic ''attempt to subtract with overflow'')
      else Inr (a - b))"
    and "sint (a - b) = sint a - sint b - 2 ^ 64"
proof -
  show "sub_i64 e a b = (if x_overflow_checks e then Inl (Panic ''attempt to subtract with overflow'')
      else Inr (a - b))"
    using assms by (simp add: sub_i64_def)
  have "a - b = word_of_int (sint a - sint b - 2 ^ 64)" by simp
  then have "sint (a - b) = signed_take_bit 63 (sint a - sint b - 2 ^ 64)"
    by (simp only: signed_of_int) simp
  moreover have "sint a - sint b - 2 ^ 64 < 2 ^ 63"
    using sint_i64_bounds(2) [of a] sint_i64_bounds(1) [of b] by simp
  ultimately show "sint (a - b) = sint a - sint b - 2 ^ 64"
    using assms by (simp add: signed_take_bit_int_eq_self)
qed

lemma day_index_overflow:
  assumes over: "2 ^ 63 \<le> sint t - sint (start_time a)"
    and on: "is_active_at a t" "0 < sint (seconds_in_a_day a)"
  shows "day_index e a t =
    (if x_overflow_checks e then Inl (Panic ''attempt to subtract with overflow'')
     else Inr (if 2 ^ 64 - (sint t - sint (start_time a)) < sint (seconds_in_a_day a)
       then Some 0 else None))"
proof -
  let ?x = "sint t - sint (start_time a)" and ?D = "sint (seconds_in_a_day a)"
  have neg: "?x - 2 ^ 64 < 0"
    using sint_i64_bounds(2) [of t] sint_i64_bounds(1) [of "start_time a"] by simp
  have "sgn (?x - 2 ^ 64) * (\<bar>?x - 2 ^ 64\<bar> div ?D) = - ((2 ^ 64 - ?x) div ?D)" using neg by simp
  moreover have "(2 ^ 64 - ?x) div ?D = 0 \<longleftrightarrow> 2 ^ 64 - ?x < ?D"
    using neg on(2) by (simp add: zdiv_eq_0_iff)
  moreover have "0 \<le> (2 ^ 64 - ?x) div ?D" using neg on(2) by (simp add: pos_imp_zdiv_nonneg_iff)
  ultimately show ?thesis
    using on by (auto simp: day_index_def sub_i64_overflow [OF over] Let_def VOLUME_ACCUMULATOR_DAYS_def)
qed

text \<open>
  C37: as long as the elapsed time fits an \<open>i64\<close>, the day index is \<open>d\<close> exactly when the timestamp
  lies inside the program's window, the day length is positive, \<open>d\<close> is below 30 and \<open>d\<close> is the
  floor of the elapsed time over the length of a day; there is none otherwise. When the
  elapsed time does not fit, inside the window and with a positive day length, a build with
  overflow checks panics, and one without gives no index, or wrongly day 0 when the day
  length exceeds the distance of the elapsed time to \<open>2 ^ 64\<close>.
\<close>

theorem day_index_exact:
  "(sint t - sint (start_time a) < 2 ^ 63 \<longrightarrow> (\<exists>day. day_index e a t = Inr day \<and> (\<forall>d. day = Some d \<longleftrightarrow>
      is_active_at a t \<and> 0 < sint (seconds_in_a_day a) \<and> d < 30 \<and>
      int d * sint (seconds_in_a_day a) \<le> sint t - sint (start_time a) \<and>
      sint t - sint (start_time a) < (int d + 1) * sint (seconds_in_a_day a)))) \<and>
   (2 ^ 63 \<le> sint t - sint (start_time a) \<longrightarrow> day_index e a t =
      (if \<not> is_active_at a t \<or> sint (seconds_in_a_day a) \<le> 0 then Inr None
       else if x_overflow_checks e then Inl (Panic ''attempt to subtract with overflow'')
       else Inr (if 2 ^ 64 - (sint t - sint (start_time a)) < sint (seconds_in_a_day a)
         then Some 0 else None)))"
    (is "(?fits \<longrightarrow> ?floor) \<and> (?over \<longrightarrow> ?wraps)")
proof (intro conjI impI)
  let ?D = "sint (seconds_in_a_day a)" and ?x = "sint t - sint (start_time a)"
  assume fits: ?fits
  show ?floor
  proof (cases "is_active_at a t \<and> 0 < ?D")
    case True
    then have "0 \<le> ?x div ?D" by (simp add: is_active_at_def pos_imp_zdiv_nonneg_iff)
    then obtain q where q: "?x div ?D = int q" by (rule nonneg_int_cases)
    have day: "day_index e a t = Inr (if q < 30 then Some q else None)"
      using True day_index_in_range [OF fits, of e] unfolding q by (simp add: VOLUME_ACCUMULATOR_DAYS_def)
    have floor: "int d * ?D \<le> ?x \<and> ?x < (int d + 1) * ?D \<longleftrightarrow> q = d" for d
      using True floor_div_iff [of ?D ?x "int d"] unfolding q by simp
    show ?thesis unfolding day floor using True by auto
  next
    case False
    then show ?thesis by (auto simp: day_index_in_range [OF fits])
  qed
next
  assume over: ?over
  show ?wraps
  proof (cases "is_active_at a t \<and> 0 < sint (seconds_in_a_day a)")
    case True
    with day_index_overflow [OF over, of e] show ?thesis by (simp add: not_le)
  next
    case False
    then show ?thesis by (auto simp: day_index_def not_le)
  qed
qed

text \<open>Day 3 of a window; and a window that starts at \<open>i64::MIN\<close>, asked for the epoch.\<close>

theorem day_index_exact_witness:
  "day_index (ext_example True) \<lparr>start_time = 100, end_time = 1000, seconds_in_a_day = 50, gva_mint = Pubkey [],
    total_token_supply = [], sol_volumes = []\<rparr> 275 = Inr (Some 3) \<and>
   day_index (ext_example True) \<lparr>start_time = - (2 ^ 63), end_time = 1000, seconds_in_a_day = 86400,
    gva_mint = Pubkey [], total_token_supply = [], sol_volumes = []\<rparr> 0 =
    Inl (Panic ''attempt to subtract with overflow'')"
proof
  let ?a = "\<lparr>start_time = 100, end_time = 1000, seconds_in_a_day = 50, gva_mint = Pubkey [],
    total_token_supply = [], sol_volumes = []\<rparr> :: GlobalVolumeAccumulator"
  obtain day where "day_index (ext_example True) ?a 275 = Inr day" and "\<forall>d. day = Some d \<longleftrightarrow> d < 30 \<and> int d * 50 \<le> 175 \<and> 175 < (int d + 1) * 50"
    using day_index_exact [of 275 ?a "ext_example True"] by (auto simp: is_active_at_def)
  then show "day_index (ext_example True) ?a 275 = Inr (Some 3)" by simp
next
  let ?b = "\<lparr>start_time = - (2 ^ 63), end_time = 1000, seconds_in_a_day = 86400, gva_mint = Pubkey [],
    total_token_supply = [], sol_volumes = []\<rparr> :: GlobalVolumeAccumulator"
  have "x_overflow_checks (ext_example True)" by (simp add: ext_example_def)
  then show "day_index (ext_example True) ?b 0 = Inl (Panic ''attempt to subtract with overflow'')"
    using day_index_exact [of 0 ?b "ext_example True"] by (simp add: is_active_at_def)
qed

section \<open>SharingConfig\<close>

datatype ConfigStatus = Paused | Active

definition config_status_read :: "reader \<Rightarrow> (ConfigStatus \<times> reader) res" where
  "config_status_read r = bindE (rd_u8 r) (\<lambda>(b, r).
     if b = 0 then Inr (Paused, r) else if b = 1 then Inr (Active, r)
     else Inl (InvalidConfigStatus b))"

record Shareholder =
  sh_address :: pubkey
  share_bps :: u16

definition shareholder_read :: "reader \<Rightarrow> (Shareholder \<times> reader) res" where
  "shareholder_read r =
     bindE (rd_pubkey r) (\<lambda>(address, r).
     bindE (rd_u16 r) (\<lambda>(bps, r).
     Inr (\<lparr>sh_address = address, share_bps = bps\<rparr>, r)))"

definition Shareholder_ENCODED_LEN :: nat where
  "Shareholder_ENCODED_LEN = 32 + 2"

record SharingConfig =
  sc_bump :: u8
  sc_version :: u8
  sc_status :: ConfigStatus
  sc_mint :: pubkey
  sc_admin :: pubkey
  admin_revoked :: bool
  shareholders :: "Shareholder list"

definition SHARING_CONFIG_DISCRIMINATOR :: bytes where
  "SHARING_CONFIG_DISCRIMINATOR = [0xd8, 0x4a, 0x09, 0x00, 0x38, 0x8c, 0x5d, 0x4b]"

definition sharing_config_from_account_data :: "bytes \<Rightarrow> SharingConfig res" where
  "sharing_config_from_account_data data =
     bindE (rd_after_discriminator data SHARING_CONFIG_DISCRIMINATOR ''SharingConfig'') (\<lambda>r.
     bindE (rd_u8 r) (\<lambda>(bump, r).
     bindE (rd_u8 r) (\<lambda>(version, r).
     bindE (config_status_read r) (\<lambda>(status, r).
     bindE (rd_pubkey r) (\<lambda>(mint, r).
     bindE (rd_pubkey r) (\<lambda>(admin, r).
     bindE (rd_bool r) (\<lambda>(revoked, r).
     bindE (rd_vec Shareholder_ENCODED_LEN shareholder_read r) (\<lambda>(holders, r).
     Inr \<lparr>sc_bump = bump, sc_version = version, sc_status = status, sc_mint = mint,
       sc_admin = admin, admin_revoked = revoked, shareholders = holders\<rparr>))))))))"

definition sharing_config_is_active :: "SharingConfig \<Rightarrow> bool" where
  "sharing_config_is_active c \<longleftrightarrow> sc_status c = Active"

text \<open>\<open>Iterator::sum\<close> on \<open>u32\<close>: each addition panics on overflow or wraps, by the build profile.\<close>

fun sum_u32 :: "ext \<Rightarrow> u32 \<Rightarrow> u32 list \<Rightarrow> u32 res" where
  "sum_u32 e acc [] = Inr acc"
| "sum_u32 e acc (x # xs) =
     (if x_overflow_checks e \<and> 2 ^ 32 \<le> unat acc + unat x
      then Inl (Panic ''attempt to add with overflow'') else sum_u32 e (acc + x) xs)"

definition total_share_bps :: "ext \<Rightarrow> SharingConfig \<Rightarrow> u32 res" where
  "total_share_bps e c = sum_u32 e 0 (map (\<lambda>s. ucast (share_bps s)) (shareholders c))"

lemma sum_u32_exact:
  "unat acc + sum_list (map unat xs) < 2 ^ 32 \<Longrightarrow>
    \<exists>t. sum_u32 e acc xs = Inr t \<and> unat t = unat acc + sum_list (map unat xs)"
proof (induction xs arbitrary: acc)
  case (Cons x xs)
  have lt: "unat acc + unat x < 2 ^ 32" using Cons.prems by simp
  then have eq: "unat (acc + x) = unat acc + unat x" by (simp add: unat_word_ariths)
  from Cons.IH [of "acc + x"] Cons.prems lt eq show ?case by (simp add: add.assoc)
qed simp

lemma unat_u32_of_u16 [simp]: "unat (ucast (x :: u16) :: u32) = unat x"
proof -
  have "unat x < 65536" using unsigned_less [of x, where 'a = nat] by simp
  then show ?thesis by (simp add: unsigned_ucast_eq take_bit_nat_eq_self)
qed

lemma share_sum_bound: "sum_list (map (\<lambda>s. unat (share_bps s)) hs) \<le> length hs * 65535"
proof (induction hs)
  case (Cons h hs)
  have "unat (share_bps h) < 65536" using unsigned_less [of "share_bps h", where 'a = nat] by simp
  with Cons.IH show ?case by simp
qed simp

definition enc_config_status :: "ConfigStatus \<Rightarrow> bytes" where
  "enc_config_status s = [case s of Paused \<Rightarrow> 0 | Active \<Rightarrow> 1]"

definition enc_shareholder :: "Shareholder \<Rightarrow> bytes" where
  "enc_shareholder s = pk_bytes (sh_address s) @ to_le_bytes (share_bps s)"

definition enc_sharing_config :: "SharingConfig \<Rightarrow> bytes" where
  "enc_sharing_config c = sc_bump c # sc_version c # enc_config_status (sc_status c)
     @ pk_bytes (sc_mint c) @ pk_bytes (sc_admin c) @ enc_bool (admin_revoked c)
     @ enc_vec enc_shareholder (shareholders c)"

definition sharing_config_ok :: "SharingConfig \<Rightarrow> bool" where
  "sharing_config_ok c \<longleftrightarrow> pk_ok (sc_mint c) \<and> pk_ok (sc_admin c)
     \<and> vec_ok (\<lambda>s. pk_ok (sh_address s)) (shareholders c)"

interpretation config_status_codec: borsh_fixed config_status_read enc_config_status "\<lambda>_. True" 1
proof
  fix r r' and x :: ConfigStatus
  assume wf: "rd_wf r"
  show "config_status_read r = Inr (x, r') \<longleftrightarrow> True \<and> prefix (enc_config_status x) (rd_rest r) \<and>
      r' = rd_adv r (length (enc_config_status x))"
    by (cases x) (auto simp: config_status_read_def bindE_eq_Inr_iff u8_codec.rd_iff [OF wf]
        enc_config_status_def split: if_splits intro: exI [of _ 0] exI [of _ 1])
qed (simp add: enc_config_status_def)

lemma shareholder_codec:
  "borsh_fixed shareholder_read enc_shareholder (\<lambda>s. pk_ok (sh_address s)) Shareholder_ENCODED_LEN"
proof (intro borsh_fixed.intro borsh_fixed_axioms.intro)
  show "borsh_codec shareholder_read enc_shareholder (\<lambda>s. pk_ok (sh_address s))"
    unfolding shareholder_read_def [abs_def]
    by (rule parses_codec, (rule reader_intros)+)
      (auto simp: enc_shareholder_def, (rule exI conjI refl | assumption)+, simp)
qed (simp add: enc_shareholder_def Shareholder_ENCODED_LEN_def)

interpretation shareholder_codec: borsh_fixed shareholder_read enc_shareholder
    "\<lambda>s. pk_ok (sh_address s)" Shareholder_ENCODED_LEN
  by (rule shareholder_codec)

interpretation shareholders_codec: borsh_codec "rd_vec Shareholder_ENCODED_LEN shareholder_read"
    "enc_vec enc_shareholder" "vec_ok (\<lambda>s. pk_ok (sh_address s))"
  by (rule shareholder_codec.vec_codec)

lemma sharing_config_decode_iff:
  assumes "length data < 2 ^ 64"
  shows "sharing_config_from_account_data data = Inr c \<longleftrightarrow>
    sharing_config_ok c \<and> prefix (SHARING_CONFIG_DISCRIMINATOR @ enc_sharing_config c) data"
  unfolding sharing_config_from_account_data_def
  by (rule account_iff [OF _ assms], simp add: SHARING_CONFIG_DISCRIMINATOR_def, (rule reader_intros)+)
    (auto simp: sharing_config_ok_def enc_sharing_config_def,
      (rule exI conjI refl | assumption)+, simp)

section \<open>The creator fee of a bonding curve\<close>

definition BONDING_CURVE_DISCRIMINATOR :: bytes where
  "BONDING_CURVE_DISCRIMINATOR = [23, 183, 248, 55, 96, 216, 172, 96]"

definition BONDING_CURVE_CREATOR_FEE_OFFSET :: nat where
  "BONDING_CURVE_CREATOR_FEE_OFFSET = 125"

definition bonding_curve_creator_fee :: "bytes \<Rightarrow> u64 res" where
  "bonding_curve_creator_fee data =
     (if slice_get data 0 8 \<noteq> Some BONDING_CURVE_DISCRIMINATOR then Inl NotBondingCurve
      else Inr (unwrap_or (map_option from_le_bytes
        (slice_get data BONDING_CURVE_CREATOR_FEE_OFFSET (BONDING_CURVE_CREATOR_FEE_OFFSET + 8))) 0))"

end
