(* ===== verification/Pool_State.thy ===== *)
theory Pool_State
  imports Addresses Config_Accounts
begin

text \<open>
  The pool account of \<open>state.rs\<close>: the packed \<open>Pool\<close> struct, \<open>PoolInfo\<close> with its orientation
  helpers, the fixed-offset decoder \<open>from_account_data\<close> with its optional trailing fields, and
  the effective reserves. The lemmas show that the struct view and its encoding are inverse,
  that the decoder recovers every field of a current account and defaults the fields a short
  account lacks, and that the effective quote reserve is the clamped signed sum.
\<close>

section \<open>The packed struct\<close>

record Pool =
  pool_bump :: u8
  pool_index :: u16
  pool_creator :: pubkey
  pool_base_mint :: pubkey
  pool_quote_mint :: pubkey
  pool_lp_mint :: pubkey
  pool_base_ta :: pubkey
  pool_quote_ta :: pubkey
  pool_lp_supply :: u64
  pool_coin_creator :: pubkey
  pool_is_mayhem_mode :: u8
  pool_is_cashback_coin :: u8

text \<open>\<open>size_of::<Pool>()\<close> of the \<open>repr(C, packed)\<close> struct: the sum of its field sizes.\<close>

definition POOL_SIZE :: nat where
  "POOL_SIZE = 1 + 2 + 32 * 6 + 8 + 32 + 1 + 1"

definition field :: "bytes \<Rightarrow> nat \<Rightarrow> nat \<Rightarrow> bytes" where
  "field bs off len = take len (drop off bs)"

text \<open>
  \<open>*bytemuck::from_bytes::<Pool>(..)\<close>: the fields in declaration order without padding,
  integers in the little-endian order of the supported targets.
\<close>

definition pool_from_bytes :: "bytes \<Rightarrow> Pool" where
  "pool_from_bytes bs = \<lparr>
     pool_bump = bs ! 0,
     pool_index = from_le_bytes (field bs 1 2),
     pool_creator = Pubkey (field bs 3 32),
     pool_base_mint = Pubkey (field bs 35 32),
     pool_quote_mint = Pubkey (field bs 67 32),
     pool_lp_mint = Pubkey (field bs 99 32),
     pool_base_ta = Pubkey (field bs 131 32),
     pool_quote_ta = Pubkey (field bs 163 32),
     pool_lp_supply = from_le_bytes (field bs 195 8),
     pool_coin_creator = Pubkey (field bs 203 32),
     pool_is_mayhem_mode = bs ! 235,
     pool_is_cashback_coin = bs ! 236\<rparr>"

definition enc_pool :: "Pool \<Rightarrow> bytes" where
  "enc_pool p = [pool_bump p] @ to_le_bytes (pool_index p) @ pk_bytes (pool_creator p)
     @ pk_bytes (pool_base_mint p) @ pk_bytes (pool_quote_mint p) @ pk_bytes (pool_lp_mint p)
     @ pk_bytes (pool_base_ta p) @ pk_bytes (pool_quote_ta p) @ to_le_bytes (pool_lp_supply p)
     @ pk_bytes (pool_coin_creator p) @ [pool_is_mayhem_mode p] @ [pool_is_cashback_coin p]"

definition pool_ok :: "Pool \<Rightarrow> bool" where
  "pool_ok p \<longleftrightarrow> pk_ok (pool_creator p) \<and> pk_ok (pool_base_mint p) \<and> pk_ok (pool_quote_mint p)
     \<and> pk_ok (pool_lp_mint p) \<and> pk_ok (pool_base_ta p) \<and> pk_ok (pool_quote_ta p)
     \<and> pk_ok (pool_coin_creator p)"

lemma length_enc_pool: "pool_ok p \<Longrightarrow> length (enc_pool p) = POOL_SIZE"
  by (simp add: pool_ok_def enc_pool_def POOL_SIZE_def)

lemma from_le_to_le_simps [simp]:
  "from_le_bytes (to_le_bytes (a :: u16)) = a"
  "from_le_bytes (to_le_bytes (b :: u64)) = b"
  "from_le_bytes (to_le_bytes (c :: i128)) = c"
  by (rule from_le_to_le [where k = 2] from_le_to_le [where k = 8] from_le_to_le [where k = 16]; simp)+

lemma field_append:
  "length a \<le> off \<Longrightarrow> field (a @ b) off len = field b (off - length a) len"
  "len \<le> length a \<Longrightarrow> field (a @ b) 0 len = take len a"
  by (simp_all add: field_def)

lemma pool_from_bytes_enc: "pool_ok p \<Longrightarrow> pool_from_bytes (enc_pool p) = p"
  by (cases p) (simp add: pool_ok_def pool_from_bytes_def enc_pool_def field_append nth_append
      del: append_Cons append_Nil)

section \<open>PoolInfo\<close>

datatype TokenSide = Base | Quote

record PoolInfo =
  pi_pool :: pubkey
  pool_account_data_len :: nat
  base_mint :: pubkey
  quote_mint :: pubkey
  lp_mint :: pubkey
  pool_base_token_account :: pubkey
  pool_quote_token_account :: pubkey
  pi_creator :: pubkey
  coin_creator :: pubkey
  is_mayhem_mode :: bool
  is_cashback_coin :: bool
  virtual_quote_reserves :: i128
  pi_creator_fee_bps :: u64
  is_holder_reward :: bool
  protocol_fees :: u64
  creator_fees :: u64
  base_token_program :: pubkey
  quote_token_program :: pubkey

definition sol_is_base :: "ext \<Rightarrow> PoolInfo \<Rightarrow> bool" where
  "sol_is_base e p \<longleftrightarrow> base_mint p = WRAPPED_SOL_MINT e"

definition token_side :: "ext \<Rightarrow> PoolInfo \<Rightarrow> TokenSide" where
  "token_side e p = (if sol_is_base e p then Quote else Base)"

definition token_mint :: "ext \<Rightarrow> PoolInfo \<Rightarrow> pubkey" where
  "token_mint e p = (case token_side e p of Base \<Rightarrow> base_mint p | Quote \<Rightarrow> quote_mint p)"

definition token_program :: "ext \<Rightarrow> PoolInfo \<Rightarrow> pubkey" where
  "token_program e p =
     (case token_side e p of Base \<Rightarrow> base_token_program p | Quote \<Rightarrow> quote_token_program p)"

definition orient_reserves :: "ext \<Rightarrow> PoolInfo \<Rightarrow> u64 \<Rightarrow> u64 \<Rightarrow> u64 \<times> u64" where
  "orient_reserves e p base_reserve quote_reserve =
     (case token_side e p of
        Base \<Rightarrow> (quote_reserve, base_reserve)
      | Quote \<Rightarrow> (base_reserve, quote_reserve))"

definition fee_sharing_config :: "ext \<Rightarrow> PoolInfo \<Rightarrow> pubkey option" where
  "fee_sharing_config e p =
     (let derived = sharing_config_pda e (base_mint p)
      in if coin_creator p = derived then Some derived else None)"

text \<open>The closure \<open>trailing_u64\<close> of the decoder.\<close>

definition trailing_u64 :: "bytes \<Rightarrow> nat \<Rightarrow> u64" where
  "trailing_u64 data off = unwrap_or (map_option from_le_bytes (slice_get data off (off + 8))) 0"

definition pool_info_from_account_data :: "pubkey \<Rightarrow> bytes \<Rightarrow> pubkey \<Rightarrow> pubkey \<Rightarrow> PoolInfo res" where
  "pool_info_from_account_data pool data base_tp quote_tp =
     (if length data < POOL_SIZE + 8 then Inl (PoolTooShort (POOL_SIZE + 8) (length data))
      else let pool_data = pool_from_bytes (field data 8 POOL_SIZE);
        vqr = unwrap_or (map_option from_le_bytes (slice_get data (POOL_SIZE + 8) (POOL_SIZE + 24))) 0;
        reserves_end = POOL_SIZE + 24
      in Inr \<lparr>
        pi_pool = pool,
        pool_account_data_len = length data,
        base_mint = pool_base_mint pool_data,
        quote_mint = pool_quote_mint pool_data,
        lp_mint = pool_lp_mint pool_data,
        pool_base_token_account = pool_base_ta pool_data,
        pool_quote_token_account = pool_quote_ta pool_data,
        pi_creator = pool_creator pool_data,
        coin_creator = pool_coin_creator pool_data,
        is_mayhem_mode = (pool_is_mayhem_mode pool_data \<noteq> 0),
        is_cashback_coin = (pool_is_cashback_coin pool_data \<noteq> 0),
        virtual_quote_reserves = vqr,
        pi_creator_fee_bps = trailing_u64 data reserves_end,
        is_holder_reward =
          (case byte_get data (reserves_end + 9) of None \<Rightarrow> False | Some byte \<Rightarrow> byte \<noteq> 0),
        protocol_fees = trailing_u64 data (reserves_end + 10),
        creator_fees = trailing_u64 data (reserves_end + 18),
        base_token_program = base_tp,
        quote_token_program = quote_tp\<rparr>)"

subsection \<open>Decoding\<close>

text \<open>
  The bytes of a pool account in the current layout: discriminator, struct, virtual quote
  reserves, creator fee, one byte the decoder skips, the holder-reward flag, the two stored
  fee balances, and whatever follows.
\<close>

definition enc_pool_account ::
  "bytes \<Rightarrow> Pool \<Rightarrow> i128 \<Rightarrow> u64 \<Rightarrow> u8 \<Rightarrow> bool \<Rightarrow> u64 \<Rightarrow> u64 \<Rightarrow> bytes \<Rightarrow> bytes" where
  "enc_pool_account disc p vqr fee skipped holder protocol creator rest =
     disc @ enc_pool p @ to_le_bytes vqr @ to_le_bytes fee @ [skipped] @ enc_bool holder
       @ to_le_bytes protocol @ to_le_bytes creator @ rest"

text \<open>What the struct part contributes to the decoded pool.\<close>

definition pool_info_of ::
  "pubkey \<Rightarrow> Pool \<Rightarrow> nat \<Rightarrow> i128 \<Rightarrow> u64 \<Rightarrow> bool \<Rightarrow> u64 \<Rightarrow> u64 \<Rightarrow> pubkey \<Rightarrow> pubkey \<Rightarrow> PoolInfo" where
  "pool_info_of pool p len vqr fee holder protocol creator btp qtp = \<lparr>
     pi_pool = pool, pool_account_data_len = len,
     base_mint = pool_base_mint p, quote_mint = pool_quote_mint p, lp_mint = pool_lp_mint p,
     pool_base_token_account = pool_base_ta p, pool_quote_token_account = pool_quote_ta p,
     pi_creator = pool_creator p, coin_creator = pool_coin_creator p,
     is_mayhem_mode = (pool_is_mayhem_mode p \<noteq> 0), is_cashback_coin = (pool_is_cashback_coin p \<noteq> 0),
     virtual_quote_reserves = vqr, pi_creator_fee_bps = fee, is_holder_reward = holder,
     protocol_fees = protocol, creator_fees = creator,
     base_token_program = btp, quote_token_program = qtp\<rparr>"

lemma slice_get_skip:
  "length a \<le> i \<Longrightarrow> i \<le> j \<Longrightarrow> slice_get (a @ b) i j = slice_get b (i - length a) (j - length a)"
  by (auto simp: slice_get_def)

lemma byte_get_skip: "length a \<le> i \<Longrightarrow> byte_get (a @ b) i = byte_get b (i - length a)"
  by (auto simp: byte_get_def nth_append)

lemma byte_get_head: "byte_get ([x] @ b) 0 = Some x"
  by (simp add: byte_get_def)

lemma slice_get_take: "length a = j \<Longrightarrow> slice_get (a @ b) 0 j = Some a"
  by (simp add: slice_get_def)

lemma field_account:
  "length disc = 8 \<Longrightarrow> pool_ok p \<Longrightarrow> field (disc @ enc_pool p @ rest) 8 237 = enc_pool p"
  by (simp add: field_def length_enc_pool POOL_SIZE_def)

lemma pool_info_current:
  assumes "length disc = 8" and "pool_ok p"
  shows "pool_info_from_account_data pool
      (enc_pool_account disc p vqr fee skipped holder protocol creator rest) btp qtp =
    Inr (pool_info_of pool p (287 + length rest) vqr fee holder protocol creator btp qtp)"
  unfolding pool_info_from_account_data_def enc_pool_account_def Let_def
  using assms
  by (simp add: field_account pool_from_bytes_enc trailing_u64_def slice_get_skip byte_get_skip byte_get_head
      slice_get_take length_enc_pool POOL_SIZE_def pool_info_of_def enc_bool_def
      del: append_Cons append_Nil)

lemma pool_info_legacy:
  assumes "length disc = 8" and "pool_ok p"
  shows "pool_info_from_account_data pool (disc @ enc_pool p) btp qtp =
    Inr (pool_info_of pool p 245 0 0 False 0 0 btp qtp)"
  unfolding pool_info_from_account_data_def Let_def
  using assms field_account [of disc p "[]"]
  by (simp add: pool_from_bytes_enc trailing_u64_def slice_get_def byte_get_def length_enc_pool
      POOL_SIZE_def pool_info_of_def)

lemma pool_info_short_iff:
  "(\<exists>err. pool_info_from_account_data pool data btp qtp = Inl err) \<longleftrightarrow> length data < 245"
  by (simp add: pool_info_from_account_data_def POOL_SIZE_def Let_def)

lemma pool_info_eq:
  "245 \<le> length data \<Longrightarrow> pool_info_from_account_data pool data btp qtp =
    Inr (pool_info_of pool (pool_from_bytes (field data 8 237)) (length data)
      (unwrap_or (map_option from_le_bytes (slice_get data 245 261)) 0) (trailing_u64 data 261)
      (case byte_get data 270 of None \<Rightarrow> False | Some byte \<Rightarrow> byte \<noteq> 0)
      (trailing_u64 data 271) (trailing_u64 data 279) btp qtp)"
  by (simp add: pool_info_from_account_data_def POOL_SIZE_def Let_def pool_info_of_def)

text \<open>Each trailing field is zero unless the account holds all of its bytes.\<close>

lemma trailing_u64_short: "length data < off + 8 \<Longrightarrow> trailing_u64 data off = 0"
  by (simp add: trailing_u64_def slice_get_def)

subsection \<open>Effective reserves\<close>

text \<open>\<open>Ord::clamp\<close> on \<open>i128\<close>.\<close>

definition clamp_i128 :: "i128 \<Rightarrow> i128 \<Rightarrow> i128 \<Rightarrow> i128" where
  "clamp_i128 x lo hi = (if sint x < sint lo then lo else if sint hi < sint x then hi else x)"

definition effective_reserves :: "PoolInfo \<Rightarrow> u64 \<Rightarrow> u64 \<Rightarrow> u64 \<times> u64" where
  "effective_reserves p base_reserve quote_reserve =
     (base_reserve,
      ucast (clamp_i128 (saturating_add_i128 (ucast quote_reserve) (virtual_quote_reserves p))
        0 (ucast u64_MAX)))"

lemma sint_i128_of_u64 [simp]: "sint (ucast (x :: u64) :: i128) = int (unat x)"
proof -
  have "uint (ucast x :: i128) = int (unat x)"
    by (metis unat_u128_of_u64 of_nat_unat)
  then have "sint (ucast x :: i128) = signed_take_bit 127 (int (unat x))"
    by (simp add: sint_uint)
  also have "\<dots> = int (unat x)"
  proof (rule signed_take_bit_int_eq_self)
    show "- (2 ^ 127) \<le> int (unat x)" by (simp add: order_trans [of _ 0])
    have "int (unat x) < 2 ^ 64" by simp
    also have "(2 :: int) ^ 64 < 2 ^ 127" by simp
    finally show "int (unat x) < 2 ^ 127" .
  qed
  finally show ?thesis .
qed

lemma clamp_u64:
  "int (unat (ucast (clamp_i128 s 0 (ucast u64_MAX)) :: u64)) = max 0 (min (2 ^ 64 - 1) (sint s))"
proof -
  define c where "c = clamp_i128 s 0 (ucast u64_MAX)"
  have "sint c = max 0 (min (2 ^ 64 - 1) (sint s))"
    by (auto simp: c_def clamp_i128_def unat_u64_MAX)
  moreover have "unat (ucast c :: u64) = nat (sint c)" if "0 \<le> sint c" "sint c < 2 ^ 64"
  proof -
    have "uint c = sint c"
      using that by (simp add: uint_sint take_bit_int_eq_self)
    then show ?thesis using that
      by (simp add: unsigned_ucast_eq take_bit_nat_eq_self unat_eq_nat_uint nat_less_iff
          take_bit_int_eq_self)
  qed
  ultimately show ?thesis unfolding c_def by simp
qed

lemma effective_quote_reserve:
  "int (unat (snd (effective_reserves p b q))) =
    max 0 (min (2 ^ 64 - 1) (int (unat q) + sint (virtual_quote_reserves p)))"
  by (simp add: effective_reserves_def clamp_u64 sint_saturating_add_i128)

lemma effective_base_reserve [simp]: "fst (effective_reserves p b q) = b"
  by (simp add: effective_reserves_def)

section \<open>A concrete pool\<close>

text \<open>For the instances that show the hypotheses of later theorems can hold.\<close>

definition pool_struct_example :: Pool where
  "pool_struct_example = \<lparr>pool_bump = 254, pool_index = 1, pool_creator = key 3, pool_base_mint = key 4,
     pool_quote_mint = key 5, pool_lp_mint = key 6, pool_base_ta = key 7, pool_quote_ta = key 8,
     pool_lp_supply = 4193388305377, pool_coin_creator = key 9, pool_is_mayhem_mode = 1,
     pool_is_cashback_coin = 1\<rparr>"

definition pool_example :: PoolInfo where
  "pool_example = pool_info_of (key 1) pool_struct_example 301 17000000000 100 False 0 0 (key 10) (key 11)"

lemma pool_ok_example: "pool_ok pool_struct_example"
  by (simp add: pool_ok_def pool_struct_example_def)

section \<open>Properties of the pool\<close>

text \<open>
  C12: the fixed-offset decoder recovers every field of a pool account in the current layout,
  whatever bytes follow; a legacy account that ends after the struct decodes with every later
  field zero; and the only accounts it rejects are those shorter than discriminator and struct.
\<close>

theorem pool_account_decodes:
  assumes "length disc = 8" and "pool_ok p"
  shows "pool_info_from_account_data pool
      (enc_pool_account disc p vqr fee skipped holder protocol creator rest) btp qtp =
      Inr (pool_info_of pool p (287 + length rest) vqr fee holder protocol creator btp qtp) \<and>
    pool_info_from_account_data pool (disc @ enc_pool p) btp qtp =
      Inr (pool_info_of pool p 245 0 0 False 0 0 btp qtp) \<and>
    (pool_info_from_account_data pool data btp qtp = Inl (PoolTooShort 245 (length data)) \<longleftrightarrow> length data < 245) \<and>
    ((\<exists>err. pool_info_from_account_data pool data btp qtp = Inl err) \<longleftrightarrow> length data < 245)"
  using pool_info_current [OF assms] pool_info_legacy [OF assms] pool_info_short_iff [of pool data btp qtp]
  by (auto simp: pool_info_from_account_data_def POOL_SIZE_def Let_def)

theorem pool_account_decodes_witness:
  "pool_info_from_account_data (key 1)
      (enc_pool_account (replicate 8 1) pool_struct_example 17000000000 100 7 False 0 0 (replicate 14 0)) (key 10) (key 11) =
    Inr pool_example"
  using pool_account_decodes [of "replicate 8 1" pool_struct_example "key 1" 17000000000 100 7 False 0 0
      "replicate 14 0" "key 10" "key 11"] pool_ok_example
  by (simp add: pool_example_def)

text \<open>
  C20: the effective quote reserve is the signed sum of the vault balance and the virtual
  reserves, clamped to the range of a \<open>u64\<close>: no wrap-around in either direction, whatever the
  two values are. The base reserve is the vault balance.
\<close>

theorem effective_reserves_clamped:
  "fst (effective_reserves p b q) = b \<and>
    int (unat (snd (effective_reserves p b q))) =
      max 0 (min (2 ^ 64 - 1) (int (unat q) + sint (virtual_quote_reserves p)))"
  using effective_quote_reserve effective_base_reserve by blast

end
