(* ===== verification/Instructions.thy ===== *)
theory Instructions
  imports Instruction_Args Pool_State
begin

text \<open>
  The instruction builders of \<open>instruction.rs\<close>. Each returns, as the source does, a result that
  holds the program, the account list in the order of the source and the serialised data. The
  swap builders consume randomness twice, for the protocol-fee and the buyback recipient; the
  two draws are their first arguments, and a draw from an empty table is the source's panic.
  The lemmas give the account counts, the signers, the fixed part of the swap list and the
  round trip of the data.
\<close>

section \<open>Swaps\<close>

datatype SwapKind = Buy | Sell

definition append_swap_remaining_accounts ::
  "ext \<Rightarrow> nat \<Rightarrow> account_meta list \<Rightarrow> PoolInfo \<Rightarrow> pubkey \<Rightarrow> bool \<Rightarrow> account_meta list res" where
  "append_swap_remaining_accounts e draw accounts pool_info user is_sell =
     (let accounts =
            (if is_cashback_coin pool_info
             then accounts @
               [meta_new (user_volume_accumulator_quote_ata e user (quote_mint pool_info)
                  (quote_token_program pool_info)) False] @
               (if is_sell then [meta_new (find_user_vol_accumulator e user) False] else [])
             else accounts);
          accounts =
            (if coin_creator pool_info \<noteq> pubkey_default
             then accounts @ [meta_readonly (pool_v2_pda e (base_mint pool_info)) False]
             else accounts)
      in bindE (pick_buyback_fee_recipient e draw) (\<lambda>buyback_recipient.
         let buyback_recipient_ta =
               x_get_ata e buyback_recipient (quote_mint pool_info) (quote_token_program pool_info)
         in Inr (accounts @ [meta_readonly buyback_recipient False,
                             meta_new buyback_recipient_ta False])))"

definition swap_accounts ::
  "ext \<Rightarrow> nat \<Rightarrow> nat \<Rightarrow> PoolInfo \<Rightarrow> pubkey \<Rightarrow> pubkey \<Rightarrow> pubkey \<Rightarrow> SwapKind \<Rightarrow> account_meta list res" where
  "swap_accounts e draw1 draw2 pool_info user user_base_token_account user_quote_token_account kind =
     bindE (pick_protocol_fee_recipient_for_pool e draw1 (is_mayhem_mode pool_info))
       (\<lambda>protocol_fee_recipient.
     let protocol_fee_recipient_ta =
           x_get_ata e protocol_fee_recipient (quote_mint pool_info) (quote_token_program pool_info);
         creator_vault_authority = find_coin_creator_vault_authority e (coin_creator pool_info);
         creator_vault_ata = find_coin_creator_vault_ata e creator_vault_authority
           (quote_token_program pool_info) (quote_mint pool_info);
         fee_config = fee_config_pda e;
         accounts =
      [meta_new (pi_pool pool_info) False,
       meta_new user True,
       meta_readonly (GLOBAL_CONFIG e) False,
       meta_readonly (base_mint pool_info) False,
       meta_readonly (quote_mint pool_info) False,
       meta_new user_base_token_account False,
       meta_new user_quote_token_account False,
       meta_new (pool_base_token_account pool_info) False,
       meta_new (pool_quote_token_account pool_info) False,
       meta_readonly protocol_fee_recipient False,
       meta_new protocol_fee_recipient_ta False,
       meta_readonly (base_token_program pool_info) False,
       meta_readonly (quote_token_program pool_info) False,
       meta_readonly (x_system_program_ID e) False,
       meta_readonly (x_ata_program_ID e) False,
       meta_readonly (EVENT_AUTHORITY e) False,
       meta_readonly (PUMP_SWAP_PROGRAM_ID e) False,
       meta_new creator_vault_ata False,
       meta_readonly creator_vault_authority False];
         accounts =
           (if kind = Buy
            then accounts @ [meta_readonly (GLOBAL_VOLUME_ACCUMULATOR e) False,
                             meta_new (find_user_vol_accumulator e user) False]
            else accounts);
         accounts = accounts @ [meta_readonly fee_config False, meta_readonly (FEE_PROGRAM e) False];
         is_sell = (kind = Sell)
     in append_swap_remaining_accounts e draw2 accounts pool_info user is_sell)"

definition make_buy_instruction ::
  "ext \<Rightarrow> nat \<Rightarrow> nat \<Rightarrow> u64 \<Rightarrow> u64 \<Rightarrow> bool \<Rightarrow> PoolInfo \<Rightarrow> pubkey \<Rightarrow> pubkey \<Rightarrow> pubkey \<Rightarrow> instruction res" where
  "make_buy_instruction e draw1 draw2 base_amount_out max_quote_amount_in track_volume pool_info user
       user_base_token_account user_quote_token_account =
     (let data = BuyInstruction_to_vec (BuyInstruction_new base_amount_out max_quote_amount_in track_volume)
      in bindE (swap_accounts e draw1 draw2 pool_info user user_base_token_account
           user_quote_token_account Buy)
         (\<lambda>accounts. Inr \<lparr>ix_program_id = PUMP_SWAP_PROGRAM_ID e, ix_accounts = accounts, ix_data = data\<rparr>))"

definition make_buy_exact_quote_in_instruction ::
  "ext \<Rightarrow> nat \<Rightarrow> nat \<Rightarrow> u64 \<Rightarrow> u64 \<Rightarrow> bool \<Rightarrow> PoolInfo \<Rightarrow> pubkey \<Rightarrow> pubkey \<Rightarrow> pubkey \<Rightarrow> instruction res" where
  "make_buy_exact_quote_in_instruction e draw1 draw2 spendable_quote_in min_base_amount_out track_volume
       pool_info user user_base_token_account user_quote_token_account =
     (let data = BuyExactQuoteInInstruction_to_vec
            (BuyExactQuoteInInstruction_new spendable_quote_in min_base_amount_out track_volume)
      in bindE (swap_accounts e draw1 draw2 pool_info user user_base_token_account
           user_quote_token_account Buy)
         (\<lambda>accounts. Inr \<lparr>ix_program_id = PUMP_SWAP_PROGRAM_ID e, ix_accounts = accounts, ix_data = data\<rparr>))"

definition make_sell_instruction ::
  "ext \<Rightarrow> nat \<Rightarrow> nat \<Rightarrow> u64 \<Rightarrow> u64 \<Rightarrow> PoolInfo \<Rightarrow> pubkey \<Rightarrow> pubkey \<Rightarrow> pubkey \<Rightarrow> instruction res" where
  "make_sell_instruction e draw1 draw2 base_amount_in min_quote_amount_out pool_info user
       user_base_token_account user_quote_token_account =
     (let data = SellInstruction_to_vec (SellInstruction_new base_amount_in min_quote_amount_out)
      in bindE (swap_accounts e draw1 draw2 pool_info user user_base_token_account
           user_quote_token_account Sell)
         (\<lambda>accounts. Inr \<lparr>ix_program_id = PUMP_SWAP_PROGRAM_ID e, ix_accounts = accounts, ix_data = data\<rparr>))"

section \<open>Liquidity, accounts and creator fees\<close>

definition make_deposit_instruction ::
  "ext \<Rightarrow> u64 \<Rightarrow> u64 \<Rightarrow> u64 \<Rightarrow> PoolInfo
       \<Rightarrow> pubkey \<Rightarrow> pubkey \<Rightarrow> pubkey \<Rightarrow> pubkey
       \<Rightarrow> instruction res" where
  "make_deposit_instruction e lp_token_amount_out max_base_amount_in max_quote_amount_in
       pool_info user user_base_token_account user_quote_token_account user_pool_token_account =
     Inr \<lparr>ix_program_id = PUMP_SWAP_PROGRAM_ID e,
       ix_accounts =
       [meta_new (pi_pool pool_info) False,
        meta_readonly (GLOBAL_CONFIG e) False,
        meta_readonly user True,
        meta_readonly (base_mint pool_info) False,
        meta_readonly (quote_mint pool_info) False,
        meta_new (lp_mint pool_info) False,
        meta_new user_base_token_account False,
        meta_new user_quote_token_account False,
        meta_new user_pool_token_account False,
        meta_new (pool_base_token_account pool_info) False,
        meta_new (pool_quote_token_account pool_info) False,
        meta_readonly (x_spl_token_ID e) False,
        meta_readonly (x_spl_token_2022_ID e) False,
        meta_readonly (EVENT_AUTHORITY e) False,
        meta_readonly (PUMP_SWAP_PROGRAM_ID e) False],
       ix_data = DepositInstruction_to_vec (DepositInstruction_new lp_token_amount_out max_base_amount_in max_quote_amount_in)\<rparr>"

definition make_claim_cashback_instruction ::
  "ext \<Rightarrow> pubkey \<Rightarrow> pubkey \<Rightarrow> pubkey \<Rightarrow> instruction
       res" where
  "make_claim_cashback_instruction e user quote_mint' quote_token_program' =
     (let user_volume_accumulator = find_user_vol_accumulator e user;
         user_volume_accumulator_quote_ta = x_get_ata e user_volume_accumulator quote_mint' quote_token_program';
         user_quote_ta = x_get_ata e user quote_mint' quote_token_program'
      in Inr \<lparr>ix_program_id = PUMP_SWAP_PROGRAM_ID e,
       ix_accounts =
       [meta_new user False,
        meta_new user_volume_accumulator False,
        meta_readonly quote_mint' False,
        meta_readonly quote_token_program' False,
        meta_new user_volume_accumulator_quote_ta False,
        meta_new user_quote_ta False,
        meta_readonly (x_system_program_ID e) False,
        meta_readonly (EVENT_AUTHORITY e) False,
        meta_readonly (PUMP_SWAP_PROGRAM_ID e) False],
       ix_data = ClaimCashbackInstruction_to_vec\<rparr>)"

definition make_extend_account_instruction ::
  "ext \<Rightarrow> pubkey \<Rightarrow> pubkey \<Rightarrow> instruction res" where
  "make_extend_account_instruction e account user =
     Inr \<lparr>ix_program_id = PUMP_SWAP_PROGRAM_ID e,
       ix_accounts =
       [meta_new account False,
        meta_readonly user True,
        meta_readonly (x_system_program_ID e) False,
        meta_readonly (EVENT_AUTHORITY e) False,
        meta_readonly (PUMP_SWAP_PROGRAM_ID e) False],
       ix_data = [234, 102, 194, 203, 150, 72, 62, 229]\<rparr>"

definition make_init_user_volume_accumulator_instruction ::
  "ext \<Rightarrow> pubkey \<Rightarrow> pubkey \<Rightarrow> instruction res" where
  "make_init_user_volume_accumulator_instruction e payer user =
     Inr \<lparr>ix_program_id = PUMP_SWAP_PROGRAM_ID e,
       ix_accounts =
       [meta_new payer True,
        meta_readonly user False,
        meta_new (find_user_vol_accumulator e user) False,
        meta_readonly (x_system_program_ID e) False,
        meta_readonly (EVENT_AUTHORITY e) False,
        meta_readonly (PUMP_SWAP_PROGRAM_ID e) False],
       ix_data = [94, 6, 202, 115, 255, 96, 232, 183]\<rparr>"

definition make_sync_user_volume_accumulator_instruction ::
  "ext \<Rightarrow> pubkey \<Rightarrow> instruction res" where
  "make_sync_user_volume_accumulator_instruction e user =
     Inr \<lparr>ix_program_id = PUMP_SWAP_PROGRAM_ID e,
       ix_accounts =
       [meta_readonly user False,
        meta_readonly (GLOBAL_VOLUME_ACCUMULATOR e) False,
        meta_new (find_user_vol_accumulator e user) False,
        meta_readonly (EVENT_AUTHORITY e) False,
        meta_readonly (PUMP_SWAP_PROGRAM_ID e) False],
       ix_data = [86, 31, 192, 87, 163, 87, 79, 238]\<rparr>"

definition make_close_user_volume_accumulator_instruction ::
  "ext \<Rightarrow> pubkey \<Rightarrow> instruction res" where
  "make_close_user_volume_accumulator_instruction e user =
     Inr \<lparr>ix_program_id = PUMP_SWAP_PROGRAM_ID e,
       ix_accounts =
       [meta_new user True,
        meta_new (find_user_vol_accumulator e user) False,
        meta_readonly (EVENT_AUTHORITY e) False,
        meta_readonly (PUMP_SWAP_PROGRAM_ID e) False],
       ix_data = [249, 69, 164, 218, 150, 103, 84, 138]\<rparr>"

definition make_claim_token_incentives_instruction ::
  "ext \<Rightarrow> pubkey \<Rightarrow> pubkey \<Rightarrow> pubkey \<Rightarrow> pubkey
       \<Rightarrow> pubkey \<Rightarrow> pubkey \<Rightarrow> instruction res" where
  "make_claim_token_incentives_instruction e user payer mint token_program' user_token_account
       global_incentive_token_account =
     Inr \<lparr>ix_program_id = PUMP_SWAP_PROGRAM_ID e,
       ix_accounts =
       [meta_readonly user False,
        meta_new user_token_account False,
        meta_readonly (GLOBAL_VOLUME_ACCUMULATOR e) False,
        meta_new global_incentive_token_account False,
        meta_new (find_user_vol_accumulator e user) False,
        meta_readonly mint False,
        meta_readonly token_program' False,
        meta_readonly (x_system_program_ID e) False,
        meta_readonly (x_ata_program_ID e) False,
        meta_readonly (EVENT_AUTHORITY e) False,
        meta_readonly (PUMP_SWAP_PROGRAM_ID e) False,
        meta_new payer True],
       ix_data = [16, 4, 71, 28, 204, 1, 40, 27]\<rparr>"

definition make_collect_coin_creator_fee_instruction ::
  "ext \<Rightarrow> pubkey \<Rightarrow> pubkey \<Rightarrow> pubkey \<Rightarrow> pubkey
       \<Rightarrow> instruction res" where
  "make_collect_coin_creator_fee_instruction e coin_creator' quote_mint' quote_token_program'
       coin_creator_token_account =
     (let coin_creator_vault_authority = find_coin_creator_vault_authority e coin_creator';
         coin_creator_vault_ata = find_coin_creator_vault_ata e coin_creator_vault_authority quote_token_program' quote_mint'
      in Inr \<lparr>ix_program_id = PUMP_SWAP_PROGRAM_ID e,
       ix_accounts =
       [meta_readonly quote_mint' False,
        meta_readonly quote_token_program' False,
        meta_readonly coin_creator' False,
        meta_readonly coin_creator_vault_authority False,
        meta_new coin_creator_vault_ata False,
        meta_new coin_creator_token_account False,
        meta_readonly (EVENT_AUTHORITY e) False,
        meta_readonly (PUMP_SWAP_PROGRAM_ID e) False],
       ix_data = [160, 57, 89, 42, 181, 139, 43, 66]\<rparr>)"

definition create_pool_instruction_with_options ::
  "ext \<Rightarrow> u16 \<Rightarrow> u64 \<Rightarrow> u64 \<Rightarrow> bool \<Rightarrow>
       bool \<Rightarrow> pubkey \<Rightarrow> pubkey \<Rightarrow> pubkey \<Rightarrow> pubkey
       \<Rightarrow> pubkey \<Rightarrow> pubkey \<Rightarrow> pubkey \<Rightarrow> pubkey
       \<Rightarrow> pubkey \<Rightarrow> pubkey \<Rightarrow> pubkey \<Rightarrow> instruction res" where
  "create_pool_instruction_with_options e index base_amount_in quote_amount_in mayhem cashback
       pool creator coin_creator' base_mint' quote_mint' user_base_token_account
       user_quote_token_account pool_base_token_account' pool_quote_token_account'
       base_token_program' quote_token_program' =
     (let lp_mint' = fst (calc_lp_mint_pda e pool)
      in Inr \<lparr>ix_program_id = PUMP_SWAP_PROGRAM_ID e,
       ix_accounts =
       [meta_new pool False,
        meta_readonly (GLOBAL_CONFIG e) False,
        meta_new creator True,
        meta_readonly base_mint' False,
        meta_readonly quote_mint' False,
        meta_new lp_mint' False,
        meta_new user_base_token_account False,
        meta_new user_quote_token_account False,
        meta_new (fst (calc_user_pool_token_account e creator lp_mint')) False,
        meta_new pool_base_token_account' False,
        meta_new pool_quote_token_account' False,
        meta_readonly (x_system_program_ID e) False,
        meta_readonly (x_spl_token_2022_ID e) False,
        meta_readonly base_token_program' False,
        meta_readonly quote_token_program' False,
        meta_readonly (x_ata_program_ID e) False,
        meta_readonly (EVENT_AUTHORITY e) False,
        meta_readonly (PUMP_SWAP_PROGRAM_ID e) False],
       ix_data = CreatePoolInstruction_to_vec (CreatePoolInstruction_new_with_options index base_amount_in
         quote_amount_in coin_creator' mayhem cashback)\<rparr>)"

definition create_pool_instruction ::
  "ext \<Rightarrow> u64 \<Rightarrow> u64 \<Rightarrow> pubkey \<Rightarrow> pubkey \<Rightarrow> pubkey \<Rightarrow> pubkey \<Rightarrow> pubkey \<Rightarrow> pubkey \<Rightarrow> pubkey \<Rightarrow> pubkey \<Rightarrow>
   pubkey \<Rightarrow> instruction res" where
  "create_pool_instruction e base_amount_in quote_amount_in pool creator coin_creator' base_mint' quote_mint'
       user_base_token_account user_quote_token_account pool_base_token_account' pool_quote_token_account' =
     create_pool_instruction_with_options e 0 base_amount_in quote_amount_in False False pool creator
       coin_creator' base_mint' quote_mint' user_base_token_account user_quote_token_account
       pool_base_token_account' pool_quote_token_account' (x_spl_token_ID e) (x_spl_token_ID e)"

definition withdraw_instruction ::
  "ext \<Rightarrow> pubkey \<Rightarrow> pubkey \<Rightarrow> pubkey \<Rightarrow> pubkey
       \<Rightarrow> pubkey \<Rightarrow> u64 \<Rightarrow> u64 \<Rightarrow> u64 \<Rightarrow>
       instruction res" where
  "withdraw_instruction e pool user base_mint' base_ata quote_ata lp_token_amount_in
       min_base_amount_out min_quote_amount_out =
     (let lp_mint' = fst (calc_lp_mint_pda e pool);
         user_pool_token_account = fst (calc_user_pool_token_account e user lp_mint');
         pool_base_ata = x_get_ata e pool base_mint' (x_spl_token_ID e);
         pool_quote_ata = x_get_ata e pool (WRAPPED_SOL_MINT e) (x_spl_token_ID e)
      in Inr \<lparr>ix_program_id = PUMP_SWAP_PROGRAM_ID e,
       ix_accounts =
       [meta_new pool False,
        meta_readonly (GLOBAL_CONFIG e) False,
        meta_readonly user True,
        meta_readonly base_mint' False,
        meta_readonly (WRAPPED_SOL_MINT e) False,
        meta_new lp_mint' False,
        meta_new base_ata False,
        meta_new quote_ata False,
        meta_new user_pool_token_account False,
        meta_new pool_base_ata False,
        meta_new pool_quote_ata False,
        meta_readonly (x_spl_token_ID e) False,
        meta_readonly (x_spl_token_2022_ID e) False,
        meta_readonly (EVENT_AUTHORITY e) False,
        meta_readonly (PUMP_SWAP_PROGRAM_ID e) False],
       ix_data = WithdrawInstruction_to_vec (WithdrawInstruction_new lp_token_amount_in min_base_amount_out min_quote_amount_out)\<rparr>)"

definition migrate_pool_coin_creator_instruction ::
  "ext \<Rightarrow> pubkey \<Rightarrow> pubkey \<Rightarrow> instruction res" where
  "migrate_pool_coin_creator_instruction e pool base_mint' =
     Inr \<lparr>ix_program_id = PUMP_SWAP_PROGRAM_ID e,
       ix_accounts =
       [meta_new pool False,
        meta_readonly (sharing_config_pda e base_mint') False,
        meta_readonly (EVENT_AUTHORITY e) False,
        meta_readonly (PUMP_SWAP_PROGRAM_ID e) False],
       ix_data = [208, 8, 159, 4, 74, 175, 16, 58]\<rparr>"

definition set_coin_creator_instruction ::
  "ext \<Rightarrow> pubkey \<Rightarrow> pubkey \<Rightarrow> instruction res" where
  "set_coin_creator_instruction e pool base_mint' =
     Inr \<lparr>ix_program_id = PUMP_SWAP_PROGRAM_ID e,
       ix_accounts =
       [meta_new pool False,
        meta_readonly (token_metadata_pda e base_mint') False,
        meta_readonly (bonding_curve_pda e base_mint') False,
        meta_readonly (EVENT_AUTHORITY e) False,
        meta_readonly (PUMP_SWAP_PROGRAM_ID e) False],
       ix_data = [210, 149, 128, 45, 188, 58, 78, 175]\<rparr>"

definition transfer_creator_fees_to_pump_instruction ::
  "ext \<Rightarrow> pubkey \<Rightarrow> instruction res" where
  "transfer_creator_fees_to_pump_instruction e coin_creator' =
     (let coin_creator_vault_authority = find_coin_creator_vault_authority e coin_creator';
         coin_creator_vault_ata = find_coin_creator_vault_ata e coin_creator_vault_authority (x_spl_token_ID e) (WRAPPED_SOL_MINT e)
      in Inr \<lparr>ix_program_id = PUMP_SWAP_PROGRAM_ID e,
       ix_accounts =
       [meta_readonly (WRAPPED_SOL_MINT e) False,
        meta_readonly (x_spl_token_ID e) False,
        meta_readonly (x_system_program_ID e) False,
        meta_readonly (x_ata_program_ID e) False,
        meta_readonly coin_creator' False,
        meta_new coin_creator_vault_authority False,
        meta_new coin_creator_vault_ata False,
        meta_new (pump_creator_vault_pda e coin_creator') False,
        meta_readonly (EVENT_AUTHORITY e) False,
        meta_readonly (PUMP_SWAP_PROGRAM_ID e) False],
       ix_data = [139, 52, 134, 85, 228, 229, 108, 241]\<rparr>)"

definition transfer_creator_fees_to_pump_v2_instruction ::
  "ext \<Rightarrow> pubkey \<Rightarrow> pubkey \<Rightarrow> pubkey \<Rightarrow> pubkey
       \<Rightarrow> instruction res" where
  "transfer_creator_fees_to_pump_v2_instruction e payer coin_creator' quote_mint'
       quote_token_program' =
     (let coin_creator_vault_authority = find_coin_creator_vault_authority e coin_creator';
         coin_creator_vault_ata = find_coin_creator_vault_ata e coin_creator_vault_authority quote_token_program' quote_mint';
         pump_creator_vault = pump_creator_vault_pda e coin_creator';
         pump_creator_vault_ata = find_coin_creator_vault_ata e pump_creator_vault quote_token_program' quote_mint'
      in Inr \<lparr>ix_program_id = PUMP_SWAP_PROGRAM_ID e,
       ix_accounts =
       [meta_new payer True,
        meta_readonly quote_mint' False,
        meta_readonly quote_token_program' False,
        meta_readonly (x_system_program_ID e) False,
        meta_readonly (x_ata_program_ID e) False,
        meta_readonly coin_creator' False,
        meta_new coin_creator_vault_authority False,
        meta_new coin_creator_vault_ata False,
        meta_new pump_creator_vault False,
        meta_new pump_creator_vault_ata False,
        meta_readonly (EVENT_AUTHORITY e) False,
        meta_readonly (PUMP_SWAP_PROGRAM_ID e) False],
       ix_data = [1, 33, 78, 185, 33, 67, 44, 92]\<rparr>)"

definition sweep_pool_creator_fee_instruction ::
  "ext \<Rightarrow> pubkey \<Rightarrow> PoolInfo \<Rightarrow> instruction res" where
  "sweep_pool_creator_fee_instruction e payer pool =
     (let recipient = find_coin_creator_vault_authority e (coin_creator pool)
      in Inr \<lparr>ix_program_id = PUMP_SWAP_PROGRAM_ID e,
       ix_accounts =
       [meta_new payer True,
        meta_readonly (GLOBAL_CONFIG e) False,
        meta_new (pi_pool pool) False,
        meta_readonly (quote_mint pool) False,
        meta_readonly (quote_token_program pool) False,
        meta_new (pool_quote_token_account pool) False,
        meta_readonly recipient False,
        meta_new (find_coin_creator_vault_ata e recipient (quote_token_program pool) (quote_mint pool)) False,
        meta_readonly (x_system_program_ID e) False,
        meta_readonly (x_ata_program_ID e) False,
        meta_readonly (EVENT_AUTHORITY e) False,
        meta_readonly (PUMP_SWAP_PROGRAM_ID e) False],
       ix_data = [32, 246, 191, 52, 8, 201, 73, 186]\<rparr>)"

definition sweep_bonding_curve_creator_fee_instruction ::
  "ext \<Rightarrow> pubkey \<Rightarrow> pubkey \<Rightarrow> pubkey \<Rightarrow> pubkey
       \<Rightarrow> pubkey \<Rightarrow> instruction res" where
  "sweep_bonding_curve_creator_fee_instruction e payer mint creator quote_mint'
       quote_token_program' =
     (let bonding_curve = bonding_curve_pda e mint;
         recipient = pump_creator_vault_pda e creator
      in Inr \<lparr>ix_program_id = PUMPFUN_PROGRAM e,
       ix_accounts =
       [meta_new payer True,
        meta_readonly (PUMPFUN_GLOBAL e) False,
        meta_readonly mint False,
        meta_readonly quote_mint' False,
        meta_readonly quote_token_program' False,
        meta_readonly (x_ata_program_ID e) False,
        meta_readonly (x_system_program_ID e) False,
        meta_new bonding_curve False,
        meta_new (find_coin_creator_vault_ata e bonding_curve quote_token_program' quote_mint') False,
        meta_new recipient False,
        meta_new (find_coin_creator_vault_ata e recipient quote_token_program' quote_mint') False,
        meta_readonly (PUMPFUN_EVENT_AUTHORITY e) False,
        meta_readonly (PUMPFUN_PROGRAM e) False],
       ix_data = [32, 246, 191, 52, 8, 201, 73, 186]\<rparr>)"

definition distribute_creator_fees_instruction ::
  "ext \<Rightarrow> pubkey \<Rightarrow> pubkey list \<Rightarrow> instruction res" where
  "distribute_creator_fees_instruction e mint holders =
     (let sharing_config = sharing_config_pda e mint
      in Inr \<lparr>ix_program_id = PUMPFUN_PROGRAM e,
       ix_accounts =
       [meta_readonly mint False,
        meta_readonly (bonding_curve_pda e mint) False,
        meta_readonly sharing_config False,
        meta_new (pump_creator_vault_pda e sharing_config) False,
        meta_readonly (x_system_program_ID e) False,
        meta_readonly (PUMPFUN_EVENT_AUTHORITY e) False,
        meta_readonly (PUMPFUN_PROGRAM e) False]
       @ map (\<lambda>holder. meta_new holder False) holders,
       ix_data = [165, 114, 103, 0, 121, 206, 247, 81]\<rparr>)"

definition distribute_creator_fees_v2_instruction ::
  "ext \<Rightarrow> pubkey \<Rightarrow> pubkey \<Rightarrow> pubkey \<Rightarrow> pubkey
       \<Rightarrow> bool \<Rightarrow> pubkey list \<Rightarrow> instruction res" where
  "distribute_creator_fees_v2_instruction e payer mint quote_mint' quote_token_program'
       initialize_ata holders =
     (let sharing_config = sharing_config_pda e mint;
         creator_vault = pump_creator_vault_pda e sharing_config
      in Inr \<lparr>ix_program_id = PUMPFUN_PROGRAM e,
       ix_accounts =
       [meta_new payer True,
        meta_readonly mint False,
        meta_readonly (bonding_curve_pda e mint) False,
        meta_readonly sharing_config False,
        meta_new creator_vault False,
        meta_readonly (x_system_program_ID e) False,
        meta_readonly (PUMPFUN_EVENT_AUTHORITY e) False,
        meta_readonly (PUMPFUN_PROGRAM e) False,
        meta_new (find_coin_creator_vault_ata e creator_vault quote_token_program' quote_mint') False,
        meta_readonly quote_mint' False,
        meta_readonly quote_token_program' False,
        meta_readonly (x_ata_program_ID e) False]
       @ map (\<lambda>holder. meta_new holder False) holders,
       ix_data = [255, 203, 19, 79, 244, 68, 8, 159] @ [bool_as_u8 initialize_ata]\<rparr>)"

section \<open>The swap account list\<close>

text \<open>The accounts after the two fee accounts, by the flags of the pool and the direction.\<close>

definition remaining_count :: "PoolInfo \<Rightarrow> SwapKind \<Rightarrow> nat" where
  "remaining_count p kind =
     (if is_cashback_coin p then (case kind of Buy \<Rightarrow> 1 | Sell \<Rightarrow> 2) else 0) +
     (if coin_creator p \<noteq> pubkey_default then 1 else 0) + 2"

definition swap_count :: "PoolInfo \<Rightarrow> SwapKind \<Rightarrow> nat" where
  "swap_count p kind = (case kind of Buy \<Rightarrow> 23 | Sell \<Rightarrow> 21) + remaining_count p kind"

lemma swap_accounts_ok:
  assumes "choose_documented e"
  obtains accs where "swap_accounts e d1 d2 p user ub uq kind = Inr accs"
  using pick_protocol_fee_recipient_for_pool_ok [OF assms, of "is_mayhem_mode p" d1]
    pick_buyback_fee_recipient_ok [OF assms, of d2]
  by (auto simp: swap_accounts_def append_swap_remaining_accounts_def Let_def)

text \<open>
  The interface of the swap instructions, as a table of roles in the order the program reads
  them: a buy has 23 accounts, a sell the same without the two volume accumulators. The
  remaining accounts follow by the flags of the pool: for a cashback coin the token account
  of the user's volume accumulator, on a sell also the accumulator; the second pool account
  of a coin with a creator; the buyback recipient and its token account.
\<close>

datatype swap_role = Pool_Acc | User_Acc | Global_Acc | Base_Mint | Quote_Mint | User_Base | User_Quote
  | Vault_Base | Vault_Quote | Fee_Taker | Fee_Taker_Token | Base_Prog | Quote_Prog | System_Prog | Ata_Prog
  | Event_Auth | Amm_Prog | Creator_Vault_Token | Creator_Vault | Global_Volume | User_Volume | Fee_Config_Acc
  | Fee_Prog | User_Volume_Token | Second_Pool | Buyback | Buyback_Token

definition buy_interface :: "swap_role list" where
  "buy_interface = [Pool_Acc, User_Acc, Global_Acc, Base_Mint, Quote_Mint, User_Base, User_Quote, Vault_Base,
     Vault_Quote, Fee_Taker, Fee_Taker_Token, Base_Prog, Quote_Prog, System_Prog, Ata_Prog, Event_Auth, Amm_Prog,
     Creator_Vault_Token, Creator_Vault, Global_Volume, User_Volume, Fee_Config_Acc, Fee_Prog]"

definition swap_roles :: "PoolInfo \<Rightarrow> SwapKind \<Rightarrow> swap_role list" where
  "swap_roles p kind =
     filter (\<lambda>role. kind = Sell \<longrightarrow> role \<noteq> Global_Volume \<and> role \<noteq> User_Volume) buy_interface
     @ (if is_cashback_coin p then User_Volume_Token # (if kind = Sell then [User_Volume] else []) else [])
     @ (if coin_creator p \<noteq> pubkey_default then [Second_Pool] else [])
     @ [Buyback, Buyback_Token]"

definition written_roles :: "swap_role list" where
  "written_roles = [Pool_Acc, User_Acc, User_Base, User_Quote, Vault_Base, Vault_Quote, Fee_Taker_Token,
     Creator_Vault_Token, User_Volume, User_Volume_Token, Buyback_Token]"

text \<open>
  The address of a role, for the recipients \<open>r\<close> and \<open>b\<close> of the protocol fee and the buyback. A
  program-derived address is its seeds under its program, and the four token accounts are the
  associated ones of their owners for the quote mint and its token program.
\<close>

definition derived :: "ext \<Rightarrow> pubkey \<Rightarrow> bytes list \<Rightarrow> pubkey" where
  "derived e program seeds = fst (x_find_program_address e seeds program)"

primrec role_key :: "ext \<Rightarrow> PoolInfo \<Rightarrow> pubkey \<Rightarrow> pubkey \<Rightarrow> pubkey \<Rightarrow> pubkey \<Rightarrow> pubkey \<Rightarrow> swap_role \<Rightarrow> pubkey" where
  "role_key e p user ub uq r b Pool_Acc = pi_pool p"
| "role_key e p user ub uq r b User_Acc = user"
| "role_key e p user ub uq r b Global_Acc = GLOBAL_CONFIG e"
| "role_key e p user ub uq r b Base_Mint = base_mint p"
| "role_key e p user ub uq r b Quote_Mint = quote_mint p"
| "role_key e p user ub uq r b User_Base = ub"
| "role_key e p user ub uq r b User_Quote = uq"
| "role_key e p user ub uq r b Vault_Base = pool_base_token_account p"
| "role_key e p user ub uq r b Vault_Quote = pool_quote_token_account p"
| "role_key e p user ub uq r b Fee_Taker = r"
| "role_key e p user ub uq r b Fee_Taker_Token = x_get_ata e r (quote_mint p) (quote_token_program p)"
| "role_key e p user ub uq r b Base_Prog = base_token_program p"
| "role_key e p user ub uq r b Quote_Prog = quote_token_program p"
| "role_key e p user ub uq r b System_Prog = x_system_program_ID e"
| "role_key e p user ub uq r b Ata_Prog = x_ata_program_ID e"
| "role_key e p user ub uq r b Event_Auth = EVENT_AUTHORITY e"
| "role_key e p user ub uq r b Amm_Prog = PUMP_SWAP_PROGRAM_ID e"
| "role_key e p user ub uq r b Creator_Vault =
     derived e (PUMP_SWAP_PROGRAM_ID e) [bytes_of_string ''creator_vault'', pk_bytes (coin_creator p)]"
| "role_key e p user ub uq r b Creator_Vault_Token =
     x_get_ata e (derived e (PUMP_SWAP_PROGRAM_ID e) [bytes_of_string ''creator_vault'', pk_bytes (coin_creator p)])
       (quote_mint p) (quote_token_program p)"
| "role_key e p user ub uq r b Global_Volume = GLOBAL_VOLUME_ACCUMULATOR e"
| "role_key e p user ub uq r b User_Volume =
     derived e (PUMP_SWAP_PROGRAM_ID e) [bytes_of_string ''user_volume_accumulator'', pk_bytes user]"
| "role_key e p user ub uq r b User_Volume_Token =
     x_get_ata e (derived e (PUMP_SWAP_PROGRAM_ID e) [bytes_of_string ''user_volume_accumulator'', pk_bytes user])
       (quote_mint p) (quote_token_program p)"
| "role_key e p user ub uq r b Fee_Config_Acc =
     derived e (FEE_PROGRAM e) [bytes_of_string ''fee_config'', pk_bytes (PUMP_SWAP_PROGRAM_ID e)]"
| "role_key e p user ub uq r b Fee_Prog = FEE_PROGRAM e"
| "role_key e p user ub uq r b Second_Pool =
     derived e (PUMP_SWAP_PROGRAM_ID e) [bytes_of_string ''pool-v2'', pk_bytes (base_mint p)]"
| "role_key e p user ub uq r b Buyback = b"
| "role_key e p user ub uq r b Buyback_Token = x_get_ata e b (quote_mint p) (quote_token_program p)"

lemmas swap_spec_defs = swap_roles_def buy_interface_def written_roles_def derived_def

text \<open>
  C22: when the random draw picks from nonempty tables, as it is documented to, a swap builder
  succeeds, and its account list is, account for account, that of the interface: the roles in
  their order, each with the address the pool, the user and the seeds give it, the user the
  one signer, and writable exactly the pool, the user, the token accounts and the user's volume
  accumulator.
  The protocol-fee recipient is one of the table for the pool's mode and the buyback recipient
  one of its table. A list has 23 (buy) or 21 (sell) accounts and two to five remaining ones.
\<close>

theorem swap_accounts_shape:
  assumes "choose_documented e"
  shows "\<exists>accs. swap_accounts e d1 d2 p user ub uq kind = Inr accs \<and>
    (\<exists>r \<in> set (fee_recipients e (is_mayhem_mode p)). \<exists>b \<in> set (BUYBACK_FEE_RECIPIENTS e).
      accs = map (\<lambda>role. \<lparr>am_pubkey = role_key e p user ub uq r b role, am_is_signer = (role = User_Acc),
        am_is_writable = (role \<in> set written_roles)\<rparr>) (swap_roles p kind)) \<and>
    filter am_is_signer accs = [meta_new user True] \<and>
    length accs = swap_count p kind"
proof -
  obtain r where r: "r \<in> set (fee_recipients e (is_mayhem_mode p))"
    "pick_protocol_fee_recipient_for_pool e d1 (is_mayhem_mode p) = Inr r"
    using pick_protocol_fee_recipient_for_pool_ok [OF assms] by blast
  obtain b where b: "b \<in> set (BUYBACK_FEE_RECIPIENTS e)" "pick_buyback_fee_recipient e d2 = Inr b"
    using pick_buyback_fee_recipient_ok [OF assms] by blast
  let ?accs = "map (\<lambda>role. \<lparr>am_pubkey = role_key e p user ub uq r b role, am_is_signer = (role = User_Acc),
      am_is_writable = (role \<in> set written_roles)\<rparr>) (swap_roles p kind)"
  have "swap_accounts e d1 d2 p user ub uq kind = Inr ?accs"
    using r(2) b(2) by (cases kind) (simp_all add: swap_accounts_def append_swap_remaining_accounts_def Let_def
      meta_new_def meta_readonly_def swap_spec_defs
      find_coin_creator_vault_authority_def find_coin_creator_vault_ata_def find_user_vol_accumulator_def
      user_volume_accumulator_quote_ata_def fee_config_pda_def pool_v2_pda_def)
  moreover have "filter am_is_signer ?accs = [meta_new user True]"
    by (cases kind) (simp_all add: meta_new_def swap_spec_defs)
  moreover have "length ?accs = swap_count p kind"
    by (cases kind) (simp_all add: swap_count_def remaining_count_def swap_spec_defs)
  ultimately show ?thesis using r(1) b(1) by blast
qed

theorem swap_accounts_shape_witness:
  "\<exists>accs. swap_accounts (ext_example True) 3 12 pool_example (key 20) (key 21) (key 22) Sell = Inr accs \<and>
    length accs = 26"
proof -
  have "swap_count pool_example Sell = 26"
    by (simp add: swap_count_def remaining_count_def pool_example_def pool_info_of_def
        pool_struct_example_def pubkey_default_def)
  then show ?thesis
    using swap_accounts_shape [OF choose_documented_example [of True], of 3 12 pool_example
        "key 20" "key 21" "key 22" Sell] by auto
qed

section \<open>The data of the swaps\<close>

text \<open>
  C23: each swap builder targets the pump-amm program and its data, read by an Anchor program
  under the instruction's own discriminator, gives back exactly the arguments; buy data is 25
  bytes and sell data 24.
\<close>

theorem swap_data_roundtrip:
  assumes "choose_documented e"
  shows "\<exists>buy exact sell.
    make_buy_instruction e d1 d2 x y t p user ub uq = Inr buy \<and>
    make_buy_exact_quote_in_instruction e d1 d2 x y t p user ub uq = Inr exact \<and>
    make_sell_instruction e d1 d2 x y p user ub uq = Inr sell \<and>
    map ix_program_id [buy, exact, sell] = replicate 3 (PUMP_SWAP_PROGRAM_ID e) \<and>
    anchor_decode BuyInstruction_DISCRIMINATOR buy_args_read (ix_data buy) =
      Some (BuyInstruction_new x y t) \<and>
    anchor_decode BuyExactQuoteInInstruction_DISCRIMINATOR buy_exact_args_read (ix_data exact) =
      Some (BuyExactQuoteInInstruction_new x y t) \<and>
    anchor_decode [51, 230, 133, 164, 1, 127, 131, 173] sell_args_read (ix_data sell) =
      Some (SellInstruction_new x y) \<and>
    map (\<lambda>ix. length (ix_data ix)) [buy, exact, sell] = [25, 25, 24]"
proof -
  obtain a where a: "swap_accounts e d1 d2 p user ub uq Buy = Inr a"
    using assms by (rule swap_accounts_ok)
  obtain b where b: "swap_accounts e d1 d2 p user ub uq Sell = Inr b"
    using assms by (rule swap_accounts_ok)
  have ok: "sell_args_ok (SellInstruction_new x y)" by (simp add: sell_args_ok_def SellInstruction_new_def)
  show ?thesis
    by (simp add: make_buy_instruction_def make_buy_exact_quote_in_instruction_def
        make_sell_instruction_def a b buy_args.roundtrip buy_exact_args.roundtrip
        sell_args.roundtrip [OF ok] buy_args.to_vec_length buy_exact_args.to_vec_length
        sell_args.to_vec_length [OF ok] numeral_3_eq_3)
qed

theorem swap_data_roundtrip_witness:
  "\<exists>sell. make_sell_instruction (ext_example True) 0 0 5 6 pool_example (key 1) (key 2) (key 3) = Inr sell \<and>
    anchor_decode [51, 230, 133, 164, 1, 127, 131, 173] sell_args_read (ix_data sell) =
      Some (SellInstruction_new 5 6)"
  using swap_data_roundtrip [OF choose_documented_example [of True], of 0 0 5 6 True pool_example
      "key 1" "key 2" "key 3"] by blast

section \<open>The other builders\<close>

text \<open>
  Deposit, withdraw and create-pool data decode to the arguments they were built from, so
  no two argument lists share their bytes; the lengths are 32, 32 and 60 bytes.
\<close>

lemma liquidity_data_roundtrip:
  assumes "length (pk_bytes creator) = 32"
  shows "anchor_decode [242, 35, 198, 137, 82, 225, 242, 182] deposit_args_read
      (DepositInstruction_to_vec (DepositInstruction_new x y z)) = Some (DepositInstruction_new x y z) \<and>
    anchor_decode [183, 18, 70, 156, 148, 109, 161, 34] withdraw_args_read
      (WithdrawInstruction_to_vec (WithdrawInstruction_new x y z)) = Some (WithdrawInstruction_new x y z) \<and>
    anchor_decode [233, 146, 209, 142, 207, 104, 64, 188] create_pool_args_read
      (CreatePoolInstruction_to_vec (CreatePoolInstruction_new_with_options i x y creator m c)) =
      Some (CreatePoolInstruction_new_with_options i x y creator m c) \<and>
    length (DepositInstruction_to_vec (DepositInstruction_new x y z)) = 32 \<and>
    length (WithdrawInstruction_to_vec (WithdrawInstruction_new x y z)) = 32 \<and>
    length (CreatePoolInstruction_to_vec (CreatePoolInstruction_new_with_options i x y creator m c)) = 60"
proof -
  have ok: "deposit_args_ok (DepositInstruction_new x y z)" "withdraw_args_ok (WithdrawInstruction_new x y z)"
    "create_pool_args_ok (CreatePoolInstruction_new_with_options i x y creator m c)"
    using assms by (simp_all add: deposit_args_ok_def DepositInstruction_new_def withdraw_args_ok_def
        WithdrawInstruction_new_def create_pool_args_ok_def CreatePoolInstruction_new_with_options_def)
  show ?thesis
    by (simp add: deposit_args.roundtrip [OF ok(1)] withdraw_args.roundtrip [OF ok(2)]
        create_pool_args.roundtrip [OF ok(3)] deposit_args.to_vec_length [OF ok(1)]
        withdraw_args.to_vec_length [OF ok(2)] create_pool_args.to_vec_length [OF ok(3)])
qed

definition signers :: "instruction res \<Rightarrow> pubkey list" where
  "signers r = (case r of Inl _ \<Rightarrow> [] | Inr ix \<Rightarrow> map am_pubkey (filter am_is_signer (ix_accounts ix)))"

text \<open>
  Who signs. The swaps' counterpart in \<open>swap_accounts_shape\<close> aside, every builder asks for
  the signature of exactly one party, except the permissionless ones, which ask for none.
\<close>

lemma builder_signers:
  "signers (make_deposit_instruction e x y z p user a b c) = [user] \<and>
   signers (withdraw_instruction e pool user bm ba qa x y z) = [user] \<and>
   signers (create_pool_instruction_with_options e i x y m cb pool creator cc bm qm ub uq pb pq bt qt) = [creator] \<and>
   signers (make_extend_account_instruction e pool user) = [user] \<and>
   signers (make_init_user_volume_accumulator_instruction e payer user) = [payer] \<and>
   signers (make_close_user_volume_accumulator_instruction e user) = [user] \<and>
   signers (make_claim_token_incentives_instruction e user payer mint tp ta gta) = [payer] \<and>
   signers (sweep_pool_creator_fee_instruction e payer p) = [payer] \<and>
   signers (sweep_bonding_curve_creator_fee_instruction e payer mint creator qm qt) = [payer] \<and>
   signers (transfer_creator_fees_to_pump_v2_instruction e payer cc qm qt) = [payer] \<and>
   signers (distribute_creator_fees_v2_instruction e payer mint qm qt init holders) = [payer] \<and>
   signers (make_claim_cashback_instruction e user qm qt) = [] \<and>
   signers (make_sync_user_volume_accumulator_instruction e user) = [] \<and>
   signers (make_collect_coin_creator_fee_instruction e cc qm qt ta) = [] \<and>
   signers (migrate_pool_coin_creator_instruction e pool bm) = [] \<and>
   signers (set_coin_creator_instruction e pool bm) = [] \<and>
   signers (transfer_creator_fees_to_pump_instruction e cc) = [] \<and>
   signers (distribute_creator_fees_instruction e mint holders) = []"
  by (simp add: signers_def Let_def
      make_deposit_instruction_def
      make_claim_cashback_instruction_def
      make_extend_account_instruction_def
      make_init_user_volume_accumulator_instruction_def
      make_sync_user_volume_accumulator_instruction_def
      make_close_user_volume_accumulator_instruction_def
      make_claim_token_incentives_instruction_def
      make_collect_coin_creator_fee_instruction_def
      create_pool_instruction_with_options_def
      withdraw_instruction_def
      migrate_pool_coin_creator_instruction_def
      set_coin_creator_instruction_def
      transfer_creator_fees_to_pump_instruction_def
      transfer_creator_fees_to_pump_v2_instruction_def
      sweep_pool_creator_fee_instruction_def
      sweep_bonding_curve_creator_fee_instruction_def
      distribute_creator_fees_instruction_def
      distribute_creator_fees_v2_instruction_def)

definition discriminator_of :: "instruction res \<Rightarrow> bytes" where
  "discriminator_of r = (case r of Inl _ \<Rightarrow> [] | Inr ix \<Rightarrow> take 8 (ix_data ix))"

text \<open>
  The instructions of one program are told apart by their first eight bytes: the eighteen
  pump-amm ones (the three swaps by the discriminators their data starts with) and the three
  pump.fun ones are pairwise distinct.
\<close>

lemma discriminators_distinct:
  "distinct [BuyInstruction_DISCRIMINATOR, BuyExactQuoteInInstruction_DISCRIMINATOR,
    take 8 (SellInstruction_to_vec (SellInstruction_new x y)),
    discriminator_of (make_deposit_instruction e x y z p user a b c),
    discriminator_of (withdraw_instruction e pool user bm ba qa x y z),
    discriminator_of (create_pool_instruction_with_options e i x y m cb pool creator cc bm qm ub uq pb pq bt qt),
    discriminator_of (make_claim_cashback_instruction e user qm qt),
    discriminator_of (make_extend_account_instruction e pool user),
    discriminator_of (make_init_user_volume_accumulator_instruction e payer user),
    discriminator_of (make_sync_user_volume_accumulator_instruction e user),
    discriminator_of (make_close_user_volume_accumulator_instruction e user),
    discriminator_of (make_claim_token_incentives_instruction e user payer mint tp ta gta),
    discriminator_of (make_collect_coin_creator_fee_instruction e cc qm qt ta),
    discriminator_of (migrate_pool_coin_creator_instruction e pool bm),
    discriminator_of (set_coin_creator_instruction e pool bm),
    discriminator_of (transfer_creator_fees_to_pump_instruction e cc),
    discriminator_of (transfer_creator_fees_to_pump_v2_instruction e payer cc qm qt),
    discriminator_of (sweep_pool_creator_fee_instruction e payer p)] \<and>
  distinct [discriminator_of (sweep_bonding_curve_creator_fee_instruction e payer mint creator qm qt),
    discriminator_of (distribute_creator_fees_instruction e mint holders),
    discriminator_of (distribute_creator_fees_v2_instruction e payer mint qm qt init holders)]"
  by (simp add: discriminator_of_def Let_def BuyInstruction_DISCRIMINATOR_def
      BuyExactQuoteInInstruction_DISCRIMINATOR_def SellInstruction_to_vec_def SellInstruction_new_def
      DepositInstruction_to_vec_def DepositInstruction_new_def WithdrawInstruction_to_vec_def
      WithdrawInstruction_new_def CreatePoolInstruction_to_vec_def
      CreatePoolInstruction_new_with_options_def ClaimCashbackInstruction_to_vec_def
      ClaimCashbackInstruction_DISCRIMINATOR_def
      make_deposit_instruction_def
      make_claim_cashback_instruction_def
      make_extend_account_instruction_def
      make_init_user_volume_accumulator_instruction_def
      make_sync_user_volume_accumulator_instruction_def
      make_close_user_volume_accumulator_instruction_def
      make_claim_token_incentives_instruction_def
      make_collect_coin_creator_fee_instruction_def
      create_pool_instruction_with_options_def
      withdraw_instruction_def
      migrate_pool_coin_creator_instruction_def
      set_coin_creator_instruction_def
      transfer_creator_fees_to_pump_instruction_def
      transfer_creator_fees_to_pump_v2_instruction_def
      sweep_pool_creator_fee_instruction_def
      sweep_bonding_curve_creator_fee_instruction_def
      distribute_creator_fees_instruction_def
      distribute_creator_fees_v2_instruction_def)

text \<open>
  Both distribute instructions end with the shareholders in the stored order, each writable
  and unsigned, after a fixed prefix of 7 and 12 accounts.
\<close>

lemma distribute_keeps_order:
  "\<exists>v1 v2. distribute_creator_fees_instruction e mint holders = Inr v1 \<and>
    distribute_creator_fees_v2_instruction e payer mint qm qt init holders = Inr v2 \<and>
    drop 7 (ix_accounts v1) = map (\<lambda>k. meta_new k False) holders \<and>
    drop 12 (ix_accounts v2) = map (\<lambda>k. meta_new k False) holders \<and>
    map am_pubkey (drop 7 (ix_accounts v1)) = holders"
  by (simp add: distribute_creator_fees_instruction_def distribute_creator_fees_v2_instruction_def
      Let_def comp_def)

end
