(* ===== verification/F64.thy ===== *)
theory F64
  imports Complex_Main "HOL-Library.Log_Nat" Prelude
begin

text \<open>
  Rust's \<open>f64\<close>: IEEE 754 binary64 with round-to-nearest, ties-to-even. A finite value is the
  rational it denotes; the sign of zero is dropped, because no operation the crate performs
  can observe it. The operations are the ones \<open>math.rs\<close> and \<open>client.rs\<close> use: conversion from
  \<open>u64\<close>, \<open>+ - * /\<close>, \<open>max\<close>, \<open>min\<close>, \<open>clamp\<close>, \<open>floor\<close>, \<open>ceil\<close>, \<open>round\<close> and the saturating cast
  \<open>as u64\<close>. The lemmas say that rounding is exact on representable values and never crosses
  one; the bounds on slippage rest on them.
\<close>

section \<open>Values and rounding\<close>

datatype f64 = NaN | Inf bool | Fin rat

text \<open>\<open>ilog2 x\<close> is the binary exponent of \<open>x > 0\<close>: the floor of its logarithm.\<close>

definition ilog2 :: "rat \<Rightarrow> int" where
  "ilog2 x = (case quotient_of x of (p, q) \<Rightarrow>
     let e = bitlen p - bitlen q in if 2 powi e \<le> x then e else e - 1)"

text \<open>Round to the nearest integer, ties to even.\<close>

definition rne :: "rat \<Rightarrow> int" where
  "rne x = (let f = \<lfloor>x\<rfloor>; d = x - of_int f in
     if d < 1 / 2 then f else if 1 / 2 < d then f + 1 else if even f then f else f + 1)"

text \<open>The distance between neighbouring binary64 values at the magnitude of \<open>x\<close>.\<close>

definition ulp_exp :: "rat \<Rightarrow> int" where
  "ulp_exp x = max (ilog2 \<bar>x\<bar> - 52) (- 1074)"

definition round_rat :: "rat \<Rightarrow> rat" where
  "round_rat x = (if x = 0 then 0
     else of_int (rne (x / 2 powi ulp_exp x)) * 2 powi ulp_exp x)"

definition f64_rnd :: "rat \<Rightarrow> f64" where
  "f64_rnd x = (if 2 ^ 1024 \<le> \<bar>round_rat x\<bar> then Inf (x < 0) else Fin (round_rat x))"

section \<open>Operations\<close>

instantiation f64 :: "{zero, one, plus, minus, times, inverse}"
begin

definition zero_f64 :: f64 where "zero_f64 = Fin 0"

definition one_f64 :: f64 where "one_f64 = Fin 1"

fun plus_f64 :: "f64 \<Rightarrow> f64 \<Rightarrow> f64" where
  "plus_f64 (Fin a) (Fin b) = f64_rnd (a + b)"
| "plus_f64 NaN _ = NaN"
| "plus_f64 _ NaN = NaN"
| "plus_f64 (Inf s) (Inf t) = (if s = t then Inf s else NaN)"
| "plus_f64 (Inf s) (Fin b) = Inf s"
| "plus_f64 (Fin a) (Inf t) = Inf t"

fun minus_f64 :: "f64 \<Rightarrow> f64 \<Rightarrow> f64" where
  "minus_f64 (Fin a) (Fin b) = f64_rnd (a - b)"
| "minus_f64 NaN _ = NaN"
| "minus_f64 _ NaN = NaN"
| "minus_f64 (Inf s) (Inf t) = (if s = t then NaN else Inf s)"
| "minus_f64 (Inf s) (Fin b) = Inf s"
| "minus_f64 (Fin a) (Inf t) = Inf (\<not> t)"

fun times_f64 :: "f64 \<Rightarrow> f64 \<Rightarrow> f64" where
  "times_f64 (Fin a) (Fin b) = f64_rnd (a * b)"
| "times_f64 NaN _ = NaN"
| "times_f64 _ NaN = NaN"
| "times_f64 (Inf s) (Inf t) = Inf (s \<noteq> t)"
| "times_f64 (Inf s) (Fin b) = (if b = 0 then NaN else Inf (s \<noteq> (b < 0)))"
| "times_f64 (Fin a) (Inf t) = (if a = 0 then NaN else Inf ((a < 0) \<noteq> t))"

text \<open>
  A finite value over a zero would need the sign of the zero; the one division of the crate
  has a divisor that is a sum of two unsigned integers, so its zero is positive.
\<close>

fun divide_f64 :: "f64 \<Rightarrow> f64 \<Rightarrow> f64" where
  "divide_f64 (Fin a) (Fin b) =
     (if b = 0 then (if a = 0 then NaN else Inf (a < 0)) else f64_rnd (a / b))"
| "divide_f64 NaN _ = NaN"
| "divide_f64 _ NaN = NaN"
| "divide_f64 (Inf s) (Inf t) = NaN"
| "divide_f64 (Inf s) (Fin b) = Inf (s \<noteq> (b < 0))"
| "divide_f64 (Fin a) (Inf t) = Fin 0"

definition inverse_f64 :: "f64 \<Rightarrow> f64" where "inverse_f64 x = divide (Fin 1) x"

instance ..

end

fun f64_less :: "f64 \<Rightarrow> f64 \<Rightarrow> bool" where
  "f64_less NaN _ = False"
| "f64_less _ NaN = False"
| "f64_less (Inf s) (Inf t) = (s \<and> \<not> t)"
| "f64_less (Inf s) (Fin b) = s"
| "f64_less (Fin a) (Inf t) = (\<not> t)"
| "f64_less (Fin a) (Fin b) = (a < b)"

text \<open>\<open>f64::max\<close> and \<open>f64::min\<close> return the other operand when one is a NaN.\<close>

definition f64_max :: "f64 \<Rightarrow> f64 \<Rightarrow> f64" where
  "f64_max a b = (if a = NaN then b else if b = NaN then a else if f64_less a b then b else a)"

definition f64_min :: "f64 \<Rightarrow> f64 \<Rightarrow> f64" where
  "f64_min a b = (if a = NaN then b else if b = NaN then a else if f64_less b a then b else a)"

text \<open>\<open>f64::clamp\<close> keeps a NaN.\<close>

definition f64_clamp :: "f64 \<Rightarrow> f64 \<Rightarrow> f64 \<Rightarrow> f64" where
  "f64_clamp x lo hi = (if f64_less x lo then lo else if f64_less hi x then hi else x)"

fun f64_floor :: "f64 \<Rightarrow> f64" where
  "f64_floor (Fin a) = Fin (of_int \<lfloor>a\<rfloor>)"
| "f64_floor x = x"

fun f64_ceil :: "f64 \<Rightarrow> f64" where
  "f64_ceil (Fin a) = Fin (of_int \<lceil>a\<rceil>)"
| "f64_ceil x = x"

text \<open>\<open>f64::round\<close> rounds halves away from zero.\<close>

fun f64_round :: "f64 \<Rightarrow> f64" where
  "f64_round (Fin a) =
     Fin (of_int (if 0 \<le> a then \<lfloor>a + 1 / 2\<rfloor> else \<lceil>a - 1 / 2\<rceil>))"
| "f64_round x = x"

text \<open>\<open>x as f64\<close> on an unsigned integer and \<open>x as u64\<close> on a float (saturating, NaN to 0).\<close>

definition f64_of_u64 :: "u64 \<Rightarrow> f64" where
  "f64_of_u64 w = f64_rnd (of_nat (unat w))"

fun u64_of_f64 :: "f64 \<Rightarrow> u64" where
  "u64_of_f64 NaN = 0"
| "u64_of_f64 (Inf s) = (if s then 0 else u64_MAX)"
| "u64_of_f64 (Fin a) =
     (if a < 0 then 0 else if 2 ^ 64 \<le> a then u64_MAX else word_of_int \<lfloor>a\<rfloor>)"

section \<open>Rounding: representable values, exactness and order\<close>

definition representable :: "rat \<Rightarrow> bool" where
  "representable x \<longleftrightarrow> (\<exists>m e. x = of_int m * 2 powi e \<and> \<bar>m\<bar> \<le> 2 ^ 53 \<and> - 1074 \<le> e)"

lemma powi_pos [simp]: "0 < (2 :: rat) powi e"
  by (simp add: zero_less_power_int)

lemma powi_nonzero [simp]: "(2 :: rat) powi e \<noteq> 0"
  by (simp add: power_int_eq_0_iff)

lemma powi_less_iff: "(2 :: rat) powi a < 2 powi b \<longleftrightarrow> a < b"
proof
  assume "(2 :: rat) powi a < 2 powi b"
  then show "a < b"
    using power_int_strict_increasing [of b a "2 :: rat"] by (cases a b rule: linorder_cases) auto
next
  assume "a < b"
  then show "(2 :: rat) powi a < 2 powi b" by (rule power_int_strict_increasing) simp
qed

lemma powi_le_iff: "(2 :: rat) powi a \<le> 2 powi b \<longleftrightarrow> a \<le> b"
  using powi_less_iff [of b a] by (simp add: linorder_not_less [symmetric])

lemma powi_add: "(2 :: rat) powi (a + b) = 2 powi a * 2 powi b"
  by (simp add: power_int_add)

lemma powi_diff_mult: "a \<le> b \<Longrightarrow> (2 :: rat) powi b = of_int (2 ^ nat (b - a)) * 2 powi a"
proof -
  assume "a \<le> b"
  have "(2 :: rat) powi b = 2 powi (b - a) * 2 powi a" by (simp add: powi_add [symmetric])
  also have "(2 :: rat) powi (b - a) = 2 ^ nat (b - a)" using \<open>a \<le> b\<close> by (simp add: power_int_def)
  finally show ?thesis by simp
qed

lemma ilog2_bounds:
  assumes "0 < x"
  shows "2 powi ilog2 x \<le> x" and "x < 2 powi (ilog2 x + 1)"
proof -
  obtain p q where pq: "quotient_of x = (p, q)" by fastforce
  have q: "0 < q" using pq by (rule quotient_of_denom_pos)
  have x: "x = of_int p / of_int q" using pq by (rule quotient_of_div)
  have p: "0 < p" using assms x q by (simp add: zero_less_divide_iff)
  have bp: "2 powi (bitlen p - 1) \<le> (of_int p :: rat)" "(of_int p :: rat) < 2 powi bitlen p"
    and bq: "2 powi (bitlen q - 1) \<le> (of_int q :: rat)" "(of_int q :: rat) < 2 powi bitlen q"
  proof -
    have b: "2 powi (bitlen r - 1) \<le> (of_int r :: rat) \<and> (of_int r :: rat) < 2 powi bitlen r"
      if "0 < r" for r
    proof -
      have "1 \<le> bitlen r" using that bitlen_eq_zero_iff [of r] bitlen_nonneg [of r] by linarith
      moreover have "2 ^ nat (bitlen r - 1) \<le> r" "r < 2 ^ nat (bitlen r)"
        using bitlen_bounds [OF that] by simp_all
      then have "(of_int (2 ^ nat (bitlen r - 1)) :: rat) \<le> of_int r"
        "(of_int r :: rat) < of_int (2 ^ nat (bitlen r))"
        by (simp_all only: of_int_le_iff of_int_less_iff)
      ultimately show ?thesis by (simp add: power_int_def)
    qed
    show "2 powi (bitlen p - 1) \<le> (of_int p :: rat)" "(of_int p :: rat) < 2 powi bitlen p"
      "2 powi (bitlen q - 1) \<le> (of_int q :: rat)" "(of_int q :: rat) < 2 powi bitlen q"
      using b [OF p] b [OF q] by simp_all
  qed
  define e where "e = bitlen p - bitlen q"
  have lo: "2 powi (e - 1) \<le> x"
  proof -
    have "(2 :: rat) powi (e - 1) * of_int q \<le> 2 powi (e - 1) * 2 powi bitlen q"
      using bq(2) by (intro mult_left_mono) simp_all
    also have "\<dots> = 2 powi (bitlen p - 1)" by (simp add: powi_add [symmetric] e_def)
    also have "\<dots> \<le> of_int p" by (rule bp(1))
    finally show ?thesis using q by (simp add: x pos_le_divide_eq)
  qed
  have hi: "x < 2 powi (e + 1)"
  proof -
    have "of_int p < (2 :: rat) powi bitlen p" by (rule bp(2))
    also have "\<dots> = 2 powi (e + 1) * 2 powi (bitlen q - 1)"
      by (simp add: powi_add [symmetric] e_def)
    also have "\<dots> \<le> 2 powi (e + 1) * of_int q"
      using bq(1) by (intro mult_left_mono) simp_all
    finally show ?thesis using q by (simp add: x pos_divide_less_eq)
  qed
  show "2 powi ilog2 x \<le> x" "x < 2 powi (ilog2 x + 1)"
    using lo hi by (auto simp: ilog2_def pq e_def [symmetric] Let_def)
qed

lemma ilog2_mono: "0 < x \<Longrightarrow> x \<le> y \<Longrightarrow> ilog2 x \<le> ilog2 y"
proof -
  assume x: "0 < x" and le: "x \<le> y"
  have "2 powi ilog2 x \<le> x" by (rule ilog2_bounds [OF x])
  also note le
  also have "y < 2 powi (ilog2 y + 1)" using x le by (intro ilog2_bounds) simp
  finally have "ilog2 x < ilog2 y + 1" by (simp add: powi_less_iff)
  then show ?thesis by simp
qed

lemma ilog2_unique:
  assumes "2 powi k \<le> x" and "x < 2 powi (k + 1)"
  shows "ilog2 x = k"
proof -
  have x: "0 < x" using less_le_trans [OF powi_pos assms(1)] .
  have "(2 :: rat) powi k < 2 powi (ilog2 x + 1)" "(2 :: rat) powi ilog2 x < 2 powi (k + 1)"
    using ilog2_bounds [OF x] assms by linarith+
  then show ?thesis unfolding powi_less_iff by simp
qed

lemma rne_of_int [simp]: "rne (of_int k) = k"
  by (simp add: rne_def)

lemma rne_cases: "rne x = \<lfloor>x\<rfloor> \<and> x - of_int \<lfloor>x\<rfloor> \<le> 1 / 2 \<or>
    rne x = \<lfloor>x\<rfloor> + 1 \<and> 1 / 2 \<le> x - of_int \<lfloor>x\<rfloor>"
  by (auto simp: rne_def Let_def)

lemma rne_near: "\<bar>of_int (rne x) - x\<bar> \<le> 1 / 2"
proof -
  have "of_int \<lfloor>x\<rfloor> \<le> x" "x < of_int \<lfloor>x\<rfloor> + 1" by linarith+
  then show ?thesis using rne_cases [of x] by auto
qed

lemma rne_mono:
  assumes "x \<le> y"
  shows "rne x \<le> rne y"
proof (cases "\<lfloor>x\<rfloor> = \<lfloor>y\<rfloor>")
  case True
  then show ?thesis using assms by (auto simp: rne_def Let_def)
next
  case False
  then have "\<lfloor>x\<rfloor> + 1 \<le> \<lfloor>y\<rfloor>" using floor_mono [OF assms] by simp
  then show ?thesis using rne_cases [of x] rne_cases [of y] by linarith
qed

text \<open>Above a positive \<open>x\<close> a representable value is a multiple of the spacing at \<open>x\<close>.\<close>

lemma representable_multiple_above:
  assumes x: "0 < x" and r: "representable r" and le: "x \<le> r"
  shows "\<exists>k. r = of_int k * 2 powi ulp_exp x"
proof -
  obtain m e where m: "r = of_int m * 2 powi e" "\<bar>m\<bar> \<le> 2 ^ 53" "- 1074 \<le> e"
    using r by (auto simp: representable_def)
  show ?thesis
  proof (cases "ulp_exp x \<le> e")
    case True
    then have "r = of_int (m * 2 ^ nat (e - ulp_exp x)) * 2 powi ulp_exp x"
      by (simp add: m(1) powi_diff_mult)
    then show ?thesis by blast
  next
    case False
    then have ue: "ulp_exp x = ilog2 x - 52" using m(3) x by (auto simp: ulp_exp_def)
    have "2 powi ilog2 x \<le> x" by (rule ilog2_bounds [OF x])
    also have "\<dots> \<le> of_int m * 2 powi e" using le m(1) by simp
    finally have a: "2 powi ilog2 x \<le> of_int m * (2 :: rat) powi e" .
    have "(of_int m :: rat) \<le> of_int (2 ^ 53)" using m(2) by (simp only: of_int_le_iff)
    then have "of_int m * (2 :: rat) powi e \<le> of_int (2 ^ 53) * 2 powi e"
      by (intro mult_right_mono) simp_all
    also have "\<dots> = 2 powi (e + 53)" by (simp add: powi_diff_mult [of e "e + 53"])
    finally have b: "of_int m * (2 :: rat) powi e \<le> 2 powi (e + 53)" .
    have "ilog2 x \<le> e + 53" using order_trans [OF a b] by (simp add: powi_le_iff)
    then have e: "ilog2 x = e + 53" using False ue by simp
    have "e + 53 = ulp_exp x + 52" using e ue by simp
    moreover have "r = 2 powi (e + 53)" using a b m(1) e by (metis antisym)
    ultimately have "r = 2 powi (ulp_exp x + 52)" by (simp only:)
    then have "r = of_int (2 ^ 52) * 2 powi ulp_exp x"
      by (simp add: powi_diff_mult [of "ulp_exp x" "ulp_exp x + 52"])
    then show ?thesis by blast
  qed
qed

text \<open>Rounding never crosses a representable value, so it fixes them.\<close>

lemma round_rat_le:
  assumes "0 \<le> x" and "x \<le> r" and "representable r"
  shows "round_rat x \<le> r"
proof (cases "x = 0")
  case True
  then show ?thesis using assms by (simp add: round_rat_def)
next
  case False
  then have x: "0 < x" using assms by simp
  obtain k where k: "r = of_int k * 2 powi ulp_exp x"
    using representable_multiple_above [OF x assms(3,2)] by blast
  have "x / 2 powi ulp_exp x \<le> of_int k" using assms(2) k by (simp add: pos_divide_le_eq)
  then have "rne (x / 2 powi ulp_exp x) \<le> k" using rne_mono [of _ "of_int k"] by simp
  then have "of_int (rne (x / 2 powi ulp_exp x)) * 2 powi ulp_exp x \<le> of_int k * (2 :: rat) powi ulp_exp x"
    by (intro mult_right_mono) simp_all
  then show ?thesis using False k by (simp add: round_rat_def)
qed

lemma round_rat_ge_multiple:
  assumes "x \<noteq> 0" and "of_int k * 2 powi ulp_exp x \<le> x"
  shows "of_int k * 2 powi ulp_exp x \<le> round_rat x"
proof -
  have "of_int k \<le> x / 2 powi ulp_exp x" using assms(2) by (simp add: pos_le_divide_eq)
  then have "k \<le> rne (x / 2 powi ulp_exp x)" using rne_mono [of "of_int k"] by simp
  then have "of_int k * (2 :: rat) powi ulp_exp x \<le> of_int (rne (x / 2 powi ulp_exp x)) * 2 powi ulp_exp x"
    by (intro mult_right_mono) simp_all
  then show ?thesis using assms(1) by (simp add: round_rat_def)
qed

lemma round_rat_ge:
  assumes "0 \<le> r" and "r \<le> x" and "representable r"
  shows "r \<le> round_rat x"
proof (cases "x = 0")
  case True
  then show ?thesis using assms by (simp add: round_rat_def)
next
  case False
  then have x: "0 < x" using assms by simp
  obtain m e where m: "r = of_int m * 2 powi e" "\<bar>m\<bar> \<le> 2 ^ 53" "- 1074 \<le> e"
    using assms(3) by (auto simp: representable_def)
  show ?thesis
  proof (cases "ulp_exp x \<le> e")
    case True
    then have "r = of_int (m * 2 ^ nat (e - ulp_exp x)) * 2 powi ulp_exp x"
      by (simp add: m(1) powi_diff_mult)
    then show ?thesis using round_rat_ge_multiple False assms(2) by metis
  next
    case ee: False
    then have ue: "ulp_exp x = ilog2 x - 52" using m(3) x by (auto simp: ulp_exp_def)
    have "(of_int m :: rat) \<le> of_int (2 ^ 53)" using m(2) by (simp only: of_int_le_iff)
    then have "r \<le> of_int (2 ^ 53) * 2 powi e" unfolding m(1)
      by (intro mult_right_mono) simp_all
    also have "\<dots> = 2 powi (e + 53)" by (simp add: powi_diff_mult [of e "e + 53"])
    also have "\<dots> \<le> 2 powi ilog2 x" using ee ue by (simp add: powi_le_iff)
    finally have r: "r \<le> 2 powi ilog2 x" .
    have eq: "(2 :: rat) powi ilog2 x = of_int (2 ^ 52) * 2 powi ulp_exp x"
      using ue by (simp add: powi_diff_mult [of "ulp_exp x" "ilog2 x"])
    then have "of_int (2 ^ 52) * 2 powi ulp_exp x \<le> x" using ilog2_bounds(1) [OF x] by simp
    then have "of_int (2 ^ 52) * 2 powi ulp_exp x \<le> round_rat x"
      by (rule round_rat_ge_multiple [OF False])
    then show ?thesis using r eq by simp
  qed
qed

lemma round_rat_exact: "0 \<le> r \<Longrightarrow> representable r \<Longrightarrow> round_rat r = r"
  by (simp add: antisym round_rat_ge round_rat_le)

lemma representable_of_int: "\<bar>n\<bar> \<le> 2 ^ 53 \<Longrightarrow> representable (of_int n)"
  unfolding representable_def by (rule exI [of _ n], rule exI [of _ 0]) simp

lemma representable_of_nat: "n \<le> 2 ^ 53 \<Longrightarrow> representable (of_nat n)"
  using representable_of_int [of "int n"] by simp

lemma representable_powi: "- 1074 \<le> e \<Longrightarrow> representable (2 powi e)"
  unfolding representable_def by (rule exI [of _ 1], rule exI [of _ e]) simp

lemma representable_2_64: "representable (2 ^ 64)"
  using representable_powi [of 64] by (simp add: power_int_def)

lemma round_rat_nonneg: "0 \<le> x \<Longrightarrow> 0 \<le> round_rat x"
  using round_rat_ge [of 0 x] representable_of_int [of 0] by simp

text \<open>Rounding errs by at most half a unit in the last place: \<open>2 ^ -53\<close> relatively.\<close>

lemma round_rat_error:
  assumes "2 powi (- 1022) \<le> x"
  shows "\<bar>round_rat x - x\<bar> \<le> x / 2 ^ 53"
proof -
  have x: "0 < x" using less_le_trans [OF powi_pos assms] .
  have "(2 :: rat) powi (- 1022) < 2 powi (ilog2 x + 1)"
    using assms ilog2_bounds(2) [OF x] by (rule le_less_trans)
  then have "- 1022 < ilog2 x + 1" unfolding powi_less_iff .
  then have "- 1022 \<le> ilog2 x" by simp
  then have ue: "ulp_exp x = ilog2 x - 52" using x by (simp add: ulp_exp_def)
  let ?u = "(2 :: rat) powi ulp_exp x"
  have "round_rat x - x = (of_int (rne (x / ?u)) - x / ?u) * ?u"
    using x by (simp add: round_rat_def left_diff_distrib)
  then have "\<bar>round_rat x - x\<bar> = \<bar>of_int (rne (x / ?u)) - x / ?u\<bar> * ?u"
    by (simp add: abs_mult)
  also have "\<dots> \<le> 1 / 2 * ?u" by (intro mult_right_mono rne_near) simp_all
  also have "?u * 2 ^ 52 = 2 powi ilog2 x"
    using ue by (simp add: powi_diff_mult [of "ulp_exp x" "ilog2 x"])
  then have "?u \<le> x / 2 ^ 52" using ilog2_bounds(1) [OF x] by (simp add: pos_le_divide_eq)
  then have "1 / 2 * ?u \<le> x / 2 ^ 53" by simp
  finally show ?thesis .
qed

text \<open>Below a power of two the error is at most half the spacing there, subnormals included.\<close>

lemma round_rat_abs_error:
  assumes "0 \<le> x" and "x \<le> 2 powi n" and "- 1022 \<le> n"
  shows "\<bar>round_rat x - x\<bar> \<le> 2 powi (n - 53)"
proof (cases "x = 0")
  case True
  then show ?thesis by (simp add: round_rat_def less_imp_le)
next
  case False
  then have x: "0 < x" using assms(1) by simp
  have "2 powi ilog2 x \<le> (2 :: rat) powi n" using ilog2_bounds(1) [OF x] assms(2) by simp
  then have "ulp_exp x \<le> n - 52" using assms(3) x by (simp add: powi_le_iff ulp_exp_def)
  let ?u = "(2 :: rat) powi ulp_exp x"
  have "round_rat x - x = (of_int (rne (x / ?u)) - x / ?u) * ?u"
    using x by (simp add: round_rat_def left_diff_distrib)
  then have "\<bar>round_rat x - x\<bar> = \<bar>of_int (rne (x / ?u)) - x / ?u\<bar> * ?u"
    by (simp add: abs_mult)
  also have "\<dots> \<le> 1 / 2 * ?u" by (intro mult_right_mono rne_near) simp_all
  also have "\<dots> \<le> 1 / 2 * 2 powi (n - 52)"
    using \<open>ulp_exp x \<le> n - 52\<close> by (intro mult_left_mono) (simp_all add: powi_le_iff)
  also have "\<dots> = 2 powi (n - 53)" by (simp add: powi_diff_mult [of "n - 53" "n - 52"])
  finally show ?thesis .
qed

section \<open>The operations in the range of the crate\<close>

lemma f64_rnd_finite: "0 \<le> x \<Longrightarrow> x \<le> 2 ^ 64 \<Longrightarrow> f64_rnd x = Fin (round_rat x)"
proof -
  assume "0 \<le> x" "x \<le> 2 ^ 64"
  then have "0 \<le> round_rat x" "round_rat x \<le> 2 ^ 64"
    using round_rat_nonneg round_rat_le representable_2_64 by blast+
  then show ?thesis by (simp add: f64_rnd_def)
qed

lemma f64_rnd_exact:
  "0 \<le> x \<Longrightarrow> x \<le> 2 ^ 64 \<Longrightarrow> representable x \<Longrightarrow> f64_rnd x = Fin x"
  by (simp add: f64_rnd_finite round_rat_exact)

lemma u64_le_2_64: "(of_nat (unat (w :: u64)) :: rat) \<le> 2 ^ 64"
proof -
  have "(of_nat (unat w) :: rat) \<le> of_nat (2 ^ 64)"
    using less_imp_le [OF unat_u64_less [of w]] by (simp only: of_nat_le_iff) simp
  then show ?thesis by simp
qed

lemma f64_of_u64_finite: "f64_of_u64 w = Fin (round_rat (of_nat (unat w)))"
  unfolding f64_of_u64_def by (rule f64_rnd_finite [OF _ u64_le_2_64]) simp

lemma f64_of_u64_exact: "unat w \<le> 2 ^ 53 \<Longrightarrow> f64_of_u64 w = Fin (of_nat (unat w))"
  by (simp add: f64_of_u64_finite round_rat_exact representable_of_nat)

lemma unat_u64_of_f64_floor:
  assumes "0 \<le> y" and "y \<le> of_nat (unat (w :: u64))"
  shows "unat (u64_of_f64 (Fin y)) = nat \<lfloor>y\<rfloor>" and "unat (u64_of_f64 (Fin y)) \<le> unat w"
proof -
  have w: "of_nat (unat w) < (2 ^ 64 :: rat)"
  proof -
    have "(of_nat (unat w) :: rat) < of_nat (2 ^ 64)"
      using unat_u64_less [of w] by (simp only: of_nat_less_iff) simp
    then show ?thesis by simp
  qed
  have fl: "0 \<le> \<lfloor>y\<rfloor>" "\<lfloor>y\<rfloor> \<le> int (unat w)" using assms by linarith+
  have "nat \<lfloor>y\<rfloor> < 18446744073709551616" using fl(2) unat_u64_less [of w] by linarith
  then show eq: "unat (u64_of_f64 (Fin y)) = nat \<lfloor>y\<rfloor>"
    using assms w fl(1)
    by (simp add: unsigned_of_int take_bit_int_eq_self nat_less_iff)
  show "unat (u64_of_f64 (Fin y)) \<le> unat w" unfolding eq using fl by simp
qed

lemma f64_max_zero [simp]: "0 \<le> y \<Longrightarrow> f64_max (Fin y) 0 = Fin y"
  by (auto simp: f64_max_def zero_f64_def)

lemma f64_clamp_01: "f64_clamp x 0 1 = NaN \<or> (\<exists>f. f64_clamp x 0 1 = Fin f \<and> 0 \<le> f \<and> f \<le> 1)"
  by (cases x) (auto simp: f64_clamp_def zero_f64_def one_f64_def)

lemma f64_rnd_at_least:
  assumes "0 \<le> r" and "r \<le> x" and "representable r"
  shows "f64_rnd x = Inf False \<or> (\<exists>y. f64_rnd x = Fin y \<and> r \<le> y)"
  using round_rat_ge [OF assms] assms(1,2) by (auto simp: f64_rnd_def)

lemma u64_of_f64_ceil_at_least:
  assumes "of_nat (unat (w :: u64)) \<le> y"
  shows "w \<le> u64_of_f64 (f64_ceil (Fin y))"
proof (cases "2 ^ 64 \<le> \<lceil>y\<rceil>")
  case True
  then have "(2 ^ 64 :: rat) \<le> of_int \<lceil>y\<rceil>" by (metis of_int_le_iff of_int_numeral of_int_power)
  then show ?thesis by simp
next
  case False
  then have lt: "\<lceil>y\<rceil> < 2 ^ 64" by simp
  have "(of_int (int (unat w)) :: rat) \<le> y" using assms by simp
  then have le: "int (unat w) \<le> \<lceil>y\<rceil>" by linarith
  then have nn: "0 \<le> \<lceil>y\<rceil>" by linarith
  have "(of_int \<lceil>y\<rceil> :: rat) < 2 ^ 64" using lt by (metis of_int_less_iff of_int_numeral of_int_power)
  then have "u64_of_f64 (f64_ceil (Fin y)) = word_of_int \<lceil>y\<rceil>" using nn by simp
  moreover have "unat (word_of_int \<lceil>y\<rceil> :: u64) = nat \<lceil>y\<rceil>"
    using nn lt by (simp add: unsigned_of_int take_bit_int_eq_self)
  ultimately show ?thesis using le by (simp add: word_le_nat_alt)
qed

text \<open>Two neighbours just above \<open>2 ^ 53\<close>: the odd one is not representable and ties away upwards.\<close>

lemma odd_above_2_53: "f64_rnd 9007199254740995 = Fin 9007199254740996"
proof -
  have "ulp_exp 9007199254740995 = 1"
    using ilog2_unique [of 53 9007199254740995] by (simp add: ulp_exp_def power_int_def)
  moreover have "\<lfloor>9007199254740995 / 2 :: rat\<rfloor> = 4503599627370497"
    by (rule floor_unique) simp_all
  ultimately show ?thesis
    by (simp add: f64_rnd_finite round_rat_def rne_def Let_def power_int_def)
qed

lemma even_above_2_53: "f64_rnd 9007199254740996 = Fin 9007199254740996"
proof (rule f64_rnd_exact)
  show "representable 9007199254740996"
    unfolding representable_def
    by (rule exI [of _ 4503599627370498], rule exI [of _ 1]) (simp add: power_int_def)
qed simp_all

text \<open>Rounding with its error on the ranges of the raw curve, negative values included.\<close>

lemma f64_rnd_finite_1023: "0 \<le> x \<Longrightarrow> x \<le> 2 powi 1023 \<Longrightarrow> f64_rnd x = Fin (round_rat x)"
proof -
  assume x: "0 \<le> x" "x \<le> 2 powi 1023"
  have "round_rat x \<le> 2 powi 1023" using x representable_powi [of 1023] by (intro round_rat_le) simp_all
  also have "(2 :: rat) powi 1023 < 2 powi 1024" unfolding powi_less_iff by simp
  finally have "round_rat x < 2 ^ 1024" by (simp add: power_int_def)
  then show ?thesis using round_rat_nonneg [OF x(1)] by (simp add: f64_rnd_def)
qed

text \<open>The relative error from both sides, zero included.\<close>

lemma round_rat_relative:
  assumes "x = 0 \<or> 2 powi (- 1022) \<le> x"
  shows "x - x / 2 ^ 53 \<le> round_rat x" and "round_rat x \<le> x + x / 2 ^ 53"
proof -
  have "\<bar>round_rat x - x\<bar> \<le> x / 2 ^ 53"
    using assms round_rat_error [of x] by (auto simp: round_rat_def)
  then show "x - x / 2 ^ 53 \<le> round_rat x" "round_rat x \<le> x + x / 2 ^ 53"
    unfolding abs_le_iff by linarith+
qed

lemma round_rat_nonpos: "x \<le> 0 \<Longrightarrow> round_rat x \<le> 0"
proof -
  assume "x \<le> 0"
  then have "x / 2 powi ulp_exp x \<le> 0" by (simp add: divide_le_0_iff less_imp_le)
  from rne_mono [OF this] have "rne (x / 2 powi ulp_exp x) \<le> 0" using rne_of_int [of 0] by simp
  then show ?thesis by (simp add: round_rat_def mult_le_0_iff less_imp_le)
qed

lemma f64_rnd_nonpos: "x \<le> 0 \<Longrightarrow> f64_rnd x = Inf True \<or> (\<exists>y \<le> 0. f64_rnd x = Fin y)"
  using round_rat_nonpos [of x] by (auto simp: f64_rnd_def round_rat_def)

lemma f64_max_nonpos:
  assumes "x \<le> 0" and "0 \<le> f"
  shows "f64_max (f64_rnd x * Fin f) 0 = 0"
  using f64_rnd_nonpos [OF assms(1)]
proof (elim disjE bexE exE conjE)
  assume "f64_rnd x = Inf True"
  then show ?thesis using assms(2) by (auto simp: f64_max_def zero_f64_def)
next
  fix y assume "y \<le> 0" and y: "f64_rnd x = Fin y"
  then have "y * f \<le> 0" using assms(2) by (simp add: mult_le_0_iff)
  from f64_rnd_nonpos [OF this] show ?thesis
    by (auto simp: y f64_max_def zero_f64_def)
qed

lemma round_rat_near:
  "0 \<le> x \<Longrightarrow> x \<le> 2 ^ 50 \<Longrightarrow> \<bar>round_rat x - x\<bar> \<le> 1 / 8"
  "0 \<le> x \<Longrightarrow> x \<le> 2 ^ 49 \<Longrightarrow> \<bar>round_rat x - x\<bar> \<le> 1 / 16"
  using round_rat_abs_error [of x 50] round_rat_abs_error [of x 49] by (simp_all add: power_int_def power_divide)

end
