(* ===== verification/Fee_Schedule.thy ===== *)
theory Fee_Schedule
  imports Reader
begin

text \<open>
  The fee schedules of \<open>state.rs\<close>: \<open>Fees\<close> with its per-component rounding, the market-cap ladder
  of \<open>FeeTier\<close>s, and the fee program's \<open>FeeConfig\<close> account with its decoder and the choice of
  the schedule for a pool. The lemmas give the exact fee as a natural number, bound it against
  a single rounded-up calculation, characterise the rung a market cap selects, and show that
  the decoder accepts exactly the encodings of a configuration.
\<close>

section \<open>Fees\<close>

record Fees =
  lp_fee_bps :: u64
  protocol_fee_bps :: u64
  creator_fee_bps :: u64

definition ceil_div_bps :: "u64 \<Rightarrow> u64 \<Rightarrow> u64" where
  "ceil_div_bps amount bps =
     (let numerator = (ucast amount :: u128) * ucast bps
      in unwrap_or (u64_try_from (div_ceil numerator 10000)) u64_MAX)"

definition fees_default :: Fees where
  "fees_default = \<lparr>lp_fee_bps = 0, protocol_fee_bps = 0, creator_fee_bps = 0\<rparr>"

definition total_bps :: "Fees \<Rightarrow> u64" where
  "total_bps f =
     saturating_add (saturating_add (lp_fee_bps f) (protocol_fee_bps f)) (creator_fee_bps f)"

definition fee_on :: "Fees \<Rightarrow> u64 \<Rightarrow> u64" where
  "fee_on f amount = foldl saturating_add 0
     (map (ceil_div_bps amount) [lp_fee_bps f, protocol_fee_bps f, creator_fee_bps f])"

definition fees_read :: "reader \<Rightarrow> (Fees \<times> reader) res" where
  "fees_read r =
     bindE (rd_u64 r) (\<lambda>(lp, r).
     bindE (rd_u64 r) (\<lambda>(protocol, r).
     bindE (rd_u64 r) (\<lambda>(creator, r).
     Inr (\<lparr>lp_fee_bps = lp, protocol_fee_bps = protocol, creator_fee_bps = creator\<rparr>, r))))"

subsection \<open>The fee as a natural number\<close>

text \<open>The exact share and the exact fee, without machine integers.\<close>

definition ceil_bps :: "nat \<Rightarrow> nat \<Rightarrow> nat" where
  "ceil_bps amount bps = (amount * bps + 9999) div 10000"

definition exact_fee :: "Fees \<Rightarrow> nat \<Rightarrow> nat" where
  "exact_fee f amount = ceil_bps amount (unat (lp_fee_bps f)) +
     ceil_bps amount (unat (protocol_fee_bps f)) + ceil_bps amount (unat (creator_fee_bps f))"

definition exact_bps :: "Fees \<Rightarrow> nat" where
  "exact_bps f = unat (lp_fee_bps f) + unat (protocol_fee_bps f) + unat (creator_fee_bps f)"

lemma unat_ceil_div_bps: "unat (ceil_div_bps a b) = min (ceil_bps (unat a) (unat b)) (2 ^ 64 - 1)"
  by (simp add: ceil_div_bps_def Let_def u64_try_from_or_max unat_div_ceil unat_u128_mult ceil_bps_def)

lemma unat_fee_on: "unat (fee_on f a) = min (exact_fee f (unat a)) (2 ^ 64 - 1)"
  by (simp add: fee_on_def unat_saturating_add unat_ceil_div_bps exact_fee_def)

lemma unat_total_bps: "unat (total_bps f) = min (exact_bps f) (2 ^ 64 - 1)"
  by (simp add: total_bps_def unat_saturating_add exact_bps_def)

lemma ceil_bps_0 [simp]: "ceil_bps 0 b = 0" "ceil_bps a 0 = 0"
  by (simp_all add: ceil_bps_def)

lemma ceil_bps_mono: "a \<le> a' \<Longrightarrow> b \<le> b' \<Longrightarrow> ceil_bps a b \<le> ceil_bps a' b'"
  unfolding ceil_bps_def by (intro div_le_mono add_right_mono mult_le_mono)

lemma exact_fee_mono: "a \<le> a' \<Longrightarrow> exact_fee f a \<le> exact_fee f a'"
  unfolding exact_fee_def by (intro add_mono ceil_bps_mono order_refl)

text \<open>Rounding each of three shares up costs at most two more than rounding their sum up.\<close>

lemma ceil_bps_sum3:
  "ceil_bps a (x + y + z) \<le> ceil_bps a x + ceil_bps a y + ceil_bps a z"
  "ceil_bps a x + ceil_bps a y + ceil_bps a z \<le> ceil_bps a (x + y + z) + 2"
  unfolding ceil_bps_def distrib_left by linarith+

lemma exact_fee_bounds:
  "ceil_bps a (exact_bps f) \<le> exact_fee f a"
  "exact_fee f a \<le> ceil_bps a (exact_bps f) + 2"
  unfolding exact_fee_def exact_bps_def by (rule ceil_bps_sum3)+

lemma ceil_bps_le: "b \<le> 10000 \<Longrightarrow> ceil_bps a b \<le> a"
proof -
  assume "b \<le> 10000"
  then have "a * b \<le> a * 10000" by (rule mult_le_mono2)
  then show ?thesis unfolding ceil_bps_def by linarith
qed

subsection \<open>Encoding\<close>

definition enc_fees :: "Fees \<Rightarrow> bytes" where
  "enc_fees f = to_le_bytes (lp_fee_bps f) @ to_le_bytes (protocol_fee_bps f)
     @ to_le_bytes (creator_fee_bps f)"

lemma fees_codec: "borsh_fixed fees_read enc_fees (\<lambda>_. True) 24"
proof (intro borsh_fixed.intro borsh_fixed_axioms.intro)
  show "borsh_codec fees_read enc_fees (\<lambda>_. True)"
    unfolding fees_read_def [abs_def]
    by (rule parses_codec, (rule reader_intros)+)
      (auto simp: enc_fees_def, (rule exI conjI refl)+, simp)
qed (simp add: enc_fees_def)

interpretation fees_codec: borsh_fixed fees_read enc_fees "\<lambda>_. True" 24
  by (rule fees_codec)

section \<open>The market-cap ladder\<close>

record FeeTier =
  market_cap_lamports_threshold :: u128
  tier_fees :: Fees

definition fee_tier_read :: "reader \<Rightarrow> (FeeTier \<times> reader) res" where
  "fee_tier_read r =
     bindE (rd_u128 r) (\<lambda>(threshold, r).
     bindE (fees_read r) (\<lambda>(fees, r).
     Inr (\<lparr>market_cap_lamports_threshold = threshold, tier_fees = fees\<rparr>, r)))"

definition FeeTier_ENCODED_LEN :: nat where
  "FeeTier_ENCODED_LEN = 16 + 24"

definition enc_fee_tier :: "FeeTier \<Rightarrow> bytes" where
  "enc_fee_tier t = to_le_bytes (market_cap_lamports_threshold t) @ enc_fees (tier_fees t)"

lemma fee_tier_codec: "borsh_fixed fee_tier_read enc_fee_tier (\<lambda>_. True) FeeTier_ENCODED_LEN"
proof (intro borsh_fixed.intro borsh_fixed_axioms.intro)
  show "borsh_codec fee_tier_read enc_fee_tier (\<lambda>_. True)"
    unfolding fee_tier_read_def [abs_def]
    by (rule parses_codec, (rule reader_intros)+)
      (auto simp: enc_fee_tier_def fees_codec.enc_length, (rule exI conjI refl)+, simp)
qed (simp add: enc_fee_tier_def FeeTier_ENCODED_LEN_def fees_codec.enc_length)

interpretation fee_tier_codec: borsh_fixed fee_tier_read enc_fee_tier "\<lambda>_. True" FeeTier_ENCODED_LEN
  by (rule fee_tier_codec)

interpretation fee_tiers_codec: borsh_codec "rd_vec FeeTier_ENCODED_LEN fee_tier_read"
    "enc_vec enc_fee_tier" "vec_ok (\<lambda>_. True)"
  by (rule fee_tier_codec.vec_codec)

subsection \<open>FeeConfig\<close>

record FeeConfig =
  fc_bump :: u8
  fc_admin :: pubkey
  flat_fees :: Fees
  fee_tiers :: "FeeTier list"
  stable_fee_tiers :: "FeeTier list"

definition FEE_CONFIG_DISCRIMINATOR :: bytes where
  "FEE_CONFIG_DISCRIMINATOR = [0x8f, 0x34, 0x92, 0xbb, 0xdb, 0x7b, 0x4c, 0x9b]"

definition fee_config_from_account_data :: "bytes \<Rightarrow> FeeConfig res" where
  "fee_config_from_account_data data =
     bindE (rd_after_discriminator data FEE_CONFIG_DISCRIMINATOR ''FeeConfig'') (\<lambda>r.
     bindE (rd_u8 r) (\<lambda>(bump, r).
     bindE (rd_pubkey r) (\<lambda>(admin, r).
     bindE (fees_read r) (\<lambda>(flat, r).
     bindE (rd_vec FeeTier_ENCODED_LEN fee_tier_read r) (\<lambda>(tiers, r).
     bindE (rd_vec FeeTier_ENCODED_LEN fee_tier_read r) (\<lambda>(stable, r).
     Inr \<lparr>fc_bump = bump, fc_admin = admin, flat_fees = flat, fee_tiers = tiers,
       stable_fee_tiers = stable\<rparr>))))))"

text \<open>\<open>tiers.iter().rev().find(..)\<close>.\<close>

definition tier_for_market_cap :: "FeeTier list \<Rightarrow> u128 \<Rightarrow> FeeTier option" where
  "tier_for_market_cap tiers cap =
     find (\<lambda>tier. market_cap_lamports_threshold tier \<le> cap) (rev tiers)"

definition fee_tier_for_market_cap :: "FeeConfig \<Rightarrow> u128 \<Rightarrow> FeeTier option" where
  "fee_tier_for_market_cap c cap = tier_for_market_cap (fee_tiers c) cap"

definition stable_fee_tier_for_market_cap :: "FeeConfig \<Rightarrow> u128 \<Rightarrow> FeeTier option" where
  "stable_fee_tier_for_market_cap c cap = tier_for_market_cap (stable_fee_tiers c) cap"

definition is_stable_quote_mint :: "pubkey \<Rightarrow> bool" where
  "is_stable_quote_mint quote_mint = False"

definition fees_for_pool :: "FeeConfig \<Rightarrow> bool \<Rightarrow> u128 \<Rightarrow> pubkey \<Rightarrow> Fees" where
  "fees_for_pool c is_tiered cap quote_mint =
     (if \<not> is_tiered then flat_fees c
      else let ladder = (if is_stable_quote_mint quote_mint then stable_fee_tiers c else fee_tiers c)
        in unwrap_or (map_option tier_fees
             (case tier_for_market_cap ladder cap of
                Some tier \<Rightarrow> Some tier
              | None \<Rightarrow> (case ladder of [] \<Rightarrow> None | tier # _ \<Rightarrow> Some tier)))
             (flat_fees c))"

subsection \<open>The decoder accepts exactly the encodings\<close>

definition enc_fee_config :: "FeeConfig \<Rightarrow> bytes" where
  "enc_fee_config c = fc_bump c # pk_bytes (fc_admin c) @ enc_fees (flat_fees c)
     @ enc_vec enc_fee_tier (fee_tiers c) @ enc_vec enc_fee_tier (stable_fee_tiers c)"

definition fee_config_ok :: "FeeConfig \<Rightarrow> bool" where
  "fee_config_ok c \<longleftrightarrow> pk_ok (fc_admin c) \<and> length (fee_tiers c) < 2 ^ 32
     \<and> length (stable_fee_tiers c) < 2 ^ 32"

lemma fee_config_decode_iff:
  assumes "length data < 2 ^ 64"
  shows "fee_config_from_account_data data = Inr c \<longleftrightarrow>
    fee_config_ok c \<and> prefix (FEE_CONFIG_DISCRIMINATOR @ enc_fee_config c) data"
  unfolding fee_config_from_account_data_def
  by (rule account_iff [OF _ assms], simp add: FEE_CONFIG_DISCRIMINATOR_def, (rule reader_intros)+)
    (auto simp: fee_config_ok_def enc_fee_config_def vec_ok_def fees_codec.enc_length,
      (rule exI conjI refl | assumption)+, simp)

text \<open>A concrete configuration, for the instances of later theorems.\<close>

definition fee_config_example :: FeeConfig where
  "fee_config_example = \<lparr>fc_bump = 255, fc_admin = Pubkey (replicate 32 2),
     flat_fees = \<lparr>lp_fee_bps = 25, protocol_fee_bps = 5, creator_fee_bps = 0\<rparr>,
     fee_tiers = [\<lparr>market_cap_lamports_threshold = 0,
       tier_fees = \<lparr>lp_fee_bps = 2, protocol_fee_bps = 93, creator_fee_bps = 30\<rparr>\<rparr>],
     stable_fee_tiers = []\<rparr>"

definition fee_config_account_example :: bytes where
  "fee_config_account_example = FEE_CONFIG_DISCRIMINATOR @ enc_fee_config fee_config_example"

lemma fee_config_account_example:
  "fee_config_from_account_data fee_config_account_example = Inr fee_config_example"
proof -
  have "length fee_config_account_example < 2 ^ 64"
    by (simp add: fee_config_account_example_def FEE_CONFIG_DISCRIMINATOR_def enc_fee_config_def
        fee_config_example_def fees_codec.enc_length enc_vec_def enc_fee_tier_def)
  then show ?thesis
    by (simp add: fee_config_decode_iff fee_config_account_example_def)
      (simp add: fee_config_ok_def fee_config_example_def)
qed

subsection \<open>The rung a market cap selects\<close>

definition ladder_ok :: "FeeTier list \<Rightarrow> bool" where
  "ladder_ok ts \<longleftrightarrow> sorted_wrt (<) (map market_cap_lamports_threshold ts)"

lemma find_rev_snoc: "find P (rev (xs @ [x])) = (if P x then Some x else find P (rev xs))"
  by simp

lemma tier_for_market_cap_eq_None_iff:
  "tier_for_market_cap ts cap = None \<longleftrightarrow> (\<forall>t \<in> set ts. cap < market_cap_lamports_threshold t)"
  by (auto simp: tier_for_market_cap_def find_None_iff not_le)

lemma tier_for_market_cap_in: "tier_for_market_cap ts cap = Some t \<Longrightarrow>
    t \<in> set ts \<and> market_cap_lamports_threshold t \<le> cap"
  by (auto simp: tier_for_market_cap_def find_Some_iff in_set_conv_nth rev_nth)
    (metis Suc_diff_Suc diff_less_Suc length_rev rev_nth nth_mem set_rev in_set_conv_nth)

lemma tier_for_market_cap_greatest:
  "ladder_ok ts \<Longrightarrow> tier_for_market_cap ts cap = Some t \<Longrightarrow> u \<in> set ts \<Longrightarrow>
    market_cap_lamports_threshold u \<le> cap \<Longrightarrow>
    market_cap_lamports_threshold u \<le> market_cap_lamports_threshold t"
proof (induction ts rule: rev_induct)
  case (snoc x xs)
  then show ?case
    by (cases "market_cap_lamports_threshold x \<le> cap")
      (auto simp: tier_for_market_cap_def ladder_ok_def sorted_wrt_append less_imp_le)
qed (simp add: tier_for_market_cap_def)

lemma ladder_distinct:
  "ladder_ok ts \<Longrightarrow> t \<in> set ts \<Longrightarrow> u \<in> set ts \<Longrightarrow>
    market_cap_lamports_threshold t = market_cap_lamports_threshold u \<Longrightarrow> t = u"
  by (induction ts) (auto simp: ladder_ok_def)

end
