(* ===== verification/Pricing.thy ===== *)
theory Pricing
  imports F64 Fee_Schedule Pool_State
begin

text \<open>
  Swap pricing, \<open>math.rs\<close>: the constant-product steps in \<open>u128\<close>, the fee split of the three
  swap directions, slippage in \<open>f64\<close>, the market cap that selects the fee tier. The curve is
  first specified on natural numbers; the locale \<open>swap_curve\<close> states what the exact-in and
  exact-out sides of a curve owe each other and is interpreted on the two functions of the
  source. The lemmas then carry the quotes: exactness, the product invariant, no profitable
  round trip, fee bounds, and the range in which slippage bounds are on the safe side.
\<close>

section \<open>The functions of math.rs\<close>

definition calc_amount_out :: "u64 \<Rightarrow> u64 \<Rightarrow> u64 \<Rightarrow> f64 \<Rightarrow> u64" where
  "calc_amount_out amount_in reserve_in reserve_out slippage =
     (let amount_in = f64_of_u64 amount_in;
          reserve_in = f64_of_u64 reserve_in;
          reserve_out = f64_of_u64 reserve_out;
          product = reserve_in * reserve_out;
          new_in_reserve = reserve_in + amount_in;
          new_out_reserve = product / new_in_reserve + 1;
          result = (reserve_out - new_out_reserve) * (1 - slippage)
      in u64_of_f64 (f64_round (f64_max result 0)))"

definition constant_product_out :: "u64 \<Rightarrow> u64 \<Rightarrow> u64 \<Rightarrow> u64" where
  "constant_product_out amount_in reserve_in reserve_out =
     (let numerator = (ucast reserve_out :: u128) * ucast amount_in;
          denominator = (ucast reserve_in :: u128) + ucast amount_in
      in if denominator = 0 then 0
         else unwrap_or (u64_try_from (numerator div denominator)) u64_MAX)"

definition constant_product_in :: "u64 \<Rightarrow> u64 \<Rightarrow> u64 \<Rightarrow> u64 option" where
  "constant_product_in amount_out reserve_in reserve_out =
     (case checked_sub reserve_out amount_out of
        None \<Rightarrow> None
      | Some remaining \<Rightarrow>
          if remaining = 0 then None
          else let numerator = (ucast reserve_in :: u128) * ucast amount_out
            in Some (unwrap_or (u64_try_from (div_ceil numerator (ucast remaining))) u64_MAX))"

definition apply_slippage :: "u64 \<Rightarrow> f64 \<Rightarrow> u64" where
  "apply_slippage amount slippage =
     (let factor = f64_clamp (1 - slippage) 0 1
      in u64_of_f64 (f64_max (f64_floor (f64_of_u64 amount * factor)) 0))"

record SwapQuote =
  gross_amount_out :: u64
  sq_fee :: u64
  amount_out :: u64
  min_amount_out :: u64

record BuyExactOutQuote =
  quote_amount_in :: u64
  bq_fee :: u64
  total_quote_in :: u64
  max_quote_in :: u64

definition quote_sell :: "u64 \<Rightarrow> u64 \<Rightarrow> u64 \<Rightarrow> Fees \<Rightarrow> f64 \<Rightarrow> SwapQuote" where
  "quote_sell base_amount_in base_reserve quote_reserve fees slippage =
     (let gross = constant_product_out base_amount_in base_reserve quote_reserve;
          fee = fee_on fees gross;
          out = saturating_sub gross fee
      in \<lparr>gross_amount_out = gross, sq_fee = fee, amount_out = out,
          min_amount_out = apply_slippage out slippage\<rparr>)"

definition quote_buy_exact_quote_in :: "u64 \<Rightarrow> u64 \<Rightarrow> u64 \<Rightarrow> Fees \<Rightarrow> f64 \<Rightarrow> SwapQuote" where
  "quote_buy_exact_quote_in quote_in base_reserve quote_reserve fees slippage =
     (let denominator = (10000 :: u128) + ucast (total_bps fees);
          charged = unwrap_or (u64_try_from ((ucast quote_in :: u128) * 10000 div denominator)) u64_MAX;
          fee = fee_on fees charged;
          net = saturating_sub quote_in fee;
          curve_in = saturating_sub net 1;
          out = constant_product_out curve_in quote_reserve base_reserve
      in \<lparr>gross_amount_out = out, sq_fee = fee, amount_out = out,
          min_amount_out = apply_slippage out slippage\<rparr>)"

definition quote_buy_exact_base_out ::
  "u64 \<Rightarrow> u64 \<Rightarrow> u64 \<Rightarrow> Fees \<Rightarrow> f64 \<Rightarrow> BuyExactOutQuote option" where
  "quote_buy_exact_base_out base_amount_out base_reserve quote_reserve fees slippage =
     (case constant_product_in base_amount_out quote_reserve base_reserve of
        None \<Rightarrow> None
      | Some quote_in \<Rightarrow>
          let fee = fee_on fees quote_in;
              total = saturating_add quote_in fee;
              factor = f64_min (1 + f64_max slippage 0) (Fin 4294967295);
              max_in = u64_of_f64 (f64_ceil (f64_of_u64 total * factor))
          in Some \<lparr>quote_amount_in = quote_in, bq_fee = fee, total_quote_in = total,
                   max_quote_in = max_in\<rparr>)"

definition token_buy_quote :: "ext \<Rightarrow> u64 \<Rightarrow> u64 \<times> u64 \<Rightarrow> PoolInfo \<Rightarrow> Fees \<Rightarrow> f64 \<Rightarrow> SwapQuote" where
  "token_buy_quote e sol_in reserves pool fees slippage =
     (case effective_reserves pool (fst reserves) (snd reserves) of (base_reserve, quote_reserve) \<Rightarrow>
        if sol_is_base e pool
        then quote_sell sol_in base_reserve quote_reserve fees slippage
        else quote_buy_exact_quote_in sol_in base_reserve quote_reserve fees slippage)"

definition token_sell_quote :: "ext \<Rightarrow> u64 \<Rightarrow> u64 \<times> u64 \<Rightarrow> PoolInfo \<Rightarrow> Fees \<Rightarrow> f64 \<Rightarrow> SwapQuote" where
  "token_sell_quote e tokens_in reserves pool fees slippage =
     (case effective_reserves pool (fst reserves) (snd reserves) of (base_reserve, quote_reserve) \<Rightarrow>
        if sol_is_base e pool
        then quote_buy_exact_quote_in tokens_in base_reserve quote_reserve fees slippage
        else quote_sell tokens_in base_reserve quote_reserve fees slippage)"

definition buy_amount_out :: "ext \<Rightarrow> u64 \<Rightarrow> u64 \<times> u64 \<Rightarrow> PoolInfo \<Rightarrow> Fees \<Rightarrow> f64 \<Rightarrow> u64" where
  "buy_amount_out e amount_in reserves pool fees slippage =
     min_amount_out (token_buy_quote e amount_in reserves pool fees slippage)"

definition sell_amount_out :: "ext \<Rightarrow> u64 \<Rightarrow> u64 \<times> u64 \<Rightarrow> PoolInfo \<Rightarrow> Fees \<Rightarrow> f64 \<Rightarrow> u64" where
  "sell_amount_out e amount_in reserves pool fees slippage =
     min_amount_out (token_sell_quote e amount_in reserves pool fees slippage)"

definition market_cap_lamports :: "u64 \<Rightarrow> u64 \<Rightarrow> u64 \<Rightarrow> u128" where
  "market_cap_lamports base_supply base_reserve quote_reserve =
     (if base_reserve = 0 then 0
      else (ucast base_supply * ucast quote_reserve) div ucast base_reserve)"

definition is_tiered_fee_pool :: "PoolInfo \<Rightarrow> bool" where
  "is_tiered_fee_pool pool \<longleftrightarrow> coin_creator pool \<noteq> pubkey_default"

definition can_quote_fees :: "ext \<Rightarrow> PoolInfo \<Rightarrow> bool" where
  "can_quote_fees e pool \<longleftrightarrow> \<not> is_tiered_fee_pool pool \<or> quote_mint pool = WRAPPED_SOL_MINT e"

section \<open>The curve on natural numbers\<close>

definition cp_out :: "nat \<Rightarrow> nat \<Rightarrow> nat \<Rightarrow> nat" where
  "cp_out rin rout x = rout * x div (rin + x)"

definition cp_needed :: "nat \<Rightarrow> nat \<Rightarrow> nat \<Rightarrow> nat" where
  "cp_needed rin rout y = (rin * y + (rout - y) - 1) div (rout - y)"

lemma ceil_div_le_iff: "0 < (d :: nat) \<Longrightarrow> (n + d - 1) div d \<le> x \<longleftrightarrow> n \<le> x * d"
proof -
  assume d: "0 < d"
  have "(n + d - 1) div d \<le> x \<longleftrightarrow> (n + d - 1) div d < Suc x" by auto
  also have "\<dots> \<longleftrightarrow> n + d - 1 < Suc x * d" using d by (rule div_less_iff_less_mult)
  also have "\<dots> \<longleftrightarrow> n \<le> x * d" using d by auto
  finally show ?thesis .
qed

lemma cp_needed_le_iff:
  assumes "0 < rin" and y: "y < rout"
  shows "cp_needed rin rout y \<le> x \<longleftrightarrow> y \<le> cp_out rin rout x"
proof -
  have "cp_needed rin rout y \<le> x \<longleftrightarrow> rin * y \<le> x * (rout - y)"
    unfolding cp_needed_def using y by (intro ceil_div_le_iff) simp
  also have "\<dots> \<longleftrightarrow> y * (rin + x) \<le> rout * x"
    using y by (auto simp: diff_mult_distrib2 algebra_simps le_diff_conv2)
  also have "\<dots> \<longleftrightarrow> y \<le> cp_out rin rout x"
    unfolding cp_out_def using assms by (simp add: less_eq_div_iff_mult_less_eq)
  finally show ?thesis .
qed

lemma cp_out_less: "0 < rin \<Longrightarrow> 0 < rout \<Longrightarrow> cp_out rin rout x < rout"
  unfolding cp_out_def by (simp add: div_less_iff_less_mult)

text \<open>The product of the reserves never falls, and swapping back never gains.\<close>

lemma div_le_if_le_mult: "(n :: nat) \<le> d * m \<Longrightarrow> n div m \<le> d"
  by (cases "m = 0") (auto dest: div_le_mono [of _ _ m])

lemma cp_out_le: "cp_out rin rout x \<le> rout"
  unfolding cp_out_def by (rule div_le_if_le_mult) simp

lemma cp_out_mult_le: "cp_out rin rout x * (rin + x) \<le> rout * x"
  unfolding cp_out_def by (rule div_times_less_eq_dividend)

lemma cp_invariant: "rin * rout \<le> (rin + x) * (rout - cp_out rin rout x)"
  using cp_out_mult_le [of rin rout x] by (simp add: diff_mult_distrib2 algebra_simps le_diff_conv2)

lemma cp_round_trip:
  assumes "cp_out rin rout x = y" and "x \<le> d"
  shows "cp_out (rout - y) (rin + d) y \<le> d"
proof -
  obtain k where k: "rout = y + k" using cp_out_le assms(1) le_Suc_ex by blast
  have "y * (rin + x) \<le> (y + k) * x" using cp_out_mult_le [of rin rout x] assms(1) k by simp
  then have "rin * y \<le> k * x" by (simp add: algebra_simps)
  also have "\<dots> \<le> k * d" using assms(2) by simp
  finally have "(rin + d) * y \<le> d * (k + y)" by (simp add: algebra_simps)
  then show ?thesis unfolding cp_out_def k by (intro div_le_if_le_mult) simp
qed

section \<open>The u128 steps compute the curve\<close>

lemma unat_constant_product_out:
  "unat (constant_product_out a rin rout) = cp_out (unat rin) (unat rout) (unat a)"
proof (cases "(ucast rin :: u128) + ucast a = 0")
  case True
  then have "unat rin + unat a = 0" by (metis unat_u128_add unat_0)
  then show ?thesis using True by (simp add: constant_product_out_def cp_out_def)
next
  case False
  have "cp_out (unat rin) (unat rout) (unat a) \<le> 2 ^ 64 - 1"
    using cp_out_le unat_u64_le_exp by (rule order_trans)
  then show ?thesis using False
    by (simp add: constant_product_out_def Let_def u64_try_from_or_max unat_div_distrib
        unat_u128_mult unat_u128_add cp_out_def)
qed

lemma constant_product_in_eq_None_iff: "constant_product_in y rin rout = None \<longleftrightarrow> rout \<le> y"
  by (auto simp: constant_product_in_def checked_sub_def Let_def)

lemma unat_constant_product_in:
  assumes "constant_product_in y rin rout = Some x"
  shows "unat x = min (cp_needed (unat rin) (unat rout) (unat y)) (2 ^ 64 - 1)" and "unat y < unat rout"
proof -
  have le: "y \<le> rout" and nz: "rout - y \<noteq> 0"
    and x: "x = unwrap_or (u64_try_from (div_ceil (ucast rin * ucast y) (ucast (rout - y)))) u64_MAX"
    using assms by (auto simp: constant_product_in_def checked_sub_def Let_def split: if_splits)
  have d: "unat (rout - y) = unat rout - unat y" using le by (simp add: unat_sub)
  have nz': "(ucast (rout - y) :: u128) \<noteq> 0"
    using nz by (metis unat_u128_of_u64 unat_0 unat_eq_zero)
  show "unat x = min (cp_needed (unat rin) (unat rout) (unat y)) (2 ^ 64 - 1)"
    unfolding x u64_try_from_or_max unat_div_ceil [OF nz'] unat_u128_mult unat_u128_of_u64 d
    by (simp add: cp_needed_def)
  have "y < rout" using le nz by (auto simp: order_less_le)
  then show "unat y < unat rout" by (simp add: word_less_nat_alt)
qed

section \<open>The two sides of a curve\<close>

text \<open>
  What the exact-in and the exact-out function of a curve owe each other, at the width of the
  source: \<open>needed y\<close> is the least input whose output reaches \<open>y\<close>. The law stops short of the
  input \<open>u64::MAX\<close>, which is also the value the exact-out function saturates at.
\<close>

locale swap_curve =
  fixes out :: "u64 \<Rightarrow> u64 \<Rightarrow> u64 \<Rightarrow> u64"
    and needed :: "u64 \<Rightarrow> u64 \<Rightarrow> u64 \<Rightarrow> u64 option"
  assumes needed_None: "needed y rin rout = None \<longleftrightarrow> rout \<le> y"
    and needed_le_iff: "0 < rin \<Longrightarrow> needed y rin rout = Some z \<Longrightarrow> x \<noteq> u64_MAX \<Longrightarrow>
      z \<le> x \<longleftrightarrow> y \<le> out x rin rout"
    and out_less: "0 < rin \<Longrightarrow> 0 < rout \<Longrightarrow> out x rin rout < rout"
begin

lemma neededE:
  assumes "y < rout"
  obtains z where "needed y rin rout = Some z"
  using assms needed_None [of y rin rout] by (cases "needed y rin rout") (auto simp: not_le)

lemma out_needed:
  "0 < rin \<Longrightarrow> needed y rin rout = Some z \<Longrightarrow> z \<noteq> u64_MAX \<Longrightarrow> y \<le> out z rin rout"
  using needed_le_iff by blast

lemma needed_least:
  "0 < rin \<Longrightarrow> needed y rin rout = Some z \<Longrightarrow> x < z \<Longrightarrow> x \<noteq> u64_MAX \<Longrightarrow> out x rin rout < y"
  using needed_le_iff by (meson not_le)

lemma needed_out:
  assumes "0 < rin" "0 < rout" "x \<noteq> u64_MAX"
  shows "\<exists>z. needed (out x rin rout) rin rout = Some z \<and> z \<le> x"
  using assms needed_le_iff by (metis neededE order_refl out_less)

lemma out_mono:
  assumes "0 < rin" "0 < rout" "x \<le> x'" "x' \<noteq> u64_MAX"
  shows "out x rin rout \<le> out x' rin rout"
proof -
  have "x \<noteq> u64_MAX" using assms(3,4) u64_le_MAX antisym by metis
  then obtain z where "needed (out x rin rout) rin rout = Some z" "z \<le> x"
    using needed_out assms by blast
  then show ?thesis using assms needed_le_iff by (meson order_trans)
qed

lemma needed_mono:
  assumes "0 < rin" "needed y rin rout = Some z" "needed y' rin rout = Some z'" "y \<le> y'"
  shows "z \<le> z'"
proof (cases "z' = u64_MAX")
  case False
  then have "y' \<le> out z' rin rout" using assms out_needed by blast
  then show ?thesis using assms False needed_le_iff by (meson order_trans)
qed (simp add: u64_le_MAX)

end

interpretation cp: swap_curve constant_product_out constant_product_in
proof
  fix x y z rin rout :: u64
  show "constant_product_in y rin rout = None \<longleftrightarrow> rout \<le> y"
    by (rule constant_product_in_eq_None_iff)
  show "constant_product_out x rin rout < rout" if "0 < rin" "0 < rout"
    using that cp_out_less by (simp add: word_less_nat_alt unat_constant_product_out)
  show "z \<le> x \<longleftrightarrow> y \<le> constant_product_out x rin rout"
    if "0 < rin" "constant_product_in y rin rout = Some z" "x \<noteq> u64_MAX"
  proof -
    have "unat x < 2 ^ 64 - 1"
      using that(3) by (rule unat_less_MAX)
    then show ?thesis
      using that unat_constant_product_in [OF that(2)] cp_needed_le_iff
      by (auto simp: word_le_nat_alt unat_constant_product_out word_less_nat_alt min_le_iff_disj)
  qed
qed

section \<open>Slippage\<close>

lemma unat_le_rat: "unat (x :: u64) \<le> 2 ^ 53 \<Longrightarrow> (of_nat (unat x) :: rat) \<le> 2 ^ 53"
  by (metis of_nat_le_iff of_nat_numeral of_nat_power)

text \<open>A factor in the unit interval: the product is rounded once and then floored.\<close>

lemma scaled_amount:
  assumes a: "unat a \<le> 2 ^ 53" and f: "0 \<le> f" "f \<le> 1"
  defines "p \<equiv> round_rat (of_nat (unat a) * f)"
  shows "f64_of_u64 a * Fin f = Fin p" and "0 \<le> p" and "p \<le> of_nat (unat a)"
    and "\<bar>p - of_nat (unat a) * f\<bar> \<le> 1"
proof -
  have a': "(of_nat (unat a) :: rat) \<le> 2 ^ 53" using a by (rule unat_le_rat)
  have le: "of_nat (unat a) * f \<le> of_nat (unat a)" using f by (simp add: mult_left_le)
  have nn: "0 \<le> of_nat (unat a) * f" using f by simp
  have "of_nat (unat a) * f \<le> 2 ^ 64" using le a' by simp
  then show "f64_of_u64 a * Fin f = Fin p"
    using nn a by (simp add: f64_of_u64_exact f64_rnd_finite p_def)
  show "0 \<le> p" unfolding p_def using nn by (rule round_rat_nonneg)
  show "p \<le> of_nat (unat a)"
    unfolding p_def using nn le representable_of_nat [OF a] by (rule round_rat_le)
  have "of_nat (unat a) * f \<le> 2 powi 53" using le a' by (simp add: power_int_def)
  from round_rat_abs_error [OF nn this] show "\<bar>p - of_nat (unat a) * f\<bar> \<le> 1"
    by (simp add: p_def)
qed

lemma apply_slippage_factor:
  assumes a: "unat a \<le> 2 ^ 53" and f: "f64_clamp (1 - slippage) 0 1 = Fin f" "0 \<le> f" "f \<le> 1"
  shows "unat (apply_slippage a slippage) = nat \<lfloor>round_rat (of_nat (unat a) * f)\<rfloor>"
    and "apply_slippage a slippage \<le> a"
proof -
  note sc = scaled_amount [OF a f(2,3)]
  let ?v = "of_int \<lfloor>round_rat (of_nat (unat a) * f)\<rfloor> :: rat"
  have v: "0 \<le> ?v" using sc(2) by simp
  have v': "?v \<le> of_nat (unat a)" using sc(3) by linarith
  have eq: "apply_slippage a slippage = u64_of_f64 (Fin ?v)"
    using v by (simp add: apply_slippage_def f sc(1))
  show "unat (apply_slippage a slippage) = nat \<lfloor>round_rat (of_nat (unat a) * f)\<rfloor>"
    unfolding eq unat_u64_of_f64_floor(1) [OF v v'] by simp
  show "apply_slippage a slippage \<le> a"
    unfolding eq word_le_nat_alt by (rule unat_u64_of_f64_floor(2) [OF v v'])
qed

lemma apply_slippage_NaN: "f64_clamp (1 - slippage) 0 1 = NaN \<Longrightarrow> apply_slippage a slippage = 0"
  by (simp add: apply_slippage_def f64_of_u64_finite f64_max_def zero_f64_def)

lemma apply_slippage_le: "unat a \<le> 2 ^ 53 \<Longrightarrow> apply_slippage a slippage \<le> a"
  using f64_clamp_01 [of "1 - slippage"] apply_slippage_factor(2) [of a slippage]
  by (auto simp: apply_slippage_NaN)

lemma one_minus_slippage:
  assumes "0 \<le> s" "s \<le> 1"
  defines "f \<equiv> round_rat (1 - s)"
  shows "f64_clamp (1 - Fin s) 0 1 = Fin f" and "0 \<le> f" "f \<le> 1" and "\<bar>f - (1 - s)\<bar> \<le> 1 / 2 ^ 53"
proof -
  have nn: "0 \<le> 1 - s" and le: "1 - s \<le> 1" using assms by simp_all
  show f0: "0 \<le> f" unfolding f_def using nn by (rule round_rat_nonneg)
  have "representable 1" using representable_of_nat [of 1] by simp
  with nn le show f1: "f \<le> 1" unfolding f_def by (rule round_rat_le)
  have "f64_rnd (1 - s) = Fin f"
    unfolding f_def using nn le by (intro f64_rnd_finite) simp_all
  then show "f64_clamp (1 - Fin s) 0 1 = Fin f"
    using f0 f1 by (auto simp: f64_clamp_def one_f64_def zero_f64_def)
  have "1 - s \<le> 2 powi 0" using le by simp
  from round_rat_abs_error [OF nn this] show "\<bar>f - (1 - s)\<bar> \<le> 1 / 2 ^ 53"
    by (simp add: f_def power_int_def field_simps)
qed

lemma apply_slippage_close:
  assumes a: "unat a \<le> 2 ^ 53" and s: "0 \<le> s" "s \<le> 1"
  shows "of_nat (unat a) * (1 - s) < of_nat (unat (apply_slippage a (Fin s))) + 3"
    and "of_nat (unat (apply_slippage a (Fin s))) \<le> of_nat (unat a) * (1 - s) + 2"
proof -
  define f where "f = round_rat (1 - s)"
  note os = one_minus_slippage [OF s, folded f_def]
  define p where "p = round_rat (of_nat (unat a) * f)"
  note sc = scaled_amount [OF a os(2,3), folded p_def]
  have v: "(of_nat (unat (apply_slippage a (Fin s))) :: rat) = of_int \<lfloor>p\<rfloor>"
    using apply_slippage_factor(1) [OF a os(1-3)] sc(2) by (simp add: p_def)
  have "\<bar>of_nat (unat a) * f - of_nat (unat a) * (1 - s)\<bar> = of_nat (unat a) * \<bar>f - (1 - s)\<bar>"
    by (simp add: abs_mult flip: right_diff_distrib)
  also have "\<dots> \<le> 2 ^ 53 * (1 / 2 ^ 53)"
    using unat_le_rat [OF a] os(4) by (intro mult_mono) simp_all
  finally have "\<bar>of_nat (unat a) * f - of_nat (unat a) * (1 - s)\<bar> \<le> 1" by simp
  with sc(4) show "of_nat (unat a) * (1 - s) < of_nat (unat (apply_slippage a (Fin s))) + 3"
    "of_nat (unat (apply_slippage a (Fin s))) \<le> of_nat (unat a) * (1 - s) + 2"
    unfolding v by linarith+
qed

lemma apply_slippage_zero: "unat a \<le> 2 ^ 53 \<Longrightarrow> apply_slippage a 0 = a"
proof -
  assume a: "unat a \<le> 2 ^ 53"
  have f: "f64_clamp (1 - 0) 0 1 = Fin 1"
    using one_minus_slippage(1) [of 0] round_rat_exact [of 1] representable_of_nat [of 1]
    by (simp add: zero_f64_def)
  have "unat (apply_slippage a 0) = unat a"
    using apply_slippage_factor(1) [OF a f] round_rat_exact [OF _ representable_of_nat [OF a]] by simp
  then show ?thesis by (simp add: word_unat_eq_iff)
qed

text \<open>
  The raw curve of \<open>calc_amount_out\<close>, computed in floats: the quotient is off by at most a quarter,
  and the unit that is added outweighs all roundings.
\<close>

lemma quotient_rounding:
  fixes I R N :: nat
  assumes "0 < N" and "N \<le> 2 ^ 53" and "I \<le> N" and "R \<le> 2 ^ 49"
  defines "X \<equiv> of_nat I * of_nat R / of_nat N :: rat"
  obtains q where "f64_rnd (of_nat I * of_nat R) / Fin (of_nat N) = Fin q" and "0 \<le> q"
    and "X - 1 / 8 \<le> q" and "q \<le> X + 1 / 4" and "0 \<le> X" and "X \<le> of_nat R"
proof -
  let ?y = "of_nat I * of_nat R :: rat"
  have N: "1 \<le> (of_nat N :: rat)" "(of_nat N :: rat) \<le> 2 ^ 53"
    using assms(1,2) by (simp_all only: One_nat_def of_nat_1 [symmetric] of_nat_le_iff Suc_leI)
      (metis of_nat_le_iff of_nat_numeral of_nat_power)
  have R: "(of_nat R :: rat) \<le> 2 ^ 49"
    using assms(4) by (metis of_nat_le_iff of_nat_numeral of_nat_power)
  have X: "0 \<le> X" "X \<le> of_nat R"
  proof -
    show "0 \<le> X" by (simp add: X_def)
    have "?y \<le> of_nat N * of_nat R" using assms(3) by (intro mult_right_mono) simp_all
    then show "X \<le> of_nat R" using assms(1) by (simp add: X_def divide_le_eq mult.commute)
  qed
  have "?y = 0 \<or> 1 \<le> ?y"
    by (cases "I * R = 0") (simp_all add: of_nat_mult [symmetric] Suc_le_eq del: of_nat_mult)
  then have y0: "?y = 0 \<or> 2 powi (- 1022) \<le> ?y"
    using powi_le_iff [of "- 1022" 0] by auto
  have y: "0 \<le> ?y" "?y \<le> 2 powi 1023"
  proof -
    have "(of_nat I :: rat) \<le> 2 ^ 53" using assms(3) N(2) by (meson of_nat_le_iff order_trans)
    then have "?y \<le> 2 ^ 53 * 2 ^ 49" using R by (intro mult_mono) simp_all
    also have "\<dots> \<le> 2 powi 1023" using powi_le_iff [of 102 1023] by (simp add: power_int_def)
    finally show "?y \<le> 2 powi 1023" .
  qed simp
  define P where "P = round_rat ?y"
  have P: "f64_rnd ?y = Fin P" "0 \<le> P" "?y - ?y / 2 ^ 53 \<le> P" "P \<le> ?y + ?y / 2 ^ 53"
    using f64_rnd_finite_1023 [OF y] round_rat_nonneg [OF y(1)] round_rat_relative [OF y0] by (simp_all add: P_def)
  let ?z = "P / of_nat N"
  have z: "0 \<le> ?z" "X - X / 2 ^ 53 \<le> ?z" "?z \<le> X + X / 2 ^ 53"
    using divide_right_mono [OF P(3), of "of_nat N"] divide_right_mono [OF P(4), of "of_nat N"] P(2)
    by (simp_all add: X_def add_divide_distrib diff_divide_distrib)
  have z0: "?z = 0 \<or> 2 powi (- 1022) \<le> ?z"
  proof (cases "?y = 0")
    case True
    then show ?thesis by (simp add: P_def round_rat_def)
  next
    case False
    then have "1 \<le> ?y" using \<open>?y = 0 \<or> 1 \<le> ?y\<close> by blast
    then have "1 / 2 \<le> P" using P(3) by simp
    then have "1 / 2 / 2 ^ 53 \<le> ?z" using N by (intro frac_le) simp_all
    moreover have "(2 :: rat) powi (- 54) = 1 / 2 / 2 ^ 53" by (simp add: power_int_minus)
    ultimately have "2 powi (- 54) \<le> ?z" by simp
    moreover have "(2 :: rat) powi (- 1022) \<le> 2 powi (- 54)" unfolding powi_le_iff by simp
    ultimately have "2 powi (- 1022) \<le> ?z" by (rule order.trans [rotated])
    then show ?thesis ..
  qed
  have X49: "X \<le> 2 ^ 49" using X(2) R by simp
  have X53: "X / 2 ^ 53 \<le> 1 / 16" using X49 by simp
  then have z49: "?z \<le> 2 ^ 49 + 1" using z(3) X49 by linarith
  then have z64: "?z \<le> 2 ^ 64" by (rule order.trans) simp
  define q where "q = round_rat ?z"
  have q: "f64_rnd ?z = Fin q" "0 \<le> q" "?z - ?z / 2 ^ 53 \<le> q" "q \<le> ?z + ?z / 2 ^ 53"
    using f64_rnd_finite [OF z(1) z64] round_rat_nonneg [OF z(1)] round_rat_relative [OF z0] by (simp_all add: q_def)
  show ?thesis
  proof (rule that [of q])
    show "f64_rnd ?y / Fin (of_nat N) = Fin q"
      using q(1) assms(1) by (simp add: P(1))
    show "X - 1 / 8 \<le> q" using q(3) z(2,3) X49 X(1) by simp
    have "?z / 2 ^ 53 \<le> (2 ^ 49 + 1) / 2 ^ 53" using z49 by (intro divide_right_mono) simp_all
    then show "q \<le> X + 1 / 4" using q(4) z(3) X53 by simp
  qed (use q X in simp_all)
qed

lemma scaled_difference_rounding:
  assumes D: "0 \<le> x" "x \<le> y - 3 / 4" "y \<le> 2 ^ 49" and f: "0 \<le> f" "f \<le> 1"
  obtains t where "f64_rnd x * Fin f = Fin t" and "0 \<le> t" and "t \<le> y - 1 / 2"
proof -
  define d where "d = round_rat x"
  have x49: "x \<le> 2 ^ 49" using D by linarith
  have d: "f64_rnd x = Fin d" "0 \<le> d" unfolding d_def
    using D(1) x49 by (intro f64_rnd_finite round_rat_nonneg; simp)+
  have "\<bar>d - x\<bar> \<le> 1 / 16" using round_rat_near(2) [OF D(1) x49] by (simp add: d_def)
  then have dy: "d \<le> y - 11 / 16" using D(2) unfolding abs_le_iff by linarith
  have T: "0 \<le> d * f" "d * f \<le> d" using d(2) f by (simp_all add: mult_left_le)
  then have T49: "d * f \<le> 2 ^ 49" using dy D(3) by linarith
  have "\<bar>round_rat (d * f) - d * f\<bar> \<le> 1 / 16" by (rule round_rat_near(2) [OF T(1) T49])
  then have "round_rat (d * f) \<le> y - 1 / 2" using T(2) dy unfolding abs_le_iff by linarith
  moreover have "f64_rnd (d * f) = Fin (round_rat (d * f))"
    using T(1) T49 by (intro f64_rnd_finite) simp_all
  ultimately show ?thesis using that [of "round_rat (d * f)"] round_rat_nonneg [OF T(1)] d(1) by simp
qed

lemma calc_amount_out_le_curve:
  fixes a b c :: u64
  assumes R: "unat c \<le> 2 ^ 49" and N: "unat b + unat a \<le> 2 ^ 53" and s: "0 \<le> s" "s \<le> 1"
  shows "calc_amount_out a b c (Fin s) \<le> constant_product_out a b c"
proof (cases "unat b + unat a = 0")
  case True
  then have "a = 0" "b = 0" by (simp_all add: unat_eq_0)
  then show ?thesis
    using f64_rnd_exact [of 0] representable_of_nat [of 0] R floor_eq_iff [of "1 / 2 :: rat" 0]
    by (simp add: calc_amount_out_def Let_def f64_of_u64_exact f64_max_def zero_f64_def)
next
  case False
  let ?I = "of_nat (unat b) :: rat" and ?R = "of_nat (unat c) :: rat" and ?N = "of_nat (unat b + unat a) :: rat"
  let ?X = "?I * ?R / ?N"
  have conv: "f64_of_u64 a = Fin (of_nat (unat a))" "f64_of_u64 b = Fin ?I" "f64_of_u64 c = Fin ?R"
    using R N by (simp_all add: f64_of_u64_exact)
  have R': "?R \<le> 2 ^ 49" using R by (metis of_nat_le_iff of_nat_numeral of_nat_power)
  have sum: "f64_rnd (?I + of_nat (unat a)) = Fin ?N"
  proof -
    have "?N \<le> 2 ^ 53" using N by (metis of_nat_le_iff of_nat_numeral of_nat_power)
    then show ?thesis using f64_rnd_exact [OF _ _ representable_of_nat [OF N]] by simp
  qed
  obtain q where q: "f64_rnd (?I * ?R) / Fin ?N = Fin q" "0 \<le> q" "?X - 1 / 8 \<le> q" "q \<le> ?X + 1 / 4"
    and X: "0 \<le> ?X" "?X \<le> ?R"
    using quotient_rounding [of "unat b + unat a" "unat b" "unat c"] False N R by auto
  define z where "z = round_rat (q + 1)"
  have z: "f64_rnd (q + 1) = Fin z" "\<bar>z - (q + 1)\<bar> \<le> 1 / 8"
  proof -
    have "q + 1 \<le> 2 ^ 50" using q(4) X(2) R' by simp
    then show "f64_rnd (q + 1) = Fin z" "\<bar>z - (q + 1)\<bar> \<le> 1 / 8"
      unfolding z_def using q(2) by (intro f64_rnd_finite round_rat_near(1); simp)+
  qed
  define f where "f = round_rat (1 - s)"
  have f: "f64_rnd (1 - s) = Fin f" "0 \<le> f" "f \<le> 1"
    using f64_rnd_finite [of "1 - s"] one_minus_slippage(2,3) [OF s] s by (simp_all add: f_def)
  have calc: "calc_amount_out a b c (Fin s) = u64_of_f64 (f64_round (f64_max (f64_rnd (?R - z) * Fin f) 0))"
    using q(1) z(1) f(1) by (simp add: calc_amount_out_def conv sum one_f64_def)
  show ?thesis
  proof (cases "?R - z \<le> 0")
    case True
    then show ?thesis
      using floor_eq_iff [of "1 / 2 :: rat" 0] by (simp add: calc f64_max_nonpos [OF True f(2)]) (simp add: zero_f64_def)
  next
    case False
    have D: "0 \<le> ?R - z" "?R - z \<le> (?R - ?X) - 3 / 4" "?R - ?X \<le> 2 ^ 49"
      using False z(2) q(3) X(1) R' unfolding abs_le_iff by linarith+
    obtain t where t: "f64_rnd (?R - z) * Fin f = Fin t" "0 \<le> t" "t \<le> ?R - ?X - 1 / 2"
      using scaled_difference_rounding [OF D f(2,3)] by blast
    have "0 < ?N" using \<open>unat b + unat a \<noteq> 0\<close> by (simp only: of_nat_0_less_iff)
    then have "?R - ?X = of_nat (unat c * unat a) / ?N" by (simp add: field_simps)
    then have "\<lfloor>t + 1 / 2\<rfloor> \<le> \<lfloor>of_nat (unat c * unat a) / ?N\<rfloor>" using t(3) by (intro floor_mono) linarith
    also have "\<dots> = int (unat c * unat a div (unat b + unat a))" by (rule floor_divide_of_nat_eq)
    finally have fl: "\<lfloor>t + 1 / 2\<rfloor> \<le> int (unat c * unat a div (unat b + unat a))" .
    have "calc_amount_out a b c (Fin s) = u64_of_f64 (Fin (of_int \<lfloor>t + 1 / 2\<rfloor>))"
      using t(2) by (simp add: calc t(1) f64_max_def zero_f64_def)
    then have "unat (calc_amount_out a b c (Fin s)) \<le> unat c * unat a div (unat b + unat a)"
      using fl t(2) unat_u64_of_f64_floor(1) [of "of_int \<lfloor>t + 1 / 2\<rfloor>" "constant_product_out a b c"]
      by (simp add: unat_constant_product_out cp_out_def)
    then show ?thesis by (simp add: word_le_nat_alt unat_constant_product_out cp_out_def)
  qed
qed

lemma max_quote_in_covers:
  assumes t: "unat t \<le> 2 ^ 53"
  shows "t \<le> u64_of_f64 (f64_ceil (f64_of_u64 t * f64_min (1 + f64_max slippage 0) (Fin 4294967295)))"
proof -
  have factor: "\<exists>f. f64_min (1 + f64_max slippage 0) (Fin 4294967295) = Fin f \<and> 1 \<le> f"
  proof -
    have "\<exists>g. f64_max slippage 0 = Inf False \<or> f64_max slippage 0 = Fin g \<and> 0 \<le> g"
      by (cases slippage) (auto simp: f64_max_def zero_f64_def split: if_splits)
    then obtain g where "f64_max slippage 0 = Inf False \<or> f64_max slippage 0 = Fin g \<and> 0 \<le> g"
      by blast
    moreover have "f64_rnd (1 + g) = Inf False \<or> (\<exists>y. f64_rnd (1 + g) = Fin y \<and> 1 \<le> y)" if "0 \<le> g"
      using that representable_of_nat [of 1] by (intro f64_rnd_at_least) simp_all
    ultimately show ?thesis by (auto simp: f64_min_def one_f64_def)
  qed
  then obtain f where f: "f64_min (1 + f64_max slippage 0) (Fin 4294967295) = Fin f" "1 \<le> f" by blast
  have "(of_nat (unat t) :: rat) \<le> of_nat (unat t) * f" using f(2) by (simp add: mult_le_cancel_left1)
  from f64_rnd_at_least [OF _ this representable_of_nat [OF t]]
  have "f64_of_u64 t * Fin f = Inf False \<or>
      (\<exists>y. f64_of_u64 t * Fin f = Fin y \<and> of_nat (unat t) \<le> y)"
    by (simp add: f64_of_u64_exact [OF t])
  then show ?thesis using u64_of_f64_ceil_at_least unfolding f(1) by auto
qed

section \<open>Quotes as natural numbers\<close>

lemma quote_sell_simps [simp]:
  "gross_amount_out (quote_sell a b q f s) = constant_product_out a b q"
  "sq_fee (quote_sell a b q f s) = fee_on f (constant_product_out a b q)"
  "amount_out (quote_sell a b q f s) =
     saturating_sub (constant_product_out a b q) (fee_on f (constant_product_out a b q))"
  "min_amount_out (quote_sell a b q f s) = apply_slippage (amount_out (quote_sell a b q f s)) s"
  by (simp_all add: quote_sell_def Let_def)

lemma unat_sell_out:
  "unat (amount_out (quote_sell a b q f s)) =
    unat q * unat a div (unat b + unat a) - exact_fee f (unat q * unat a div (unat b + unat a))"
proof -
  have "cp_out (unat b) (unat q) (unat a) \<le> 2 ^ 64 - 1"
    using cp_out_le unat_u64_le_exp by (rule order_trans)
  then show ?thesis
    by (simp add: unat_saturating_sub unat_constant_product_out unat_fee_on min_def flip: cp_out_def)
qed

text \<open>The part of a spend that \<open>buy_exact_quote_in\<close> charges fees on, and what reaches the curve.\<close>

definition charged_amount :: "Fees \<Rightarrow> nat \<Rightarrow> nat" where
  "charged_amount f spend = spend * 10000 div (10000 + unat (total_bps f))"

definition curve_input :: "Fees \<Rightarrow> nat \<Rightarrow> nat" where
  "curve_input f spend = spend - min (exact_fee f (charged_amount f spend)) (2 ^ 64 - 1) - 1"

lemma charged_amount_le: "charged_amount f spend \<le> spend"
  unfolding charged_amount_def by (rule div_le_if_le_mult) simp

lemma unat_charged:
  "unat (unwrap_or (u64_try_from ((ucast (q :: u64) :: u128) * 10000
     div (10000 + ucast (total_bps f)))) u64_MAX) = charged_amount f (unat q)"
proof -
  have n: "unat ((ucast q :: u128) * 10000) = unat q * 10000"
    using unat_u128_mult [of q 10000] by simp
  have d: "unat ((10000 :: u128) + ucast (total_bps f)) = 10000 + unat (total_bps f)"
    using unat_u128_add [of 10000 "total_bps f"] by simp
  have "charged_amount f (unat q) \<le> 2 ^ 64 - 1"
    using charged_amount_le unat_u64_le_exp by (rule order_trans)
  then show ?thesis
    unfolding u64_try_from_or_max unat_div_distrib n d charged_amount_def by (rule min_absorb1)
qed

lemma unat_buy_fee: "unat (sq_fee (quote_buy_exact_quote_in a b q f s)) =
    min (exact_fee f (charged_amount f (unat a))) (2 ^ 64 - 1)"
  by (simp add: quote_buy_exact_quote_in_def Let_def unat_fee_on unat_charged)

lemma unat_buy_out: "unat (amount_out (quote_buy_exact_quote_in a b q f s)) =
    cp_out (unat q) (unat b) (curve_input f (unat a))"
  by (simp add: quote_buy_exact_quote_in_def Let_def unat_constant_product_out unat_saturating_sub
      unat_fee_on unat_charged curve_input_def)

lemma quote_buy_simps [simp]:
  "gross_amount_out (quote_buy_exact_quote_in a b q f s) = amount_out (quote_buy_exact_quote_in a b q f s)"
  "min_amount_out (quote_buy_exact_quote_in a b q f s) =
     apply_slippage (amount_out (quote_buy_exact_quote_in a b q f s)) s"
  by (simp_all add: quote_buy_exact_quote_in_def Let_def)

lemma charged_plus_fee:
  assumes "exact_bps f \<le> 10000"
  shows "charged_amount f S + exact_fee f (charged_amount f S) \<le> S + 2"
    and "S \<le> charged_amount f S + exact_fee f (charged_amount f S) + 1"
proof -
  have T: "unat (total_bps f) = exact_bps f" using assms by (simp add: unat_total_bps)
  let ?c = "charged_amount f S"
  have lo: "?c * (10000 + exact_bps f) \<le> S * 10000"
    unfolding charged_amount_def T by (rule div_times_less_eq_dividend)
  have "S * 10000 < (?c + 1) * (10000 + exact_bps f)"
    unfolding charged_amount_def T by (metis Suc_eq_plus1 add_pos_nonneg dividend_less_div_times
        mult_Suc zero_le zero_less_numeral add.commute)
  then have hi: "S * 10000 < ?c * 10000 + ?c * exact_bps f + 20000"
    using assms by (simp add: algebra_simps)
  have "ceil_bps ?c (exact_bps f) + ?c \<le> S"
    using lo unfolding ceil_bps_def distrib_left by linarith
  then show "?c + exact_fee f ?c \<le> S + 2" using exact_fee_bounds(2) [of f ?c] by linarith
  have "S \<le> ?c + ceil_bps ?c (exact_bps f) + 1"
    using hi unfolding ceil_bps_def by linarith
  then show "S \<le> ?c + exact_fee f ?c + 1" using exact_fee_bounds(1) [of ?c f] by linarith
qed

lemma quote_buy_exact_base_out_SomeE:
  assumes "quote_buy_exact_base_out y b q f s = Some Q"
  obtains x where "constant_product_in y q b = Some x" and "quote_amount_in Q = x"
    and "bq_fee Q = fee_on f x" and "total_quote_in Q = saturating_add x (fee_on f x)"
    and "max_quote_in Q = u64_of_f64 (f64_ceil
      (f64_of_u64 (saturating_add x (fee_on f x)) * f64_min (1 + f64_max s 0) (Fin 4294967295)))"
  using assms by (auto simp: quote_buy_exact_base_out_def Let_def split: option.splits)

lemma quote_buy_exact_base_out_eq_None_iff:
  "quote_buy_exact_base_out y b q f s = None \<longleftrightarrow> b \<le> y"
  using cp.needed_None [of y q b]
  by (auto simp: quote_buy_exact_base_out_def Let_def split: option.splits)

text \<open>The market cap is computed without overflow, and is zero for an empty base side.\<close>

lemma market_cap_exact:
  "unat (market_cap_lamports supply b q) = unat supply * unat q div unat b"
proof (cases "b = 0")
  case False
  then show ?thesis by (simp add: market_cap_lamports_def unat_div_distrib unat_u128_mult)
qed (simp add: market_cap_lamports_def)

text \<open>
  Beyond \<open>2 ^ 53\<close> the conversion to \<open>f64\<close> can round the amount up, so a zero-slippage
  minimum can exceed the amount the swap is priced to pay.
\<close>

lemma apply_slippage_above_2_53:
  "apply_slippage 9007199254740995 0 = 9007199254740996"
proof -
  have "f64_rnd 1 = Fin 1"
    using representable_of_nat [of 1] by (intro f64_rnd_exact) simp_all
  then show ?thesis
    by (simp add: apply_slippage_def f64_clamp_def one_f64_def zero_f64_def f64_of_u64_def f64_max_def
        odd_above_2_53 even_above_2_53)
qed

section \<open>What an exact spend can be turned into\<close>

text \<open>The curve input of a spend, with its own fee on top, stays within the spend.\<close>

lemma curve_input_affordable:
  assumes "exact_bps f \<le> 10000" and "S \<le> 2 ^ 64 - 1" and "x \<le> curve_input f S"
  shows "x + exact_fee f x \<le> S"
proof (cases "curve_input f S = 0")
  case True
  then show ?thesis using assms(3) by (simp add: exact_fee_def)
next
  case False
  let ?c = "charged_amount f S"
  have fee: "exact_fee f ?c < S" and eq: "curve_input f S = S - exact_fee f ?c - 1"
    using False assms(2) by (auto simp: curve_input_def min_def split: if_splits)
  have "x \<le> ?c" using assms(3) charged_plus_fee(2) [OF assms(1), of S] unfolding eq by linarith
  then have "exact_fee f x \<le> exact_fee f ?c" by (rule exact_fee_mono)
  then show ?thesis using assms(3) fee unfolding eq by linarith
qed

text \<open>
  The convenience \<open>buy\<close> asks for the discounted output of an exact spend and caps the cost at the
  spend: at the reserves of the quote the request exists and costs no more than the cap.
\<close>

lemma buy_request_affordable:
  assumes "exact_bps f \<le> 10000" and "0 < b" and "0 < q"
    and y: "y \<le> amount_out (quote_buy_exact_quote_in a b q f s)"
  shows "\<exists>R. quote_buy_exact_base_out y b q f s' = Some R \<and> total_quote_in R \<le> a"
proof -
  have le: "unat y \<le> cp_out (unat q) (unat b) (curve_input f (unat a))"
    using y by (simp add: word_le_nat_alt unat_buy_out)
  also have "\<dots> < unat b" using assms(2,3) by (simp add: cp_out_less word_less_nat_alt)
  finally have lt: "unat y < unat b" .
  then obtain R where R: "quote_buy_exact_base_out y b q f s' = Some R"
    using quote_buy_exact_base_out_eq_None_iff [of y b q f s']
    by (cases "quote_buy_exact_base_out y b q f s'") (auto simp: word_le_nat_alt)
  then obtain z where z: "constant_product_in y q b = Some z"
    and total: "total_quote_in R = saturating_add z (fee_on f z)"
    by (rule quote_buy_exact_base_out_SomeE)
  have "unat z \<le> cp_needed (unat q) (unat b) (unat y)" using unat_constant_product_in(1) [OF z] by simp
  also have "\<dots> \<le> curve_input f (unat a)"
    using cp_needed_le_iff [OF _ lt, of "unat q"] le assms(3) by (simp add: word_less_nat_alt)
  finally have "unat z + exact_fee f (unat z) \<le> unat a"
    by (rule curve_input_affordable [OF assms(1) unat_u64_le_exp])
  then have "total_quote_in R \<le> a"
    by (simp add: total word_le_nat_alt unat_saturating_add unat_fee_on min_def)
  then show ?thesis using R by blast
qed

text \<open>An empty input reserve: every accepted target is priced at 0, which pays nothing.\<close>

lemma constant_product_in_empty: "constant_product_in y 0 rout = Some z \<Longrightarrow> z = 0"
  by (auto simp: constant_product_in_def div_ceil_def u64_try_from_def Let_def split: option.splits if_splits)

lemma constant_product_out_empty:
  "constant_product_out 0 rin rout = 0" "0 < x \<Longrightarrow> constant_product_out x 0 rout = rout"
  by (auto simp: word_unat_eq_iff unat_constant_product_out cp_out_def word_less_nat_alt)

section \<open>Properties of the curve and the quotes\<close>

text \<open>
  C14: the exact-in step computes \<open>floor(rout * a / (rin + a))\<close> exactly, with no saturation or
  overflow for any three \<open>u64\<close> values, and the product of the reserves does not fall.
\<close>

theorem constant_product_out_exact:
  "unat (constant_product_out a rin rout) = unat rout * unat a div (unat rin + unat a) \<and>
   unat rin * unat rout \<le> (unat rin + unat a) * (unat rout - unat (constant_product_out a rin rout))"
  by (simp only: unat_constant_product_out cp_invariant cp_out_def [symmetric] simp_thms)

text \<open>
  C15: the exact-out step returns nothing exactly when the output would drain the reserve. Otherwise,
  on a nonempty input reserve and below saturation, it returns the least input whose output
  reaches the target. On an empty input reserve it returns 0 for every target it accepts, although
  an input of 0 pays nothing there and any positive input pays out the whole reserve.
\<close>

theorem constant_product_in_least:
  "case constant_product_in y rin rout of
      None \<Rightarrow> rout \<le> y
    | Some z \<Rightarrow> y < rout \<and>
        (if rin = 0 then z = 0 \<and> constant_product_out 0 rin rout = 0 \<and>
           (\<forall>x > 0. constant_product_out x rin rout = rout)
         else z \<noteq> u64_MAX \<longrightarrow>
           y \<le> constant_product_out z rin rout \<and> (\<forall>x < z. constant_product_out x rin rout < y))"
proof (cases "constant_product_in y rin rout")
  case None
  then show ?thesis using cp.needed_None [of y rin rout] by simp
next
  case (Some z)
  moreover have "y < rout" using cp.needed_None [of y rin rout] Some by (simp add: not_le)
  moreover have "z = 0 \<and> constant_product_out 0 rin rout = 0 \<and>
      (\<forall>x > 0. constant_product_out x rin rout = rout)" if "rin = 0"
    using that Some constant_product_in_empty [of y rout] constant_product_out_empty by auto
  moreover have "y \<le> constant_product_out z rin rout \<and> (\<forall>x < z. constant_product_out x rin rout < y)"
    if "rin \<noteq> 0" and z: "z \<noteq> u64_MAX"
  proof -
    have "0 < rin" using that(1) by (simp add: word_neq_0_conv)
    from cp.out_needed [OF this Some z] cp.needed_least [OF this Some] show ?thesis
      using u64_le_MAX z by (metis not_less_iff_gr_or_eq order_le_less)
  qed
  ultimately show ?thesis by simp
qed

theorem constant_product_in_least_witness:
  "(5 :: u64) \<le> constant_product_out 53 1000 100 \<and> constant_product_out 52 1000 100 < (5 :: u64)"
proof -
  have "constant_product_in 5 1000 100 = Some 53"
    by (simp add: constant_product_in_def checked_sub_def div_ceil_def u64_try_from_def)
  then have least: "5 \<le> constant_product_out 53 1000 100" "\<forall>x < 53. constant_product_out x 1000 100 < 5"
    using constant_product_in_least [where y = 5 and rin = 1000 and rout = 100] by (simp_all add: u64_MAX_def)
  have "(52 :: u64) < 53" by simp
  then show ?thesis using least by blast
qed

text \<open>
  C16: a sell pays the curve output less the three fee components, each rounded up: what it
  loses to rounding against one combined rate is at most two units, and it pays nothing
  rather than wrapping when the fee exceeds the output.
\<close>

theorem quote_sell_exact:
  "let gross = unat q * unat a div (unat b + unat a); Q = quote_sell a b q f s in
     unat (gross_amount_out Q) = gross \<and>
     unat (amount_out Q) = gross - exact_fee f gross \<and>
     gross - ceil_bps gross (exact_bps f) \<le> unat (amount_out Q) + 2 \<and>
     unat (amount_out Q) \<le> gross - ceil_bps gross (exact_bps f)"
proof -
  let ?g = "unat q * unat a div (unat b + unat a)"
  show ?thesis
    using exact_fee_bounds(1) [of ?g f] exact_fee_bounds(2) [of f ?g] unat_sell_out [of a b q f s]
    by (simp add: Let_def unat_constant_product_out cp_out_def del: quote_sell_simps(3)) linarith
qed

text \<open>
  On an exact-quote-in buy with at most 100\% of fees, the amount the fee is computed on and
  the fee itself add up to the spend within two units.
\<close>

lemma buy_fee_splits_spend:
  assumes "exact_bps f \<le> 10000"
  shows "let paid = charged_amount f (unat a) + unat (sq_fee (quote_buy_exact_quote_in a b q f s))
    in paid \<le> unat a + 2 \<and> unat a \<le> paid + 1"
  using charged_plus_fee [OF assms, of "unat a"] unat_u64_le_exp [of a]
  unfolding unat_buy_fee Let_def by linarith

text \<open>
  Buying with an exact spend and selling everything back never returns more than the spend,
  whatever share of the fee stays in the pool and whatever fees and slippage the sale uses.
\<close>

lemma buy_then_sell_no_profit:
  assumes "unat q' = unat q + d" and "curve_input f (unat a) \<le> d" and "d \<le> unat a"
  shows "amount_out (quote_sell (amount_out (quote_buy_exact_quote_in a b q f s))
    (b - amount_out (quote_buy_exact_quote_in a b q f s)) q' f' s') \<le> a"
proof -
  let ?y = "amount_out (quote_buy_exact_quote_in a b q f s)"
  have y: "cp_out (unat q) (unat b) (curve_input f (unat a)) = unat ?y" by (simp add: unat_buy_out)
  have "?y \<le> b" using cp_out_le [of "unat q" "unat b"] unfolding word_le_nat_alt y [symmetric] .
  then have b': "unat (b - ?y) = unat b - unat ?y" by (simp add: unat_sub)
  have "unat (constant_product_out ?y (b - ?y) q') \<le> d"
    unfolding unat_constant_product_out b' assms(1) using y assms(2) by (rule cp_round_trip)
  then show ?thesis using assms(3) by (simp add: word_le_nat_alt unat_saturating_sub)
qed

text \<open>
  C17: the minimum a sell or an exact-in buy asks for, for priced amounts up to \<open>2 ^ 53\<close> base units.
  It is never above what it prices, for any slippage value, \<open>NaN\<close>, infinities and out-of-range
  ones included; for a slippage between 0 and 1 it is the discounted amount within three units;
  slippage 0 keeps the amount. The bound is needed: just above it a minimum at zero slippage
  exceeds the amount it protects.
\<close>

theorem min_out_safe:
  assumes "unat (amount_out Q) \<le> 2 ^ 53"
    and "Q = quote_sell a b q f s \<or> Q = quote_buy_exact_quote_in a b q f s"
  shows "min_amount_out Q \<le> amount_out Q \<and>
    (\<forall>r. s = Fin r \<longrightarrow> 0 \<le> r \<longrightarrow> r \<le> 1 \<longrightarrow>
      \<bar>of_nat (unat (min_amount_out Q)) - of_nat (unat (amount_out Q)) * (1 - r)\<bar> < 3) \<and>
    (s = 0 \<longrightarrow> min_amount_out Q = amount_out Q) \<and>
    apply_slippage 9007199254740995 0 = 9007199254740996"
proof -
  have m: "min_amount_out Q = apply_slippage (amount_out Q) s" using assms(2) by auto
  have "\<bar>of_nat (unat (apply_slippage (amount_out Q) (Fin r))) - of_nat (unat (amount_out Q)) * (1 - r)\<bar> < 3"
    if "0 \<le> r" "r \<le> 1" for r
    using apply_slippage_close [OF assms(1) that] by (simp add: abs_less_iff)
  then show ?thesis
    using m apply_slippage_le [OF assms(1), of s] apply_slippage_zero [OF assms(1)] apply_slippage_above_2_53
    by simp
qed

theorem min_out_safe_witness:
  "min_amount_out (quote_sell 10 100 1000 fees_default NaN) \<le>
     amount_out (quote_sell 10 100 1000 fees_default NaN)"
  by (rule min_out_safe [where a = 10 and b = 100 and q = 1000 and f = fees_default and s = NaN, THEN conjunct1])
    (simp_all add: unat_saturating_sub unat_constant_product_out cp_out_def)

text \<open>
  C19: the raw curve in floats never promises more than the exact curve pays, for output reserves
  up to \<open>2 ^ 49\<close>, input sides up to \<open>2 ^ 53\<close> and a slippage between 0 and 1.
\<close>

theorem calc_amount_out_below_curve:
  assumes "unat reserve_out \<le> 2 ^ 49" and "unat reserve_in + unat a \<le> 2 ^ 53" and "0 \<le> s" and "s \<le> 1"
  shows "calc_amount_out a reserve_in reserve_out (Fin s) \<le> constant_product_out a reserve_in reserve_out"
  using assms by (rule calc_amount_out_le_curve)

theorem calc_amount_out_below_curve_witness:
  "calc_amount_out 1000000 206900000000000 84000000000 (Fin (1 / 10)) \<le>
    constant_product_out 1000000 206900000000000 84000000000"
  by (rule calc_amount_out_below_curve) simp_all

lemma buy_exact_base_out_empty:
  "quote_buy_exact_base_out y b 0 f s = Some Q \<Longrightarrow> quote_amount_in Q = 0 \<and> total_quote_in Q = 0"
proof (erule quote_buy_exact_base_out_SomeE)
  fix x
  assume x: "constant_product_in y 0 b = Some x" "quote_amount_in Q = x"
    "total_quote_in Q = saturating_add x (fee_on f x)"
  then have "x = 0" using constant_product_in_empty [of y b] by simp
  moreover have "saturating_add 0 (fee_on f 0) = 0"
    by (simp add: word_unat_eq_iff unat_saturating_add unat_fee_on exact_fee_def)
  ultimately show ?thesis using x by simp
qed

lemma max_quote_in_safe:
  assumes "quote_buy_exact_base_out y b q f s = Some Q" and "unat (total_quote_in Q) \<le> 2 ^ 53"
  shows "total_quote_in Q \<le> max_quote_in Q \<and>
    unat (total_quote_in Q) = unat (quote_amount_in Q) + exact_fee f (unat (quote_amount_in Q))"
proof (rule quote_buy_exact_base_out_SomeE [OF assms(1)], intro conjI)
  fix x
  assume x: "quote_amount_in Q = x" "total_quote_in Q = saturating_add x (fee_on f x)"
    "max_quote_in Q = u64_of_f64 (f64_ceil
      (f64_of_u64 (saturating_add x (fee_on f x)) * f64_min (1 + f64_max s 0) (Fin 4294967295)))"
  show "total_quote_in Q \<le> max_quote_in Q"
    using assms(2) max_quote_in_covers [of "total_quote_in Q" s] unfolding x by blast
  show "unat (total_quote_in Q) = unat (quote_amount_in Q) + exact_fee f (unat (quote_amount_in Q))"
    using assms(2) unfolding x unat_saturating_add unat_fee_on by (simp add: min_def split: if_splits)
qed

lemma buy_exact_base_out_delivers:
  assumes "0 < q"
  shows "case quote_buy_exact_base_out y b q f s of
      None \<Rightarrow> b \<le> y
    | Some Q \<Rightarrow> y < b \<and> (quote_amount_in Q \<noteq> u64_MAX \<longrightarrow>
        y \<le> constant_product_out (quote_amount_in Q) q b)"
proof (cases "quote_buy_exact_base_out y b q f s")
  case None
  then have "b \<le> y" by (simp add: quote_buy_exact_base_out_eq_None_iff)
  then show ?thesis using None by simp
next
  case (Some Q)
  then have "y < b" using quote_buy_exact_base_out_eq_None_iff [of y b q f s] by (simp add: not_le)
  then show ?thesis
    using Some cp.out_needed [OF assms] by (auto elim: quote_buy_exact_base_out_SomeE)
qed

text \<open>
  C18: the exact-out quote. It exists exactly below the base reserve. On a nonempty quote reserve the
  quote amount it prices (below saturation) buys at least the requested base amount on the
  curve; on an empty one it prices every request at 0, which buys nothing. For totals up to
  \<open>2 ^ 53\<close> and any slippage value, the total is the curve input plus the exact fee and the cap
  that is passed on covers it.
\<close>

theorem exact_base_out_quote_sound:
  "case quote_buy_exact_base_out y b q f s of
      None \<Rightarrow> b \<le> y
    | Some Q \<Rightarrow> y < b \<and>
        (if q = 0 then quote_amount_in Q = 0 \<and> total_quote_in Q = 0 \<and> constant_product_out 0 q b = 0
         else quote_amount_in Q = u64_MAX \<or> y \<le> constant_product_out (quote_amount_in Q) q b) \<and>
        (2 ^ 53 < unat (total_quote_in Q) \<or> total_quote_in Q \<le> max_quote_in Q \<and>
          unat (total_quote_in Q) = unat (quote_amount_in Q) + exact_fee f (unat (quote_amount_in Q)))"
proof (cases "quote_buy_exact_base_out y b q f s")
  case None
  then have "b \<le> y" by (simp add: quote_buy_exact_base_out_eq_None_iff)
  then show ?thesis using None by simp
next
  case (Some Q)
  have lt: "y < b" using Some quote_buy_exact_base_out_eq_None_iff [of y b q f s] by (simp add: not_le)
  have "quote_amount_in Q = 0 \<and> total_quote_in Q = 0 \<and> constant_product_out 0 q b = 0" if "q = 0"
    using buy_exact_base_out_empty [OF Some [unfolded that]] that by (simp add: constant_product_out_empty)
  moreover have "quote_amount_in Q = u64_MAX \<or> y \<le> constant_product_out (quote_amount_in Q) q b"
    if "q \<noteq> 0"
    using buy_exact_base_out_delivers [of q b y f s] that Some by (auto simp: word_neq_0_conv)
  ultimately show ?thesis
    using Some lt max_quote_in_safe [OF Some] by auto
qed

theorem exact_base_out_quote_sound_witness:
  "\<exists>Q. quote_buy_exact_base_out 100 1000 500 fees_default (Fin 0) = Some Q \<and>
    100 \<le> constant_product_out (quote_amount_in Q) 500 1000 \<and> total_quote_in Q \<le> max_quote_in Q"
proof -
  have some: "quote_buy_exact_base_out 100 1000 500 fees_default (Fin 0) \<noteq> None"
    by (simp add: quote_buy_exact_base_out_eq_None_iff)
  then obtain Q where Q: "quote_buy_exact_base_out 100 1000 500 fees_default (Fin 0) = Some Q" by blast
  have "constant_product_in 100 500 1000 = Some 56"
    by (simp add: constant_product_in_def checked_sub_def div_ceil_def u64_try_from_def)
  then have "unat (total_quote_in Q) = 56" "quote_amount_in Q = 56"
    using Q by (auto simp: quote_buy_exact_base_out_def Let_def unat_saturating_add unat_fee_on exact_fee_def
        fees_default_def)
  then show ?thesis
    using exact_base_out_quote_sound [where q = 500 and y = 100 and b = 1000 and f = fees_default and s = "Fin 0"] Q by (simp add: u64_MAX_def)
qed

text \<open>
  On either orientation of the pool, a buy and a sell of the token pay out strictly less
  than the effective reserve of the side they pay from.
\<close>

lemma token_quotes_below_reserve:
  assumes "effective_reserves pool b q = (eb, eq)" and "0 < eb" and "0 < eq"
  shows "amount_out (token_buy_quote e a (b, q) pool f s) < (if sol_is_base e pool then eq else eb) \<and>
    amount_out (token_sell_quote e a (b, q) pool f s) < (if sol_is_base e pool then eb else eq)"
proof -
  have sell: "amount_out (quote_sell a eb eq f s) < eq"
    using cp.out_less [OF assms(2,3), of a] by (simp add: word_less_nat_alt unat_saturating_sub)
  have buy: "amount_out (quote_buy_exact_quote_in a eb eq f s) < eb"
    using cp_out_less assms(2,3) by (simp add: word_less_nat_alt unat_buy_out)
  show ?thesis
    using sell buy by (simp_all add: token_buy_quote_def token_sell_quote_def assms(1) del: quote_sell_simps)
qed

end
