(* ===== verification/Swap_Builders.thy ===== *)
theory Swap_Builders
  imports Instructions Pricing
begin

text \<open>
  The instruction-sequence builders of \<open>client.rs\<close> that make no RPC call: the five swap
  sequences with their temporary WSOL account, and the claim and collect sequences. The
  randomness a sequence consumes (the seed of the WSOL account and the two fee-recipient
  picks) is the record \<open>draws\<close>. Additions on lamports go through \<open>add_u64\<close>, so an overflow is
  a panic or a wrap by build profile. The lemmas describe the shape of the sequences: what is
  created is closed, what is funded is what the swap spends, and the swap's accounts follow the
  orientation of the pool.
\<close>

record draws =
  dr_seed :: bytes
  dr_fee :: nat
  dr_buyback :: nat

definition DEFAULT_SLIPPAGE :: f64 where
  "DEFAULT_SLIPPAGE = f64_rnd (5 / 1000)"

definition maybe_extend_pool_ix :: "ext \<Rightarrow> PoolInfo \<Rightarrow> pubkey \<Rightarrow> instruction option res" where
  "maybe_extend_pool_ix e pool_info payer =
     (if pool_account_data_len pool_info < POOL_ACCOUNT_NEW_SIZE
      then bindE (make_extend_account_instruction e (pi_pool pool_info) payer) (\<lambda>ix. Inr (Some ix))
      else Inr None)"

text \<open>\<open>if let Some(ix) = .. { instructions.push(ix) }\<close>.\<close>

definition opt_list :: "'a option \<Rightarrow> 'a list" where
  "opt_list x = (case x of None \<Rightarrow> [] | Some y \<Rightarrow> [y])"

section \<open>The swap sequences\<close>

definition build_buy_ixs ::
  "ext \<Rightarrow> draws \<Rightarrow> u64 \<Rightarrow> u64 \<Rightarrow> bool \<Rightarrow> PoolInfo \<Rightarrow> pubkey \<Rightarrow> bool \<Rightarrow> instruction list res" where
  "build_buy_ixs e d base_amount_out max_quote_amount_in track_volume pool_info payer create_ata =
     bindE (maybe_extend_pool_ix e pool_info payer) (\<lambda>extend.
     bindE (gen_pubkey_with_seed e (dr_seed d) payer) (\<lambda>(wsol_acc, seed).
     let span = x_token_account_LEN e;
         min_rent_exempt = x_minimum_balance e span;
         mint = token_mint e pool_info;
         program = token_program e pool_info
     in bindE (if sol_is_base e pool_info then Inr min_rent_exempt
               else add_u64 e min_rent_exempt max_quote_amount_in) (\<lambda>wsol_lamports.
     let create_ix = x_create_account_with_seed e payer wsol_acc payer seed wsol_lamports
           (word_of_nat span) (x_spl_token_ID e)
     in bindE (x_initialize_account e (x_spl_token_ID e) wsol_acc (WRAPPED_SOL_MINT e) payer) (\<lambda>init_ix.
     let (ata_acc, ata_acc_inst) =
           create_ata_token_or_not_with_program e payer mint payer program create_ata;
         (user_base_acc, user_quote_acc) =
           (if sol_is_base e pool_info then (wsol_acc, ata_acc) else (ata_acc, wsol_acc))
     in bindE (make_buy_instruction e (dr_fee d) (dr_buyback d) base_amount_out max_quote_amount_in
           track_volume pool_info payer user_base_acc user_quote_acc) (\<lambda>swap_ix.
     bindE (x_close_account e (x_spl_token_ID e) wsol_acc payer payer) (\<lambda>close_ix.
     Inr (opt_list extend @ [create_ix, init_ix] @ opt_list ata_acc_inst @ [swap_ix, close_ix])))))))"

definition build_buy_exact_quote_in_ixs ::
  "ext \<Rightarrow> draws \<Rightarrow> u64 \<Rightarrow> u64 \<Rightarrow> bool \<Rightarrow> PoolInfo \<Rightarrow> pubkey \<Rightarrow> bool \<Rightarrow> instruction list res" where
  "build_buy_exact_quote_in_ixs e d spendable_quote_in min_base_amount_out track_volume pool_info payer
       create_ata =
     bindE (maybe_extend_pool_ix e pool_info payer) (\<lambda>extend.
     bindE (gen_pubkey_with_seed e (dr_seed d) payer) (\<lambda>(wsol_acc, seed).
     let span = x_token_account_LEN e;
         min_rent_exempt = x_minimum_balance e span;
         mint = token_mint e pool_info;
         program = token_program e pool_info
     in bindE (if sol_is_base e pool_info then Inr min_rent_exempt
               else add_u64 e min_rent_exempt spendable_quote_in) (\<lambda>wsol_lamports.
     let create_ix = x_create_account_with_seed e payer wsol_acc payer seed wsol_lamports
           (word_of_nat span) (x_spl_token_ID e)
     in bindE (x_initialize_account e (x_spl_token_ID e) wsol_acc (WRAPPED_SOL_MINT e) payer) (\<lambda>init_ix.
     let (ata_acc, ata_acc_inst) =
           create_ata_token_or_not_with_program e payer mint payer program create_ata;
         (user_base_acc, user_quote_acc) =
           (if sol_is_base e pool_info then (wsol_acc, ata_acc) else (ata_acc, wsol_acc))
     in bindE (make_buy_exact_quote_in_instruction e (dr_fee d) (dr_buyback d) spendable_quote_in
           min_base_amount_out track_volume pool_info payer user_base_acc user_quote_acc) (\<lambda>swap_ix.
     bindE (x_close_account e (x_spl_token_ID e) wsol_acc payer payer) (\<lambda>close_ix.
     Inr (opt_list extend @ [create_ix, init_ix] @ opt_list ata_acc_inst @ [swap_ix, close_ix])))))))"

definition build_sell_ixs ::
  "ext \<Rightarrow> draws \<Rightarrow> u64 \<Rightarrow> u64 \<Rightarrow> PoolInfo \<Rightarrow> pubkey \<Rightarrow> bool \<Rightarrow> instruction list res" where
  "build_sell_ixs e d base_amount_in min_quote_amount_out pool_info payer close_spl_acc =
     bindE (maybe_extend_pool_ix e pool_info payer) (\<lambda>extend.
     bindE (gen_pubkey_with_seed e (dr_seed d) payer) (\<lambda>(wsol_acc, seed).
     let span = x_token_account_LEN e;
         min_rent_exempt = x_minimum_balance e span;
         mint = token_mint e pool_info;
         program = token_program e pool_info
     in bindE (if sol_is_base e pool_info then add_u64 e min_rent_exempt base_amount_in
               else Inr min_rent_exempt) (\<lambda>wsol_lamports.
     let create_ix = x_create_account_with_seed e payer wsol_acc payer seed wsol_lamports
           (word_of_nat span) (x_spl_token_ID e)
     in bindE (x_initialize_account e (x_spl_token_ID e) wsol_acc (WRAPPED_SOL_MINT e) payer) (\<lambda>init_ix.
     let token_ata_in = x_get_ata e payer mint program;
         (user_base_acc, user_quote_acc) =
           (if sol_is_base e pool_info then (wsol_acc, token_ata_in) else (token_ata_in, wsol_acc))
     in bindE (make_sell_instruction e (dr_fee d) (dr_buyback d) base_amount_in min_quote_amount_out
           pool_info payer user_base_acc user_quote_acc) (\<lambda>swap_ix.
     bindE (x_close_account e (x_spl_token_ID e) wsol_acc payer payer) (\<lambda>close_ix.
     bindE (if close_spl_acc
            then bindE (x_close_account e program token_ata_in payer payer) (\<lambda>ix. Inr (Some ix))
            else Inr None) (\<lambda>close_token.
     Inr (opt_list extend @ [create_ix, init_ix] @ [swap_ix, close_ix] @ opt_list close_token))))))))"

definition build_token_buy_ixs ::
  "ext \<Rightarrow> draws \<Rightarrow> u64 \<Rightarrow> u64 \<Rightarrow> bool \<Rightarrow> PoolInfo \<Rightarrow> pubkey \<Rightarrow> bool \<Rightarrow> instruction list res" where
  "build_token_buy_ixs e d sol_in min_tokens_out track_volume pool_info payer create_ata =
     bindE (maybe_extend_pool_ix e pool_info payer) (\<lambda>extend.
     bindE (gen_pubkey_with_seed e (dr_seed d) payer) (\<lambda>(wsol_acc, seed).
     let span = x_token_account_LEN e;
         min_rent_exempt = x_minimum_balance e span
     in bindE (add_u64 e min_rent_exempt sol_in) (\<lambda>wsol_lamports.
     let create_ix = x_create_account_with_seed e payer wsol_acc payer seed wsol_lamports
           (word_of_nat span) (x_spl_token_ID e)
     in bindE (x_initialize_account e (x_spl_token_ID e) wsol_acc (WRAPPED_SOL_MINT e) payer) (\<lambda>init_ix.
     let (token_ata, ata_ix) = create_ata_token_or_not_with_program e payer (token_mint e pool_info)
           payer (token_program e pool_info) create_ata
     in bindE (if sol_is_base e pool_info
               then make_sell_instruction e (dr_fee d) (dr_buyback d) sol_in min_tokens_out pool_info
                 payer wsol_acc token_ata
               else make_buy_exact_quote_in_instruction e (dr_fee d) (dr_buyback d) sol_in
                 min_tokens_out track_volume pool_info payer token_ata wsol_acc) (\<lambda>swap_ix.
     bindE (x_close_account e (x_spl_token_ID e) wsol_acc payer payer) (\<lambda>close_ix.
     Inr (opt_list extend @ [create_ix, init_ix] @ opt_list ata_ix @ [swap_ix, close_ix])))))))"

definition build_token_sell_ixs ::
  "ext \<Rightarrow> draws \<Rightarrow> u64 \<Rightarrow> u64 \<Rightarrow> PoolInfo \<Rightarrow> pubkey \<Rightarrow> bool \<Rightarrow> instruction list res" where
  "build_token_sell_ixs e d tokens_in min_sol_out pool_info payer close_token_ata =
     bindE (maybe_extend_pool_ix e pool_info payer) (\<lambda>extend.
     bindE (gen_pubkey_with_seed e (dr_seed d) payer) (\<lambda>(wsol_acc, seed).
     let span = x_token_account_LEN e;
         min_rent_exempt = x_minimum_balance e span;
         create_ix = x_create_account_with_seed e payer wsol_acc payer seed min_rent_exempt
           (word_of_nat span) (x_spl_token_ID e)
     in bindE (x_initialize_account e (x_spl_token_ID e) wsol_acc (WRAPPED_SOL_MINT e) payer) (\<lambda>init_ix.
     let token_ata = x_get_ata e payer (token_mint e pool_info) (token_program e pool_info)
     in bindE (if sol_is_base e pool_info
               then make_buy_exact_quote_in_instruction e (dr_fee d) (dr_buyback d) tokens_in
                 min_sol_out False pool_info payer wsol_acc token_ata
               else make_sell_instruction e (dr_fee d) (dr_buyback d) tokens_in min_sol_out pool_info
                 payer token_ata wsol_acc) (\<lambda>swap_ix.
     bindE (x_close_account e (x_spl_token_ID e) wsol_acc payer payer) (\<lambda>close_ix.
     bindE (if close_token_ata
            then bindE (x_close_account e (token_program e pool_info) token_ata payer payer)
              (\<lambda>ix. Inr (Some ix))
            else Inr None) (\<lambda>close_token.
     Inr (opt_list extend @ [create_ix, init_ix] @ [swap_ix, close_ix] @ opt_list close_token)))))))"

section \<open>Incentives and creator fees\<close>

definition build_claim_token_incentives_ixs ::
  "ext \<Rightarrow> pubkey \<Rightarrow> pubkey \<Rightarrow> pubkey \<Rightarrow> pubkey \<Rightarrow> bool \<Rightarrow> instruction list res" where
  "build_claim_token_incentives_ixs e user payer mint token_program' create_user_ata =
     (let user_token_account = x_get_ata e user mint token_program';
          create = (if create_user_ata then [x_create_ata_idempotent e payer user mint token_program'] else []);
          global_incentive_token_account =
            x_get_ata e (GLOBAL_VOLUME_ACCUMULATOR e) mint token_program'
      in bindE (make_claim_token_incentives_instruction e user payer mint token_program'
           user_token_account global_incentive_token_account) (\<lambda>ix. Inr (create @ [ix])))"

definition build_collect_coin_creator_fee_ixs ::
  "ext \<Rightarrow> pubkey \<Rightarrow> pubkey \<Rightarrow> pubkey \<Rightarrow> pubkey \<Rightarrow> bool \<Rightarrow> instruction list res" where
  "build_collect_coin_creator_fee_ixs e coin_creator' payer quote_mint' quote_token_program'
       create_coin_creator_ata =
     (let coin_creator_token_account = x_get_ata e coin_creator' quote_mint' quote_token_program';
          create = (if create_coin_creator_ata
            then [x_create_ata_idempotent e payer coin_creator' quote_mint' quote_token_program'] else [])
      in bindE (make_collect_coin_creator_fee_instruction e coin_creator' quote_mint'
           quote_token_program' coin_creator_token_account) (\<lambda>ix. Inr (create @ [ix])))"

definition build_collect_pool_creator_fee_ixs ::
  "ext \<Rightarrow> PoolInfo \<Rightarrow> pubkey \<Rightarrow> bool \<Rightarrow> instruction list res" where
  "build_collect_pool_creator_fee_ixs e pool payer create_coin_creator_ata =
     (if fee_sharing_config e pool \<noteq> None then Inl (FeeSharingPool (pi_pool pool))
      else bindE (sweep_pool_creator_fee_instruction e payer pool) (\<lambda>sweep.
        bindE (build_collect_coin_creator_fee_ixs e (coin_creator pool) payer (quote_mint pool)
          (quote_token_program pool) create_coin_creator_ata) (\<lambda>collect.
        Inr (sweep # collect))))"

definition build_extend_account_ix :: "ext \<Rightarrow> pubkey \<Rightarrow> pubkey \<Rightarrow> instruction res" where
  "build_extend_account_ix e account user = make_extend_account_instruction e account user"

definition build_init_user_volume_accumulator_ix :: "ext \<Rightarrow> pubkey \<Rightarrow> pubkey \<Rightarrow> instruction res" where
  "build_init_user_volume_accumulator_ix e payer user =
     make_init_user_volume_accumulator_instruction e payer user"

definition build_sync_user_volume_accumulator_ix :: "ext \<Rightarrow> pubkey \<Rightarrow> instruction res" where
  "build_sync_user_volume_accumulator_ix e user = make_sync_user_volume_accumulator_instruction e user"

definition build_close_user_volume_accumulator_ix :: "ext \<Rightarrow> pubkey \<Rightarrow> instruction res" where
  "build_close_user_volume_accumulator_ix e user = make_close_user_volume_accumulator_instruction e user"

section \<open>The shape of the sequences\<close>

lemma opt_list_simps [simp]: "opt_list None = []" "opt_list (Some x) = [x]"
  by (simp_all add: opt_list_def)

lemma maybe_extend_eq:
  "maybe_extend_pool_ix e p payer =
    Inr (if pool_account_data_len p < 301
      then Some \<lparr>ix_program_id = PUMP_SWAP_PROGRAM_ID e,
        ix_accounts = [meta_new (pi_pool p) False, meta_readonly payer True,
          meta_readonly (x_system_program_ID e) False, meta_readonly (EVENT_AUTHORITY e) False,
          meta_readonly (PUMP_SWAP_PROGRAM_ID e) False],
        ix_data = [234, 102, 194, 203, 150, 72, 62, 229]\<rparr>
      else None)"
  by (simp add: maybe_extend_pool_ix_def POOL_ACCOUNT_NEW_SIZE_def make_extend_account_instruction_def)

text \<open>
  The contract of a swap sequence, as the on-chain runtime sees it: an optional extension of
  the pool account, a fresh WSOL account created with exactly \<open>lamports\<close> and initialised for the
  WSOL mint, an optional token account, the swap, the WSOL account closed back to the payer,
  an optional close of the token account.
\<close>

definition swap_sequence ::
  "ext \<Rightarrow> PoolInfo \<Rightarrow> pubkey \<Rightarrow> pubkey \<Rightarrow> string \<Rightarrow> u64 \<Rightarrow> instruction list \<Rightarrow> instruction \<Rightarrow>
   instruction list \<Rightarrow> instruction list \<Rightarrow> bool" where
  "swap_sequence e p payer wsol seed lamports create_ata swap_ix close_ata ixs \<longleftrightarrow>
     (\<exists>extend init close.
        maybe_extend_pool_ix e p payer = Inr extend \<and>
        x_initialize_account e (x_spl_token_ID e) wsol (WRAPPED_SOL_MINT e) payer = Inr init \<and>
        x_close_account e (x_spl_token_ID e) wsol payer payer = Inr close \<and>
        ixs = opt_list extend @
          [x_create_account_with_seed e payer wsol payer seed lamports
             (word_of_nat (x_token_account_LEN e)) (x_spl_token_ID e), init] @
          create_ata @ [swap_ix, close] @ close_ata)"

definition rent :: "ext \<Rightarrow> u64" where
  "rent e = x_minimum_balance e (x_token_account_LEN e)"

abbreviation token_ata :: "ext \<Rightarrow> PoolInfo \<Rightarrow> pubkey \<Rightarrow> pubkey" where
  "token_ata e p payer \<equiv> x_get_ata e payer (token_mint e p) (token_program e p)"

text \<open>The two user accounts of a swap instruction, in the positions the program reads them.\<close>

definition user_accounts :: "instruction \<Rightarrow> account_meta list" where
  "user_accounts ix = [ix_accounts ix ! 5, ix_accounts ix ! 6]"

definition oriented_accounts :: "ext \<Rightarrow> PoolInfo \<Rightarrow> pubkey \<Rightarrow> pubkey \<Rightarrow> account_meta list" where
  "oriented_accounts e p payer wsol =
     (if sol_is_base e p then [meta_new wsol False, meta_new (token_ata e p payer) False]
      else [meta_new (token_ata e p payer) False, meta_new wsol False])"

lemma swap_accounts_user:
  assumes "swap_accounts e d1 d2 p user ub uq kind = Inr accs"
  shows "accs ! 5 = meta_new ub False" and "accs ! 6 = meta_new uq False"
  using assms
  by (auto simp: swap_accounts_def append_swap_remaining_accounts_def Let_def bindE_eq_Inr_iff)

lemma swap_instructions_user:
  "make_buy_instruction e d1 d2 x y t p user ub uq = Inr ix \<Longrightarrow>
    ix_program_id ix = PUMP_SWAP_PROGRAM_ID e \<and> user_accounts ix = [meta_new ub False, meta_new uq False]"
  "make_buy_exact_quote_in_instruction e d1 d2 x y t p user ub uq = Inr ix \<Longrightarrow>
    ix_program_id ix = PUMP_SWAP_PROGRAM_ID e \<and> user_accounts ix = [meta_new ub False, meta_new uq False]"
  "make_sell_instruction e d1 d2 x y p user ub uq = Inr ix \<Longrightarrow>
    ix_program_id ix = PUMP_SWAP_PROGRAM_ID e \<and> user_accounts ix = [meta_new ub False, meta_new uq False]"
  by (auto simp: make_buy_instruction_def make_buy_exact_quote_in_instruction_def
      make_sell_instruction_def bindE_eq_Inr_iff user_accounts_def swap_accounts_user)

text \<open>
  The contract all swap builders share. \<open>fund\<close> is what the WSOL account is created with,
  \<open>swap\<close> the swap instruction for given base and quote accounts of the user.
\<close>

locale swap_builder =
  fixes build :: "ext \<Rightarrow> draws \<Rightarrow> PoolInfo \<Rightarrow> pubkey \<Rightarrow> instruction list res"
    and fund :: "ext \<Rightarrow> PoolInfo \<Rightarrow> u64 res"
    and swap :: "ext \<Rightarrow> draws \<Rightarrow> PoolInfo \<Rightarrow> pubkey \<Rightarrow> pubkey \<Rightarrow> pubkey \<Rightarrow> instruction res"
    and creates closes :: bool
  assumes sequence: "build e d p payer = Inr ixs \<Longrightarrow>
      \<exists>wsol seed lamports swap_ix close_ata.
        gen_pubkey_with_seed e (dr_seed d) payer = Inr (wsol, seed) \<and>
        fund e p = Inr lamports \<and>
        swap e d p payer (if sol_is_base e p then wsol else token_ata e p payer)
          (if sol_is_base e p then token_ata e p payer else wsol) = Inr swap_ix \<and>
        swap_sequence e p payer wsol seed lamports
          (if creates then [x_create_ata_idempotent e payer payer (token_mint e p) (token_program e p)] else [])
          swap_ix close_ata ixs \<and>
        (if closes then \<exists>c. x_close_account e (token_program e p) (token_ata e p payer) payer payer = Inr c
           \<and> close_ata = [c] else close_ata = [])"
    and swap_user: "swap e d p payer ub uq = Inr ix \<Longrightarrow>
      ix_program_id ix = PUMP_SWAP_PROGRAM_ID e \<and> user_accounts ix = [meta_new ub False, meta_new uq False]"
begin

text \<open>The number of instructions follows from the flags alone.\<close>

lemma count:
  assumes "build e d p payer = Inr ixs"
  shows "length ixs = (if pool_account_data_len p < 301 then 1 else 0) + 4 +
    (if creates then 1 else 0) + (if closes then 1 else 0)"
  using sequence [OF assms] by (auto simp: swap_sequence_def maybe_extend_eq)

text \<open>
  What is created is closed, with the swap in between, and the swap reads the WSOL account on
  the side of the pool SOL is on.
\<close>

lemma bracketed:
  assumes "build e d p payer = Inr ixs"
  shows "\<exists>pre mid post wsol seed lamports swap_ix close.
    gen_pubkey_with_seed e (dr_seed d) payer = Inr (wsol, seed) \<and> fund e p = Inr lamports \<and>
    ixs = pre @ [x_create_account_with_seed e payer wsol payer seed lamports
        (word_of_nat (x_token_account_LEN e)) (x_spl_token_ID e)] @ mid @ [swap_ix, close] @ post \<and>
    x_close_account e (x_spl_token_ID e) wsol payer payer = Inr close \<and>
    ix_program_id swap_ix = PUMP_SWAP_PROGRAM_ID e \<and>
    user_accounts swap_ix = oriented_accounts e p payer wsol"
proof -
  obtain wsol seed lamports swap_ix close_ata where
    w: "gen_pubkey_with_seed e (dr_seed d) payer = Inr (wsol, seed)" and f: "fund e p = Inr lamports"
    and s: "swap e d p payer (if sol_is_base e p then wsol else token_ata e p payer)
          (if sol_is_base e p then token_ata e p payer else wsol) = Inr swap_ix"
    and q: "swap_sequence e p payer wsol seed lamports
          (if creates then [x_create_ata_idempotent e payer payer (token_mint e p) (token_program e p)] else [])
          swap_ix close_ata ixs"
    using sequence [OF assms] by blast
  have u: "ix_program_id swap_ix = PUMP_SWAP_PROGRAM_ID e \<and>
      user_accounts swap_ix = oriented_accounts e p payer wsol"
    using swap_user [OF s] by (simp add: oriented_accounts_def)
  obtain extend init close where
    c: "x_close_account e (x_spl_token_ID e) wsol payer payer = Inr close" and
    i: "ixs = opt_list extend @
      [x_create_account_with_seed e payer wsol payer seed lamports
        (word_of_nat (x_token_account_LEN e)) (x_spl_token_ID e)] @
      (init # (if creates then [x_create_ata_idempotent e payer payer (token_mint e p) (token_program e p)] else []))
      @ [swap_ix, close] @ close_ata"
    using q by (auto simp: swap_sequence_def)
  show ?thesis using w f c i u by blast
qed

end

lemmas builder_simps = bindE_eq_Inr_iff Let_def rent_def swap_sequence_def
  create_ata_token_or_not_with_program_def

interpretation buy_builder: swap_builder
    "\<lambda>e d p payer. build_buy_ixs e d base_out max_in track p payer create"
    "\<lambda>e p. if sol_is_base e p then Inr (rent e) else add_u64 e (rent e) max_in"
    "\<lambda>e d p payer ub uq. make_buy_instruction e (dr_fee d) (dr_buyback d) base_out max_in track p payer ub uq"
    create False
  for base_out max_in track create
  by standard
    (auto simp: build_buy_ixs_def builder_simps swap_instructions_user split: if_splits prod.splits)

interpretation buy_exact_builder: swap_builder
    "\<lambda>e d p payer. build_buy_exact_quote_in_ixs e d quote_in min_out track p payer create"
    "\<lambda>e p. if sol_is_base e p then Inr (rent e) else add_u64 e (rent e) quote_in"
    "\<lambda>e d p payer ub uq.
       make_buy_exact_quote_in_instruction e (dr_fee d) (dr_buyback d) quote_in min_out track p payer ub uq"
    create False
  for quote_in min_out track create
  by standard
    (auto simp: build_buy_exact_quote_in_ixs_def builder_simps swap_instructions_user
      split: if_splits prod.splits)

interpretation sell_builder: swap_builder
    "\<lambda>e d p payer. build_sell_ixs e d base_in min_out p payer close"
    "\<lambda>e p. if sol_is_base e p then add_u64 e (rent e) base_in else Inr (rent e)"
    "\<lambda>e d p payer ub uq. make_sell_instruction e (dr_fee d) (dr_buyback d) base_in min_out p payer ub uq"
    False close
  for base_in min_out close
  by standard
    (auto simp: build_sell_ixs_def builder_simps swap_instructions_user split: if_splits prod.splits)

text \<open>The two orientation-independent builders: the swap is chosen by the side SOL is on.\<close>

definition token_buy_swap ::
  "u64 \<Rightarrow> u64 \<Rightarrow> bool \<Rightarrow> ext \<Rightarrow> draws \<Rightarrow> PoolInfo \<Rightarrow> pubkey \<Rightarrow> pubkey \<Rightarrow> pubkey \<Rightarrow> instruction res" where
  "token_buy_swap sol_in min_out track e d p payer ub uq =
     (if sol_is_base e p
      then make_sell_instruction e (dr_fee d) (dr_buyback d) sol_in min_out p payer ub uq
      else make_buy_exact_quote_in_instruction e (dr_fee d) (dr_buyback d) sol_in min_out track p payer ub uq)"

definition token_sell_swap ::
  "u64 \<Rightarrow> u64 \<Rightarrow> ext \<Rightarrow> draws \<Rightarrow> PoolInfo \<Rightarrow> pubkey \<Rightarrow> pubkey \<Rightarrow> pubkey \<Rightarrow> instruction res" where
  "token_sell_swap tokens_in min_out e d p payer ub uq =
     (if sol_is_base e p
      then make_buy_exact_quote_in_instruction e (dr_fee d) (dr_buyback d) tokens_in min_out False p payer ub uq
      else make_sell_instruction e (dr_fee d) (dr_buyback d) tokens_in min_out p payer ub uq)"

interpretation token_buy_builder: swap_builder
    "\<lambda>e d p payer. build_token_buy_ixs e d sol_in min_out track p payer create"
    "\<lambda>e p. add_u64 e (rent e) sol_in" "token_buy_swap sol_in min_out track" create False
  for sol_in min_out track create
  by standard
    (auto simp: build_token_buy_ixs_def builder_simps swap_instructions_user token_buy_swap_def
      split: if_splits prod.splits)

interpretation token_sell_builder: swap_builder
    "\<lambda>e d p payer. build_token_sell_ixs e d tokens_in min_out p payer close"
    "\<lambda>e p. Inr (rent e)" "token_sell_swap tokens_in min_out" False close
  for tokens_in min_out close
  by standard
    (auto simp: build_token_sell_ixs_def builder_simps swap_instructions_user token_sell_swap_def
      split: if_splits prod.splits)

text \<open>With documented \<open>choose\<close> and SPL constructors no part of a sequence fails.\<close>

lemma builder_parts_ok:
  assumes "choose_documented e" and "spl_token_documented e"
  shows "\<exists>ix. make_sell_instruction e d1 d2 x y p user ub uq = Inr ix"
    and "\<exists>ix. make_buy_instruction e d1 d2 x y t p user ub uq = Inr ix"
    and "\<exists>ix. make_buy_exact_quote_in_instruction e d1 d2 x y t p user ub uq = Inr ix"
    and "\<exists>ix. x_initialize_account e (x_spl_token_ID e) a m w = Inr ix"
    and "\<exists>ix. x_close_account e (x_spl_token_ID e) a dst w = Inr ix"
proof -
  have pick: "\<exists>accs. swap_accounts e d1 d2 p user ub uq kind = Inr accs" for kind
    using swap_accounts_ok [OF assms(1)] by blast
  show "\<exists>ix. make_sell_instruction e d1 d2 x y p user ub uq = Inr ix"
    "\<exists>ix. make_buy_instruction e d1 d2 x y t p user ub uq = Inr ix"
    "\<exists>ix. make_buy_exact_quote_in_instruction e d1 d2 x y t p user ub uq = Inr ix"
    using pick [of Sell] pick [of Buy]
    by (auto simp: make_sell_instruction_def make_buy_instruction_def make_buy_exact_quote_in_instruction_def)
  show "\<exists>ix. x_initialize_account e (x_spl_token_ID e) a m w = Inr ix"
    "\<exists>ix. x_close_account e (x_spl_token_ID e) a dst w = Inr ix"
    using assms(2) by (auto simp: spl_token_documented_def)
qed

lemma token_buy_ok:
  assumes "choose_documented e" and "spl_token_documented e"
    and "gen_pubkey_with_seed e (dr_seed d) payer = Inr (wsol, seed)"
    and "unat (rent e) + unat x < 2 ^ 64"
  shows "\<exists>ixs. build_token_buy_ixs e d x y t p payer flag = Inr ixs \<and>
      length ixs = (if pool_account_data_len p < 301 then 5 else 4) + (if flag then 1 else 0)"
proof -
  note parts = builder_parts_ok [OF assms(1,2)]
  obtain l where l: "add_u64 e (x_minimum_balance e (x_token_account_LEN e)) x = Inr l"
    using add_u64_exact [OF assms(4), of e] by (auto simp: rent_def)
  have "\<exists>ixs. build_token_buy_ixs e d x y t p payer flag = Inr ixs"
    using assms(3) l parts(4) [of wsol "WRAPPED_SOL_MINT e" payer] parts(5) [of wsol payer payer]
      parts(1) [of "dr_fee d" "dr_buyback d" x y p payer wsol "token_ata e p payer"]
      parts(3) [of "dr_fee d" "dr_buyback d" x y t p payer "token_ata e p payer" wsol]
    by (auto simp: build_token_buy_ixs_def maybe_extend_eq builder_simps split: prod.splits)
  then show ?thesis using token_buy_builder.count [of e d x y t p payer flag] by auto
qed

lemma token_sell_ok:
  assumes "choose_documented e" and "spl_token_documented e"
    and "token_program e p = x_spl_token_ID e \<or> \<not> flag"
    and "gen_pubkey_with_seed e (dr_seed d) payer = Inr (wsol, seed)"
  shows "\<exists>ixs. build_token_sell_ixs e d x y p payer flag = Inr ixs \<and>
      length ixs = (if pool_account_data_len p < 301 then 5 else 4) + (if flag then 1 else 0)"
proof -
  note parts = builder_parts_ok [OF assms(1,2)]
  have "\<exists>ixs. build_token_sell_ixs e d x y p payer flag = Inr ixs"
    using assms(3,4) parts(4) [of wsol "WRAPPED_SOL_MINT e" payer] parts(5) [of wsol payer payer]
      parts(5) [of "token_ata e p payer" payer payer]
      parts(1) [of "dr_fee d" "dr_buyback d" x y p payer "token_ata e p payer" wsol]
      parts(3) [of "dr_fee d" "dr_buyback d" x y False p payer wsol "token_ata e p payer"]
    by (auto simp: build_token_sell_ixs_def maybe_extend_eq builder_simps split: prod.splits)
  then show ?thesis using token_sell_builder.count [of e d x y p payer flag] by auto
qed

lemma token_builders_ok:
  assumes "choose_documented e" and "spl_token_documented e"
    and "token_program e p = x_spl_token_ID e"
    and "gen_pubkey_with_seed e (dr_seed d) payer = Inr (wsol, seed)"
    and "unat (rent e) + unat x < 2 ^ 64"
  shows "(\<exists>ixs. build_token_buy_ixs e d x y t p payer flag = Inr ixs \<and>
      length ixs = (if pool_account_data_len p < 301 then 5 else 4) + (if flag then 1 else 0)) \<and>
    (\<exists>ixs. build_token_sell_ixs e d x y p payer flag = Inr ixs \<and>
      length ixs = (if pool_account_data_len p < 301 then 5 else 4) + (if flag then 1 else 0))"
  using token_buy_ok [OF assms(1,2,4,5)] token_sell_ok [OF assms(1,2) disjI1 [OF assms(3)] assms(4)] by blast

lemma build_sell_ok:
  assumes "choose_documented e" and "spl_token_documented e"
    and "token_program e p = x_spl_token_ID e"
    and "gen_pubkey_with_seed e (dr_seed d) payer = Inr (wsol, seed)"
    and "unat (rent e) + unat x < 2 ^ 64"
  shows "\<exists>ixs. build_sell_ixs e d x y p payer flag = Inr ixs"
proof -
  note parts = builder_parts_ok [OF assms(1,2)]
  obtain l where "add_u64 e (x_minimum_balance e (x_token_account_LEN e)) x = Inr l"
    using add_u64_exact [OF assms(5), of e] by (auto simp: rent_def)
  moreover obtain i where "x_initialize_account e (x_spl_token_ID e) wsol (WRAPPED_SOL_MINT e) payer = Inr i"
    using parts(4) by blast
  moreover obtain c1 where "x_close_account e (x_spl_token_ID e) wsol payer payer = Inr c1"
    using parts(5) by blast
  moreover obtain c2 where "x_close_account e (x_spl_token_ID e) (token_ata e p payer) payer payer = Inr c2"
    using parts(5) by blast
  moreover obtain s1 where
    "make_sell_instruction e (dr_fee d) (dr_buyback d) x y p payer (token_ata e p payer) wsol = Inr s1"
    using parts(1) by blast
  moreover obtain s2 where
    "make_sell_instruction e (dr_fee d) (dr_buyback d) x y p payer wsol (token_ata e p payer) = Inr s2"
    using parts(1) by blast
  ultimately show ?thesis
    using assms(3,4)
    by (cases "sol_is_base e p"; cases flag) (simp_all add: build_sell_ixs_def maybe_extend_eq Let_def)
qed

lemma build_buy_ok:
  assumes "choose_documented e" and "spl_token_documented e"
    and "gen_pubkey_with_seed e (dr_seed d) payer = Inr (wsol, seed)"
    and "unat (rent e) + unat x < 2 ^ 64"
  shows "\<exists>ixs. build_buy_ixs e d y x t p payer flag = Inr ixs"
proof -
  note parts = builder_parts_ok [OF assms(1,2)]
  obtain l where "add_u64 e (x_minimum_balance e (x_token_account_LEN e)) x = Inr l"
    using add_u64_exact [OF assms(4), of e] by (auto simp: rent_def)
  moreover obtain i where "x_initialize_account e (x_spl_token_ID e) wsol (WRAPPED_SOL_MINT e) payer = Inr i"
    using parts(4) by blast
  moreover obtain c1 where "x_close_account e (x_spl_token_ID e) wsol payer payer = Inr c1"
    using parts(5) by blast
  moreover obtain s1 where
    "make_buy_instruction e (dr_fee d) (dr_buyback d) y x t p payer (token_ata e p payer) wsol = Inr s1"
    using parts(2) by blast
  moreover obtain s2 where
    "make_buy_instruction e (dr_fee d) (dr_buyback d) y x t p payer wsol (token_ata e p payer) = Inr s2"
    using parts(2) by blast
  ultimately show ?thesis
    using assms(3)
    by (cases "sol_is_base e p"; cases flag) (simp_all add: build_buy_ixs_def maybe_extend_eq
      create_ata_token_or_not_with_program_def Let_def)
qed

lemma token_builders_orient_eq:
  "(if sol_is_base e p
    then build_token_buy_ixs e d x y t p payer False = build_sell_ixs e d x y p payer False \<and>
      build_token_sell_ixs e d x y p payer False =
        build_buy_exact_quote_in_ixs e d x y False p payer False
    else build_token_buy_ixs e d x y t p payer c = build_buy_exact_quote_in_ixs e d x y t p payer c \<and>
      build_token_sell_ixs e d x y p payer c = build_sell_ixs e d x y p payer c)"
  by (simp add: build_token_buy_ixs_def build_token_sell_ixs_def build_sell_ixs_def
      build_buy_exact_quote_in_ixs_def create_ata_token_or_not_with_program_def Let_def)

text \<open>Instances for the theorems below.\<close>

definition draws_example :: draws where
  "draws_example = \<lparr>dr_seed = [], dr_fee = 3, dr_buyback = 5\<rparr>"

definition spl_pool_example :: PoolInfo where
  "spl_pool_example = pool_example\<lparr>base_token_program := pad32 [6], quote_token_program := pad32 [6]\<rparr>"

lemma example_program: "token_program (ext_example c) spl_pool_example = x_spl_token_ID (ext_example c)"
  by (simp add: token_program_def spl_pool_example_def ext_example_def split: TokenSide.split)

definition token_2022_pool_example :: PoolInfo where
  "token_2022_pool_example = pool_example\<lparr>base_token_program := pad32 [7], quote_token_program := pad32 [7]\<rparr>"

lemma example_program_2022: "token_program (ext_example c) token_2022_pool_example \<noteq> x_spl_token_ID (ext_example c)"
  by (simp add: token_program_def token_2022_pool_example_def ext_example_def pad32_def split: TokenSide.split)

lemma example_seed: "gen_pubkey_with_seed (ext_example c) (dr_seed draws_example) payer = Inr (pad32 [], [])"
  by (simp add: gen_pubkey_with_seed_def ext_example_def draws_example_def)

lemma example_rent: "unat (rent (ext_example c)) + unat (5000 :: u64) < 2 ^ 64"
  by (simp add: rent_def ext_example_def)

lemma example_token_base: "\<not> sol_is_base (ext_example c) (p\<lparr>base_mint := key 4\<rparr>)"
  by (simp add: sol_is_base_def WRAPPED_SOL_MINT_def ext_example_def pad32_def Cons_replicate_eq
      eq_commute [of "replicate n (4 :: u8)" for n])

lemma example_extended:
  "pool_account_data_len spl_pool_example = 301" "pool_account_data_len token_2022_pool_example = 301"
  by (simp_all add: spl_pool_example_def token_2022_pool_example_def pool_example_def pool_info_of_def)

section \<open>Properties of the sequences\<close>

text \<open>
  A swap bracketed by the life of one WSOL account: it is created with exactly the lamports of
  \<open>fund\<close>, the swap against the pump-amm program has that account on the side of the pool SOL is on
  and the user's token account on the other, and it is closed to the payer right after.
\<close>

definition bracketed_sequence ::
  "ext \<Rightarrow> draws \<Rightarrow> PoolInfo \<Rightarrow> pubkey \<Rightarrow> u64 res \<Rightarrow> instruction list \<Rightarrow> bool" where
  "bracketed_sequence e d p payer fund ixs \<longleftrightarrow> (\<exists>pre mid post wsol seed lamports swap_ix close.
     gen_pubkey_with_seed e (dr_seed d) payer = Inr (wsol, seed) \<and> fund = Inr lamports \<and>
     ixs = pre @ [x_create_account_with_seed e payer wsol payer seed lamports
         (word_of_nat (x_token_account_LEN e)) (x_spl_token_ID e)] @ mid @ [swap_ix, close] @ post \<and>
     x_close_account e (x_spl_token_ID e) wsol payer payer = Inr close \<and>
     ix_program_id swap_ix = PUMP_SWAP_PROGRAM_ID e \<and>
     user_accounts swap_ix = oriented_accounts e p payer wsol)"

text \<open>
  C5: every swap sequence that is built, by any of the five builders, is bracketed by one WSOL
  account. It holds the rent alone when SOL is what the swap pays out, and the rent plus exactly
  the amount the swap may spend when SOL is what it spends.
\<close>

theorem swap_sequences_bracketed:
  "(build_buy_ixs e d x y t p payer c = Inr ixs \<longrightarrow>
      bracketed_sequence e d p payer (if sol_is_base e p then Inr (rent e) else add_u64 e (rent e) y) ixs) \<and>
   (build_buy_exact_quote_in_ixs e d x y t p payer c = Inr ixs \<longrightarrow>
      bracketed_sequence e d p payer (if sol_is_base e p then Inr (rent e) else add_u64 e (rent e) x) ixs) \<and>
   (build_sell_ixs e d x y p payer c = Inr ixs \<longrightarrow>
      bracketed_sequence e d p payer (if sol_is_base e p then add_u64 e (rent e) x else Inr (rent e)) ixs) \<and>
   (build_token_buy_ixs e d x y t p payer c = Inr ixs \<longrightarrow>
      bracketed_sequence e d p payer (add_u64 e (rent e) x) ixs) \<and>
   (build_token_sell_ixs e d x y p payer c = Inr ixs \<longrightarrow>
      bracketed_sequence e d p payer (Inr (rent e)) ixs)"
  unfolding bracketed_sequence_def
  by (intro conjI impI buy_builder.bracketed buy_exact_builder.bracketed sell_builder.bracketed
      token_buy_builder.bracketed token_sell_builder.bracketed)

theorem swap_sequences_bracketed_witness:
  "\<exists>ixs. build_token_buy_ixs (ext_example True) draws_example 5000 7 True spl_pool_example (key 1) True = Inr ixs \<and>
    bracketed_sequence (ext_example True) draws_example spl_pool_example (key 1)
      (add_u64 (ext_example True) (rent (ext_example True)) 5000) ixs"
proof -
  obtain ixs where b:
    "build_token_buy_ixs (ext_example True) draws_example 5000 7 True spl_pool_example (key 1) True = Inr ixs"
    using token_builders_ok [OF choose_documented_example [of True] spl_token_documented_example [of True]
        example_program [of True] example_seed [of True "key 1"] example_rent, where y = 7 and t = True and flag = True] by blast
  then show ?thesis
    using swap_sequences_bracketed [THEN conjunct2, THEN conjunct2, THEN conjunct2, THEN conjunct1, THEN mp, OF b] by blast
qed

text \<open>
  When rent plus amount does not fit a \<open>u64\<close>, a build with overflow checks panics in the
  builder, and a build without them creates the WSOL account with less than its rent.
\<close>

lemma funding_overflow:
  assumes "2 ^ 64 \<le> unat (rent e) + unat sol_in"
    and "gen_pubkey_with_seed e (dr_seed d) payer = Inr (wsol, seed)"
  shows "if x_overflow_checks e
    then build_token_buy_ixs e d sol_in y t p payer c = Inl (Panic ''attempt to add with overflow'')
    else \<forall>ixs. build_token_buy_ixs e d sol_in y t p payer c = Inr ixs \<longrightarrow>
      (\<exists>lamports. unat lamports < unat (rent e) \<and>
        x_create_account_with_seed e payer wsol payer seed lamports
          (word_of_nat (x_token_account_LEN e)) (x_spl_token_ID e) \<in> set ixs)"
proof (cases "x_overflow_checks e")
  case True
  then show ?thesis
    using assms by (simp add: build_token_buy_ixs_def maybe_extend_eq builder_simps add_u64_def)
next
  case False
  have ge: "18446744073709551616 \<le> unat (rent e) + unat sol_in" using assms(1) by simp
  have "unat (rent e + sol_in) = (unat (rent e) + unat sol_in) mod 18446744073709551616"
    by (simp add: unat_word_ariths)
  also have "\<dots> = (unat (rent e) + unat sol_in - 18446744073709551616) mod 18446744073709551616"
    using ge by (rule le_mod_geq)
  also have "\<dots> \<le> unat (rent e) + unat sol_in - 18446744073709551616" by (rule mod_less_eq_dividend)
  also have "\<dots> < unat (rent e)" using ge unat_u64_less [of sol_in] by linarith
  finally have less: "unat (rent e + sol_in) < unat (rent e)" .
  have "add_u64 e (rent e) sol_in = Inr (rent e + sol_in)" using False by (simp add: add_u64_def)
  note add = this
  have "\<exists>lamports. unat lamports < unat (rent e) \<and>
      x_create_account_with_seed e payer wsol payer seed lamports
        (word_of_nat (x_token_account_LEN e)) (x_spl_token_ID e) \<in> set ixs"
    if build: "build_token_buy_ixs e d sol_in y t p payer c = Inr ixs" for ixs
  proof -
    obtain pre mid post w s l swap_ix close where
      "gen_pubkey_with_seed e (dr_seed d) payer = Inr (w, s)" "add_u64 e (rent e) sol_in = Inr l"
      "ixs = pre @ [x_create_account_with_seed e payer w payer s l
        (word_of_nat (x_token_account_LEN e)) (x_spl_token_ID e)] @ mid @ [swap_ix, close] @ post"
      using token_buy_builder.bracketed [OF build] by blast
    then have "w = wsol" "s = seed" "l = rent e + sol_in"
      "x_create_account_with_seed e payer w payer s l
        (word_of_nat (x_token_account_LEN e)) (x_spl_token_ID e) \<in> set ixs"
      using assms(2) add by simp_all
    with less show ?thesis by blast
  qed
  then show ?thesis using False by simp
qed

text \<open>
  Why a sequence is not built: the seed derives no address, or the funding of the WSOL account
  overflows in a build with checks.
\<close>

definition funding_overflows :: "ext \<Rightarrow> u64 \<Rightarrow> bool" where
  "funding_overflows e amount \<longleftrightarrow> 2 ^ 64 \<le> unat (rent e) + unat amount"

definition sequence_error :: "ext \<Rightarrow> draws \<Rightarrow> pubkey \<Rightarrow> u64 option \<Rightarrow> err \<Rightarrow> bool" where
  "sequence_error e d payer spent err \<longleftrightarrow> gen_pubkey_with_seed e (dr_seed d) payer = Inl err \<or>
     (\<exists>wsol amount. gen_pubkey_with_seed e (dr_seed d) payer = Inr wsol \<and> spent = Some amount \<and>
       x_overflow_checks e \<and> funding_overflows e amount \<and> err = Panic ''attempt to add with overflow'')"

text \<open>
  A sale that is asked to close the token account also fails when the SPL constructor refuses to
  close it under the token program of the pool.
\<close>

definition close_error :: "ext \<Rightarrow> draws \<Rightarrow> PoolInfo \<Rightarrow> pubkey \<Rightarrow> u64 option \<Rightarrow> bool \<Rightarrow> err \<Rightarrow> bool" where
  "close_error e d p payer spent closes err \<longleftrightarrow> closes \<and> (\<forall>err'. \<not> sequence_error e d payer spent err') \<and>
     x_close_account e (token_program e p) (token_ata e p payer) payer payer = Inl err"

lemma add_u64_rent:
  "add_u64 e (x_minimum_balance e (x_token_account_LEN e)) x =
    (if x_overflow_checks e \<and> funding_overflows e x then Inl (Panic ''attempt to add with overflow'')
     else Inr (x_minimum_balance e (x_token_account_LEN e) + x))"
  by (auto simp: add_u64_def funding_overflows_def rent_def)

lemma builders_fail_iff:
  assumes "choose_documented e" and "spl_token_documented e"
  shows "build_buy_ixs e d x y t p payer c = Inl err \<longleftrightarrow>
      sequence_error e d payer (if sol_is_base e p then None else Some y) err"
    and "build_buy_exact_quote_in_ixs e d x y t p payer c = Inl err \<longleftrightarrow>
      sequence_error e d payer (if sol_is_base e p then None else Some x) err"
    and "build_sell_ixs e d x y p payer c = Inl err \<longleftrightarrow>
      sequence_error e d payer (if sol_is_base e p then Some x else None) err \<or>
      close_error e d p payer (if sol_is_base e p then Some x else None) c err"
    and "build_token_buy_ixs e d x y t p payer c = Inl err \<longleftrightarrow>
      sequence_error e d payer (Some x) err"
    and "build_token_sell_ixs e d x y p payer c = Inl err \<longleftrightarrow>
      sequence_error e d payer None err \<or> close_error e d p payer None c err"
proof -
  note parts = builder_parts_ok [OF assms]
  obtain sell where sell: "\<And>ub uq. make_sell_instruction e (dr_fee d) (dr_buyback d) x y p payer ub uq = Inr (sell ub uq)"
    using parts(1) by metis
  obtain buy where buy: "\<And>ub uq. make_buy_instruction e (dr_fee d) (dr_buyback d) x y t p payer ub uq = Inr (buy ub uq)"
    using parts(2) by metis
  obtain exact where exact: "\<And>ub uq. make_buy_exact_quote_in_instruction e (dr_fee d) (dr_buyback d) x y t p payer ub uq =
      Inr (exact ub uq)"
    using parts(3) [where x = x and y = y and t = t and p = p and user = payer] by metis
  obtain exact' where exact': "\<And>ub uq. make_buy_exact_quote_in_instruction e (dr_fee d) (dr_buyback d) x y False p payer ub uq =
      Inr (exact' ub uq)"
    using parts(3) [where x = x and y = y and t = False and p = p and user = payer] by metis
  obtain init where init: "\<And>a m w. x_initialize_account e (x_spl_token_ID e) a m w = Inr (init a m w)"
    using parts(4) by metis
  obtain close where close: "\<And>a dst w. x_close_account e (x_spl_token_ID e) a dst w = Inr (close a dst w)"
    using parts(5) by metis
  note defs = sequence_error_def add_u64_rent maybe_extend_eq rent_def Let_def create_ata_token_or_not_with_program_def
    sell buy exact exact' init close
  show "build_buy_ixs e d x y t p payer c = Inl err \<longleftrightarrow>
      sequence_error e d payer (if sol_is_base e p then None else Some y) err"
    by (cases "gen_pubkey_with_seed e (dr_seed d) payer")
      (auto simp: build_buy_ixs_def defs split: prod.splits)
  show "build_buy_exact_quote_in_ixs e d x y t p payer c = Inl err \<longleftrightarrow>
      sequence_error e d payer (if sol_is_base e p then None else Some x) err"
    by (cases "gen_pubkey_with_seed e (dr_seed d) payer")
      (auto simp: build_buy_exact_quote_in_ixs_def defs split: prod.splits)
  show "build_sell_ixs e d x y p payer c = Inl err \<longleftrightarrow>
      sequence_error e d payer (if sol_is_base e p then Some x else None) err \<or>
      close_error e d p payer (if sol_is_base e p then Some x else None) c err"
    by (cases "gen_pubkey_with_seed e (dr_seed d) payer"; cases c; cases "sol_is_base e p")
      (auto simp: build_sell_ixs_def close_error_def defs bindE_eq_Inl_iff split: prod.splits)
  show "build_token_buy_ixs e d x y t p payer c = Inl err \<longleftrightarrow>
      sequence_error e d payer (Some x) err"
    by (cases "gen_pubkey_with_seed e (dr_seed d) payer")
      (auto simp: build_token_buy_ixs_def defs split: prod.splits)
  show "build_token_sell_ixs e d x y p payer c = Inl err \<longleftrightarrow>
      sequence_error e d payer None err \<or> close_error e d p payer None c err"
    by (cases "gen_pubkey_with_seed e (dr_seed d) payer"; cases c; cases "sol_is_base e p")
      (auto simp: build_token_sell_ixs_def close_error_def defs bindE_eq_Inl_iff split: prod.splits)
qed

text \<open>So no sale on a Token-2022 pool is built with its token account closed.\<close>

lemma foreign_close_refused:
  assumes "choose_documented e" and "spl_token_documented e" and "close_checks_program e"
    and "token_program e p \<noteq> x_spl_token_ID e"
  shows "\<exists>err. build_sell_ixs e d x y p payer True = Inl err"
    and "\<exists>err. build_token_sell_ixs e d x y p payer True = Inl err"
proof -
  obtain err where err: "x_close_account e (token_program e p) (token_ata e p payer) payer payer = Inl err"
    using assms(3,4) unfolding close_checks_program_def by blast
  have "\<exists>err. sequence_error e d payer spent err \<or> close_error e d p payer spent True err" for spent
    using err unfolding close_error_def by blast
  then show "\<exists>err. build_sell_ixs e d x y p payer True = Inl err"
    "\<exists>err. build_token_sell_ixs e d x y p payer True = Inl err"
    unfolding builders_fail_iff [OF assms(1,2)] by blast+
qed


text \<open>
  C26: with the documented behaviour of the SPL constructors and of \<open>choose\<close>, a derivable WSOL
  address and a rent plus amount that fits a \<open>u64\<close>, both orientation-independent builders
  return a sequence, and its length follows from the flags: 4 instructions, one more to extend
  a pool account below 301 bytes, one more to create or to close the token account. A buy is
  built for every token program; a sale is built for every token program when it keeps the
  token account, and for a pool on the classic SPL program also when it closes it. On another
  program, Token-2022 included, a sale that closes the token account is never built, because
  the SPL constructor of the close refuses the program. The builders are the directional ones
  of the orientation of the pool: on a token-base pool buying the token is
  \<open>build_buy_exact_quote_in_ixs\<close> and selling it \<open>build_sell_ixs\<close>, under either flag; on a
  SOL-base pool, when the token account is neither created nor closed, the other way round.
\<close>

theorem token_builders_succeed:
  assumes "choose_documented e" and "spl_token_documented e"
    and "gen_pubkey_with_seed e (dr_seed d) payer = Inr (wsol, seed)"
    and "unat (rent e) + unat x < 2 ^ 64"
  shows "(\<exists>ixs. build_token_buy_ixs e d x y t p payer flag = Inr ixs \<and>
      length ixs = (if pool_account_data_len p < 301 then 5 else 4) + (if flag then 1 else 0)) \<and>
    (token_program e p = x_spl_token_ID e \<or> \<not> flag \<longrightarrow>
      (\<exists>ixs. build_token_sell_ixs e d x y p payer flag = Inr ixs \<and>
        length ixs = (if pool_account_data_len p < 301 then 5 else 4) + (if flag then 1 else 0))) \<and>
    (close_checks_program e \<and> token_program e p \<noteq> x_spl_token_ID e \<longrightarrow>
      (\<exists>err. build_token_sell_ixs e d x y p payer True = Inl err)) \<and>
    (if sol_is_base e p
     then build_token_buy_ixs e d x y t p payer False = build_sell_ixs e d x y p payer False \<and>
       build_token_sell_ixs e d x y p payer False =
         build_buy_exact_quote_in_ixs e d x y False p payer False
     else build_token_buy_ixs e d x y t p payer flag = build_buy_exact_quote_in_ixs e d x y t p payer flag \<and>
       build_token_sell_ixs e d x y p payer flag = build_sell_ixs e d x y p payer flag)"
  using token_buy_ok [OF assms] token_sell_ok [OF assms(1,2) _ assms(3)]
    foreign_close_refused(2) [OF assms(1,2)]
  by (intro conjI impI token_builders_orient_eq) blast+

text \<open>The instances: a pool of the classic program, and one of Token-2022.\<close>

theorem token_builders_succeed_witness:
  "(\<exists>ixs. build_token_sell_ixs (ext_example True) draws_example 5000 7 spl_pool_example (key 1) True =
      Inr ixs \<and> length ixs = 5) \<and>
   (\<exists>ixs. build_token_buy_ixs (ext_example True) draws_example 5000 7 True token_2022_pool_example (key 1) True =
      Inr ixs \<and> length ixs = 5) \<and>
   (\<exists>err. build_token_sell_ixs (ext_example True) draws_example 5000 7 token_2022_pool_example (key 1) True = Inl err)"
  using token_builders_succeed [OF choose_documented_example [of True] spl_token_documented_example [of True]
      example_seed [of True "key 1"] example_rent, where y = 7 and t = True and flag = True and p = spl_pool_example]
    token_builders_succeed [OF choose_documented_example [of True] spl_token_documented_example [of True]
      example_seed [of True "key 1"] example_rent, where y = 7 and t = True and flag = True
      and p = token_2022_pool_example]
    example_program [of True] example_program_2022 [of True] close_checks_program_example [of True]
  by (auto simp: example_extended)

text \<open>
  C27: when the five swap builders fail, for every pool, token program and flag. Under documented
  behaviour of the SPL constructors on their own program and of \<open>choose\<close>, a builder returns an
  error exactly when no WSOL address derives from the seed, and then that error; or, in a build
  with overflow checks, when the rent plus the SOL the swap may spend does not fit a \<open>u64\<close>, and
  then the panic of the addition; or, for the two sell builders alone, when they are asked to
  close the token account and the SPL constructor refuses to under the pool's token program,
  and then that refusal. As \<open>spl_token\<close> refuses every program but its own, both sell builders
  always fail on a Token-2022 pool when they are to close the token account, which \<open>sell\<close> and
  \<open>simulate_sell\<close> always ask for. The amounts of the swap are never refused. In a build without
  checks the overflow is no error, and the WSOL account is created below its rent.
\<close>

theorem swap_builders_fail_exactly:
  assumes "choose_documented e" and "spl_token_documented e"
  shows "(build_buy_ixs e d x y t p payer c = Inl err \<longleftrightarrow>
      sequence_error e d payer (if sol_is_base e p then None else Some y) err) \<and>
    (build_buy_exact_quote_in_ixs e d x y t p payer c = Inl err \<longleftrightarrow>
      sequence_error e d payer (if sol_is_base e p then None else Some x) err) \<and>
    (build_sell_ixs e d x y p payer c = Inl err \<longleftrightarrow>
      sequence_error e d payer (if sol_is_base e p then Some x else None) err \<or>
      close_error e d p payer (if sol_is_base e p then Some x else None) c err) \<and>
    (build_token_buy_ixs e d x y t p payer c = Inl err \<longleftrightarrow> sequence_error e d payer (Some x) err) \<and>
    (build_token_sell_ixs e d x y p payer c = Inl err \<longleftrightarrow>
      sequence_error e d payer None err \<or> close_error e d p payer None c err) \<and>
    (close_checks_program e \<and> token_program e p \<noteq> x_spl_token_ID e \<longrightarrow>
      (\<exists>err. build_sell_ixs e d x y p payer True = Inl err) \<and>
      (\<exists>err. build_token_sell_ixs e d x y p payer True = Inl err)) \<and>
    (\<not> x_overflow_checks e \<longrightarrow> funding_overflows e x \<longrightarrow>
      gen_pubkey_with_seed e (dr_seed d) payer = Inr (wsol, seed) \<longrightarrow>
      build_token_buy_ixs e d x y t p payer c = Inr ixs \<longrightarrow>
      (\<exists>lamports. unat lamports < unat (rent e) \<and>
        x_create_account_with_seed e payer wsol payer seed lamports
          (word_of_nat (x_token_account_LEN e)) (x_spl_token_ID e) \<in> set ixs))"
  using builders_fail_iff [OF assms] foreign_close_refused [OF assms]
    funding_overflow [of e x d payer wsol seed y t p c]
  unfolding funding_overflows_def by (intro conjI impI) auto

theorem swap_builders_fail_exactly_witness:
  "build_token_buy_ixs (ext_example True) draws_example u64_MAX 0 True spl_pool_example (key 1) False =
    Inl (Panic ''attempt to add with overflow'') \<and>
   build_sell_ixs (ext_example True) draws_example 5 7 spl_pool_example (key 1) False \<noteq>
    Inl (Panic ''attempt to add with overflow'') \<and>
   (\<exists>err. build_sell_ixs (ext_example True) draws_example 5 7 token_2022_pool_example (key 1) True = Inl err)"
  using swap_builders_fail_exactly [OF choose_documented_example [of True] spl_token_documented_example [of True],
      of draws_example u64_MAX 0 True spl_pool_example "key 1" False]
    swap_builders_fail_exactly [OF choose_documented_example [of True] spl_token_documented_example [of True],
      of draws_example 5 7 True spl_pool_example "key 1" False]
    swap_builders_fail_exactly [OF choose_documented_example [of True] spl_token_documented_example [of True],
      where p = token_2022_pool_example and d = draws_example and x = 5 and y = 7 and payer = "key 1"]
    example_seed [of True "key 1"] example_program_2022 [of True] close_checks_program_example [of True]
  by (auto simp: sequence_error_def close_error_def funding_overflows_def rent_def ext_example_def unat_u64_MAX
      split: if_splits)

text \<open>
  The collect sequence for a pool is refused exactly for fee-sharing pools, and otherwise
  sweeps the pool before it collects.
\<close>

lemma collect_pool_fee_guard:
  "(if coin_creator p = sharing_config_pda e (base_mint p)
    then build_collect_pool_creator_fee_ixs e p payer create = Inl (FeeSharingPool (pi_pool p))
    else \<exists>sweep collect. sweep_pool_creator_fee_instruction e payer p = Inr sweep \<and>
      build_collect_coin_creator_fee_ixs e (coin_creator p) payer (quote_mint p)
        (quote_token_program p) create = Inr collect \<and>
      build_collect_pool_creator_fee_ixs e p payer create = Inr (sweep # collect))"
  by (simp add: build_collect_pool_creator_fee_ixs_def fee_sharing_config_def
      sweep_pool_creator_fee_instruction_def build_collect_coin_creator_fee_ixs_def
      make_collect_coin_creator_fee_instruction_def Let_def)

end
