(* ===== verification/Rpc.thy ===== *)
theory Rpc
  imports Swap_Builders
begin

text \<open>
  The asynchronous reads of \<open>client.rs\<close> and \<open>util.rs\<close>. An \<open>async fn\<close> is a function of the
  environment, which holds the state of the RPC endpoint and the log of sleeps; it returns a
  result and the environment after it. The RPC endpoint itself is outside the crate: the
  record \<open>rpc\<close> of its methods is a parameter, and nothing is assumed about what it answers.
  The lemmas show which calls each read makes and what it does with every kind of answer.
\<close>

section \<open>Effects\<close>

record 'w env =
  env_chain :: 'w
  env_slept :: "nat list"

type_synonym ('w, 'a) io = "'w env \<Rightarrow> 'a res \<times> 'w env"

definition io_lift :: "'a res \<Rightarrow> ('w, 'a) io" where
  "io_lift r s = (r, s)"

text \<open>\<open>.await?\<close>: an error ends the function with the environment it was met in.\<close>

definition io_bind :: "('w, 'a) io \<Rightarrow> ('a \<Rightarrow> ('w, 'b) io) \<Rightarrow> ('w, 'b) io" where
  "io_bind m f s = (case m s of (Inl e, s') \<Rightarrow> (Inl e, s') | (Inr x, s') \<Rightarrow> f x s')"

definition rpc_call :: "('w \<Rightarrow> 'a res \<times> 'w) \<Rightarrow> ('w, 'a) io" where
  "rpc_call f s = (case f (env_chain s) of (r, w) \<Rightarrow> (r, s\<lparr>env_chain := w\<rparr>))"

text \<open>\<open>tokio::time::sleep\<close>, in milliseconds.\<close>

definition sleep_ms :: "nat \<Rightarrow> 'w env \<Rightarrow> 'w env" where
  "sleep_ms ms s = s\<lparr>env_slept := env_slept s @ [ms]\<rparr>"

lemma io_bind_lift [simp]:
  "io_bind (io_lift (Inr x)) f = f x"
  "io_bind (io_lift (Inl e)) f = io_lift (Inl e)"
  by (simp_all add: fun_eq_iff io_bind_def io_lift_def)

lemma io_bind_eq_Inr_iff:
  "io_bind m f s = (Inr y, s'') \<longleftrightarrow> (\<exists>x s'. m s = (Inr x, s') \<and> f x s' = (Inr y, s''))"
  by (auto simp: io_bind_def split: prod.splits sum.splits)

lemma io_lift_eq_iff [simp]: "io_lift r s = (r', s') \<longleftrightarrow> r = r' \<and> s = s'"
  by (auto simp: io_lift_def)

lemma rpc_call_eq:
  "f (env_chain s) = (r, w) \<Longrightarrow> rpc_call f s = (r, s\<lparr>env_chain := w\<rparr>)"
  by (simp add: rpc_call_def)

lemma rpc_call_eq_Inr_iff:
  "rpc_call f s = (Inr x, s') \<longleftrightarrow> (\<exists>w. f (env_chain s) = (Inr x, w) \<and> s' = s\<lparr>env_chain := w\<rparr>)"
  by (auto simp: rpc_call_def split: prod.splits)

text \<open>Code that only calls the RPC does not sleep.\<close>

definition no_sleep :: "('w, 'a) io \<Rightarrow> bool" where
  "no_sleep m \<longleftrightarrow> (\<forall>s. env_slept (snd (m s)) = env_slept s)"

lemma no_sleep_intros [intro]:
  "no_sleep (rpc_call g)"
  "no_sleep (io_lift r)"
  "no_sleep m \<Longrightarrow> (\<And>x. no_sleep (f x)) \<Longrightarrow> no_sleep (io_bind m f)"
proof -
  show "no_sleep (rpc_call g)" "no_sleep (io_lift r)"
    by (simp_all add: no_sleep_def rpc_call_def io_lift_def split: prod.splits)
  assume "no_sleep m" "\<And>x. no_sleep (f x)"
  then show "no_sleep (io_bind m f)"
    unfolding no_sleep_def io_bind_def by (simp split: prod.splits sum.splits) (metis snd_conv)
qed

section \<open>The RPC client\<close>

record account =
  acc_owner :: pubkey
  acc_data :: bytes

record token_balance =
  tb_amount :: string
  tb_ui_amount :: "f64 option"

text \<open>A transaction signed by its payer over a recent blockhash.\<close>

record transaction =
  tx_instructions :: "instruction list"
  tx_payer :: pubkey
  tx_blockhash :: bytes

text \<open>
  The unsigned message that \<open>simulate_transaction_with_config\<close> is given, the fields of the request
  that are not the default, and the fields of the answer that are read.
\<close>

record message =
  msg_instructions :: "instruction list"
  msg_payer :: pubkey
  msg_blockhash :: bytes

datatype commitment = Processed | Confirmed

record sim_config =
  sig_verify :: bool
  replace_recent_blockhash :: bool
  sim_commitment :: "commitment option"

record sim_result =
  sim_err :: "string option"
  sim_units :: "u64 option"
  sim_logs :: "string list option"

record 'w rpc =
  r_get_account_data :: "pubkey \<Rightarrow> 'w \<Rightarrow> bytes res \<times> 'w"
  r_get_multiple_accounts :: "pubkey list \<Rightarrow> 'w \<Rightarrow> account option list res \<times> 'w"
  r_get_account :: "pubkey \<Rightarrow> 'w \<Rightarrow> account option res \<times> 'w"
  r_get_token_account_balance :: "pubkey \<Rightarrow> 'w \<Rightarrow> token_balance res \<times> 'w"
  r_get_latest_blockhash :: "'w \<Rightarrow> bytes res \<times> 'w"
  r_simulate_transaction :: "transaction \<Rightarrow> 'w \<Rightarrow> unit res \<times> 'w"
  r_send_and_confirm_transaction :: "transaction \<Rightarrow> 'w \<Rightarrow> string res \<times> 'w"
  r_get_balance :: "pubkey \<Rightarrow> 'w \<Rightarrow> u64 res \<times> 'w"
  r_simulate_transaction_with_config :: "message \<Rightarrow> sim_config \<Rightarrow> 'w \<Rightarrow> sim_result res \<times> 'w"

section \<open>Parsing of answers\<close>

text \<open>\<open>str::parse::<u64>\<close>: an optional plus sign and at least one decimal digit, within range.\<close>

fun digits_val :: "string \<Rightarrow> nat \<Rightarrow> nat option" where
  "digits_val [] acc = Some acc"
| "digits_val (c # cs) acc =
     (let n = of_char c :: nat
      in if 48 \<le> n \<and> n \<le> 57 then digits_val cs (acc * 10 + (n - 48)) else None)"

definition parse_u64 :: "string \<Rightarrow> u64 res" where
  "parse_u64 s =
     (let digits = (case s of c # cs \<Rightarrow> if c = CHR ''+'' then cs else s | [] \<Rightarrow> [])
      in case (if digits = [] then None else digits_val digits 0) of
           None \<Rightarrow> Inl (ParseError s)
         | Some n \<Rightarrow> if n < 2 ^ 64 then Inr (word_of_nat n) else Inl (ParseError s))"

text \<open>\<open>str::contains\<close>.\<close>

fun str_contains :: "string \<Rightarrow> string \<Rightarrow> bool" where
  "str_contains [] t = (t = [])"
| "str_contains (c # cs) t = (prefix t (c # cs) \<or> str_contains cs t)"

definition token_account_amount :: "bytes \<Rightarrow> u64 res" where
  "token_account_amount data =
     ok_or (map_option from_le_bytes (slice_get data 64 72)) (TokenAccountTooShort (length data))"

definition mint_supply :: "bytes \<Rightarrow> u64 res" where
  "mint_supply data =
     ok_or (map_option from_le_bytes (slice_get data 36 44)) (MintTooShort (length data))"

text \<open>\<open>xs[i]\<close> panics out of range; \<open>xs.get(i).and_then(|a| a.as_ref())\<close> does not.\<close>

definition index_or_panic :: "'a list \<Rightarrow> nat \<Rightarrow> 'a res" where
  "index_or_panic xs i = ok_or (byte_get xs i) (Panic ''index out of bounds'')"

definition present :: "'a option list \<Rightarrow> nat \<Rightarrow> 'a option" where
  "present xs i = (case byte_get xs i of None \<Rightarrow> None | Some x \<Rightarrow> x)"

lemma index_or_panic_simps [simp]:
  "index_or_panic (x # xs) 0 = Inr x"
  "index_or_panic (x # xs) (Suc n) = index_or_panic xs n"
  by (simp_all add: index_or_panic_def byte_get_def)

section \<open>Loading a pool\<close>

definition load_pool_with_token_program ::
  "ext \<Rightarrow> 'w rpc \<Rightarrow> pubkey \<Rightarrow> pubkey option \<Rightarrow> ('w, PoolInfo) io" where
  "load_pool_with_token_program e rpc pool_pubkey tp =
     io_bind (rpc_call (r_get_account_data rpc pool_pubkey)) (\<lambda>data.
     io_bind (case tp of
         Some p \<Rightarrow> io_lift (Inr (p, p))
       | None \<Rightarrow>
           if length data < POOL_SIZE + 8
           then io_lift (Inl (DataSizeMismatch (POOL_SIZE + 8) (length data)))
           else let pool_data = pool_from_bytes (field data 8 POOL_SIZE) in
             io_bind (rpc_call (r_get_multiple_accounts rpc
                 [pool_base_mint pool_data, pool_quote_mint pool_data])) (\<lambda>mint_accounts.
             io_bind (io_lift (index_or_panic mint_accounts 0)) (\<lambda>base_acc.
             let base = unwrap_or (map_option acc_owner base_acc) (x_spl_token_ID e) in
             io_bind (io_lift (index_or_panic mint_accounts 1)) (\<lambda>quote_acc.
             let quote = unwrap_or (map_option acc_owner quote_acc) (x_spl_token_ID e) in
             io_lift (Inr (base, quote))))))
     (\<lambda>(base_tp, quote_tp).
     io_lift (pool_info_from_account_data pool_pubkey data base_tp quote_tp)))"

definition load_pool :: "ext \<Rightarrow> 'w rpc \<Rightarrow> pubkey \<Rightarrow> ('w, PoolInfo) io" where
  "load_pool e rpc pool_pubkey = load_pool_with_token_program e rpc pool_pubkey None"

section \<open>Configuration accounts\<close>

definition fetch_global_config :: "ext \<Rightarrow> 'w rpc \<Rightarrow> ('w, GlobalConfig) io" where
  "fetch_global_config e rpc =
     io_bind (rpc_call (r_get_account_data rpc (GLOBAL_CONFIG e))) (\<lambda>data.
     io_lift (global_config_from_account_data data))"

definition fetch_fee_config :: "ext \<Rightarrow> 'w rpc \<Rightarrow> ('w, FeeConfig) io" where
  "fetch_fee_config e rpc =
     io_bind (rpc_call (r_get_account_data rpc (fee_config_pda e))) (\<lambda>data.
     io_lift (fee_config_from_account_data data))"

definition fetch_global_volume_accumulator :: "ext \<Rightarrow> 'w rpc \<Rightarrow> ('w, GlobalVolumeAccumulator) io" where
  "fetch_global_volume_accumulator e rpc =
     io_bind (rpc_call (r_get_account_data rpc (GLOBAL_VOLUME_ACCUMULATOR e))) (\<lambda>data.
     io_lift (global_volume_accumulator_from_account_data data))"

text \<open>\<open>Option::map(f).transpose()\<close>.\<close>

definition map_transpose :: "('a \<Rightarrow> 'b res) \<Rightarrow> 'a option \<Rightarrow> 'b option res" where
  "map_transpose f x = (case x of None \<Rightarrow> Inr None | Some y \<Rightarrow> bindE (f y) (\<lambda>z. Inr (Some z)))"

definition fetch_user_volume_accumulator ::
  "ext \<Rightarrow> 'w rpc \<Rightarrow> pubkey \<Rightarrow> ('w, UserVolumeAccumulator option) io" where
  "fetch_user_volume_accumulator e rpc user =
     (let pda = find_user_vol_accumulator e user in
      io_bind (rpc_call (r_get_multiple_accounts rpc [pda])) (\<lambda>accounts.
      let account = present accounts 0 in
      io_lift (map_transpose (\<lambda>a. user_volume_accumulator_from_account_data (acc_data a)) account)))"

definition fetch_sharing_config :: "ext \<Rightarrow> 'w rpc \<Rightarrow> pubkey \<Rightarrow> ('w, SharingConfig option) io" where
  "fetch_sharing_config e rpc mint =
     io_bind (rpc_call (r_get_account rpc (sharing_config_pda e mint))) (\<lambda>account.
     io_lift (map_transpose (\<lambda>a. sharing_config_from_account_data (acc_data a)) account))"

definition fetch_fee_state :: "ext \<Rightarrow> 'w rpc \<Rightarrow> ('w, GlobalConfig \<times> FeeConfig) io" where
  "fetch_fee_state e rpc =
     (let fee_config_key = fee_config_pda e in
      io_bind (rpc_call (r_get_multiple_accounts rpc [GLOBAL_CONFIG e, fee_config_key])) (\<lambda>accounts.
      io_bind (io_lift (ok_or (present accounts 0) (AccountNotFound ''GlobalConfig'' (GLOBAL_CONFIG e))))
        (\<lambda>gc.
      io_bind (io_lift (ok_or (present accounts 1) (AccountNotFound ''FeeConfig'' fee_config_key))) (\<lambda>fc.
      io_bind (io_lift (global_config_from_account_data (acc_data gc))) (\<lambda>gc.
      io_bind (io_lift (fee_config_from_account_data (acc_data fc))) (\<lambda>fc.
      io_lift (Inr (gc, fc))))))))"

section \<open>Fees and quotes\<close>

definition fees_from_state :: "FeeConfig \<Rightarrow> PoolInfo \<Rightarrow> u64 \<Rightarrow> u64 \<Rightarrow> u64 \<Rightarrow> Fees" where
  "fees_from_state fee_config pool base_supply base_reserve quote_reserve =
     (let is_tiered = is_tiered_fee_pool pool;
          (base, quote) = effective_reserves pool base_reserve quote_reserve;
          market_cap = (if is_tiered then market_cap_lamports base_supply base quote else 0)
      in fees_for_pool fee_config is_tiered market_cap (quote_mint pool))"

definition fetch_pool_fees :: "ext \<Rightarrow> 'w rpc \<Rightarrow> PoolInfo \<Rightarrow> u64 \<Rightarrow> u64 \<Rightarrow> ('w, Fees) io" where
  "fetch_pool_fees e rpc pool base_reserve quote_reserve =
     (if \<not> can_quote_fees e pool then io_lift (Inl (CannotQuoteFees (pi_pool pool) (quote_mint pool)))
      else let fee_config_key = fee_config_pda e in
      io_bind (rpc_call (r_get_multiple_accounts rpc [fee_config_key, base_mint pool])) (\<lambda>accounts.
      io_bind (io_lift (ok_or (present accounts 0) (AccountNotFound ''FeeConfig'' fee_config_key))) (\<lambda>fc.
      io_bind (io_lift (fee_config_from_account_data (acc_data fc))) (\<lambda>fee_config.
      io_bind (io_lift (ok_or (present accounts 1) (AccountNotFound ''base mint'' (base_mint pool)))) (\<lambda>mint.
      io_bind (io_lift (mint_supply (acc_data mint))) (\<lambda>base_supply.
      io_lift (Inr (fees_from_state fee_config pool base_supply base_reserve quote_reserve))))))))"

definition fetch_pool_snapshot :: "'w rpc \<Rightarrow> PoolInfo \<Rightarrow> ('w, PoolInfo \<times> u64 \<times> u64) io" where
  "fetch_pool_snapshot rpc pool =
     (let keys = [pi_pool pool, pool_base_token_account pool, pool_quote_token_account pool] in
      io_bind (rpc_call (r_get_multiple_accounts rpc keys)) (\<lambda>accounts.
      let account = (\<lambda>index. ok_or (present accounts index) (AccountNotFound ''account'' (keys ! index))) in
      io_bind (io_lift (account 0)) (\<lambda>a0.
      io_bind (io_lift (pool_info_from_account_data (pi_pool pool) (acc_data a0)
        (base_token_program pool) (quote_token_program pool))) (\<lambda>current.
      io_bind (io_lift (account 1)) (\<lambda>a1.
      io_bind (io_lift (token_account_amount (acc_data a1))) (\<lambda>base_reserve.
      io_bind (io_lift (account 2)) (\<lambda>a2.
      io_bind (io_lift (token_account_amount (acc_data a2))) (\<lambda>quote_reserve.
      io_lift (Inr (current, base_reserve, quote_reserve))))))))))"

definition quote_token_buy :: "ext \<Rightarrow> 'w rpc \<Rightarrow> u64 \<Rightarrow> PoolInfo \<Rightarrow> f64 \<Rightarrow> ('w, SwapQuote) io" where
  "quote_token_buy e rpc sol_in pool slippage =
     io_bind (fetch_pool_snapshot rpc pool) (\<lambda>(pool, reserves).
     io_bind (fetch_pool_fees e rpc pool (fst reserves) (snd reserves)) (\<lambda>fees.
     io_lift (Inr (token_buy_quote e sol_in reserves pool fees slippage))))"

definition quote_token_sell :: "ext \<Rightarrow> 'w rpc \<Rightarrow> u64 \<Rightarrow> PoolInfo \<Rightarrow> f64 \<Rightarrow> ('w, SwapQuote) io" where
  "quote_token_sell e rpc tokens_in pool slippage =
     io_bind (fetch_pool_snapshot rpc pool) (\<lambda>(pool, reserves).
     io_bind (fetch_pool_fees e rpc pool (fst reserves) (snd reserves)) (\<lambda>fees.
     io_lift (Inr (token_sell_quote e tokens_in reserves pool fees slippage))))"

definition fetch_pool_reserves :: "'w rpc \<Rightarrow> PoolInfo \<Rightarrow> ('w, u64 \<times> u64) io" where
  "fetch_pool_reserves rpc pool =
     io_bind (rpc_call (r_get_token_account_balance rpc (pool_base_token_account pool))) (\<lambda>base_reserve.
     io_bind (rpc_call (r_get_token_account_balance rpc (pool_quote_token_account pool))) (\<lambda>quote_reserve.
     io_bind (io_lift (parse_u64 (tb_amount base_reserve))) (\<lambda>b.
     io_bind (io_lift (parse_u64 (tb_amount quote_reserve))) (\<lambda>q.
     io_lift (Inr (b, q))))))"

text \<open>One attempt of \<open>fetch_ui_pooled_amounts\<close>, then its loop of six with doubling delays.\<close>

definition ui_pooled_attempt :: "'w rpc \<Rightarrow> PoolInfo \<Rightarrow> ('w, f64 \<times> f64 \<times> u64 \<times> u64) io" where
  "ui_pooled_attempt rpc pool =
     io_bind (rpc_call (r_get_token_account_balance rpc (pool_base_token_account pool))) (\<lambda>base.
     io_bind (rpc_call (r_get_token_account_balance rpc (pool_quote_token_account pool))) (\<lambda>quote.
     io_bind (io_lift (ok_or (tb_ui_amount base) (NoUiAmount ''base''))) (\<lambda>bu.
     io_bind (io_lift (ok_or (tb_ui_amount quote) (NoUiAmount ''quote''))) (\<lambda>qu.
     io_bind (io_lift (parse_u64 (tb_amount base))) (\<lambda>b.
     io_bind (io_lift (parse_u64 (tb_amount quote))) (\<lambda>q.
     io_lift (Inr (bu, qu, b, q))))))))"

fun ui_pooled_loop :: "'w rpc \<Rightarrow> PoolInfo \<Rightarrow> nat \<Rightarrow> nat \<Rightarrow> ('w, f64 \<times> f64 \<times> u64 \<times> u64) io" where
  "ui_pooled_loop rpc pool 0 delay s = (Inl FetchRetriesExhausted, s)"
| "ui_pooled_loop rpc pool (Suc n) delay s =
     (case ui_pooled_attempt rpc pool s of
        (Inr v, s') \<Rightarrow> (Inr v, s')
      | (Inl _, s') \<Rightarrow> ui_pooled_loop rpc pool n (min (delay * 2) 3000) (sleep_ms delay s'))"

definition fetch_ui_pooled_amounts :: "'w rpc \<Rightarrow> PoolInfo \<Rightarrow> ('w, f64 \<times> f64 \<times> u64 \<times> u64) io" where
  "fetch_ui_pooled_amounts rpc pool = ui_pooled_loop rpc pool 6 200"

definition get_token_balance ::
  "ext \<Rightarrow> 'w rpc \<Rightarrow> pubkey \<Rightarrow> pubkey \<Rightarrow> pubkey \<Rightarrow> ('w, u64 option) io" where
  "get_token_balance e rpc owner mint tp s =
     (let token_account = x_get_ata e owner mint tp in
      case rpc_call (r_get_token_account_balance rpc token_account) s of
        (Inr balance, s') \<Rightarrow> (bindE (parse_u64 (tb_amount balance)) (\<lambda>n. Inr (Some n)), s')
      | (Inl err, s') \<Rightarrow>
          (case err of
             RpcError (ForUser msg) \<Rightarrow>
               if str_contains msg ''AccountNotFound'' \<or> str_contains msg ''could not find account''
               then (Inr None, s') else (Inl err, s')
           | _ \<Rightarrow> (Inl err, s')))"

section \<open>Properties of the reads\<close>

lemma present_simps [simp]:
  "present (x # xs) 0 = x"
  "present (x # xs) (Suc n) = present xs n"
  "present [] n = None"
  by (auto simp: present_def byte_get_def)

lemma token_account_amount_eq:
  "72 \<le> length data \<Longrightarrow> token_account_amount data = Inr (from_le_bytes (field data 64 8))"
  "length data < 72 \<Longrightarrow> token_account_amount data = Inl (TokenAccountTooShort (length data))"
  by (simp_all add: token_account_amount_def slice_get_def field_def)

lemma token_account_amount_iff:
  "token_account_amount data = Inr x \<longleftrightarrow> 72 \<le> length data \<and> x = from_le_bytes (field data 64 8)"
  using token_account_amount_eq [of data] by (cases "72 \<le> length data") auto

lemma token_account_amount_InlD: "token_account_amount data = Inl err \<Longrightarrow> length data < 72"
  using token_account_amount_eq(1) [of data] by (cases "72 \<le> length data") auto

text \<open>A concrete endpoint on which a sale goes through.\<close>

definition sell_pool_struct :: Pool where
  "sell_pool_struct = pool_struct_example\<lparr>pool_coin_creator := pubkey_default\<rparr>"

definition account_with :: "bytes \<Rightarrow> account option" where
  "account_with data = Some \<lparr>acc_owner = key 0, acc_data = data\<rparr>"

definition sell_rpc_example :: "nat rpc" where
  "sell_rpc_example = \<lparr>
     r_get_account_data = (\<lambda>k w. (Inl (RpcError (OtherRpcError [])), w)),
     r_get_multiple_accounts = (\<lambda>ks w.
       (Inr (if length ks = 3
         then [account_with (replicate 8 0 @ enc_pool sell_pool_struct),
               account_with (replicate 64 0 @ to_le_bytes (1000000 :: u64)),
               account_with (replicate 64 0 @ to_le_bytes (2000000 :: u64))]
         else [account_with fee_config_account_example,
               account_with (replicate 36 0 @ to_le_bytes (1000000000 :: u64))]), Suc w)),
     r_get_account = (\<lambda>k w. (Inr None, w)),
     r_get_token_account_balance = (\<lambda>k w. (Inr \<lparr>tb_amount = ''7'', tb_ui_amount = None\<rparr>, w)),
     r_get_latest_blockhash = (\<lambda>w. (Inr [], w)),
     r_simulate_transaction = (\<lambda>tx w. (Inr (), w)),
     r_send_and_confirm_transaction = (\<lambda>tx w. (Inr ''signature'', Suc w)),
     r_get_balance = (\<lambda>k w. (Inr 20000000, w)),
     r_simulate_transaction_with_config = (\<lambda>m c w.
       (Inr \<lparr>sim_err = None, sim_units = None, sim_logs = None\<rparr>, w))\<rparr>"

definition env_example :: "nat env" where
  "env_example = \<lparr>env_chain = 0, env_slept = []\<rparr>"

definition sell_info :: PoolInfo where
  "sell_info = pool_info_of (key 1) sell_pool_struct 245 0 0 False 0 0 (pad32 [6]) (pad32 [6])"

lemma sell_pool_info:
  "pool_info_from_account_data (pi_pool spl_pool_example) (replicate 8 0 @ enc_pool sell_pool_struct)
      (base_token_program spl_pool_example) (quote_token_program spl_pool_example) = Inr sell_info"
proof -
  have ok: "pool_ok sell_pool_struct"
    by (simp add: pool_ok_def sell_pool_struct_def pool_struct_example_def pubkey_default_def)
  show ?thesis
    using pool_info_legacy [OF _ ok, of "replicate 8 0"]
    by (simp add: sell_info_def spl_pool_example_def pool_example_def pool_info_of_def)
qed

lemma sell_snapshot_example:
  "fetch_pool_snapshot sell_rpc_example spl_pool_example env_example =
    (Inr (sell_info, 1000000, 2000000), \<lparr>env_chain = 1, env_slept = []\<rparr>)"
  by (simp add: fetch_pool_snapshot_def Let_def io_bind_def [of "rpc_call _"] rpc_call_def
      sell_rpc_example_def account_with_def sell_pool_info token_account_amount_eq field_def numeral_2_eq_2
      env_example_def io_lift_def)

lemma sell_fees_example:
  "fetch_pool_fees e sell_rpc_example sell_info b q s =
    (Inr (flat_fees fee_config_example), s\<lparr>env_chain := Suc (env_chain s)\<rparr>)"
proof -
  have flat: "\<not> is_tiered_fee_pool sell_info"
    by (simp add: is_tiered_fee_pool_def sell_info_def pool_info_of_def sell_pool_struct_def)
  obtain x where x: "mint_supply (replicate 36 0 @ to_le_bytes (1000000000 :: u64)) = Inr x"
    by (simp add: mint_supply_def slice_get_def)
  have "fees_from_state fee_config_example sell_info x b q = flat_fees fee_config_example"
    by (simp add: fees_from_state_def flat fees_for_pool_def split: prod.splits)
  then show ?thesis
    by (simp add: fetch_pool_fees_def can_quote_fees_def flat Let_def io_bind_def [of "rpc_call _"] rpc_call_def
        sell_rpc_example_def account_with_def fee_config_account_example x io_lift_def)
qed

lemma fetch_pool_snapshot_one_call:
  "snd (fetch_pool_snapshot rpc p s) = s\<lparr>env_chain := snd (r_get_multiple_accounts rpc
      [pi_pool p, pool_base_token_account p, pool_quote_token_account p] (env_chain s))\<rparr>"
proof -
  obtain r w where r: "r_get_multiple_accounts rpc
      [pi_pool p, pool_base_token_account p, pool_quote_token_account p] (env_chain s) = (r, w)" by fastforce
  have call: "rpc_call (r_get_multiple_accounts rpc
      [pi_pool p, pool_base_token_account p, pool_quote_token_account p]) s = (r, s\<lparr>env_chain := w\<rparr>)"
    using r by (rule rpc_call_eq)
  have lift: "snd (io_bind (io_lift x) f s') = s'" if "\<And>y. snd (f y s') = s'"
    for x :: "'x res" and f and s' :: "'w env"
    using that by (cases x) (simp_all add: io_bind_def io_lift_def)
  show ?thesis
    unfolding fetch_pool_snapshot_def Let_def io_bind_def [of "rpc_call _"] call r
    by (cases r) (auto intro!: lift simp: io_lift_def)
qed

lemma fetch_pool_snapshot_result:
  "fst (fetch_pool_snapshot rpc p s) = Inr (info, b, q) \<longleftrightarrow> (\<exists>accounts pool_acc base_acc quote_acc.
    fst (r_get_multiple_accounts rpc
      [pi_pool p, pool_base_token_account p, pool_quote_token_account p] (env_chain s)) = Inr accounts \<and>
    present accounts 0 = Some pool_acc \<and> present accounts 1 = Some base_acc \<and>
    present accounts 2 = Some quote_acc \<and>
    pool_info_from_account_data (pi_pool p) (acc_data pool_acc) (base_token_program p)
      (quote_token_program p) = Inr info \<and>
    72 \<le> length (acc_data base_acc) \<and> b = from_le_bytes (field (acc_data base_acc) 64 8) \<and>
    72 \<le> length (acc_data quote_acc) \<and> q = from_le_bytes (field (acc_data quote_acc) 64 8))"
proof -
  obtain r w where r: "r_get_multiple_accounts rpc
      [pi_pool p, pool_base_token_account p, pool_quote_token_account p] (env_chain s) = (r, w)" by fastforce
  have call: "rpc_call (r_get_multiple_accounts rpc
      [pi_pool p, pool_base_token_account p, pool_quote_token_account p]) s = (r, s\<lparr>env_chain := w\<rparr>)"
    using r by (rule rpc_call_eq)
  show ?thesis
    unfolding fetch_pool_snapshot_def Let_def io_bind_def [of "rpc_call _"] call r
    by (auto simp: io_bind_def io_lift_def token_account_amount_iff ok_or_def
      split: sum.splits option.splits dest!: token_account_amount_InlD)
qed

text \<open>
  C38: a snapshot is one RPC call for the pool and its two vaults, whatever it answers, so that
  the pool and both balances come from the same response. It succeeds exactly when the
  response has the three accounts in its first three places, the pool account decodes, and
  both vaults have their first 72 bytes; then it is the decoded pool, with the address and token
  programs it was asked with, and the balances at bytes 64 to 72 of the vaults.
\<close>

theorem fetch_pool_snapshot_exact:
  "snd (fetch_pool_snapshot rpc p s) = s\<lparr>env_chain := snd (r_get_multiple_accounts rpc
      [pi_pool p, pool_base_token_account p, pool_quote_token_account p] (env_chain s))\<rparr> \<and>
    (fst (fetch_pool_snapshot rpc p s) = Inr (info, b, q) \<longleftrightarrow> (\<exists>accounts pool_acc base_acc quote_acc.
      fst (r_get_multiple_accounts rpc
        [pi_pool p, pool_base_token_account p, pool_quote_token_account p] (env_chain s)) = Inr accounts \<and>
      present accounts 0 = Some pool_acc \<and> present accounts 1 = Some base_acc \<and>
      present accounts 2 = Some quote_acc \<and>
      pool_info_from_account_data (pi_pool p) (acc_data pool_acc) (base_token_program p)
        (quote_token_program p) = Inr info \<and>
      72 \<le> length (acc_data base_acc) \<and> b = from_le_bytes (field (acc_data base_acc) 64 8) \<and>
      72 \<le> length (acc_data quote_acc) \<and> q = from_le_bytes (field (acc_data quote_acc) 64 8)))"
  by (intro conjI fetch_pool_snapshot_one_call fetch_pool_snapshot_result)

lemma fetch_pool_snapshot_example:
  "fst (fetch_pool_snapshot sell_rpc_example spl_pool_example env_example) = Inr (sell_info, 1000000, 2000000) \<and>
    snd (fetch_pool_snapshot sell_rpc_example spl_pool_example env_example) = \<lparr>env_chain = 1, env_slept = []\<rparr>"
  by (simp add: fetch_pool_snapshot_one_call fetch_pool_snapshot_result sell_rpc_example_def account_with_def
      sell_pool_info field_def env_example_def present_def byte_get_def)

text \<open>
  C39: how a pool is loaded, once its account was read. An account below 245 bytes is refused
  without a further call. Otherwise one more call asks for the two mint accounts whose addresses
  are at bytes 43 and 75, and the pool is decoded from the bytes that were read, with the owner
  of each mint account as the token program of its side, and the classic SPL program for a mint
  that is absent. With a pinned token program both sides get it and no mint is read.
\<close>

theorem load_pool_detects_programs:
  assumes "r_get_account_data rpc k (env_chain s) = (Inr data, w1)"
  shows "(length data < 245 \<longrightarrow>
      load_pool e rpc k s = (Inl (DataSizeMismatch 245 (length data)), s\<lparr>env_chain := w1\<rparr>)) \<and>
    (245 \<le> length data \<longrightarrow> (\<forall>base quote rest w2.
      r_get_multiple_accounts rpc [Pubkey (field data 43 32), Pubkey (field data 75 32)] w1 =
        (Inr (base # quote # rest), w2) \<longrightarrow>
      (\<exists>info. load_pool e rpc k s = (Inr info, s\<lparr>env_chain := w2\<rparr>) \<and>
        pool_info_from_account_data k data
          (case base of None \<Rightarrow> x_spl_token_ID e | Some a \<Rightarrow> acc_owner a)
          (case quote of None \<Rightarrow> x_spl_token_ID e | Some a \<Rightarrow> acc_owner a) = Inr info))) \<and>
    load_pool_with_token_program e rpc k (Some tp) s =
      (pool_info_from_account_data k data tp tp, s\<lparr>env_chain := w1\<rparr>)"
proof -
  have call: "rpc_call (r_get_account_data rpc k) s = (Inr data, s\<lparr>env_chain := w1\<rparr>)"
    using assms by (rule rpc_call_eq)
  have mints: "rpc_call (r_get_multiple_accounts rpc [Pubkey (field data 43 32), Pubkey (field data 75 32)])
      (s\<lparr>env_chain := w1\<rparr>) = (Inr (base # quote # rest), s\<lparr>env_chain := w2\<rparr>)"
    if "r_get_multiple_accounts rpc [Pubkey (field data 43 32), Pubkey (field data 75 32)] w1 =
      (Inr (base # quote # rest), w2)" for base quote rest w2
    using rpc_call_eq [of "r_get_multiple_accounts rpc [Pubkey (field data 43 32), Pubkey (field data 75 32)]"
      "s\<lparr>env_chain := w1\<rparr>"] that by simp
  have keys: "pool_base_mint (pool_from_bytes (field data 8 237)) = Pubkey (field data 43 32)"
    "pool_quote_mint (pool_from_bytes (field data 8 237)) = Pubkey (field data 75 32)"
    by (simp_all add: pool_from_bytes_def field_def drop_take)
  note unfold = load_pool_def load_pool_with_token_program_def io_bind_def [of "rpc_call _"] call
    io_bind_def [of "io_bind _ _"] POOL_SIZE_def Let_def io_lift_def keys
  show ?thesis
  proof (intro conjI impI allI)
    fix base quote rest w2
    assume len: "245 \<le> length data"
      and m: "r_get_multiple_accounts rpc [Pubkey (field data 43 32), Pubkey (field data 75 32)] w1 =
        (Inr (base # quote # rest), w2)"
    show "\<exists>info. load_pool e rpc k s = (Inr info, s\<lparr>env_chain := w2\<rparr>) \<and>
        pool_info_from_account_data k data
          (case base of None \<Rightarrow> x_spl_token_ID e | Some a \<Rightarrow> acc_owner a)
          (case quote of None \<Rightarrow> x_spl_token_ID e | Some a \<Rightarrow> acc_owner a) = Inr info"
      using len by (cases base; cases quote)
        (simp_all add: unfold mints [OF m] pool_info_from_account_data_def unwrap_or_def)
  qed (simp_all add: unfold)
qed

theorem load_pool_detects_programs_witness:
  "\<exists>info. load_pool (ext_example True) (sell_rpc_example\<lparr>
      r_get_account_data := \<lambda>k w. (Inr (replicate 8 0 @ enc_pool sell_pool_struct), Suc w),
      r_get_multiple_accounts := \<lambda>ks w. (Inr [Some \<lparr>acc_owner = key 50, acc_data = []\<rparr>, None], Suc w)\<rparr>)
      (key 1) env_example = (Inr info, \<lparr>env_chain = 2, env_slept = []\<rparr>) \<and>
    base_token_program info = key 50 \<and> quote_token_program info = x_spl_token_ID (ext_example True)"
proof -
  let ?data = "replicate 8 0 @ enc_pool sell_pool_struct"
  let ?rpc = "sell_rpc_example\<lparr> r_get_account_data := \<lambda>k w. (Inr ?data, Suc w),
      r_get_multiple_accounts := \<lambda>ks w. (Inr [Some \<lparr>acc_owner = key 50, acc_data = []\<rparr>, None], Suc w)\<rparr>"
  have ok: "pool_ok sell_pool_struct"
    by (simp add: pool_ok_def sell_pool_struct_def pool_struct_example_def pubkey_default_def)
  then have len: "245 \<le> length ?data" using length_enc_pool by (simp add: POOL_SIZE_def)
  have read: "r_get_account_data ?rpc (key 1) (env_chain env_example) = (Inr ?data, 1)"
    by (simp add: env_example_def)
  obtain info where "load_pool (ext_example True) ?rpc (key 1) env_example = (Inr info, env_example\<lparr>env_chain := 2\<rparr>)"
    "pool_info_from_account_data (key 1) ?data (key 50) (x_spl_token_ID (ext_example True)) = Inr info"
    using load_pool_detects_programs [OF read, THEN conjunct2, THEN conjunct1, THEN mp, OF len, rule_format,
        of "Some \<lparr>acc_owner = key 50, acc_data = []\<rparr>" None "[]" 2 "ext_example True"] by auto
  moreover from this(2) len have "base_token_program info = key 50"
    "quote_token_program info = x_spl_token_ID (ext_example True)"
    by (auto simp: pool_info_eq pool_info_of_def)
  ultimately show ?thesis by (auto simp: env_example_def)
qed

text \<open>
  Fees are never guessed: for a pool whose schedule the crate cannot reproduce the fetch fails
  without an RPC call, and a quote for it fails too, on both sides of the trade.
\<close>

lemma fetch_pool_fees_guard:
  "\<not> can_quote_fees e p \<Longrightarrow>
    fetch_pool_fees e rpc p b q s = (Inl (CannotQuoteFees (pi_pool p) (quote_mint p)), s)"
  by (simp add: fetch_pool_fees_def io_lift_def)

text \<open>
  C21: for a tiered pool whose ladder is strictly ascending and starts at zero, the schedule is that
  of the rung with the greatest threshold at or below the market cap, computed from the
  effective reserves; a pool that is not tiered gets the flat fees.
\<close>

theorem fees_from_state_rung:
  assumes "ladder_ok (fee_tiers c)" and "\<exists>t \<in> set (fee_tiers c). market_cap_lamports_threshold t = 0"
  shows "if coin_creator p = pubkey_default then fees_from_state c p supply b q = flat_fees c
    else \<exists>t \<in> set (fee_tiers c). fees_from_state c p supply b q = tier_fees t \<and>
      unat (market_cap_lamports_threshold t) \<le> unat supply * unat (snd (effective_reserves p b q)) div unat b \<and>
      (\<forall>u \<in> set (fee_tiers c). unat (market_cap_lamports_threshold u) \<le>
        unat supply * unat (snd (effective_reserves p b q)) div unat b \<longrightarrow>
        market_cap_lamports_threshold u \<le> market_cap_lamports_threshold t)"
proof (cases "coin_creator p = pubkey_default")
  case True
  then show ?thesis
    by (simp add: fees_from_state_def is_tiered_fee_pool_def fees_for_pool_def split: prod.splits)
next
  case False
  let ?cap = "market_cap_lamports supply b (snd (effective_reserves p b q))"
  have cap: "unat ?cap = unat supply * unat (snd (effective_reserves p b q)) div unat b"
    by (rule market_cap_exact)
  obtain t where t: "tier_for_market_cap (fee_tiers c) ?cap = Some t"
    using assms(2) tier_for_market_cap_eq_None_iff [of "fee_tiers c" ?cap]
    by (cases "tier_for_market_cap (fee_tiers c) ?cap") (auto simp: word_less_nat_alt)
  have "fees_from_state c p supply b q = tier_fees t"
    using False t effective_base_reserve [of p b q]
    by (simp add: fees_from_state_def is_tiered_fee_pool_def fees_for_pool_def is_stable_quote_mint_def
        split_beta)
  then show ?thesis
    using False tier_for_market_cap_in [OF t] tier_for_market_cap_greatest [OF assms(1) t]
    unfolding cap [symmetric] by (auto simp: word_le_nat_alt)
qed

theorem fees_from_state_rung_witness:
  "fees_from_state fee_config_example pool_example 1000 5 6 =
    \<lparr>lp_fee_bps = 2, protocol_fee_bps = 93, creator_fee_bps = 30\<rparr>"
proof -
  have "ladder_ok (fee_tiers fee_config_example)" by (simp add: ladder_ok_def fee_config_example_def)
  moreover have "\<exists>t \<in> set (fee_tiers fee_config_example). market_cap_lamports_threshold t = 0"
    by (simp add: fee_config_example_def)
  moreover have "coin_creator pool_example \<noteq> pubkey_default"
    by (simp add: pool_example_def pool_info_of_def pool_struct_example_def pubkey_default_def)
  ultimately obtain t where "t \<in> set (fee_tiers fee_config_example)"
    "fees_from_state fee_config_example pool_example 1000 5 6 = tier_fees t"
    using fees_from_state_rung [of fee_config_example pool_example 1000 5 6] by auto
  then show ?thesis by (simp add: fee_config_example_def)
qed

definition ui_delays :: "nat list" where
  "ui_delays = [200, 400, 800, 1600, 3000, 3000]"

fun delays :: "nat \<Rightarrow> nat \<Rightarrow> nat list" where
  "delays 0 d = []"
| "delays (Suc n) d = d # delays n (min (d * 2) 3000)"

lemma ui_pooled_attempt_no_sleep: "no_sleep (ui_pooled_attempt rpc p)"
  unfolding ui_pooled_attempt_def by (intro no_sleep_intros)

lemma length_delays [simp]: "length (delays n d) = n"
  by (induction n arbitrary: d) simp_all

lemma ui_pooled_loop_sleeps:
  "\<exists>k \<le> n. env_slept (snd (ui_pooled_loop rpc p n d s)) = env_slept s @ take k (delays n d) \<and>
    (case fst (ui_pooled_loop rpc p n d s) of
       Inl err \<Rightarrow> err = FetchRetriesExhausted \<and> k = n | Inr v \<Rightarrow> k < n)"
proof (induction n arbitrary: d s)
  case (Suc n)
  obtain r s' where a: "ui_pooled_attempt rpc p s = (r, s')" by fastforce
  have slept: "env_slept s' = env_slept s"
    using ui_pooled_attempt_no_sleep [of rpc p] a by (metis no_sleep_def snd_conv)
  show ?case
  proof (cases r)
    case (Inr v)
    then show ?thesis using a slept by (intro exI [of _ 0]) simp
  next
    case (Inl err)
    from Suc.IH [of "min (d * 2) 3000" "sleep_ms d s'"] obtain k where
      "k \<le> n" and k: "env_slept (snd (ui_pooled_loop rpc p n (min (d * 2) 3000) (sleep_ms d s'))) =
        env_slept (sleep_ms d s') @ take k (delays n (min (d * 2) 3000))"
      "case fst (ui_pooled_loop rpc p n (min (d * 2) 3000) (sleep_ms d s')) of
         Inl err \<Rightarrow> err = FetchRetriesExhausted \<and> k = n | Inr v \<Rightarrow> k < n" by blast
    then show ?thesis
      using a slept Inl
      by (intro exI [of _ "Suc k"]) (auto simp: sleep_ms_def split: sum.splits)
  qed
qed simp

text \<open>
  C31: the delays of the retry loop: a prefix of 200, 400, 800, 1600, 3000, 3000 milliseconds, all
  six of them exactly when it fails, and the failure is then always the retry error. All six
  together are nine seconds.
\<close>

theorem fetch_ui_pooled_amounts_delays:
  "\<exists>k \<le> 6. env_slept (snd (fetch_ui_pooled_amounts rpc p s)) = env_slept s @ take k ui_delays \<and>
    (case fst (fetch_ui_pooled_amounts rpc p s) of
       Inl err \<Rightarrow> err = FetchRetriesExhausted \<and> k = 6 | Inr v \<Rightarrow> k < 6) \<and>
    sum_list ui_delays = 9000"
proof -
  have six: "6 = Suc (Suc (Suc (Suc (Suc (Suc 0)))))" by simp
  have "delays 6 200 = ui_delays" unfolding six delays.simps ui_delays_def by simp
  then show ?thesis
    using ui_pooled_loop_sleeps [of 6 rpc p 200 s]
    by (simp add: fetch_ui_pooled_amounts_def ui_delays_def)
qed

end
