(* ===== verification/Jito.thy ===== *)
theory Jito
  imports Rpc
begin

text \<open>
  The Jito part of \<open>util.rs\<close>: the round-robin pool of block-engine clients with a cooldown per
  region, and the bundle sender with its retries. Times are milliseconds. The round-robin
  counter is an \<open>AtomicUsize\<close>, 64 bits wide, and wraps. \<open>next_client\<close> is given twice: as the
  function one caller runs, and as the step relation of any number of concurrent callers, in
  which the lock makes each look at \<open>last\<close> one step. The JSON-RPC client of the Jito crate, the
  transaction encoding and the clock are parameters.
\<close>

section \<open>The pool\<close>

record 'c jito_pool =
  jp_clients :: "'c list"
  jp_last :: "nat list"
  jp_interval :: nat
  jp_rr :: u64

definition jito_pool_new ::
  "(string \<Rightarrow> string option \<Rightarrow> 'c) \<Rightarrow> nat \<Rightarrow> string list \<Rightarrow> string option \<Rightarrow> nat \<Rightarrow> 'c jito_pool res" where
  "jito_pool_new sdk_new now endpoints uuid interval =
     (if endpoints = [] then Inl EmptyEndpoints
      else let clients = map (\<lambda>b. sdk_new (b @ ''/api/v1'') uuid) endpoints
        in Inr \<lparr>jp_clients = clients, jp_last = replicate (length clients) now,
          jp_interval = interval, jp_rr = 0\<rparr>)"

text \<open>
  The loop of \<open>next_client\<close> with no other caller on the slot: reserve when the slot is free,
  else sleep for the rest of its cooldown. A sleep may overrun by \<open>late\<close>.
\<close>

function next_client_loop :: "nat \<Rightarrow> nat \<Rightarrow> nat \<Rightarrow> nat list \<Rightarrow> nat \<Rightarrow> nat \<times> nat list" where
  "next_client_loop late i interval free_at now =
     (if free_at ! i \<le> now then (now, free_at[i := now + interval])
      else let wait = free_at ! i - now in next_client_loop late i interval free_at (now + wait + late))"
  by pat_completeness auto
termination
  by (relation "measure (\<lambda>(late, i, interval, free_at, now). free_at ! i - now)") auto

declare next_client_loop.simps [simp del]

definition next_client :: "nat \<Rightarrow> nat \<Rightarrow> 'c jito_pool \<Rightarrow> 'c \<times> nat \<times> 'c jito_pool" where
  "next_client late now pool =
     (let i = unat (jp_rr pool) mod length (jp_clients pool)
      in case next_client_loop late i (jp_interval pool) (jp_last pool) now of
           (t, free_at) \<Rightarrow>
             (jp_clients pool ! i, t, pool\<lparr>jp_last := free_at, jp_rr := jp_rr pool + 1\<rparr>))"

section \<open>Bundles\<close>

text \<open>\<open>iter().map(f).collect::<Result<Vec<_>>>()\<close>.\<close>

fun map_res :: "('a \<Rightarrow> 'b res) \<Rightarrow> 'a list \<Rightarrow> 'b list res" where
  "map_res f [] = Inr []"
| "map_res f (x # xs) = bindE (f x) (\<lambda>y. bindE (map_res f xs) (\<lambda>ys. Inr (y # ys)))"

text \<open>
  \<open>encode\<close> is the bincode and base64 encoding of a transaction, \<open>send\<close> the JSON-RPC call with its
  response's \<open>["result"].as_str()\<close>.
\<close>

definition send_jito_bundle ::
  "(transaction \<Rightarrow> string res) \<Rightarrow> ('c \<Rightarrow> string list \<Rightarrow> 'w \<Rightarrow> string option res \<times> 'w) \<Rightarrow>
   transaction list \<Rightarrow> 'c \<Rightarrow> ('w, unit) io" where
  "send_jito_bundle encode send txs sdk =
     io_bind (io_lift (map_res encode txs)) (\<lambda>serialized_txs.
     io_bind (rpc_call (send sdk serialized_txs)) (\<lambda>result.
     io_bind (io_lift (ok_or result BundleUuidMissing)) (\<lambda>bundle_uuid.
     io_lift (Inr ()))))"

text \<open>
  The loop of \<open>send_bundle_with_retry\<close>. \<open>attempt\<close> stays below \<open>max_retries\<close> while it is counted
  up, so the \<open>u64\<close> of the source does not wrap.
\<close>

function send_retry_loop ::
  "('c \<Rightarrow> ('w, unit) io) \<Rightarrow> ('w env \<Rightarrow> nat) \<Rightarrow> ('w env \<Rightarrow> nat) \<Rightarrow> nat \<Rightarrow> nat \<Rightarrow> 'c jito_pool \<Rightarrow> 'w env \<Rightarrow>
   unit res \<times> 'c jito_pool \<times> 'w env" where
  "send_retry_loop send clock late max_retries attempt pool s =
     (case next_client (late s) (clock s) pool of (client, t, pool) \<Rightarrow>
      let s = (if clock s < t then sleep_ms (t - clock s) s else s)
      in case send client s of
           (Inr _, s) \<Rightarrow> (Inr (), pool, s)
         | (Inl err, s) \<Rightarrow>
             if max_retries \<le> attempt + 1 then (Inl (SendRetriesExhausted max_retries), pool, s)
             else send_retry_loop send clock late max_retries (attempt + 1) pool (sleep_ms 1000 s))"
  by pat_completeness auto
termination
  by (relation "measure (\<lambda>(send, clock, late, max_retries, attempt, pool, s). max_retries - attempt)") auto

declare send_retry_loop.simps [simp del]

definition send_bundle_with_retry ::
  "(transaction \<Rightarrow> string res) \<Rightarrow> ('c \<Rightarrow> string list \<Rightarrow> 'w \<Rightarrow> string option res \<times> 'w) \<Rightarrow>
   ('w env \<Rightarrow> nat) \<Rightarrow> ('w env \<Rightarrow> nat) \<Rightarrow> transaction list \<Rightarrow> u64 \<Rightarrow> 'c jito_pool \<Rightarrow> 'w env \<Rightarrow>
   unit res \<times> 'c jito_pool \<times> 'w env" where
  "send_bundle_with_retry encode send clock late bundle max_retries pool s =
     send_retry_loop (send_jito_bundle encode send bundle) clock late (unat max_retries) 1 pool s"

section \<open>Concurrent callers\<close>

text \<open>
  The state the callers share, the slots of the callers still in the loop, and the log of
  reservations, newest first.
\<close>

record jito_state =
  js_last :: "nat list"
  js_rr :: u64
  js_now :: nat
  js_waiting :: "nat list"
  js_granted :: "(nat \<times> nat) list"

definition jito_init :: "nat \<Rightarrow> nat \<Rightarrow> jito_state" where
  "jito_init n t = \<lparr>js_last = replicate n t, js_rr = 0, js_now = t, js_waiting = [], js_granted = []\<rparr>"

text \<open>
  A caller takes its slot from the counter; some waiting caller whose slot is free takes the
  lock and reserves; time passes. A look at a slot that is not free changes nothing, so it
  needs no rule: the caller stays in the loop.
\<close>

inductive jito_step :: "nat \<Rightarrow> nat \<Rightarrow> jito_state \<Rightarrow> jito_state \<Rightarrow> bool" for n interval where
  call: "jito_step n interval s (s\<lparr>js_rr := js_rr s + 1, js_waiting := js_waiting s @ [unat (js_rr s) mod n]\<rparr>)"
| reserve: "js_waiting s = pre @ i # post \<Longrightarrow> js_last s ! i \<le> js_now s \<Longrightarrow>
    jito_step n interval s (s\<lparr>js_last := (js_last s)[i := js_now s + interval],
      js_waiting := pre @ post, js_granted := (i, js_now s) # js_granted s\<rparr>)"
| pass: "jito_step n interval s (s\<lparr>js_now := js_now s + dt\<rparr>)"

inductive_cases jito_step_cases: "jito_step n interval s s'"

lemmas jito_stepE = jito_step_cases [consumes 1, case_names call reserve pass]

definition grants :: "jito_state \<Rightarrow> nat \<Rightarrow> nat list" where
  "grants s i = map snd (filter (\<lambda>g. fst g = i) (js_granted s))"

text \<open>Newest first, consecutive reservations of a slot are an interval apart.\<close>

definition spaced :: "nat \<Rightarrow> nat list \<Rightarrow> bool" where
  "spaced interval ts \<longleftrightarrow> sorted_wrt (\<lambda>later earlier. earlier + interval \<le> later) ts"

definition jito_inv :: "nat \<Rightarrow> nat \<Rightarrow> jito_state \<Rightarrow> bool" where
  "jito_inv n interval s \<longleftrightarrow> length (js_last s) = n \<and>
     (\<forall>i \<in> set (js_waiting s). i < n) \<and>
     (\<forall>i < n. spaced interval (grants s i) \<and> (\<forall>t \<in> set (grants s i). t + interval \<le> js_last s ! i))"

lemma grants_simps:
  "grants (s\<lparr>js_granted := (j, t) # js_granted s\<rparr>) i = (if i = j then t # grants s i else grants s i)"
  by (simp add: grants_def)

lemma jito_inv_init: "jito_inv n interval (jito_init n t)"
  by (simp add: jito_inv_def jito_init_def grants_def spaced_def)

lemma jito_inv_step:
  assumes "jito_step n interval s s'" and "0 < n" and inv: "jito_inv n interval s"
  shows "jito_inv n interval s'"
  using assms(1)
proof (cases rule: jito_stepE)
  case call
  then show ?thesis using inv assms(2) by (auto simp: jito_inv_def grants_def)
next
  case (reserve pre i post)
  have i: "i < n" and len: "length (js_last s) = n"
    using inv reserve(2) by (auto simp: jito_inv_def)
  have g: "grants s' k = (if k = i then js_now s # grants s k else grants s k)" for k
    by (simp add: reserve(1) grants_def)
  have l: "js_last s' ! k = (if k = i then js_now s + interval else js_last s ! k)" for k
    using i len by (simp add: reserve(1))
  have old: "t + interval \<le> js_now s" if "t \<in> set (grants s i)" for t
    using inv that i reserve(3) by (fastforce simp: jito_inv_def)
  have "spaced interval (grants s' k) \<and> (\<forall>t \<in> set (grants s' k). t + interval \<le> js_last s' ! k)"
    if "k < n" for k
  proof (cases "k = i")
    case True
    have "t + interval \<le> js_now s + interval" if "t \<in> set (grants s i)" for t
      using old [OF that] by simp
    then show ?thesis
      using True inv i len old by (auto simp: g l jito_inv_def spaced_def)
  next
    case False
    then show ?thesis using inv that by (simp add: g l jito_inv_def)
  qed
  moreover have "length (js_last s') = n" "\<forall>j \<in> set (js_waiting s'). j < n"
    using inv len reserve(2) by (auto simp: jito_inv_def reserve(1))
  ultimately show ?thesis by (simp add: jito_inv_def)
next
  case (pass dt)
  then show ?thesis using inv by (auto simp: jito_inv_def grants_def)
qed

definition jito_reachable :: "nat \<Rightarrow> nat \<Rightarrow> nat \<Rightarrow> jito_state \<Rightarrow> bool" where
  "jito_reachable n interval t s \<longleftrightarrow> (jito_step n interval)\<^sup>*\<^sup>* (jito_init n t) s"

lemma jito_inv_reachable: "jito_reachable n interval t s \<Longrightarrow> 0 < n \<Longrightarrow> jito_inv n interval s"
  unfolding jito_reachable_def
  by (induction rule: rtranclp_induct) (auto intro: jito_inv_init jito_inv_step)

text \<open>
  C6: however many callers interleave, two reservations of the same region are at least the
  cooldown interval apart.
\<close>

theorem jito_cooldown:
  assumes "jito_reachable n interval t s" and "i < n"
  shows "sorted_wrt (\<lambda>later earlier. earlier + interval \<le> later) (grants s i)"
  using jito_inv_reachable [OF assms(1)] assms(2) by (auto simp: jito_inv_def spaced_def)

theorem jito_cooldown_witness:
  "\<exists>s. jito_reachable 1 50 0 s \<and> grants s 0 = [60, 5] \<and>
    sorted_wrt (\<lambda>later earlier. earlier + 50 \<le> later) (grants s 0)"
proof -
  let ?s0 = "jito_init 1 0"
  let ?s1 = "?s0\<lparr>js_rr := js_rr ?s0 + 1, js_waiting := js_waiting ?s0 @ [unat (js_rr ?s0) mod 1]\<rparr>"
  let ?s2 = "?s1\<lparr>js_rr := js_rr ?s1 + 1, js_waiting := js_waiting ?s1 @ [unat (js_rr ?s1) mod 1]\<rparr>"
  let ?s3 = "?s2\<lparr>js_now := js_now ?s2 + 5\<rparr>"
  let ?s4 = "?s3\<lparr>js_last := (js_last ?s3)[0 := js_now ?s3 + 50], js_waiting := [] @ [0],
    js_granted := (0, js_now ?s3) # js_granted ?s3\<rparr>"
  let ?s5 = "?s4\<lparr>js_now := js_now ?s4 + 55\<rparr>"
  let ?s6 = "?s5\<lparr>js_last := (js_last ?s5)[0 := js_now ?s5 + 50], js_waiting := [] @ [],
    js_granted := (0, js_now ?s5) # js_granted ?s5\<rparr>"
  have "jito_step 1 50 ?s0 ?s1" "jito_step 1 50 ?s1 ?s2" by (rule jito_step.call)+
  moreover have "jito_step 1 50 ?s2 ?s3" by (rule jito_step.pass)
  moreover have "jito_step 1 50 ?s3 ?s4" by (rule jito_step.reserve) (simp_all add: jito_init_def)
  moreover have "jito_step 1 50 ?s4 ?s5" by (rule jito_step.pass)
  moreover have "jito_step 1 50 ?s5 ?s6" by (rule jito_step.reserve) (simp_all add: jito_init_def)
  ultimately have reach: "jito_reachable 1 50 0 ?s6"
    unfolding jito_reachable_def by (meson rtranclp.rtrancl_into_rtrancl rtranclp.rtrancl_refl)
  have "grants ?s6 0 = [60, 5]" by (simp add: grants_def jito_init_def)
  then show ?thesis using reach jito_cooldown [OF reach, of 0] by auto
qed

lemma steps_2: "R a b \<Longrightarrow> R b c \<Longrightarrow> R\<^sup>*\<^sup>* a c"
  by (meson converse_rtranclp_into_rtranclp r_into_rtranclp)

text \<open>No slot is reserved further ahead than one interval.\<close>

definition jito_bounded :: "nat \<Rightarrow> nat \<Rightarrow> jito_state \<Rightarrow> bool" where
  "jito_bounded n interval s \<longleftrightarrow> length (js_last s) = n \<and> (\<forall>i \<in> set (js_waiting s). i < n) \<and>
     (\<forall>i < n. js_last s ! i \<le> js_now s + interval)"

lemma jito_bounded_step:
  assumes "jito_step n interval s s'" and "0 < n" and b: "jito_bounded n interval s"
  shows "jito_bounded n interval s'"
  using assms(1)
proof (cases rule: jito_stepE)
  case (reserve pre i post)
  then show ?thesis using b by (auto simp: jito_bounded_def nth_list_update)
next
  case (pass dt)
  then show ?thesis using b by (simp add: jito_bounded_def) (meson le_trans le_add1 add_le_mono1)
qed (use b assms(2) in \<open>auto simp: jito_bounded_def\<close>)

lemma jito_bounded_init: "jito_bounded n interval (jito_init n t)"
  by (simp add: jito_bounded_def jito_init_def)

lemma jito_bounded_reachable: "jito_reachable n interval t s \<Longrightarrow> 0 < n \<Longrightarrow> jito_bounded n interval s"
  unfolding jito_reachable_def
  by (induction rule: rtranclp_induct)
    (blast intro: jito_bounded_init jito_bounded_step)+

lemma jito_serve_head:
  assumes "jito_bounded n interval s" and "js_waiting s = i # rest"
  obtains s' where "(jito_step n interval)\<^sup>*\<^sup>* s s'" and "jito_bounded n interval s'" and "js_waiting s' = rest"
    and "js_now s' \<le> js_now s + interval" and "map fst (js_granted s') = i # map fst (js_granted s)"
proof -
  have i: "i < n" and lt: "js_last s ! i \<le> js_now s + interval"
    using assms by (auto simp: jito_bounded_def)
  let ?s1 = "s\<lparr>js_now := js_now s + (js_last s ! i - js_now s)\<rparr>"
  let ?s2 = "?s1\<lparr>js_last := (js_last ?s1)[i := js_now ?s1 + interval],
    js_waiting := [] @ rest, js_granted := (i, js_now ?s1) # js_granted ?s1\<rparr>"
  have one: "jito_step n interval s ?s1" by (rule jito_step.pass)
  have two: "jito_step n interval ?s1 ?s2"
    by (rule jito_step.reserve) (use assms(2) in simp_all)
  have "jito_bounded n interval ?s2"
    using jito_bounded_step [OF two _ jito_bounded_step [OF one _ assms(1)]] i by simp
  moreover have "(jito_step n interval)\<^sup>*\<^sup>* s ?s2" using one two by (rule steps_2)
  moreover have "js_now ?s2 \<le> js_now s + interval" using lt by simp
  ultimately show ?thesis by (intro that [of ?s2]) simp_all
qed

lemma jito_drain:
  assumes "jito_bounded n interval s"
  shows "\<exists>s'. (jito_step n interval)\<^sup>*\<^sup>* s s' \<and> js_waiting s' = [] \<and>
    js_now s' \<le> js_now s + interval * length (js_waiting s) \<and>
    map fst (js_granted s') = rev (js_waiting s) @ map fst (js_granted s)"
  using assms
proof (induction "js_waiting s" arbitrary: s)
  case Nil
  note w = Nil.hyps [symmetric]
  show ?case by (intro exI [of _ s] conjI) (simp_all add: w)
next
  case (Cons i rest)
  note w = Cons.hyps(2) [symmetric]
  obtain s1 where s1: "(jito_step n interval)\<^sup>*\<^sup>* s s1" "jito_bounded n interval s1" "js_waiting s1 = rest"
    "js_now s1 \<le> js_now s + interval" "map fst (js_granted s1) = i # map fst (js_granted s)"
    by (rule jito_serve_head [OF Cons.prems w])
  obtain s2 where s2: "(jito_step n interval)\<^sup>*\<^sup>* s1 s2" "js_waiting s2 = []"
    "js_now s2 \<le> js_now s1 + interval * length rest"
    "map fst (js_granted s2) = rev rest @ map fst (js_granted s1)"
    using Cons.hyps(1) [OF s1(3) [symmetric] s1(2)] s1(3) by auto
  have "js_now s2 \<le> js_now s + interval * length (js_waiting s)"
    using s1(4) s2(3) by (simp add: w)
  moreover have "(jito_step n interval)\<^sup>*\<^sup>* s s2" using s1(1) s2(1) by (rule rtranclp_trans)
  moreover have "map fst (js_granted s2) = rev (js_waiting s) @ map fst (js_granted s)"
    using s1(5) s2(4) by (simp add: w)
  ultimately show ?case using s2(2) by blast
qed

text \<open>
  C25: no caller is stuck: from every reachable state there is a continuation, without new
  calls, in which all waiting callers get their slots in order, the last one no later than one
  interval per waiting caller from now.
\<close>

theorem jito_no_deadlock:
  assumes "jito_reachable n interval t s" and "0 < n"
  shows "\<exists>s'. (jito_step n interval)\<^sup>*\<^sup>* s s' \<and> js_waiting s' = [] \<and>
    js_now s' \<le> js_now s + interval * length (js_waiting s) \<and>
    map fst (js_granted s') = rev (js_waiting s) @ map fst (js_granted s)"
  using jito_drain [OF jito_bounded_reachable [OF assms]] .

theorem jito_no_deadlock_witness:
  "\<exists>s s'. jito_reachable 2 50 7 s \<and> js_waiting s = [0, 1] \<and> (jito_step 2 50)\<^sup>*\<^sup>* s s' \<and>
    js_now s' \<le> 107 \<and> map fst (js_granted s') = [1, 0]"
proof -
  let ?s0 = "jito_init 2 7"
  let ?s1 = "?s0\<lparr>js_rr := js_rr ?s0 + 1, js_waiting := js_waiting ?s0 @ [unat (js_rr ?s0) mod 2]\<rparr>"
  let ?s2 = "?s1\<lparr>js_rr := js_rr ?s1 + 1, js_waiting := js_waiting ?s1 @ [unat (js_rr ?s1) mod 2]\<rparr>"
  have "jito_step 2 50 ?s0 ?s1" "jito_step 2 50 ?s1 ?s2" by (rule jito_step.call)+
  then have reach: "jito_reachable 2 50 7 ?s2"
    unfolding jito_reachable_def by (meson rtranclp.rtrancl_into_rtrancl rtranclp.rtrancl_refl)
  have w: "js_waiting ?s2 = [0, 1]" "js_granted ?s2 = []" "js_now ?s2 = 7"
    by (simp_all add: jito_init_def)
  from jito_no_deadlock [OF reach] obtain s' where "(jito_step 2 50)\<^sup>*\<^sup>* ?s2 s'" "js_now s' \<le> 7 + 50 * 2"
    "map fst (js_granted s') = [1, 0]"
    unfolding w by auto
  then show ?thesis using reach w(1) by (intro exI [of _ ?s2] exI [of _ s']) simp
qed

section \<open>One caller\<close>

lemma next_client_loop_eq:
  "next_client_loop late i interval free_at now =
    (let t = (if free_at ! i \<le> now then now else free_at ! i + late) in (t, free_at[i := t + interval]))"
  by (subst next_client_loop.simps, subst next_client_loop.simps) (simp add: Let_def)

text \<open>
  A lone call returns the client the counter points at after at most one sleep, no earlier
  than its slot is free, and reserves the slot for one interval from then.
\<close>

lemma next_client_spec:
  assumes "next_client late now pool = (c, t, pool')"
  shows "let i = unat (jp_rr pool) mod length (jp_clients pool) in
    c = jp_clients pool ! i \<and>
    t = (if jp_last pool ! i \<le> now then now else jp_last pool ! i + late) \<and>
    jp_last pool' = (jp_last pool)[i := t + jp_interval pool] \<and>
    jp_rr pool' = jp_rr pool + 1 \<and> jp_clients pool' = jp_clients pool"
  using assms by (auto simp: next_client_def next_client_loop_eq Let_def)

text \<open>The shared state of the step relation that a pool, a time, a waiting list and a log stand for.\<close>

definition jito_state_of :: "'c jito_pool \<Rightarrow> nat \<Rightarrow> nat list \<Rightarrow> (nat \<times> nat) list \<Rightarrow> jito_state" where
  "jito_state_of pool now waiting served = \<lparr>js_last = jp_last pool, js_rr = jp_rr pool, js_now = now,
     js_waiting = waiting, js_granted = served\<rparr>"

text \<open>
  C24: the function one caller runs refines the step relation: a call of \<open>next_client\<close> that no
  other caller interrupts is the steps call, pass and reserve on the state the pool stands for,
  with any callers still waiting left in place, and it returns the client of the reserved slot.
\<close>

theorem next_client_refines:
  assumes "next_client late now pool = (c, t, pool')"
  shows "let i = unat (jp_rr pool) mod length (jp_clients pool) in
    c = jp_clients pool ! i \<and> now \<le> t \<and>
    (jito_step (length (jp_clients pool)) (jp_interval pool))\<^sup>*\<^sup>*
      (jito_state_of pool now waiting served) (jito_state_of pool' t waiting ((i, t) # served))"
proof -
  define i where "i = unat (jp_rr pool) mod length (jp_clients pool)"
  let ?step = "jito_step (length (jp_clients pool)) (jp_interval pool)"
  let ?s0 = "jito_state_of pool now waiting served"
  let ?s1 = "?s0\<lparr>js_rr := js_rr ?s0 + 1, js_waiting := js_waiting ?s0 @ [i]\<rparr>"
  let ?s2 = "?s1\<lparr>js_now := js_now ?s1 + (t - now)\<rparr>"
  let ?s3 = "?s2\<lparr>js_last := (js_last ?s2)[i := js_now ?s2 + jp_interval pool],
    js_waiting := waiting @ [], js_granted := (i, js_now ?s2) # js_granted ?s2\<rparr>"
  have spec: "c = jp_clients pool ! i" "t = (if jp_last pool ! i \<le> now then now else jp_last pool ! i + late)"
    "jp_last pool' = (jp_last pool)[i := t + jp_interval pool]" "jp_rr pool' = jp_rr pool + 1"
    using next_client_spec [OF assms] by (simp_all add: Let_def i_def)
  have le: "now \<le> t" "jp_last pool ! i \<le> t" using spec(2) by (simp_all split: if_splits)
  have "?step ?s0 ?s1"
    using jito_step.call [of "length (jp_clients pool)" "jp_interval pool" ?s0]
    by (simp add: jito_state_of_def i_def)
  moreover have "?step ?s1 ?s2" by (rule jito_step.pass)
  moreover have "?step ?s2 ?s3"
    by (rule jito_step.reserve) (use le in \<open>simp_all add: jito_state_of_def\<close>)
  moreover have "?s3 = jito_state_of pool' t waiting ((i, t) # served)"
    using spec(3,4) le by (simp add: jito_state_of_def)
  ultimately have "?step\<^sup>*\<^sup>* ?s0 (jito_state_of pool' t waiting ((i, t) # served))"
    by (metis (no_types) steps_2 rtranclp.rtrancl_into_rtrancl)
  then show ?thesis using spec(1) le(1) unfolding Let_def i_def [symmetric] by blast
qed

theorem next_client_refines_witness:
  "\<exists>t pool'. next_client 2 30 \<lparr>jp_clients = [''a'', ''b''], jp_last = [10, 40], jp_interval = 50, jp_rr = 1\<rparr> =
      (''b'', t, pool') \<and> 30 \<le> t \<and>
    (jito_step 2 50)\<^sup>*\<^sup>*
      (jito_state_of \<lparr>jp_clients = [''a'', ''b''], jp_last = [10, 40], jp_interval = 50, jp_rr = 1\<rparr> 30 [] [])
      (jito_state_of pool' t [] [(1, t)])"
proof -
  let ?p = "\<lparr>jp_clients = [''a'', ''b''], jp_last = [10, 40], jp_interval = 50, jp_rr = 1\<rparr>"
  obtain c t pool' where run: "next_client 2 30 ?p = (c, t, pool')" using prod_cases3 by blast
  from next_client_refines [OF run, of "[]" "[]"] run show ?thesis by (auto simp: Let_def numeral_2_eq_2)
qed

text \<open>
  Consecutive calls of one caller: before each it idles for a while, and a sleep within it may
  overrun. The result lists the clients it was given.
\<close>

fun run_calls :: "(nat \<times> nat) list \<Rightarrow> nat \<Rightarrow> 'c jito_pool \<Rightarrow> 'c list" where
  "run_calls [] now pool = []"
| "run_calls ((idle, late) # calls) now pool =
     (case next_client late (now + idle) pool of (c, t, pool) \<Rightarrow> c # run_calls calls t pool)"

lemma unat_add_1: "unat (x :: u64) + 1 < 2 ^ 64 \<Longrightarrow> unat (x + 1) = unat x + 1"
  by (simp add: unat_word_ariths)

lemma run_calls_eq:
  assumes "unat (jp_rr pool) + length calls \<le> 2 ^ 64"
  shows "run_calls calls now pool =
    map (\<lambda>k. jp_clients pool ! ((unat (jp_rr pool) + k) mod length (jp_clients pool))) [0..<length calls]"
  using assms
proof (induction calls arbitrary: now pool)
  case (Cons call calls)
  obtain idle late where call: "call = (idle, late)" by fastforce
  obtain c t pool' where nc: "next_client late (now + idle) pool = (c, t, pool')" using prod_cases3 by blast
  have spec: "c = jp_clients pool ! (unat (jp_rr pool) mod length (jp_clients pool))"
    "jp_rr pool' = jp_rr pool + 1" "jp_clients pool' = jp_clients pool"
    using next_client_spec [OF nc] by (simp_all add: Let_def)
  have "run_calls calls t pool' = map (\<lambda>k. jp_clients pool ! ((unat (jp_rr pool) + Suc k) mod length (jp_clients pool)))
      [0..<length calls]"
  proof (cases "calls = []")
    case False
    then have "unat (jp_rr pool') = unat (jp_rr pool) + 1"
      using Cons.prems unfolding spec(2) by (intro unat_add_1) (cases calls; simp)
    then show ?thesis using Cons.IH [of pool' t] Cons.prems spec(3) by (simp add: add.assoc)
  qed simp
  then show ?case
    by (simp add: call nc spec(1) upt_conv_Cons map_Suc_upt [symmetric] comp_def del: upt_Suc)
qed simp

text \<open>
  C35: the pool is fair: whatever the caller's pauses and the overruns of its sleeps, as many
  consecutive calls as there are clients return every client once, in the order of the list
  rotated to where the counter points, as long as the counter does not wrap in between.
\<close>

theorem round_robin_fair:
  assumes "length calls = length (jp_clients pool)" and "unat (jp_rr pool) + length calls \<le> 2 ^ 64"
  shows "run_calls calls now pool = rotate (unat (jp_rr pool)) (jp_clients pool)"
  by (rule nth_equalityI) (simp_all add: run_calls_eq [OF assms(2)] assms(1) nth_rotate)

theorem round_robin_fair_witness:
  "run_calls [(0, 0), (5, 1), (70, 0)] 30
      \<lparr>jp_clients = [''a'', ''b'', ''c''], jp_last = [10, 40, 0], jp_interval = 50, jp_rr = 7\<rparr> = [''b'', ''c'', ''a'']"
  using round_robin_fair [of "[(0, 0), (5, 1), (70, 0)]"
      "\<lparr>jp_clients = [''a'', ''b'', ''c''], jp_last = [10, 40, 0], jp_interval = 50, jp_rr = 7\<rparr>" 30]
  by (simp add: rotate_drop_take)

section \<open>Retries\<close>

lemma next_client_rr: "jp_rr (snd (snd (next_client late now pool))) = jp_rr pool + 1"
  by (simp add: next_client_def Let_def split: prod.splits)

text \<open>
  Any block engine, made to keep the list of what it was sent: the client, the transactions and
  its answer. An answer is accepted when it carries a bundle id.
\<close>

definition recorded :: "('c \<Rightarrow> string list \<Rightarrow> 'w \<Rightarrow> string option res \<times> 'w) \<Rightarrow> 'c \<Rightarrow> string list \<Rightarrow>
    'w \<times> ('c \<times> string list \<times> string option res) list \<Rightarrow>
    string option res \<times> 'w \<times> ('c \<times> string list \<times> string option res) list" where
  "recorded send c txs w = (case send c txs (fst w) of (a, w') \<Rightarrow> (a, w', snd w @ [(c, txs, a)]))"

definition accepted :: "string option res \<Rightarrow> bool" where
  "accepted a \<longleftrightarrow> (case a of Inr (Some _) \<Rightarrow> True | _ \<Rightarrow> False)"

text \<open>
  What attempts that start at the counter \<open>rr\<close> leave behind, one \<open>entry\<close> for each answer: the
  client of an attempt is the one the counter points to, and the counter moves on by one.
\<close>

fun attempts :: "('c \<Rightarrow> 'a \<Rightarrow> 'b list) \<Rightarrow> 'c list \<Rightarrow> u64 \<Rightarrow> 'a list \<Rightarrow> 'b list" where
  "attempts entry clients rr [] = []"
| "attempts entry clients rr (a # as) =
     entry (clients ! (unat rr mod length clients)) a @ attempts entry clients (rr + 1) as"

text \<open>One second between two attempts, besides what each attempt waits for its client.\<close>

fun second_apart :: "nat list list \<Rightarrow> nat list" where
  "second_apart [] = []"
| "second_apart [w] = w"
| "second_apart (w # ws) = w @ 1000 # second_apart ws"

lemma second_apart_Cons: "ws \<noteq> [] \<Longrightarrow> second_apart (w # ws) = w @ 1000 # second_apart ws"
  by (cases ws) simp_all

definition attempts_made ::
  "('c \<Rightarrow> 'a \<Rightarrow> 'b list) \<Rightarrow> ('a \<Rightarrow> bool) \<Rightarrow> ('w \<Rightarrow> 'b list) \<Rightarrow> nat \<Rightarrow> nat \<Rightarrow> 'c jito_pool \<Rightarrow> 'w env \<Rightarrow>
   unit res \<times> 'c jito_pool \<times> 'w env \<Rightarrow> 'a list \<Rightarrow> bool" where
  "attempts_made entry ok seen limit m pool s z answers \<longleftrightarrow> (case z of (r, pool', s') \<Rightarrow>
     answers \<noteq> [] \<and> length answers \<le> limit \<and>
     seen (env_chain s') = seen (env_chain s) @ attempts entry (jp_clients pool) (jp_rr pool) answers \<and>
     jp_rr pool' = jp_rr pool + word_of_nat (length answers) \<and>
     (\<forall>a \<in> set (butlast answers). \<not> ok a) \<and>
     (if ok (last answers) then r = Inr ()
      else r = Inl (SendRetriesExhausted m) \<and> length answers = limit) \<and>
     (\<exists>waits. length waits = length answers \<and> (\<forall>w \<in> set waits. length w \<le> 1) \<and>
       env_slept s' = env_slept s @ second_apart waits))"

text \<open>One more attempt in front of a run.\<close>

lemma attempts_made_Cons:
  assumes rest: "attempts_made entry ok seen limit m p1 (sleep_ms 1000 s2) z answers"
    and failed: "\<not> ok a" and p1: "jp_clients p1 = jp_clients pool" "jp_rr p1 = jp_rr pool + 1"
    and s2: "seen (env_chain s2) = seen (env_chain s) @
        entry (jp_clients pool ! (unat (jp_rr pool) mod length (jp_clients pool))) a"
      "env_slept s2 = env_slept s @ w" "length w \<le> 1"
  shows "attempts_made entry ok seen (Suc limit) m pool s z (a # answers)"
proof -
  obtain r pool' s' where z: "z = (r, pool', s')" using prod_cases3 by blast
  obtain waits where w: "length waits = length answers" "\<forall>w \<in> set waits. length w \<le> 1"
    "env_slept s' = env_slept s @ w @ 1000 # second_apart waits"
    using rest s2(2) unfolding attempts_made_def z by (auto simp: sleep_ms_def)
  have ne: "answers \<noteq> []" using rest by (auto simp: attempts_made_def z)
  then have "second_apart (w # waits) = w @ 1000 # second_apart waits"
    using w(1) by (intro second_apart_Cons) auto
  with w s2(3) have "\<exists>ws. length ws = length (a # answers) \<and> (\<forall>w \<in> set ws. length w \<le> 1) \<and>
      env_slept s' = env_slept s @ second_apart ws"
    by (intro exI [of _ "w # waits"]) simp
  then show ?thesis
    using rest ne failed p1 s2(1) unfolding attempts_made_def z
    by (auto simp: sleep_ms_def add.assoc add.commute split: if_splits)
qed

lemma send_retry_loop_attempts:
  assumes send: "\<And>c s x s'. send c s = (x, s') \<Longrightarrow> env_slept s' = env_slept s \<and>
      (\<exists>a. seen (env_chain s') = seen (env_chain s) @ entry c a \<and> ((\<exists>u. x = Inr u) \<longleftrightarrow> ok a))"
  shows "\<exists>answers. attempts_made entry ok seen (max 1 (m - a)) m pool s
    (send_retry_loop send clock late m a pool s) answers"
proof (induction "m - a" arbitrary: a pool s rule: less_induct)
  case less
  obtain c t p1 where nc: "next_client (late s) (clock s) pool = (c, t, p1)"
    by (cases "next_client (late s) (clock s) pool") auto
  have p1: "c = jp_clients pool ! (unat (jp_rr pool) mod length (jp_clients pool))"
    "jp_rr p1 = jp_rr pool + 1" "jp_clients p1 = jp_clients pool"
    using next_client_spec [OF nc] by (simp_all add: Let_def)
  define s1 where "s1 = (if clock s < t then sleep_ms (t - clock s) s else s)"
  obtain x s2 where sd: "send c s1 = (x, s2)" by fastforce
  have eq: "send_retry_loop send clock late m a pool s =
     (case x of Inr _ \<Rightarrow> (Inr (), p1, s2)
      | Inl err \<Rightarrow> if m \<le> a + 1 then (Inl (SendRetriesExhausted m), p1, s2)
          else send_retry_loop send clock late m (a + 1) p1 (sleep_ms 1000 s2))"
    by (subst send_retry_loop.simps) (simp add: nc Let_def s1_def [symmetric] sd)
  obtain w where w: "env_slept s1 = env_slept s @ w" "length w \<le> 1" "env_chain s1 = env_chain s"
    by (rule that [of "if clock s < t then [t - clock s] else []"]) (simp_all add: s1_def sleep_ms_def)
  obtain ans where ans: "seen (env_chain s2) = seen (env_chain s) @ entry c ans"
    "(\<exists>u. x = Inr u) \<longleftrightarrow> ok ans" "env_slept s2 = env_slept s @ w"
    using send [OF sd] w by auto
  show ?case
  proof (cases "ok ans \<or> m \<le> a + 1")
    case True
    have "\<exists>waits :: nat list list. length waits = length [ans] \<and> (\<forall>w \<in> set waits. length w \<le> 1) \<and>
        env_slept s2 = env_slept s @ second_apart waits"
      using w(2) ans(3) by (intro exI [of _ "[w]"]) simp
    then have "attempts_made entry ok seen (max 1 (m - a)) m pool s
        (send_retry_loop send clock late m a pool s) [ans]"
      using True ans(1,2) p1 unfolding attempts_made_def eq by (cases x) auto
    then show ?thesis ..
  next
    case False
    then obtain err where x: "x = Inl err" and more: "a + 1 < m" using ans(2) by (cases x) auto
    then have run: "send_retry_loop send clock late m a pool s =
        send_retry_loop send clock late m (a + 1) p1 (sleep_ms 1000 s2)" unfolding eq by simp
    obtain answers where "attempts_made entry ok seen (max 1 (m - (a + 1))) m p1 (sleep_ms 1000 s2)
        (send_retry_loop send clock late m (a + 1) p1 (sleep_ms 1000 s2)) answers"
      using less.hyps more by (metis diff_less_mono2 less_add_one less_trans)
    moreover have "max 1 (m - a) = Suc (max 1 (m - (a + 1)))" using more by simp
    ultimately have "attempts_made entry ok seen (max 1 (m - a)) m pool s
        (send_retry_loop send clock late m a pool s) (ans # answers)"
      using attempts_made_Cons [of entry ok seen _ m p1 s2 _ answers ans pool s w] False p1 ans w(2)
      unfolding run by simp
    then show ?thesis ..
  qed
qed

lemma recorded_send:
  assumes "send_jito_bundle encode (recorded send) bundle c s = (x, s')" and "map_res encode bundle = Inr txs"
  shows "env_slept s' = env_slept s \<and>
    (\<exists>a. snd (env_chain s') = snd (env_chain s) @ [(c, txs, a)] \<and> ((\<exists>u. x = Inr u) \<longleftrightarrow> accepted a))"
proof -
  obtain a w' where a: "send c txs (fst (env_chain s)) = (a, w')" by fastforce
  then show ?thesis
    using assms
    by (intro conjI exI [of _ a]; cases a)
      (auto simp: send_jito_bundle_def rpc_call_def recorded_def accepted_def io_bind_def io_lift_def ok_or_def
        split: option.splits)
qed

lemma unencoded_send:
  assumes "send_jito_bundle encode send bundle c s = (x, s')" and "map_res encode bundle = Inl err"
  shows "env_slept s' = env_slept s \<and> env_chain s' = env_chain s \<and> (\<nexists>u. x = Inr u)"
  using assms by (auto simp: send_jito_bundle_def io_lift_def)

text \<open>
  C36: the attempts of the bundle sender, for any block engine, clock and sleep overruns. A bundle
  that encodes is sent at least once and at most \<open>max 1 (max_retries - 1)\<close> times, one fewer
  than the number the error message reports: each time the same encoded transactions, to the
  client the counter of the pool points to, which moves on by one, a second after the send
  before, and nothing else is sent. Every send but the last was not accepted (an error, or a
  response without a bundle id). The call returns \<open>Ok\<close> exactly when the last one was, and
  otherwise, after all of the attempts, the error of exhausted retries. A bundle that does not
  encode is never sent; all attempts are used up on it.
\<close>

theorem send_bundle_attempts:
  assumes "send_bundle_with_retry encode (recorded send) clock late bundle max_retries pool s = (r, pool', s')"
  shows "case map_res encode bundle of
    Inr txs \<Rightarrow> \<exists>answers. answers \<noteq> [] \<and> length answers \<le> max 1 (unat max_retries - 1) \<and>
      snd (env_chain s') = snd (env_chain s) @
        attempts (\<lambda>client answer. [(client, txs, answer)]) (jp_clients pool) (jp_rr pool) answers \<and>
      jp_rr pool' = jp_rr pool + word_of_nat (length answers) \<and>
      (\<forall>a \<in> set (butlast answers). \<not> accepted a) \<and>
      (if accepted (last answers) then r = Inr ()
       else r = Inl (SendRetriesExhausted (unat max_retries)) \<and>
         length answers = max 1 (unat max_retries - 1)) \<and>
      (\<exists>waits. length waits = length answers \<and> (\<forall>w \<in> set waits. length w \<le> 1) \<and>
        env_slept s' = env_slept s @ second_apart waits)
  | Inl _ \<Rightarrow> env_chain s' = env_chain s \<and> r = Inl (SendRetriesExhausted (unat max_retries)) \<and>
      jp_rr pool' = jp_rr pool + word_of_nat (max 1 (unat max_retries - 1))"
proof (cases "map_res encode bundle")
  case (Inr txs)
  from send_retry_loop_attempts [of "send_jito_bundle encode (recorded send) bundle" snd
      "\<lambda>client answer. [(client, txs, answer)]" accepted, OF recorded_send [OF _ Inr]]
  have "\<exists>answers. attempts_made (\<lambda>client answer. [(client, txs, answer)]) accepted snd
      (max 1 (unat max_retries - 1)) (unat max_retries) pool s (r, pool', s') answers"
    unfolding assms [unfolded send_bundle_with_retry_def, symmetric] .
  then show ?thesis using Inr by (simp only: attempts_made_def prod.case sum.case)
next
  case (Inl err)
  have none: "attempts (\<lambda>_ _. []) cs rr as = []" for cs rr and as :: "unit list"
    by (induction as arbitrary: rr) simp_all
  have "\<exists>answers :: unit list. attempts_made (\<lambda>_ _. []) (\<lambda>_. False) (\<lambda>w. [w]) (max 1 (unat max_retries - 1))
      (unat max_retries) pool s (r, pool', s') answers"
    unfolding assms [unfolded send_bundle_with_retry_def, symmetric]
    by (rule send_retry_loop_attempts) (drule unencoded_send [OF _ Inl], simp)
  then show ?thesis using Inl none by (auto simp: attempts_made_def)
qed

theorem send_bundle_attempts_witness:
  "\<exists>r pool' s' answers. send_bundle_with_retry (\<lambda>tx. Inr ''tx'') (recorded (\<lambda>c txs w. (Inr None, Suc w)))
      (fst \<circ> env_chain) (\<lambda>s. 0) [] 3 \<lparr>jp_clients = [''a'', ''b''], jp_last = [0, 0], jp_interval = 50, jp_rr = 0\<rparr>
      \<lparr>env_chain = (0, []), env_slept = []\<rparr> = (r, pool', s') \<and>
    answers \<noteq> [] \<and> length answers \<le> 2 \<and>
    snd (env_chain s') = attempts (\<lambda>client answer. [(client, [], answer)]) [''a'', ''b''] 0 answers"
proof -
  obtain r pool' s' where run: "send_bundle_with_retry (\<lambda>tx. Inr ''tx'') (recorded (\<lambda>c txs w. (Inr None, Suc w)))
      (fst \<circ> env_chain) (\<lambda>s. 0) [] 3 \<lparr>jp_clients = [''a'', ''b''], jp_last = [0, 0], jp_interval = 50, jp_rr = 0\<rparr>
      \<lparr>env_chain = (0, []), env_slept = []\<rparr> = (r, pool', s')"
    using prod_cases3 by blast
  from send_bundle_attempts [OF run] run show ?thesis by auto
qed

end
