(* ===== verification/Client.thy ===== *)
theory Client
  imports Rpc
begin

text \<open>
  The operations of \<open>PumpSwapClient\<close> that compose reads, builders and the submission of a
  transaction: swaps, simulations, pool creation, deposits, withdrawals, and the creator-fee
  payout of fee-sharing coins. A \<open>Keypair\<close> is its public key: the transaction records its payer,
  which signs it. The lemmas follow a swap from the snapshot it is priced on to the transaction
  that is submitted, and the payout from the accounts it reads to its instruction list.
\<close>

section \<open>Submitting\<close>

definition submit :: "'w rpc \<Rightarrow> pubkey \<Rightarrow> instruction list \<Rightarrow> ('w, unit) io" where
  "submit rpc payer instructions =
     io_bind (rpc_call (r_get_latest_blockhash rpc)) (\<lambda>blockhash.
     io_bind (rpc_call (r_send_and_confirm_transaction rpc
       \<lparr>tx_instructions = instructions, tx_payer = payer, tx_blockhash = blockhash\<rparr>)) (\<lambda>_.
     io_lift (Inr ())))"

definition simulate :: "'w rpc \<Rightarrow> pubkey \<Rightarrow> instruction list \<Rightarrow> ('w, unit) io" where
  "simulate rpc payer instructions =
     io_bind (rpc_call (r_get_latest_blockhash rpc)) (\<lambda>blockhash.
     rpc_call (r_simulate_transaction rpc
       \<lparr>tx_instructions = instructions, tx_payer = payer, tx_blockhash = blockhash\<rparr>))"

section \<open>Swaps\<close>

definition simulate_sell :: "ext \<Rightarrow> 'w rpc \<Rightarrow> draws \<Rightarrow> PoolInfo \<Rightarrow> u64 \<Rightarrow> pubkey \<Rightarrow> ('w, unit) io" where
  "simulate_sell e rpc d pool_info amount_in keypair =
     io_bind (fetch_pool_snapshot rpc pool_info) (\<lambda>(pool_info, base_reserve, quote_reserve).
     io_bind (fetch_pool_fees e rpc pool_info base_reserve quote_reserve) (\<lambda>fees.
     let (base, quote) = effective_reserves pool_info base_reserve quote_reserve;
         amount_out = min_amount_out (quote_sell amount_in base quote fees DEFAULT_SLIPPAGE)
     in io_bind (io_lift (build_sell_ixs e d amount_in amount_out pool_info keypair True)) (\<lambda>ixs.
     simulate rpc keypair ixs)))"

definition simulate_buy :: "ext \<Rightarrow> 'w rpc \<Rightarrow> draws \<Rightarrow> PoolInfo \<Rightarrow> u64 \<Rightarrow> pubkey \<Rightarrow> ('w, unit) io" where
  "simulate_buy e rpc d pool_info amount_in keypair =
     io_bind (fetch_pool_snapshot rpc pool_info) (\<lambda>(pool_info, base_reserve, quote_reserve).
     io_bind (fetch_pool_fees e rpc pool_info base_reserve quote_reserve) (\<lambda>fees.
     let (base, quote) = effective_reserves pool_info base_reserve quote_reserve;
         base_amount_out =
           min_amount_out (quote_buy_exact_quote_in amount_in base quote fees DEFAULT_SLIPPAGE)
     in io_bind (io_lift (build_buy_ixs e d base_amount_out amount_in True pool_info keypair True)) (\<lambda>ixs.
     simulate rpc keypair ixs)))"

definition buy :: "ext \<Rightarrow> 'w rpc \<Rightarrow> draws \<Rightarrow> u64 \<Rightarrow> PoolInfo \<Rightarrow> pubkey \<Rightarrow> ('w, unit) io" where
  "buy e rpc d amount_in pool_info payer =
     io_bind (fetch_pool_snapshot rpc pool_info) (\<lambda>(pool_info, base_reserve, quote_reserve).
     io_bind (fetch_pool_fees e rpc pool_info base_reserve quote_reserve) (\<lambda>fees.
     let (base, quote) = effective_reserves pool_info base_reserve quote_reserve;
         out = min_amount_out (quote_buy_exact_quote_in amount_in base quote fees DEFAULT_SLIPPAGE)
     in io_bind (io_lift (build_buy_ixs e d out amount_in True pool_info payer False)) (\<lambda>ixs.
     submit rpc payer
       ([x_set_compute_unit_limit e 1000000, x_set_compute_unit_price e 100000] @ ixs))))"

definition buy_exact_quote_in ::
  "ext \<Rightarrow> 'w rpc \<Rightarrow> draws \<Rightarrow> u64 \<Rightarrow> u64 \<Rightarrow> PoolInfo \<Rightarrow> pubkey \<Rightarrow> ('w, unit) io" where
  "buy_exact_quote_in e rpc d spendable_quote_in min_base_amount_out pool_info payer =
     io_bind (io_lift (build_buy_exact_quote_in_ixs e d spendable_quote_in min_base_amount_out True
       pool_info payer False)) (\<lambda>ixs.
     submit rpc payer
       ([x_set_compute_unit_limit e 1000000, x_set_compute_unit_price e 100000] @ ixs))"

definition simulate_buy_exact_quote_in ::
  "ext \<Rightarrow> 'w rpc \<Rightarrow> draws \<Rightarrow> u64 \<Rightarrow> u64 \<Rightarrow> PoolInfo \<Rightarrow> pubkey \<Rightarrow> ('w, unit) io" where
  "simulate_buy_exact_quote_in e rpc d spendable_quote_in min_base_amount_out pool_info keypair =
     io_bind (io_lift (build_buy_exact_quote_in_ixs e d spendable_quote_in min_base_amount_out True
       pool_info keypair True)) (\<lambda>ixs. simulate rpc keypair ixs)"

definition sell :: "ext \<Rightarrow> 'w rpc \<Rightarrow> draws \<Rightarrow> u64 \<Rightarrow> PoolInfo \<Rightarrow> pubkey \<Rightarrow> ('w, unit) io" where
  "sell e rpc d amount_in pool_info payer =
     io_bind (fetch_pool_snapshot rpc pool_info) (\<lambda>(pool_info, base_reserve, quote_reserve).
     io_bind (fetch_pool_fees e rpc pool_info base_reserve quote_reserve) (\<lambda>fees.
     let (base, quote) = effective_reserves pool_info base_reserve quote_reserve;
         out = min_amount_out (quote_sell amount_in base quote fees DEFAULT_SLIPPAGE)
     in io_bind (io_lift (build_sell_ixs e d amount_in out pool_info payer True)) (\<lambda>ixs.
     submit rpc payer
       ([x_set_compute_unit_limit e 1000000, x_set_compute_unit_price e 100000] @ ixs))))"

definition claim_cashback :: "ext \<Rightarrow> 'w rpc \<Rightarrow> pubkey \<Rightarrow> pubkey \<Rightarrow> pubkey \<Rightarrow> ('w, unit) io" where
  "claim_cashback e rpc quote_mint' quote_token_program' payer =
     io_bind (io_lift (make_claim_cashback_instruction e payer quote_mint' quote_token_program')) (\<lambda>ix.
     submit rpc payer [ix])"

section \<open>Liquidity\<close>

definition create_wsol_pool_with_options ::
  "ext \<Rightarrow> 'w rpc \<Rightarrow> u16 \<Rightarrow> u64 \<Rightarrow> u64 \<Rightarrow> pubkey \<Rightarrow> pubkey \<Rightarrow> pubkey \<Rightarrow> bool \<Rightarrow> bool \<Rightarrow> pubkey \<Rightarrow>
   ('w, unit) io" where
  "create_wsol_pool_with_options e rpc index base_amount_in quote_in coin_creator' base_mint'
       base_token_program' mayhem cashback payer =
     (let pool = fst (calc_pool_pda_with_index e index payer base_mint' (WRAPPED_SOL_MINT e));
          base_ata = x_get_ata e payer base_mint' base_token_program';
          wsol_ata = x_get_ata e payer (WRAPPED_SOL_MINT e) (x_spl_token_ID e);
          pool_base_ata = x_get_ata e pool base_mint' base_token_program';
          pool_quote_ata = x_get_ata e pool (WRAPPED_SOL_MINT e) (x_spl_token_ID e);
          wsol_ata_ix = x_create_ata_idempotent e payer payer (WRAPPED_SOL_MINT e) (x_spl_token_ID e);
          pool_base_ata_ix = x_create_ata_idempotent e payer pool base_mint' base_token_program';
          pool_quote_ata_ix = x_create_ata_idempotent e payer pool (WRAPPED_SOL_MINT e) (x_spl_token_ID e)
      in io_bind (io_lift (create_pool_instruction_with_options e index base_amount_in quote_in
           mayhem cashback pool payer coin_creator' base_mint' (WRAPPED_SOL_MINT e) base_ata wsol_ata
           pool_base_ata pool_quote_ata base_token_program' (x_spl_token_ID e))) (\<lambda>create_ix.
      io_bind (io_lift (x_sync_native e (x_spl_token_ID e) wsol_ata)) (\<lambda>sync_ix.
      io_bind (io_lift (x_close_account e (x_spl_token_ID e) wsol_ata payer payer)) (\<lambda>close_ix.
      submit rpc payer
        [wsol_ata_ix, x_transfer e payer wsol_ata quote_in, sync_ix, pool_base_ata_ix,
         pool_quote_ata_ix, create_ix, close_ix]))))"

definition create_wsol_pool ::
  "ext \<Rightarrow> 'w rpc \<Rightarrow> u64 \<Rightarrow> u64 \<Rightarrow> pubkey \<Rightarrow> pubkey \<Rightarrow> pubkey \<Rightarrow> ('w, unit) io" where
  "create_wsol_pool e rpc base_amount_in quote_in coin_creator' base_mint' payer =
     create_wsol_pool_with_options e rpc 0 base_amount_in quote_in coin_creator' base_mint'
       (x_spl_token_ID e) False False payer"

definition deposit_into_wsol_pool ::
  "ext \<Rightarrow> 'w rpc \<Rightarrow> PoolInfo \<Rightarrow> pubkey \<Rightarrow> u64 \<Rightarrow> u64 \<Rightarrow> u64 \<Rightarrow> ('w, unit) io" where
  "deposit_into_wsol_pool e rpc pool_info payer lp_token_amount_out max_base_amount_in max_quote_amount_in =
     (let base_ata = x_get_ata e payer (base_mint pool_info) (base_token_program pool_info);
          wsol_ata = x_get_ata e payer (WRAPPED_SOL_MINT e) (x_spl_token_ID e);
          user_lp_ata = fst (calc_user_pool_token_account e payer (lp_mint pool_info));
          base_ata_ix = x_create_ata_idempotent e payer payer (base_mint pool_info) (base_token_program pool_info);
          wsol_ata_ix = x_create_ata_idempotent e payer payer (WRAPPED_SOL_MINT e) (x_spl_token_ID e);
          lp_ata_ix = x_create_ata_idempotent e payer payer (lp_mint pool_info) (x_spl_token_2022_ID e)
      in io_bind (io_lift (make_deposit_instruction e lp_token_amount_out max_base_amount_in
           max_quote_amount_in pool_info payer base_ata wsol_ata user_lp_ata)) (\<lambda>deposit_ix.
      io_bind (io_lift (maybe_extend_pool_ix e pool_info payer)) (\<lambda>extend.
      io_bind (io_lift (x_sync_native e (x_spl_token_ID e) wsol_ata)) (\<lambda>sync_ix.
      io_bind (io_lift (x_close_account e (x_spl_token_ID e) wsol_ata payer payer)) (\<lambda>close_ix.
      submit rpc payer (opt_list extend @
        [base_ata_ix, wsol_ata_ix, x_transfer e payer wsol_ata max_quote_amount_in, sync_ix,
         lp_ata_ix, deposit_ix, close_ix]))))))"

text \<open>\<open>(lp_token_percent * balance as f64) as u64\<close>.\<close>

definition lp_share :: "f64 \<Rightarrow> u64 \<Rightarrow> u64" where
  "lp_share lp_token_percent balance = u64_of_f64 (lp_token_percent * f64_of_u64 balance)"

definition withdraw_from_wsol_pool ::
  "ext \<Rightarrow> 'w rpc \<Rightarrow> pubkey \<Rightarrow> pubkey \<Rightarrow> pubkey \<Rightarrow> f64 \<Rightarrow> u64 \<Rightarrow> u64 \<Rightarrow> ('w, unit) io" where
  "withdraw_from_wsol_pool e rpc pool base_mint' payer lp_token_percent min_base_amount_out
       min_quote_amount_out =
     (let base_ata = x_get_ata e payer base_mint' (x_spl_token_ID e);
          wsol_ata = x_get_ata e payer (WRAPPED_SOL_MINT e) (x_spl_token_ID e);
          base_ata_ix = x_create_ata_idempotent e payer payer base_mint' (x_spl_token_ID e);
          wsol_ata_ix = x_create_ata_idempotent e payer payer (WRAPPED_SOL_MINT e) (x_spl_token_ID e);
          lp_mint' = fst (calc_lp_mint_pda e pool);
          user_pool_token_account = fst (calc_user_pool_token_account e payer lp_mint')
      in io_bind (rpc_call (r_get_token_account_balance rpc user_pool_token_account)) (\<lambda>lp_balance.
      io_bind (io_lift (parse_u64 (tb_amount lp_balance))) (\<lambda>balance.
      if balance = 0 then io_lift (Inl ZeroLpBalance)
      else io_bind (io_lift (withdraw_instruction e pool payer base_mint' base_ata wsol_ata
             (lp_share lp_token_percent balance) min_base_amount_out min_quote_amount_out)) (\<lambda>withdraw_ix.
      io_bind (io_lift (x_close_account e (x_spl_token_ID e) wsol_ata payer payer)) (\<lambda>close_ix.
      submit rpc payer [base_ata_ix, wsol_ata_ix, withdraw_ix, close_ix])))))"

section \<open>Creator fees of fee-sharing coins\<close>

definition active_shareholders :: "ext \<Rightarrow> 'w rpc \<Rightarrow> pubkey \<Rightarrow> ('w, pubkey list) io" where
  "active_shareholders e rpc token_mint' =
     io_bind (fetch_sharing_config e rpc token_mint') (\<lambda>found.
     io_bind (io_lift (ok_or found (NoSharingConfig token_mint' (sharing_config_pda e token_mint')))) (\<lambda>config.
     if \<not> sharing_config_is_active config then io_lift (Inl (SharingConfigInactive token_mint'))
     else io_lift (Inr (map sh_address (shareholders config)))))"

definition build_creator_fee_sweep_ixs ::
  "ext \<Rightarrow> 'w rpc \<Rightarrow> pubkey \<Rightarrow> pubkey \<Rightarrow> pubkey \<Rightarrow> pubkey \<Rightarrow> ('w, instruction list) io" where
  "build_creator_fee_sweep_ixs e rpc payer token_mint' quote_mint' quote_token_program' =
     (let pool = canonical_pool_pda e token_mint' quote_mint' in
      io_bind (rpc_call (r_get_multiple_accounts rpc [bonding_curve_pda e token_mint', pool])) (\<lambda>accounts.
      io_bind (io_lift (index_or_panic accounts 0)) (\<lambda>curve.
      io_bind (io_lift (case curve of Some c \<Rightarrow> bonding_curve_creator_fee (acc_data c) | None \<Rightarrow> Inr 0))
        (\<lambda>curve_fee.
      io_bind (io_lift (index_or_panic accounts 1)) (\<lambda>graduated_pool.
      io_bind (io_lift (if graduated_pool = None \<or> 0 < curve_fee
          then bindE (sweep_bonding_curve_creator_fee_instruction e payer token_mint'
                 (sharing_config_pda e token_mint') quote_mint' quote_token_program') (\<lambda>ix. Inr [ix])
          else Inr [])) (\<lambda>curve_ixs.
      io_bind (io_lift (case graduated_pool of
            Some account \<Rightarrow>
              bindE (pool_info_from_account_data pool (acc_data account) quote_token_program'
                quote_token_program') (\<lambda>pool.
              bindE (sweep_pool_creator_fee_instruction e payer pool) (\<lambda>ix. Inr [ix]))
          | None \<Rightarrow> Inr [])) (\<lambda>pool_ixs.
      io_lift (Inr (curve_ixs @ pool_ixs)))))))))"

definition build_creator_fee_withdraw_ixs ::
  "ext \<Rightarrow> 'w rpc \<Rightarrow> pubkey \<Rightarrow> pubkey \<Rightarrow> ('w, instruction list) io" where
  "build_creator_fee_withdraw_ixs e rpc payer token_mint' =
     io_bind (active_shareholders e rpc token_mint') (\<lambda>holders.
     io_bind (build_creator_fee_sweep_ixs e rpc payer token_mint' (WRAPPED_SOL_MINT e) (x_spl_token_ID e))
       (\<lambda>sweeps.
     io_bind (io_lift (transfer_creator_fees_to_pump_instruction e (sharing_config_pda e token_mint')))
       (\<lambda>transfer.
     io_bind (io_lift (distribute_creator_fees_instruction e token_mint' holders)) (\<lambda>distribute.
     io_lift (Inr (sweeps @ [transfer, distribute]))))))"

definition build_creator_fee_withdraw_ixs_v2 ::
  "ext \<Rightarrow> 'w rpc \<Rightarrow> pubkey \<Rightarrow> pubkey \<Rightarrow> pubkey \<Rightarrow> pubkey \<Rightarrow> bool \<Rightarrow> ('w, instruction list) io" where
  "build_creator_fee_withdraw_ixs_v2 e rpc payer token_mint' quote_mint' quote_token_program'
       initialize_shareholder_atas =
     io_bind (active_shareholders e rpc token_mint') (\<lambda>holders.
     io_bind (build_creator_fee_sweep_ixs e rpc payer token_mint' quote_mint' quote_token_program') (\<lambda>sweeps.
     io_bind (io_lift (transfer_creator_fees_to_pump_v2_instruction e payer
       (sharing_config_pda e token_mint') quote_mint' quote_token_program')) (\<lambda>transfer.
     io_bind (io_lift (distribute_creator_fees_v2_instruction e payer token_mint' quote_mint'
       quote_token_program' initialize_shareholder_atas holders)) (\<lambda>distribute.
     io_lift (Inr (sweeps @ [transfer, distribute]))))))"

definition withdraw_creator_fees :: "ext \<Rightarrow> 'w rpc \<Rightarrow> pubkey \<Rightarrow> pubkey \<Rightarrow> ('w, unit) io" where
  "withdraw_creator_fees e rpc admin token_mint' =
     io_bind (build_creator_fee_withdraw_ixs e rpc admin token_mint') (\<lambda>ixs.
     submit rpc admin ([x_set_compute_unit_limit e 500000, x_set_compute_unit_price e 50000] @ ixs))"

section \<open>What a sale submits\<close>

lemma submit_InrE:
  assumes "submit rpc payer ixs s = (Inr u, s')"
  obtains bh w1 sig where "r_get_latest_blockhash rpc (env_chain s) = (Inr bh, w1)"
    and "r_send_and_confirm_transaction rpc
      \<lparr>tx_instructions = ixs, tx_payer = payer, tx_blockhash = bh\<rparr> w1 = (Inr sig, env_chain s')"
  using assms
  by (auto simp: submit_def io_bind_eq_Inr_iff rpc_call_eq_Inr_iff)

lemma sell_data:
  assumes "build_sell_ixs e d a m p payer close = Inr ixs"
  shows "\<exists>ix \<in> set ixs. ix_program_id ix = PUMP_SWAP_PROGRAM_ID e \<and>
    anchor_decode [51, 230, 133, 164, 1, 127, 131, 173] sell_args_read (ix_data ix) =
      Some (SellInstruction_new a m)"
proof -
  obtain ub uq ix where "make_sell_instruction e (dr_fee d) (dr_buyback d) a m p payer ub uq = Inr ix"
    and in_ixs: "ix \<in> set ixs"
    using sell_builder.sequence [OF assms] by (auto simp: swap_sequence_def)
  then have ix: "ix_program_id ix = PUMP_SWAP_PROGRAM_ID e" "ix_data ix = SellInstruction_to_vec (SellInstruction_new a m)"
    by (auto simp: make_sell_instruction_def bindE_eq_Inr_iff)
  have "sell_args_ok (SellInstruction_new a m)" by (simp add: sell_args_ok_def SellInstruction_new_def)
  then show ?thesis using in_ixs ix sell_args.roundtrip by force
qed

lemma buy_data:
  assumes "build_buy_ixs e d y a t p payer create = Inr ixs"
  shows "\<exists>ix \<in> set ixs. ix_program_id ix = PUMP_SWAP_PROGRAM_ID e \<and>
    anchor_decode BuyInstruction_DISCRIMINATOR buy_args_read (ix_data ix) = Some (BuyInstruction_new y a t)"
proof -
  obtain ub uq ix where "make_buy_instruction e (dr_fee d) (dr_buyback d) y a t p payer ub uq = Inr ix"
    and in_ixs: "ix \<in> set ixs"
    using buy_builder.sequence [OF assms] by (auto simp: swap_sequence_def)
  then have ix: "ix_program_id ix = PUMP_SWAP_PROGRAM_ID e" "ix_data ix = BuyInstruction_to_vec (BuyInstruction_new y a t)"
    by (auto simp: make_buy_instruction_def bindE_eq_Inr_iff)
  then show ?thesis using in_ixs buy_args.roundtrip by force
qed

text \<open>
  The shape \<open>buy\<close> and \<open>sell\<close> share: price on a snapshot, build, submit behind the compute budget.
\<close>

definition priced_swap ::
  "ext \<Rightarrow> 'w rpc \<Rightarrow> PoolInfo \<Rightarrow> pubkey \<Rightarrow> (PoolInfo \<Rightarrow> u64 \<Rightarrow> u64 \<Rightarrow> Fees \<Rightarrow> instruction list res) \<Rightarrow>
   ('w, unit) io" where
  "priced_swap e rpc p payer build =
     io_bind (fetch_pool_snapshot rpc p) (\<lambda>(info, b, q).
     io_bind (fetch_pool_fees e rpc info b q) (\<lambda>fees.
     io_bind (io_lift (build info b (snd (effective_reserves info b q)) fees)) (\<lambda>ixs.
     submit rpc payer ([x_set_compute_unit_limit e 1000000, x_set_compute_unit_price e 100000] @ ixs))))"

lemma effective_reserves_pair: "effective_reserves p b q = (b, snd (effective_reserves p b q))"
  by (metis effective_base_reserve prod.collapse)

lemma sell_priced_swap:
  "sell e rpc d a p payer = priced_swap e rpc p payer (\<lambda>info b q fees.
     build_sell_ixs e d a (min_amount_out (quote_sell a b q fees DEFAULT_SLIPPAGE)) info payer True)"
  unfolding sell_def priced_swap_def by (subst effective_reserves_pair) (simp add: Let_def del: quote_sell_simps)

lemma buy_priced_swap:
  "buy e rpc d a p payer = priced_swap e rpc p payer (\<lambda>info b q fees.
     build_buy_ixs e d (min_amount_out (quote_buy_exact_quote_in a b q fees DEFAULT_SLIPPAGE)) a True info payer False)"
  unfolding buy_def priced_swap_def by (subst effective_reserves_pair) (simp add: Let_def del: quote_buy_simps)

lemma priced_swap_InrE:
  assumes "priced_swap e rpc p payer build s = (Inr u, s')"
  obtains info b q s1 fees s2 ixs tx w sig where "fetch_pool_snapshot rpc p s = (Inr (info, b, q), s1)"
    and "can_quote_fees e info" and "fetch_pool_fees e rpc info b q s1 = (Inr fees, s2)"
    and "build info b (snd (effective_reserves info b q)) fees = Inr ixs"
    and "r_send_and_confirm_transaction rpc tx w = (Inr sig, env_chain s')" and "tx_payer tx = payer"
    and "set ixs \<subseteq> set (tx_instructions tx)"
proof -
  obtain info b q s1 fees s2 ixs where snap: "fetch_pool_snapshot rpc p s = (Inr (info, b, q), s1)"
    and fees: "fetch_pool_fees e rpc info b q s1 = (Inr fees, s2)"
    and ixs: "build info b (snd (effective_reserves info b q)) fees = Inr ixs"
    and sub: "submit rpc payer ([x_set_compute_unit_limit e 1000000, x_set_compute_unit_price e 100000] @ ixs) s2
      = (Inr u, s')"
    using assms by (auto simp: priced_swap_def io_bind_eq_Inr_iff)
  have can: "can_quote_fees e info"
    using fees by (auto simp: fetch_pool_fees_def split: if_splits)
  obtain bh w sig where "r_send_and_confirm_transaction rpc
      \<lparr>tx_instructions = [x_set_compute_unit_limit e 1000000, x_set_compute_unit_price e 100000] @ ixs,
       tx_payer = payer, tx_blockhash = bh\<rparr> w = (Inr sig, env_chain s')"
    using sub by (rule submit_InrE)
  from that [OF snap can fees ixs this] show ?thesis by auto
qed

text \<open>
  C1: a \<open>sell\<close> that returns has submitted one transaction, paid by the seller, that contains a
  pump-amm sell of exactly the requested amount whose minimum is at most what the program pays
  at the snapshot the sale was priced on, fees deducted, for outputs up to \<open>2 ^ 53\<close>; and the pool
  is one whose fees the crate can reproduce.
\<close>

theorem sell_submits_priced_minimum:
  assumes "sell e rpc d a p payer s = (Inr (), s')"
  shows "\<exists>info b q fees s1 s2 tx w sig m ix.
    fetch_pool_snapshot rpc p s = (Inr (info, b, q), s1) \<and> can_quote_fees e info \<and>
    fetch_pool_fees e rpc info b q s1 = (Inr fees, s2) \<and>
    r_send_and_confirm_transaction rpc tx w = (Inr sig, env_chain s') \<and> tx_payer tx = payer \<and>
    ix \<in> set (tx_instructions tx) \<and> ix_program_id ix = PUMP_SWAP_PROGRAM_ID e \<and>
    anchor_decode [51, 230, 133, 164, 1, 127, 131, 173] sell_args_read (ix_data ix) =
      Some (SellInstruction_new a m) \<and>
    (let gross = unat (snd (effective_reserves info b q)) * unat a div (unat b + unat a) in
     gross - exact_fee fees gross \<le> 2 ^ 53 \<longrightarrow> unat m \<le> gross - exact_fee fees gross)"
proof -
  let ?out = "\<lambda>b q fees. min_amount_out (quote_sell a b q fees DEFAULT_SLIPPAGE)"
  obtain info b q s1 fees s2 ixs tx w sig where
    snap: "fetch_pool_snapshot rpc p s = (Inr (info, b, q), s1)" "can_quote_fees e info"
      "fetch_pool_fees e rpc info b q s1 = (Inr fees, s2)"
    and ixs: "build_sell_ixs e d a (?out b (snd (effective_reserves info b q)) fees) info payer True = Inr ixs"
    and tx: "r_send_and_confirm_transaction rpc tx w = (Inr sig, env_chain s')" "tx_payer tx = payer"
      "set ixs \<subseteq> set (tx_instructions tx)"
    using assms unfolding sell_priced_swap by (rule priced_swap_InrE)
  obtain ix where ix: "ix \<in> set (tx_instructions tx)" "ix_program_id ix = PUMP_SWAP_PROGRAM_ID e"
    "anchor_decode [51, 230, 133, 164, 1, 127, 131, 173] sell_args_read (ix_data ix) =
      Some (SellInstruction_new a (?out b (snd (effective_reserves info b q)) fees))"
    using sell_data [OF ixs] tx(3) by blast
  let ?Q = "quote_sell a b (snd (effective_reserves info b q)) fees DEFAULT_SLIPPAGE"
  have "let gross = unat (snd (effective_reserves info b q)) * unat a div (unat b + unat a) in
     gross - exact_fee fees gross \<le> 2 ^ 53 \<longrightarrow> unat (min_amount_out ?Q) \<le> gross - exact_fee fees gross"
    using apply_slippage_le [of "amount_out ?Q" DEFAULT_SLIPPAGE]
      unat_sell_out [of a b "snd (effective_reserves info b q)" fees DEFAULT_SLIPPAGE]
    by (simp add: Let_def word_le_nat_alt del: quote_sell_simps(3))
  then show ?thesis using snap tx(1,2) ix by blast
qed

lemma submit_example: "\<exists>s'. submit sell_rpc_example payer ixs s = (Inr (), s')"
  by (simp add: submit_def io_bind_def rpc_call_def sell_rpc_example_def io_lift_def)

lemma priced_swap_example:
  assumes "\<And>b q fees. \<exists>ixs. build sell_info b q fees = Inr ixs"
  shows "\<exists>s'. priced_swap e sell_rpc_example spl_pool_example k build env_example = (Inr (), s')"
proof -
  obtain ixs where "build sell_info 1000000 (snd (effective_reserves sell_info 1000000 2000000))
      (flat_fees fee_config_example) = Inr ixs"
    using assms by blast
  then show ?thesis
    using submit_example
    by (simp add: priced_swap_def io_bind_def [of "fetch_pool_snapshot _ _"] sell_snapshot_example
        io_bind_def [of "fetch_pool_fees _ _ _ _ _"] sell_fees_example)
qed

lemma example_funds: "unat (rent (ext_example True)) + unat (5 :: u64) < 2 ^ 64"
  by (simp add: rent_def ext_example_def)

lemma sell_example:
  "\<exists>s'. sell (ext_example True) sell_rpc_example draws_example 5 spl_pool_example (key 1) env_example = (Inr (), s')"
proof -
  have tp: "token_program (ext_example True) sell_info = x_spl_token_ID (ext_example True)"
    by (simp add: token_program_def sell_info_def pool_info_of_def ext_example_def split: TokenSide.split)
  show ?thesis
    unfolding sell_priced_swap
    by (intro priced_swap_example build_sell_ok [OF choose_documented_example spl_token_documented_example
        tp example_seed example_funds])
qed

lemma buy_example:
  "\<exists>s'. buy (ext_example True) sell_rpc_example draws_example 5 spl_pool_example (key 1) env_example = (Inr (), s')"
  unfolding buy_priced_swap
  by (intro priced_swap_example build_buy_ok [OF choose_documented_example spl_token_documented_example
      example_seed example_funds])

theorem sell_submits_priced_minimum_witness:
  "\<exists>tx w sig w' m ix.
    r_send_and_confirm_transaction sell_rpc_example tx w = (Inr sig, w') \<and> tx_payer tx = key 1 \<and>
    ix \<in> set (tx_instructions tx) \<and> ix_program_id ix = PUMP_SWAP_PROGRAM_ID (ext_example True) \<and>
    anchor_decode [51, 230, 133, 164, 1, 127, 131, 173] sell_args_read (ix_data ix) =
      Some (SellInstruction_new 5 m)"
proof -
  obtain s' where s: "sell (ext_example True) sell_rpc_example draws_example 5 spl_pool_example (key 1)
      env_example = (Inr (), s')"
    using sell_example by blast
  from sell_submits_priced_minimum [OF s] show ?thesis
    by (elim exE conjE) (intro exI conjI; assumption)
qed

text \<open>
  C2: a \<open>buy\<close> that returns has submitted one transaction, paid by the buyer, that contains a
  pump-amm buy capped at exactly the amount to spend; and when fees are at most 100\% and the
  reserves are not empty, the amount of tokens it asks for can be bought within that cap at the
  snapshot it was priced on, for outputs up to \<open>2 ^ 53\<close>: the discounted exact-in quote is never
  too much to ask of the exact-out instruction.
\<close>

theorem buy_submits_affordable_request:
  assumes "buy e rpc d a p payer s = (Inr (), s')"
  shows "\<exists>info b q fees s1 s2 tx w sig y ix.
    fetch_pool_snapshot rpc p s = (Inr (info, b, q), s1) \<and> can_quote_fees e info \<and>
    fetch_pool_fees e rpc info b q s1 = (Inr fees, s2) \<and>
    r_send_and_confirm_transaction rpc tx w = (Inr sig, env_chain s') \<and> tx_payer tx = payer \<and>
    ix \<in> set (tx_instructions tx) \<and> ix_program_id ix = PUMP_SWAP_PROGRAM_ID e \<and>
    anchor_decode BuyInstruction_DISCRIMINATOR buy_args_read (ix_data ix) = Some (BuyInstruction_new y a True) \<and>
    (let eq = snd (effective_reserves info b q) in
     exact_bps fees \<le> 10000 \<and> 0 < b \<and> 0 < eq \<and> unat b \<le> 2 ^ 53 \<longrightarrow>
     (\<exists>R. quote_buy_exact_base_out y b eq fees DEFAULT_SLIPPAGE = Some R \<and> total_quote_in R \<le> a))"
proof -
  let ?Q = "\<lambda>b q fees. quote_buy_exact_quote_in a b q fees DEFAULT_SLIPPAGE"
  obtain info b q s1 fees s2 ixs tx w sig where
    snap: "fetch_pool_snapshot rpc p s = (Inr (info, b, q), s1)" "can_quote_fees e info"
      "fetch_pool_fees e rpc info b q s1 = (Inr fees, s2)"
    and ixs: "build_buy_ixs e d (min_amount_out (?Q b (snd (effective_reserves info b q)) fees)) a True info payer False
      = Inr ixs"
    and tx: "r_send_and_confirm_transaction rpc tx w = (Inr sig, env_chain s')" "tx_payer tx = payer"
      "set ixs \<subseteq> set (tx_instructions tx)"
    using assms unfolding buy_priced_swap by (rule priced_swap_InrE)
  let ?y = "min_amount_out (?Q b (snd (effective_reserves info b q)) fees)"
  obtain ix where ix: "ix \<in> set (tx_instructions tx)" "ix_program_id ix = PUMP_SWAP_PROGRAM_ID e"
    "anchor_decode BuyInstruction_DISCRIMINATOR buy_args_read (ix_data ix) = Some (BuyInstruction_new ?y a True)"
    using buy_data [OF ixs] tx(3) by blast
  have "?y \<le> amount_out (?Q b (snd (effective_reserves info b q)) fees)" if "unat b \<le> 2 ^ 53"
  proof -
    have "unat (amount_out (?Q b (snd (effective_reserves info b q)) fees)) \<le> 2 ^ 53"
      using cp_out_le that unfolding unat_buy_out by (rule order_trans)
    then show ?thesis by (simp add: apply_slippage_le)
  qed
  then have "let eq = snd (effective_reserves info b q) in
     exact_bps fees \<le> 10000 \<and> 0 < b \<and> 0 < eq \<and> unat b \<le> 2 ^ 53 \<longrightarrow>
     (\<exists>R. quote_buy_exact_base_out ?y b eq fees DEFAULT_SLIPPAGE = Some R \<and> total_quote_in R \<le> a)"
    unfolding Let_def by (intro impI buy_request_affordable [where s = DEFAULT_SLIPPAGE]) blast+
  then show ?thesis using snap tx(1,2) ix by blast
qed

theorem buy_submits_affordable_request_witness:
  "\<exists>tx w sig w' y ix R.
    r_send_and_confirm_transaction sell_rpc_example tx w = (Inr sig, w') \<and> tx_payer tx = key 1 \<and>
    ix \<in> set (tx_instructions tx) \<and>
    anchor_decode BuyInstruction_DISCRIMINATOR buy_args_read (ix_data ix) = Some (BuyInstruction_new y 5 True) \<and>
    quote_buy_exact_base_out y 1000000 2000000 (flat_fees fee_config_example) DEFAULT_SLIPPAGE = Some R \<and>
    total_quote_in R \<le> 5"
proof -
  obtain s' where s: "buy (ext_example True) sell_rpc_example draws_example 5 spl_pool_example (key 1)
      env_example = (Inr (), s')"
    using buy_example by blast
  have eff: "snd (effective_reserves sell_info 1000000 2000000) = 2000000"
    using effective_quote_reserve [of sell_info 1000000 2000000]
    by (simp add: sell_info_def pool_info_of_def word_unat_eq_iff)
  have bps: "exact_bps (flat_fees fee_config_example) \<le> 10000"
    by (simp add: exact_bps_def fee_config_example_def)
  from buy_submits_affordable_request [OF s] bps show ?thesis
    by (elim exE conjE) (simp add: sell_snapshot_example sell_fees_example eff Let_def, blast)
qed

text \<open>
  C3: a pool whose fee schedule the crate cannot reproduce is never traded: once the snapshot
  shows such a pool, every operation that prices a swap ends with the error that names it, and
  makes no further call to the endpoint, so nothing is submitted or simulated.
\<close>

theorem unquotable_never_traded:
  assumes "fetch_pool_snapshot rpc p s = (Inr (info, b, q), s1)" and "\<not> can_quote_fees e info"
  shows "sell e rpc d a p payer s = (Inl (CannotQuoteFees (pi_pool info) (quote_mint info)), s1) \<and>
    buy e rpc d a p payer s = (Inl (CannotQuoteFees (pi_pool info) (quote_mint info)), s1) \<and>
    simulate_sell e rpc d p a payer s = (Inl (CannotQuoteFees (pi_pool info) (quote_mint info)), s1) \<and>
    simulate_buy e rpc d p a payer s = (Inl (CannotQuoteFees (pi_pool info) (quote_mint info)), s1) \<and>
    quote_token_buy e rpc a p slip s = (Inl (CannotQuoteFees (pi_pool info) (quote_mint info)), s1) \<and>
    quote_token_sell e rpc a p slip s = (Inl (CannotQuoteFees (pi_pool info) (quote_mint info)), s1)"
  using assms
  by (simp add: sell_def buy_def simulate_sell_def simulate_buy_def quote_token_buy_def quote_token_sell_def
      io_bind_def [of "fetch_pool_snapshot _ _"] io_bind_def [of "fetch_pool_fees _ _ _ _ _"]
      fetch_pool_fees_guard)

text \<open>The snapshot of a pool with a coin creator and a quote mint other than WSOL.\<close>

definition unquotable_rpc_example :: "nat rpc" where
  "unquotable_rpc_example = sell_rpc_example\<lparr>r_get_multiple_accounts := (\<lambda>ks w.
     (Inr [account_with (replicate 8 0 @ enc_pool pool_struct_example),
           account_with (replicate 64 0 @ to_le_bytes (1000000 :: u64)),
           account_with (replicate 64 0 @ to_le_bytes (2000000 :: u64))], Suc w))\<rparr>"

theorem unquotable_never_traded_witness:
  "sell (ext_example True) unquotable_rpc_example draws_example 5 spl_pool_example (key 1) env_example =
    (Inl (CannotQuoteFees (key 1) (key 5)), \<lparr>env_chain = 1, env_slept = []\<rparr>)"
proof -
  let ?info = "pool_info_of (key 1) pool_struct_example 245 0 0 False 0 0 (pad32 [6]) (pad32 [6])"
  have info: "pool_info_from_account_data (pi_pool spl_pool_example) (replicate 8 0 @ enc_pool pool_struct_example)
      (base_token_program spl_pool_example) (quote_token_program spl_pool_example) = Inr ?info"
    using pool_info_legacy [OF _ pool_ok_example, of "replicate 8 0"]
    by (simp add: spl_pool_example_def pool_example_def pool_info_of_def)
  have snap: "fetch_pool_snapshot unquotable_rpc_example spl_pool_example env_example =
      (Inr (?info, 1000000, 2000000), \<lparr>env_chain = 1, env_slept = []\<rparr>)"
    by (simp add: fetch_pool_snapshot_def Let_def io_bind_def [of "rpc_call _"] rpc_call_def
        unquotable_rpc_example_def account_with_def info token_account_amount_eq field_def numeral_2_eq_2
        env_example_def io_lift_def)
  have "\<not> can_quote_fees (ext_example True) ?info"
    by (simp add: can_quote_fees_def is_tiered_fee_pool_def pool_info_of_def
        pool_struct_example_def pubkey_default_def WRAPPED_SOL_MINT_def ext_example_def pad32_def
        Cons_replicate_eq eq_commute [of "replicate n (5 :: u8)" for n])
  from unquotable_never_traded [OF snap this] show ?thesis
    by (simp add: pool_info_of_def pool_struct_example_def)
qed

section \<open>Closing the account that was paid\<close>

text \<open>
  C34: on a SOL-base pool a sell with \<open>close_spl_acc\<close>, which is how \<open>sell\<close> and \<open>simulate_sell\<close>
  always build it, ends by closing the very token account the swap has just paid into.
\<close>

theorem sell_closes_paid_account:
  assumes "sol_is_base e p" and "build_sell_ixs e d a m p payer True = Inr ixs"
  shows "\<exists>swap_ix \<in> set ixs. \<exists>close.
    ix_program_id swap_ix = PUMP_SWAP_PROGRAM_ID e \<and>
    user_accounts swap_ix ! 1 = meta_new (token_ata e p payer) False \<and>
    x_close_account e (token_program e p) (token_ata e p payer) payer payer = Inr close \<and> last ixs = close"
proof -
  obtain wsol seed lamports swap_ix close where
    s: "make_sell_instruction e (dr_fee d) (dr_buyback d) a m p payer wsol (token_ata e p payer) = Inr swap_ix"
    and c: "x_close_account e (token_program e p) (token_ata e p payer) payer payer = Inr close"
    and q: "swap_sequence e p payer wsol seed lamports [] swap_ix [close] ixs"
    using sell_builder.sequence [OF assms(2)] assms(1) by auto
  have "swap_ix \<in> set ixs" "last ixs = close" using q by (auto simp: swap_sequence_def)
  then show ?thesis using c swap_instructions_user(3) [OF s] by auto
qed

theorem sell_closes_paid_account_witness:
  "\<exists>ixs. let e = ext_example True; p = spl_pool_example\<lparr>base_mint := WRAPPED_SOL_MINT e\<rparr> in
    build_sell_ixs e draws_example 5 0 p (key 1) True = Inr ixs \<and>
    (\<exists>swap_ix \<in> set ixs. user_accounts swap_ix ! 1 = meta_new (token_ata e p (key 1)) False)"
proof -
  let ?e = "ext_example True"
  let ?p = "spl_pool_example\<lparr>base_mint := WRAPPED_SOL_MINT ?e\<rparr>"
  have base: "sol_is_base ?e ?p" by (simp add: sol_is_base_def)
  have tp: "token_program ?e ?p = x_spl_token_ID ?e"
    by (simp add: token_program_def spl_pool_example_def ext_example_def split: TokenSide.split)
  have rent: "unat (rent ?e) + unat (5 :: u64) < 2 ^ 64" by (simp add: rent_def ext_example_def)
  obtain ixs where ixs: "build_sell_ixs ?e draws_example 5 0 ?p (key 1) True = Inr ixs"
    using build_sell_ok [OF choose_documented_example spl_token_documented_example tp example_seed rent] by blast
  from sell_closes_paid_account [OF base ixs] ixs show ?thesis unfolding Let_def by blast
qed

section \<open>Liquidity\<close>

lemma lp_share_eq:
  assumes "unat balance \<le> 2 ^ 53" and "0 \<le> f" "f \<le> 1"
  shows "lp_share (Fin f) balance = u64_of_f64 (Fin (round_rat (of_nat (unat balance) * f)))"
proof -
  have "Fin f * f64_of_u64 balance = f64_of_u64 balance * Fin f"
    using assms(1) by (simp add: f64_of_u64_exact mult.commute)
  then show ?thesis by (simp add: lp_share_def scaled_amount(1) [OF assms])
qed

text \<open>
  Beyond \<open>2 ^ 53\<close> withdrawing the whole balance can ask for more LP tokens than there are.
\<close>

lemma lp_share_above_2_53: "lp_share 1 9007199254740995 = 9007199254740996"
  by (simp add: lp_share_def f64_of_u64_def odd_above_2_53 even_above_2_53 one_f64_def)

text \<open>
  C40: the amount a withdrawal burns, for a finite share between 0 and 1 of an LP balance up to
  \<open>2 ^ 53\<close>: never more than the balance, within two units of the exact share, nothing for
  the share 0 and the whole balance for the share 1. The bound on the balance is needed: at
  \<open>2 ^ 53 + 3\<close> the share 1 asks for one LP token more than there are.
\<close>

theorem lp_share_within_balance:
  assumes "unat balance \<le> 2 ^ 53" and "0 \<le> f" and "f \<le> 1"
  shows "lp_share (Fin f) balance \<le> balance \<and>
    \<bar>of_nat (unat (lp_share (Fin f) balance)) - of_nat (unat balance) * f\<bar> < 2 \<and>
    lp_share (Fin 0) balance = 0 \<and> lp_share (Fin 1) balance = balance \<and>
    lp_share 1 9007199254740995 = 9007199254740996"
proof -
  note sc = scaled_amount [OF assms]
  note floor = unat_u64_of_f64_floor [OF sc(2,3)]
  have "lp_share (Fin f) balance \<le> balance"
    unfolding lp_share_eq [OF assms] word_le_nat_alt by (rule floor(2))
  moreover have "(of_nat (unat (lp_share (Fin f) balance)) :: rat) =
      of_int \<lfloor>round_rat (of_nat (unat balance) * f)\<rfloor>"
    unfolding lp_share_eq [OF assms] using floor(1) sc(2) by simp
  then have "\<bar>of_nat (unat (lp_share (Fin f) balance)) - of_nat (unat balance) * f\<bar> < 2"
    using sc(4) by linarith
  moreover have "unat (lp_share (Fin 1) balance) = unat balance"
    using lp_share_eq [OF assms(1), of 1] round_rat_exact [OF _ representable_of_nat [OF assms(1)]]
      unat_u64_of_f64_floor(1) [of "of_nat (unat balance)" balance] by simp
  moreover have "unat (lp_share (Fin 0) balance) = 0"
    using lp_share_eq [OF assms(1), of 0] round_rat_exact [OF _ representable_of_nat [of 0]]
      unat_u64_of_f64_floor(1) [of 0 balance] by simp
  ultimately show ?thesis using lp_share_above_2_53 by (simp add: word_unat_eq_iff)
qed

theorem lp_share_within_balance_witness:
  "lp_share (Fin (1 / 3)) 1000 \<le> 1000 \<and> \<bar>of_nat (unat (lp_share (Fin (1 / 3)) 1000)) - 1000 / 3\<bar> < (2 :: rat)"
  using lp_share_within_balance [of 1000 "1 / 3"] by simp

text \<open>One transaction with these instructions was confirmed, paid by \<open>payer\<close>.\<close>

definition sent_by :: "'w rpc \<Rightarrow> pubkey \<Rightarrow> instruction list \<Rightarrow> 'w env \<Rightarrow> bool" where
  "sent_by rpc payer ixs s' \<longleftrightarrow> (\<exists>tx w sig. r_send_and_confirm_transaction rpc tx w = (Inr sig, env_chain s') \<and>
     tx_payer tx = payer \<and> tx_instructions tx = ixs)"

lemma submit_sent_by: "submit rpc payer ixs s = (Inr u, s') \<Longrightarrow> sent_by rpc payer ixs s'"
  by (elim submit_InrE) (unfold sent_by_def, intro exI conjI, assumption, simp_all)

abbreviation wsol_ata :: "ext \<Rightarrow> pubkey \<Rightarrow> pubkey" where
  "wsol_ata e payer \<equiv> x_get_ata e payer (WRAPPED_SOL_MINT e) (x_spl_token_ID e)"

lemma deposit_sent:
  assumes "deposit_into_wsol_pool e rpc p payer lp mb mq s = (Inr (), s')"
  shows "\<exists>pre sync lp_ata dep close.
    sent_by rpc payer (pre @ [x_transfer e payer (wsol_ata e payer) mq, sync, lp_ata, dep, close]) s' \<and>
    ix_program_id dep = PUMP_SWAP_PROGRAM_ID e \<and> meta_new (wsol_ata e payer) False \<in> set (ix_accounts dep) \<and>
    anchor_decode [242, 35, 198, 137, 82, 225, 242, 182] deposit_args_read (ix_data dep) =
      Some (DepositInstruction_new lp mb mq) \<and>
    x_sync_native e (x_spl_token_ID e) (wsol_ata e payer) = Inr sync \<and>
    x_close_account e (x_spl_token_ID e) (wsol_ata e payer) payer payer = Inr close"
proof -
  obtain dep extend sync close pre lp_ata s1 where
    dep: "make_deposit_instruction e lp mb mq p payer (x_get_ata e payer (base_mint p) (base_token_program p))
      (wsol_ata e payer) (fst (calc_user_pool_token_account e payer (lp_mint p))) = Inr dep"
    and ixs: "x_sync_native e (x_spl_token_ID e) (wsol_ata e payer) = Inr sync"
      "x_close_account e (x_spl_token_ID e) (wsol_ata e payer) payer payer = Inr close"
    and sub: "submit rpc payer (opt_list extend @ [x_create_ata_idempotent e payer payer (base_mint p) (base_token_program p),
        x_create_ata_idempotent e payer payer (WRAPPED_SOL_MINT e) (x_spl_token_ID e),
        x_transfer e payer (wsol_ata e payer) mq, sync,
        x_create_ata_idempotent e payer payer (lp_mint p) (x_spl_token_2022_ID e), dep, close]) s1 = (Inr (), s')"
    using assms by (auto simp: deposit_into_wsol_pool_def Let_def io_bind_eq_Inr_iff)
  have ok: "deposit_args_ok (DepositInstruction_new lp mb mq)"
    by (simp add: deposit_args_ok_def DepositInstruction_new_def)
  have "ix_program_id dep = PUMP_SWAP_PROGRAM_ID e" "meta_new (wsol_ata e payer) False \<in> set (ix_accounts dep)"
    "ix_data dep = DepositInstruction_to_vec (DepositInstruction_new lp mb mq)"
    using dep by (auto simp: make_deposit_instruction_def Let_def)
  then show ?thesis
    using ixs submit_sent_by [OF sub] deposit_args.roundtrip [OF ok]
    by (metis append_Cons append_Nil append_assoc)
qed

lemma create_pool_sent:
  assumes "create_wsol_pool_with_options e rpc i x y cc bm btp m cb payer s = (Inr (), s')"
  shows "\<exists>wsol_ix sync ata1 ata2 create close.
    sent_by rpc payer [wsol_ix, x_transfer e payer (wsol_ata e payer) y, sync, ata1, ata2, create, close] s' \<and>
    ix_program_id create = PUMP_SWAP_PROGRAM_ID e \<and> meta_new (wsol_ata e payer) False \<in> set (ix_accounts create) \<and>
    (pk_ok cc \<longrightarrow> anchor_decode [233, 146, 209, 142, 207, 104, 64, 188] create_pool_args_read (ix_data create) =
      Some (CreatePoolInstruction_new_with_options i x y cc m cb)) \<and>
    x_sync_native e (x_spl_token_ID e) (wsol_ata e payer) = Inr sync \<and>
    x_close_account e (x_spl_token_ID e) (wsol_ata e payer) payer payer = Inr close"
proof -
  obtain create sync close wsol_ix ata1 ata2 s1 pool cp ub where
    create: "create_pool_instruction_with_options e i x y m cb pool payer cc bm (WRAPPED_SOL_MINT e) ub
      (wsol_ata e payer) cp (x_get_ata e pool (WRAPPED_SOL_MINT e) (x_spl_token_ID e)) btp (x_spl_token_ID e) = Inr create"
    and ixs: "x_sync_native e (x_spl_token_ID e) (wsol_ata e payer) = Inr sync"
      "x_close_account e (x_spl_token_ID e) (wsol_ata e payer) payer payer = Inr close"
    and sub: "submit rpc payer [wsol_ix, x_transfer e payer (wsol_ata e payer) y, sync, ata1, ata2, create, close] s1
      = (Inr (), s')"
    using assms by (auto simp: create_wsol_pool_with_options_def Let_def io_bind_eq_Inr_iff)
  have "ix_program_id create = PUMP_SWAP_PROGRAM_ID e" "meta_new (wsol_ata e payer) False \<in> set (ix_accounts create)"
    "ix_data create = CreatePoolInstruction_to_vec (CreatePoolInstruction_new_with_options i x y cc m cb)"
    using create by (auto simp: create_pool_instruction_with_options_def Let_def)
  moreover have "pk_ok cc \<longrightarrow> anchor_decode [233, 146, 209, 142, 207, 104, 64, 188] create_pool_args_read
      (CreatePoolInstruction_to_vec (CreatePoolInstruction_new_with_options i x y cc m cb)) =
      Some (CreatePoolInstruction_new_with_options i x y cc m cb)"
    using liquidity_data_roundtrip [of cc x y 0 i m cb] by simp
  ultimately show ?thesis using ixs submit_sent_by [OF sub] by metis
qed

lemma withdraw_sent:
  assumes "withdraw_from_wsol_pool e rpc pool bm payer pct mb mq s = (Inr (), s')"
  shows "\<exists>balance base_ix wsol_ix wd close tb w.
    sent_by rpc payer [base_ix, wsol_ix, wd, close] s' \<and>
    r_get_token_account_balance rpc (fst (calc_user_pool_token_account e payer (fst (calc_lp_mint_pda e pool))))
      (env_chain s) = (Inr tb, w) \<and>
    parse_u64 (tb_amount tb) = Inr balance \<and> balance \<noteq> 0 \<and>
    ix_program_id wd = PUMP_SWAP_PROGRAM_ID e \<and> meta_new (wsol_ata e payer) False \<in> set (ix_accounts wd) \<and>
    anchor_decode [183, 18, 70, 156, 148, 109, 161, 34] withdraw_args_read (ix_data wd) =
      Some (WithdrawInstruction_new (lp_share pct balance) mb mq) \<and>
    x_close_account e (x_spl_token_ID e) (wsol_ata e payer) payer payer = Inr close"
proof -
  obtain tb w balance base_ix wsol_ix wd close base_ata s1 where
    bal: "r_get_token_account_balance rpc (fst (calc_user_pool_token_account e payer (fst (calc_lp_mint_pda e pool))))
      (env_chain s) = (Inr tb, w)" "parse_u64 (tb_amount tb) = Inr balance" "balance \<noteq> 0"
    and wd: "withdraw_instruction e pool payer bm base_ata (wsol_ata e payer) (lp_share pct balance) mb mq = Inr wd"
    and close: "x_close_account e (x_spl_token_ID e) (wsol_ata e payer) payer payer = Inr close"
    and sub: "submit rpc payer [base_ix, wsol_ix, wd, close] s1 = (Inr (), s')"
    using assms
    by (auto simp: withdraw_from_wsol_pool_def Let_def io_bind_eq_Inr_iff rpc_call_eq_Inr_iff split: if_splits)
  have ok: "withdraw_args_ok (WithdrawInstruction_new (lp_share pct balance) mb mq)"
    by (simp add: withdraw_args_ok_def WithdrawInstruction_new_def)
  have "ix_program_id wd = PUMP_SWAP_PROGRAM_ID e" "meta_new (wsol_ata e payer) False \<in> set (ix_accounts wd)"
    "ix_data wd = WithdrawInstruction_to_vec (WithdrawInstruction_new (lp_share pct balance) mb mq)"
    using wd by (auto simp: withdraw_instruction_def Let_def)
  then show ?thesis
    using bal close submit_sent_by [OF sub] withdraw_args.roundtrip [OF ok] by metis
qed

text \<open>
  C33: the liquidity operations submit one transaction in which the payer's WSOL account is
  handled safely. A deposit and a pool creation fund it with exactly the quote amount their
  instruction may take, sync it, run the instruction on it, and close it to the payer last; a
  withdrawal asks for the share of a nonzero LP balance that was just read, is paid into that
  account, and closes it to the payer last.
\<close>

theorem liquidity_transactions:
  "(deposit_into_wsol_pool e rpc p payer lp mb mq s = (Inr (), s') \<longrightarrow>
     (\<exists>pre sync lp_ata dep close.
      sent_by rpc payer (pre @ [x_transfer e payer (wsol_ata e payer) mq, sync, lp_ata, dep, close]) s' \<and>
      ix_program_id dep = PUMP_SWAP_PROGRAM_ID e \<and> meta_new (wsol_ata e payer) False \<in> set (ix_accounts dep) \<and>
      anchor_decode [242, 35, 198, 137, 82, 225, 242, 182] deposit_args_read (ix_data dep) =
        Some (DepositInstruction_new lp mb mq) \<and>
      x_sync_native e (x_spl_token_ID e) (wsol_ata e payer) = Inr sync \<and>
      x_close_account e (x_spl_token_ID e) (wsol_ata e payer) payer payer = Inr close)) \<and>
   (create_wsol_pool_with_options e rpc i x y cc bm btp m cb payer s = (Inr (), s') \<longrightarrow>
     (\<exists>wsol_ix sync ata1 ata2 create close.
      sent_by rpc payer [wsol_ix, x_transfer e payer (wsol_ata e payer) y, sync, ata1, ata2, create, close] s' \<and>
      ix_program_id create = PUMP_SWAP_PROGRAM_ID e \<and> meta_new (wsol_ata e payer) False \<in> set (ix_accounts create) \<and>
      (pk_ok cc \<longrightarrow> anchor_decode [233, 146, 209, 142, 207, 104, 64, 188] create_pool_args_read (ix_data create) =
        Some (CreatePoolInstruction_new_with_options i x y cc m cb)) \<and>
      x_sync_native e (x_spl_token_ID e) (wsol_ata e payer) = Inr sync \<and>
      x_close_account e (x_spl_token_ID e) (wsol_ata e payer) payer payer = Inr close)) \<and>
   (withdraw_from_wsol_pool e rpc pool bm payer pct mb mq s = (Inr (), s') \<longrightarrow>
     (\<exists>balance base_ix wsol_ix wd close tb w.
      sent_by rpc payer [base_ix, wsol_ix, wd, close] s' \<and>
      r_get_token_account_balance rpc (fst (calc_user_pool_token_account e payer (fst (calc_lp_mint_pda e pool))))
        (env_chain s) = (Inr tb, w) \<and>
      parse_u64 (tb_amount tb) = Inr balance \<and> balance \<noteq> 0 \<and>
      ix_program_id wd = PUMP_SWAP_PROGRAM_ID e \<and> meta_new (wsol_ata e payer) False \<in> set (ix_accounts wd) \<and>
      anchor_decode [183, 18, 70, 156, 148, 109, 161, 34] withdraw_args_read (ix_data wd) =
        Some (WithdrawInstruction_new (lp_share pct balance) mb mq) \<and>
      x_close_account e (x_spl_token_ID e) (wsol_ata e payer) payer payer = Inr close))"
  by (intro conjI impI deposit_sent create_pool_sent withdraw_sent)

theorem liquidity_transactions_witness:
  "\<exists>base_ix wsol_ix wd close s'.
    withdraw_from_wsol_pool (ext_example True) sell_rpc_example (key 1) (key 4) (key 20) 1 2 3 env_example = (Inr (), s') \<and>
    sent_by sell_rpc_example (key 20) [base_ix, wsol_ix, wd, close] s' \<and>
    anchor_decode [183, 18, 70, 156, 148, 109, 161, 34] withdraw_args_read (ix_data wd) =
      Some (WithdrawInstruction_new (lp_share 1 7) 2 3)"
proof -
  let ?e = "ext_example True"
  have parse: "parse_u64 ''7'' = Inr 7" by (simp add: parse_u64_def)
  obtain close where close: "x_close_account ?e (x_spl_token_ID ?e) (wsol_ata ?e (key 20)) (key 20) (key 20) = Inr close"
    using builder_parts_ok(5) [OF choose_documented_example spl_token_documented_example] by blast
  have bal: "r_get_token_account_balance sell_rpc_example k w = (Inr \<lparr>tb_amount = ''7'', tb_ui_amount = None\<rparr>, w)" for k w
    by (simp add: sell_rpc_example_def)
  have "\<exists>s'. withdraw_from_wsol_pool ?e sell_rpc_example (key 1) (key 4) (key 20) 1 2 3 env_example = (Inr (), s')"
    using submit_example by (simp add: withdraw_from_wsol_pool_def Let_def io_bind_def [of "rpc_call _"] rpc_call_def bal
        parse close withdraw_instruction_def)
  then obtain s' where run:
    "withdraw_from_wsol_pool ?e sell_rpc_example (key 1) (key 4) (key 20) 1 2 3 env_example = (Inr (), s')"
    by blast
  from liquidity_transactions [THEN conjunct2, THEN conjunct2, THEN mp, OF run]
  obtain balance base_ix wsol_ix wd close' tb w where
    "sent_by sell_rpc_example (key 20) [base_ix, wsol_ix, wd, close'] s'"
    "r_get_token_account_balance sell_rpc_example
      (fst (calc_user_pool_token_account ?e (key 20) (fst (calc_lp_mint_pda ?e (key 1))))) (env_chain env_example) =
      (Inr tb, w)"
    "parse_u64 (tb_amount tb) = Inr balance"
    "anchor_decode [183, 18, 70, 156, 148, 109, 161, 34] withdraw_args_read (ix_data wd) =
      Some (WithdrawInstruction_new (lp_share 1 balance) 2 3)"
    by (elim exE conjE)
  moreover from this have "balance = 7" by (auto simp: bal parse)
  ultimately show ?thesis using run by blast
qed

section \<open>The creator-fee payout\<close>

definition curve_sweep :: "ext \<Rightarrow> pubkey \<Rightarrow> pubkey \<Rightarrow> pubkey \<Rightarrow> pubkey \<Rightarrow> instruction res" where
  "curve_sweep e payer mint qm qt =
     sweep_bonding_curve_creator_fee_instruction e payer mint (sharing_config_pda e mint) qm qt"

text \<open>
  Which sweeps run. With no pool account there is exactly the curve sweep; with one there
  is the pool sweep, preceded by the curve sweep exactly when a fee is left on the curve; a
  curve account without the bonding-curve discriminator fails the build.
\<close>

lemma creator_fee_sweep_cases:
  assumes "r_get_multiple_accounts rpc [bonding_curve_pda e mint, canonical_pool_pda e mint qm] (env_chain s) =
      (Inr [curve, pool], w)"
  shows "fst (build_creator_fee_sweep_ixs e rpc payer mint qm qt s) =
    bindE (case curve of None \<Rightarrow> Inr 0 | Some c \<Rightarrow> bonding_curve_creator_fee (acc_data c)) (\<lambda>fee.
      case pool of
        None \<Rightarrow> bindE (curve_sweep e payer mint qm qt) (\<lambda>ix. Inr [ix])
      | Some a \<Rightarrow>
          bindE (pool_info_from_account_data (canonical_pool_pda e mint qm) (acc_data a) qt qt) (\<lambda>info.
          bindE (sweep_pool_creator_fee_instruction e payer info) (\<lambda>pool_ix.
          if fee = 0 then Inr [pool_ix]
          else bindE (curve_sweep e payer mint qm qt) (\<lambda>curve_ix. Inr [curve_ix, pool_ix]))))"
proof -
  have call: "rpc_call (r_get_multiple_accounts rpc [bonding_curve_pda e mint, canonical_pool_pda e mint qm]) s =
      (Inr [curve, pool], s\<lparr>env_chain := w\<rparr>)"
    using assms by (rule rpc_call_eq)
  obtain cix where cix:
    "sweep_bonding_curve_creator_fee_instruction e payer mint (sharing_config_pda e mint) qm qt = Inr cix"
    by (simp add: sweep_bonding_curve_creator_fee_instruction_def Let_def)
  have pix: "\<exists>ix. sweep_pool_creator_fee_instruction e payer info = Inr ix" for info
    by (simp add: sweep_pool_creator_fee_instruction_def Let_def)
  let ?fee = "case curve of None \<Rightarrow> Inr 0 | Some c \<Rightarrow> bonding_curve_creator_fee (acc_data c)"
  show ?thesis
  proof (cases ?fee)
    case (Inl err)
    then show ?thesis
      by (simp add: build_creator_fee_sweep_ixs_def Let_def io_bind_def [of "rpc_call _"] call) (simp add: io_lift_def)
  next
    case fee: (Inr fee)
    show ?thesis
    proof (cases pool)
      case None
      then show ?thesis
        using fee cix
        by (simp add: build_creator_fee_sweep_ixs_def Let_def io_bind_def [of "rpc_call _"] call
            curve_sweep_def) (simp add: io_lift_def)
    next
      case (Some a)
      show ?thesis
      proof (cases "pool_info_from_account_data (canonical_pool_pda e mint qm) (acc_data a) qt qt")
        case (Inl err)
        then show ?thesis
          using fee cix Some
          by (cases "fee = 0") (simp_all add: build_creator_fee_sweep_ixs_def Let_def
            io_bind_def [of "rpc_call _"] call curve_sweep_def word_gt_0, simp_all add: io_lift_def)
      next
        case (Inr info)
        moreover obtain ix where "sweep_pool_creator_fee_instruction e payer info = Inr ix"
          using pix by blast
        ultimately show ?thesis
          using fee cix Some
          by (cases "fee = 0") (simp_all add: build_creator_fee_sweep_ixs_def Let_def
            io_bind_def [of "rpc_call _"] call curve_sweep_def word_gt_0, simp_all add: io_lift_def)
      qed
    qed
  qed
qed

lemma creator_fee_sweep_count:
  assumes "build_creator_fee_sweep_ixs e rpc payer mint qm qt s = (Inr ixs, s')"
  shows "length ixs \<in> {1, 2}"
  using assms
  by (auto simp: build_creator_fee_sweep_ixs_def Let_def io_bind_eq_Inr_iff bindE_eq_Inr_iff
      split: if_splits option.splits)

text \<open>
  C32: a payout that is built starts with one or two sweeps, and pays exactly the shareholders of
  an active sharing config, in the stored order, after the transfer to pump.fun's vault.
\<close>

theorem creator_fee_payout:
  assumes "build_creator_fee_withdraw_ixs e rpc payer mint s = (Inr ixs, s')"
  shows "\<exists>config s1 sweeps transfer distribute.
    fetch_sharing_config e rpc mint s = (Inr (Some config), s1) \<and> sc_status config = Active \<and>
    build_creator_fee_sweep_ixs e rpc payer mint (WRAPPED_SOL_MINT e) (x_spl_token_ID e) s1 = (Inr sweeps, s') \<and>
    ixs = sweeps @ [transfer, distribute] \<and> length sweeps \<in> {1, 2} \<and>
    transfer_creator_fees_to_pump_instruction e (sharing_config_pda e mint) = Inr transfer \<and>
    ix_program_id distribute = PUMPFUN_PROGRAM e \<and>
    drop 7 (ix_accounts distribute) = map (\<lambda>h. meta_new (sh_address h) False) (shareholders config)"
proof -
  obtain config s1 sweeps transfer distribute where
    f: "fetch_sharing_config e rpc mint s = (Inr (Some config), s1)" "sharing_config_is_active config"
    and b: "build_creator_fee_sweep_ixs e rpc payer mint (WRAPPED_SOL_MINT e) (x_spl_token_ID e) s1 = (Inr sweeps, s')"
    and t: "transfer_creator_fees_to_pump_instruction e (sharing_config_pda e mint) = Inr transfer"
    and d: "distribute_creator_fees_instruction e mint (map sh_address (shareholders config)) = Inr distribute"
    and i: "ixs = sweeps @ [transfer, distribute]"
    using assms
    by (auto simp: build_creator_fee_withdraw_ixs_def active_shareholders_def io_bind_eq_Inr_iff
        ok_or_eq_Inr_iff split: if_splits)
  have "ix_program_id distribute = PUMPFUN_PROGRAM e"
    "drop 7 (ix_accounts distribute) = map (\<lambda>h. meta_new (sh_address h) False) (shareholders config)"
    using d by (auto simp: distribute_creator_fees_instruction_def Let_def)
  then show ?thesis
    using f b t i creator_fee_sweep_count [OF b] by (auto simp: sharing_config_is_active_def)
qed

text \<open>A coin with two shareholders, still on its curve.\<close>

definition sharing_example :: SharingConfig where
  "sharing_example = \<lparr>sc_bump = 1, sc_version = 1, sc_status = Active, sc_mint = key 2, sc_admin = key 3,
     admin_revoked = False,
     shareholders = [\<lparr>sh_address = key 30, share_bps = 6000\<rparr>, \<lparr>sh_address = key 31, share_bps = 4000\<rparr>]\<rparr>"

definition payout_rpc_example :: "nat rpc" where
  "payout_rpc_example = sell_rpc_example\<lparr>
     r_get_account := \<lambda>k w.
       (Inr (account_with (SHARING_CONFIG_DISCRIMINATOR @ enc_sharing_config sharing_example)), Suc w),
     r_get_multiple_accounts := \<lambda>ks w. (Inr [None, None], Suc w)\<rparr>"

lemma sharing_example_decodes:
  "sharing_config_from_account_data (SHARING_CONFIG_DISCRIMINATOR @ enc_sharing_config sharing_example) =
    Inr sharing_example"
proof -
  have "length (SHARING_CONFIG_DISCRIMINATOR @ enc_sharing_config sharing_example) < 2 ^ 64"
    by (simp add: SHARING_CONFIG_DISCRIMINATOR_def enc_sharing_config_def sharing_example_def
        enc_config_status_def enc_vec_def enc_shareholder_def enc_bool_def)
  then show ?thesis
    by (simp add: sharing_config_decode_iff) (simp add: sharing_config_ok_def sharing_example_def vec_ok_def)
qed

theorem creator_fee_payout_witness:
  "\<exists>ixs sweeps transfer distribute s'.
    build_creator_fee_withdraw_ixs (ext_example True) payout_rpc_example (key 1) (key 2) env_example = (Inr ixs, s') \<and>
    ixs = sweeps @ [transfer, distribute] \<and>
    drop 7 (ix_accounts distribute) = [meta_new (key 30) False, meta_new (key 31) False]"
proof -
  let ?e = "ext_example True"
  have fetch: "fetch_sharing_config ?e payout_rpc_example (key 2) s =
      (Inr (Some sharing_example), s\<lparr>env_chain := Suc (env_chain s)\<rparr>)" for s
    by (simp add: fetch_sharing_config_def io_bind_def rpc_call_def payout_rpc_example_def account_with_def
        map_transpose_def sharing_example_decodes io_lift_def)
  have active: "sharing_config_is_active sharing_example"
    by (simp add: sharing_config_is_active_def sharing_example_def)
  have holders: "active_shareholders ?e payout_rpc_example (key 2) s =
      (Inr (map sh_address (shareholders sharing_example)), s\<lparr>env_chain := Suc (env_chain s)\<rparr>)" for s
    by (simp add: active_shareholders_def io_bind_def [of "fetch_sharing_config _ _ _"] fetch active)
  have two: "r_get_multiple_accounts payout_rpc_example = (\<lambda>ks w. (Inr [None, None], Suc w))"
    by (simp add: payout_rpc_example_def)
  obtain cix where cix: "sweep_bonding_curve_creator_fee_instruction ?e (key 1) (key 2)
      (sharing_config_pda ?e (key 2)) (WRAPPED_SOL_MINT ?e) (x_spl_token_ID ?e) = Inr cix"
    by (simp add: sweep_bonding_curve_creator_fee_instruction_def Let_def)
  have sweeps: "build_creator_fee_sweep_ixs ?e payout_rpc_example (key 1) (key 2) (WRAPPED_SOL_MINT ?e)
      (x_spl_token_ID ?e) s = (Inr [cix], s\<lparr>env_chain := Suc (env_chain s)\<rparr>)" for s
    by (simp add: build_creator_fee_sweep_ixs_def Let_def io_bind_def [of "rpc_call _"] rpc_call_def two cix)
  obtain t d where "transfer_creator_fees_to_pump_instruction ?e (sharing_config_pda ?e (key 2)) = Inr t"
    "distribute_creator_fees_instruction ?e (key 2) (map sh_address (shareholders sharing_example)) = Inr d"
    by (simp add: transfer_creator_fees_to_pump_instruction_def distribute_creator_fees_instruction_def Let_def)
  then obtain ixs s' where ixs:
    "build_creator_fee_withdraw_ixs ?e payout_rpc_example (key 1) (key 2) env_example = (Inr ixs, s')"
    by (simp add: build_creator_fee_withdraw_ixs_def io_bind_def [of "active_shareholders _ _ _"] holders
        io_bind_def [of "build_creator_fee_sweep_ixs _ _ _ _ _ _"] sweeps io_lift_def)
  obtain config s1 sweeps transfer distribute where
    "fetch_sharing_config ?e payout_rpc_example (key 2) env_example = (Inr (Some config), s1)"
    "ixs = sweeps @ [transfer, distribute]"
    "drop 7 (ix_accounts distribute) = map (\<lambda>h. meta_new (sh_address h) False) (shareholders config)"
    using creator_fee_payout [OF ixs] by blast
  then show ?thesis using ixs by (simp add: fetch) (auto simp: sharing_example_def)
qed

end
