(* ===== verification/Endpoint.thy ===== *)
theory Endpoint
  imports Client
begin

text \<open>
  Which calls an operation makes of the RPC endpoint. \<open>traced\<close> wraps any endpoint in one that
  answers the same and keeps the list of calls; the locale \<open>traced_endpoint\<close> states what such an
  endpoint promises, and its lemmas follow the calls of every operation through its binds: the
  reads only read, a simulation submits nothing, and an operation that submits does it once, as
  its last call, with a transaction of the payer.
\<close>

section \<open>Calls\<close>

datatype call =
    GetAccountData pubkey
  | GetMultipleAccounts "pubkey list"
  | GetAccount pubkey
  | GetTokenAccountBalance pubkey
  | GetBalance pubkey
  | GetLatestBlockhash
  | SimulateTransaction transaction
  | SimulateTransactionWithConfig message sim_config
  | SendAndConfirmTransaction transaction

fun is_read :: "call \<Rightarrow> bool" where
  "is_read GetLatestBlockhash = False"
| "is_read (SimulateTransaction _) = False"
| "is_read (SimulateTransactionWithConfig _ _) = False"
| "is_read (SendAndConfirmTransaction _) = False"
| "is_read _ = True"

definition observe :: "call \<Rightarrow> ('w \<Rightarrow> 'a \<times> 'w) \<Rightarrow> 'w \<times> call list \<Rightarrow> 'a \<times> ('w \<times> call list)" where
  "observe c f w = (case f (fst w) of (r, w') \<Rightarrow> (r, (w', snd w @ [c])))"

definition traced :: "'w rpc \<Rightarrow> ('w \<times> call list) rpc" where
  "traced rpc = \<lparr>
     r_get_account_data = (\<lambda>k. observe (GetAccountData k) (r_get_account_data rpc k)),
     r_get_multiple_accounts = (\<lambda>ks. observe (GetMultipleAccounts ks) (r_get_multiple_accounts rpc ks)),
     r_get_account = (\<lambda>k. observe (GetAccount k) (r_get_account rpc k)),
     r_get_token_account_balance =
       (\<lambda>k. observe (GetTokenAccountBalance k) (r_get_token_account_balance rpc k)),
     r_get_latest_blockhash = observe GetLatestBlockhash (r_get_latest_blockhash rpc),
     r_simulate_transaction = (\<lambda>tx. observe (SimulateTransaction tx) (r_simulate_transaction rpc tx)),
     r_send_and_confirm_transaction =
       (\<lambda>tx. observe (SendAndConfirmTransaction tx) (r_send_and_confirm_transaction rpc tx)),
     r_get_balance = (\<lambda>k. observe (GetBalance k) (r_get_balance rpc k)),
     r_simulate_transaction_with_config =
       (\<lambda>m c. observe (SimulateTransactionWithConfig m c) (r_simulate_transaction_with_config rpc m c))\<rparr>"

text \<open>
  \<open>makes calls P m\<close>: whatever state it starts in, the calls \<open>m\<close> adds and its result satisfy \<open>P\<close>.
\<close>

definition makes :: "('w \<Rightarrow> call list) \<Rightarrow> ('a res \<Rightarrow> call list \<Rightarrow> bool) \<Rightarrow> ('w, 'a) io \<Rightarrow> bool" where
  "makes calls P m \<longleftrightarrow> (\<forall>s. \<exists>cs.
     calls (env_chain (snd (m s))) = calls (env_chain s) @ cs \<and> P (fst (m s)) cs)"

definition only_reads :: "'a res \<Rightarrow> call list \<Rightarrow> bool" where
  "only_reads r cs \<longleftrightarrow> list_all is_read cs"

text \<open>
  Reads, then a blockhash, then one act on a transaction of \<open>payer\<close>; all of it on success, a
  prefix of it on failure.
\<close>

definition acts_last :: "(transaction \<Rightarrow> call) \<Rightarrow> pubkey \<Rightarrow> 'a res \<Rightarrow> call list \<Rightarrow> bool" where
  "acts_last act payer r cs \<longleftrightarrow> (\<exists>rs. list_all is_read rs \<and>
     (isl r \<and> (cs = rs \<or> cs = rs @ [GetLatestBlockhash]) \<or>
      (\<exists>tx. tx_payer tx = payer \<and> cs = rs @ [GetLatestBlockhash, act tx])))"

text \<open>
  The four calls of a priced swap: the snapshot, the fees, the blockhash and the submission; all
  four on success, the first few on failure.
\<close>

definition follows :: "call list \<Rightarrow> 'a res \<Rightarrow> call list \<Rightarrow> bool" where
  "follows plan r cs \<longleftrightarrow> prefix cs plan \<and> (isl r \<or> cs = plan)"

definition swap_trace :: "ext \<Rightarrow> PoolInfo \<Rightarrow> pubkey \<Rightarrow> 'a res \<Rightarrow> call list \<Rightarrow> bool" where
  "swap_trace e p payer r cs \<longleftrightarrow> (\<exists>mint tx. tx_payer tx = payer \<and> follows
     [GetMultipleAccounts [pi_pool p, pool_base_token_account p, pool_quote_token_account p],
      GetMultipleAccounts [fee_config_pda e, mint], GetLatestBlockhash, SendAndConfirmTransaction tx] r cs)"

lemma follows_simps:
  "follows plan (Inr x) cs \<longleftrightarrow> cs = plan"
  "follows plan (Inl err) cs \<longleftrightarrow> prefix cs plan"
  by (auto simp: follows_def)

lemma follows_append:
  "follows plan r cs \<Longrightarrow> follows (a # plan) r (a # cs)"
  "prefix cs plan \<Longrightarrow> follows (plan @ rest) (Inl err) cs"
  by (auto simp: follows_def)

lemma some_tx: "\<exists>tx :: transaction. tx_payer tx = payer"
  by (rule exI [of _ "\<lparr>tx_instructions = [], tx_payer = payer, tx_blockhash = []\<rparr>"]) simp

lemma acts_last_follows:
  "\<exists>tx. tx_payer tx = payer \<and> follows [GetLatestBlockhash, act tx] r cs \<Longrightarrow> acts_last act payer r cs"
  by (auto simp: acts_last_def follows_def prefix_Cons intro: exI [of _ "[]"])

lemma acts_last_failed_read: "only_reads r cs \<Longrightarrow> acts_last act payer (Inl err) cs"
  by (auto simp: only_reads_def acts_last_def)

lemma acts_last_after_reads:
  assumes "only_reads r' cs" and "acts_last act payer r ds"
  shows "acts_last act payer r (cs @ ds)"
proof -
  obtain rs where "list_all is_read rs" "isl r \<and> (ds = rs \<or> ds = rs @ [GetLatestBlockhash]) \<or>
      (\<exists>tx. tx_payer tx = payer \<and> ds = rs @ [GetLatestBlockhash, act tx])"
    using assms(2) unfolding acts_last_def by blast
  then show ?thesis
    using assms(1) unfolding acts_last_def only_reads_def by (intro exI [of _ "cs @ rs"]) auto
qed

named_theorems trace_intros "the calls of an operation from those of its parts"

lemma makes_mono: "makes calls P m \<Longrightarrow> (\<And>r cs. P r cs \<Longrightarrow> Q r cs) \<Longrightarrow> makes calls Q m"
  unfolding makes_def by blast

lemma makes_if [trace_intros]:
  "(b \<Longrightarrow> makes calls P m) \<Longrightarrow> (\<not> b \<Longrightarrow> makes calls P m') \<Longrightarrow> makes calls P (if b then m else m')"
  by simp

lemma makes_prod [trace_intros]:
  "(\<And>x y. makes calls P (f x y)) \<Longrightarrow> makes calls P (case p of (x, y) \<Rightarrow> f x y)"
  by (cases p) simp

lemma makes_option [trace_intros]:
  "makes calls P m \<Longrightarrow> (\<And>x. makes calls P (f x)) \<Longrightarrow> makes calls P (case v of None \<Rightarrow> m | Some x \<Rightarrow> f x)"
  by (cases v) simp_all

lemma makes_lift [trace_intros]:
  "makes calls only_reads (io_lift r)"
  "makes calls (acts_last act payer) (io_lift (Inl err))"
  by (auto simp: makes_def only_reads_def acts_last_def io_lift_def)

lemma makes_bind:
  assumes "makes calls P m" and "\<And>x. makes calls Q (f x)"
    and "\<And>err cs. P (Inl err) cs \<Longrightarrow> R (Inl err) cs"
    and "\<And>x r cs ds. P (Inr x) cs \<Longrightarrow> Q r ds \<Longrightarrow> R r (cs @ ds)"
  shows "makes calls R (io_bind m f)"
  unfolding makes_def
proof
  fix s
  obtain r s' where m: "m s = (r, s')" by fastforce
  obtain cs where cs: "calls (env_chain s') = calls (env_chain s) @ cs" "P r cs"
    using assms(1) m unfolding makes_def by (metis fst_conv snd_conv)
  show "\<exists>cs. calls (env_chain (snd (io_bind m f s))) = calls (env_chain s) @ cs \<and> R (fst (io_bind m f s)) cs"
  proof (cases r)
    case (Inl err)
    then show ?thesis using m cs assms(3) by (auto simp: io_bind_def)
  next
    case (Inr x)
    obtain ds where "calls (env_chain (snd (f x s'))) = calls (env_chain s') @ ds" "Q (fst (f x s')) ds"
      using assms(2) unfolding makes_def by blast
    then show ?thesis
      using m cs assms(4) Inr by (intro exI [of _ "cs @ ds"]) (simp add: io_bind_def)
  qed
qed

lemma makes_read_bind [trace_intros]:
  assumes "makes calls only_reads m"
  shows "(\<And>x. makes calls only_reads (f x)) \<Longrightarrow> makes calls only_reads (io_bind m f)"
    and "(\<And>x. makes calls (acts_last act payer) (f x)) \<Longrightarrow> makes calls (acts_last act payer) (io_bind m f)"
proof -
  show "makes calls only_reads (io_bind m f)" if "\<And>x. makes calls only_reads (f x)"
    by (rule makes_bind [OF assms that]) (simp_all add: only_reads_def)
  show "makes calls (acts_last act payer) (io_bind m f)" if "\<And>x. makes calls (acts_last act payer) (f x)"
    by (rule makes_bind [OF assms that], erule acts_last_failed_read, erule acts_last_after_reads)
qed

text \<open>Code between calls.\<close>

lemma makes_no_calls:
  "makes calls (\<lambda>r cs. cs = []) (io_lift r)"
  "makes calls (\<lambda>r cs. cs = []) m \<Longrightarrow> (\<And>x. makes calls (\<lambda>r cs. cs = []) (f x)) \<Longrightarrow>
    makes calls (\<lambda>r cs. cs = []) (io_bind m f)"
proof -
  show "makes calls (\<lambda>r cs. cs = []) (io_lift r)" by (simp add: makes_def io_lift_def)
  show "makes calls (\<lambda>r cs. cs = []) (io_bind m f)"
    if "makes calls (\<lambda>r cs. cs = []) m" "\<And>x. makes calls (\<lambda>r cs. cs = []) (f x)"
    by (rule makes_bind [OF that]) simp_all
qed

text \<open>The transactions that are submitted, and code that submits none.\<close>

fun submissions :: "call list \<Rightarrow> transaction list" where
  "submissions [] = []"
| "submissions (SendAndConfirmTransaction tx # cs) = tx # submissions cs"
| "submissions (_ # cs) = submissions cs"

definition submits_none :: "'a res \<Rightarrow> call list \<Rightarrow> bool" where
  "submits_none r cs \<longleftrightarrow> submissions cs = []"

named_theorems dry_intros "code that submits nothing, from its parts"

lemma submissions_append [simp]: "submissions (cs @ ds) = submissions cs @ submissions ds"
  by (induction cs rule: submissions.induct) simp_all

lemma submissions_reads [simp]: "list_all is_read cs \<Longrightarrow> submissions cs = []"
  by (induction cs rule: submissions.induct) simp_all

lemma dry_parts:
  "makes calls only_reads m \<Longrightarrow> makes calls submits_none m"
  "makes calls (acts_last SimulateTransaction payer) m \<Longrightarrow> makes calls submits_none m"
  by (erule makes_mono, auto simp: only_reads_def acts_last_def submits_none_def)+

lemmas [dry_intros] = makes_if makes_prod makes_option makes_lift(1) [THEN dry_parts(1)]

lemma dry_bind [dry_intros]:
  "makes calls submits_none m \<Longrightarrow> (\<And>x. makes calls submits_none (f x)) \<Longrightarrow>
    makes calls submits_none (io_bind m f)"
  by (rule makes_bind [where P = submits_none and Q = submits_none]) (simp_all add: submits_none_def)

section \<open>Endpoints that keep their calls\<close>

locale traced_endpoint =
  fixes rpc :: "'w rpc" and calls :: "'w \<Rightarrow> call list"
  assumes get_account_data: "calls (snd (r_get_account_data rpc k w)) = calls w @ [GetAccountData k]"
    and get_multiple_accounts:
      "calls (snd (r_get_multiple_accounts rpc ks w)) = calls w @ [GetMultipleAccounts ks]"
    and get_account: "calls (snd (r_get_account rpc k w)) = calls w @ [GetAccount k]"
    and get_token_account_balance:
      "calls (snd (r_get_token_account_balance rpc k w)) = calls w @ [GetTokenAccountBalance k]"
    and get_latest_blockhash: "calls (snd (r_get_latest_blockhash rpc w)) = calls w @ [GetLatestBlockhash]"
    and simulate_transaction:
      "calls (snd (r_simulate_transaction rpc tx w)) = calls w @ [SimulateTransaction tx]"
    and send_and_confirm_transaction:
      "calls (snd (r_send_and_confirm_transaction rpc tx w)) = calls w @ [SendAndConfirmTransaction tx]"
    and get_balance: "calls (snd (r_get_balance rpc k w)) = calls w @ [GetBalance k]"
    and simulate_transaction_with_config:
      "calls (snd (r_simulate_transaction_with_config rpc m c w)) = calls w @ [SimulateTransactionWithConfig m c]"
begin

lemma call_makes:
  assumes "\<And>w. calls (snd (f w)) = calls w @ [c]" and "\<And>r. P r [c]"
  shows "makes calls P (rpc_call f)"
  using assms by (auto simp: makes_def rpc_call_def split: prod.splits) (metis snd_conv)

lemma reads [trace_intros]:
  "makes calls only_reads (rpc_call (r_get_account_data rpc k))"
  "makes calls only_reads (rpc_call (r_get_multiple_accounts rpc ks))"
  "makes calls only_reads (rpc_call (r_get_account rpc k))"
  "makes calls only_reads (rpc_call (r_get_token_account_balance rpc k))"
  "makes calls only_reads (rpc_call (r_get_balance rpc k))"
  by (rule call_makes, rule get_account_data get_multiple_accounts get_account
      get_token_account_balance get_balance, simp add: only_reads_def)+

lemma act_after_blockhash:
  assumes "\<And>tx. makes calls (\<lambda>r cs. cs = [ev tx]) (act tx)"
  shows "makes calls (\<lambda>r cs. \<exists>tx. tx_payer tx = payer \<and> follows [GetLatestBlockhash, ev tx] r cs)
    (io_bind (rpc_call (r_get_latest_blockhash rpc)) (\<lambda>bh.
      act \<lparr>tx_instructions = ixs, tx_payer = payer, tx_blockhash = bh\<rparr>))"
proof (rule makes_bind)
  show "makes calls (\<lambda>r cs. cs = [GetLatestBlockhash]) (rpc_call (r_get_latest_blockhash rpc))"
    by (rule call_makes, rule get_latest_blockhash) simp
  show "makes calls (\<lambda>r cs. \<exists>tx. tx_payer tx = payer \<and> cs = [ev tx])
      (act \<lparr>tx_instructions = ixs, tx_payer = payer, tx_blockhash = bh\<rparr>)" for bh
    by (rule makes_mono [OF assms], rule exI, rule conjI [rotated], assumption, simp)
qed (auto simp: follows_def intro: some_tx)

lemma submit_trace:
  "makes calls (\<lambda>r cs. \<exists>tx. tx_payer tx = payer \<and> follows [GetLatestBlockhash, SendAndConfirmTransaction tx] r cs)
    (submit rpc payer ixs)"
  unfolding submit_def
proof (rule act_after_blockhash)
  fix tx
  show "makes calls (\<lambda>r cs. cs = [SendAndConfirmTransaction tx])
      (io_bind (rpc_call (r_send_and_confirm_transaction rpc tx)) (\<lambda>_. io_lift (Inr ())))"
  proof (rule makes_bind)
    show "makes calls (\<lambda>r cs. cs = [SendAndConfirmTransaction tx])
        (rpc_call (r_send_and_confirm_transaction rpc tx))"
      by (rule call_makes, rule send_and_confirm_transaction) simp
    show "makes calls (\<lambda>r cs. cs = []) (io_lift (Inr ()))" by (simp add: makes_def io_lift_def)
  qed auto
qed

lemma simulate_trace:
  "makes calls (\<lambda>r cs. \<exists>tx. tx_payer tx = payer \<and> follows [GetLatestBlockhash, SimulateTransaction tx] r cs)
    (simulate rpc payer ixs)"
  unfolding simulate_def
  by (rule act_after_blockhash, rule call_makes, rule simulate_transaction) simp

lemma acts_last_submit [trace_intros]:
  "makes calls (acts_last SendAndConfirmTransaction payer) (submit rpc payer ixs)"
  "makes calls (acts_last SimulateTransaction payer) (simulate rpc payer ixs)"
  by (rule makes_mono, rule submit_trace simulate_trace, erule acts_last_follows)+

lemma dry_calls [dry_intros]:
  "makes calls submits_none (rpc_call (r_get_latest_blockhash rpc))"
  "makes calls submits_none (rpc_call (r_simulate_transaction_with_config rpc m c))"
  by (rule call_makes, rule get_latest_blockhash simulate_transaction_with_config, simp add: submits_none_def)+

lemma fetch_reads [trace_intros]:
  "makes calls only_reads (load_pool_with_token_program e rpc k tp)"
  "makes calls only_reads (fetch_global_config e rpc)"
  "makes calls only_reads (fetch_fee_config e rpc)"
  "makes calls only_reads (fetch_global_volume_accumulator e rpc)"
  "makes calls only_reads (fetch_user_volume_accumulator e rpc u)"
  "makes calls only_reads (fetch_sharing_config e rpc mint)"
  "makes calls only_reads (fetch_fee_state e rpc)"
  "makes calls only_reads (fetch_pool_fees e rpc p b q)"
  "makes calls only_reads (fetch_pool_snapshot rpc p)"
  "makes calls only_reads (fetch_pool_reserves rpc p)"
  "makes calls only_reads (ui_pooled_attempt rpc p)"
  unfolding load_pool_with_token_program_def fetch_global_config_def fetch_fee_config_def
    fetch_global_volume_accumulator_def fetch_user_volume_accumulator_def fetch_sharing_config_def
    fetch_fee_state_def fetch_pool_fees_def fetch_pool_snapshot_def fetch_pool_reserves_def
    ui_pooled_attempt_def Let_def
  by (intro trace_intros)+

lemma quote_reads [trace_intros]:
  "makes calls only_reads (load_pool e rpc k)"
  "makes calls only_reads (quote_token_buy e rpc a p slippage)"
  "makes calls only_reads (quote_token_sell e rpc a p slippage)"
  "makes calls only_reads (active_shareholders e rpc mint)"
  "makes calls only_reads (build_creator_fee_sweep_ixs e rpc payer mint qm qt)"
  unfolding load_pool_def quote_token_buy_def quote_token_sell_def active_shareholders_def
    build_creator_fee_sweep_ixs_def Let_def
  by (intro trace_intros)+

lemma payout_reads [trace_intros]:
  "makes calls only_reads (build_creator_fee_withdraw_ixs e rpc payer mint)"
  "makes calls only_reads (build_creator_fee_withdraw_ixs_v2 e rpc payer mint qm qt init)"
  unfolding build_creator_fee_withdraw_ixs_def build_creator_fee_withdraw_ixs_v2_def
  by (intro trace_intros)+

lemma swaps_act_last:
  "makes calls (acts_last SendAndConfirmTransaction payer) (buy e rpc d a p payer)"
  "makes calls (acts_last SendAndConfirmTransaction payer) (sell e rpc d a p payer)"
  "makes calls (acts_last SendAndConfirmTransaction payer) (buy_exact_quote_in e rpc d a m p payer)"
  "makes calls (acts_last SimulateTransaction payer) (simulate_buy e rpc d a' p' payer)"
  "makes calls (acts_last SimulateTransaction payer) (simulate_sell e rpc d a' p' payer)"
  "makes calls (acts_last SimulateTransaction payer) (simulate_buy_exact_quote_in e rpc d a m p payer)"
  unfolding buy_def sell_def buy_exact_quote_in_def simulate_buy_def simulate_sell_def
    simulate_buy_exact_quote_in_def Let_def
  by (intro trace_intros)+

lemma liquidity_acts_last:
  "makes calls (acts_last SendAndConfirmTransaction payer) (claim_cashback e rpc qm qt payer)"
  "makes calls (acts_last SendAndConfirmTransaction payer)
     (create_wsol_pool_with_options e rpc i a q cc bm bt mayhem cashback payer)"
  "makes calls (acts_last SendAndConfirmTransaction payer) (create_wsol_pool e rpc a q cc bm payer)"
  "makes calls (acts_last SendAndConfirmTransaction payer) (deposit_into_wsol_pool e rpc p payer lp mb mq)"
  "makes calls (acts_last SendAndConfirmTransaction payer)
     (withdraw_from_wsol_pool e rpc pool bm payer pct mb mq)"
  "makes calls (acts_last SendAndConfirmTransaction payer) (withdraw_creator_fees e rpc payer mint)"
  unfolding claim_cashback_def create_wsol_pool_def create_wsol_pool_with_options_def
    deposit_into_wsol_pool_def withdraw_from_wsol_pool_def withdraw_creator_fees_def Let_def
  by (intro trace_intros)+

lemma ui_pooled_loop_reads: "makes calls only_reads (ui_pooled_loop rpc p n delay)"
proof (induction n arbitrary: delay)
  case 0
  then show ?case by (simp add: makes_def only_reads_def)
next
  case (Suc n)
  show ?case
    unfolding makes_def
  proof
    fix s
    obtain r s' where a: "ui_pooled_attempt rpc p s = (r, s')" by fastforce
    obtain cs where cs: "calls (env_chain s') = calls (env_chain s) @ cs" "list_all is_read cs"
      using fetch_reads(11) [of p] a unfolding makes_def only_reads_def by (metis snd_conv)
    show "\<exists>cs. calls (env_chain (snd (ui_pooled_loop rpc p (Suc n) delay s))) = calls (env_chain s) @ cs \<and>
        only_reads (fst (ui_pooled_loop rpc p (Suc n) delay s)) cs"
    proof (cases r)
      case (Inl err)
      let ?t = "ui_pooled_loop rpc p n (min (delay * 2) 3000) (sleep_ms delay s')"
      obtain ds where "calls (env_chain (snd ?t)) = calls (env_chain s') @ ds" "list_all is_read ds"
        using Suc.IH [of "min (delay * 2) 3000"] unfolding makes_def only_reads_def
        by (metis sleep_ms_def env.select_convs(1) env.surjective env.update_convs(2))
      then show ?thesis using a cs Inl by (intro exI [of _ "cs @ ds"]) (simp add: only_reads_def)
    next
      case (Inr v)
      then show ?thesis using a cs by (simp add: only_reads_def)
    qed
  qed
qed

lemma balance_reads [trace_intros]:
  "makes calls only_reads (fetch_ui_pooled_amounts rpc p)"
  "makes calls only_reads (get_token_balance e rpc owner mint tp)"
proof -
  show "makes calls only_reads (fetch_ui_pooled_amounts rpc p)"
    unfolding fetch_ui_pooled_amounts_def by (rule ui_pooled_loop_reads)
  have "snd (get_token_balance e rpc owner mint tp s) =
      snd (rpc_call (r_get_token_account_balance rpc (x_get_ata e owner mint tp)) s)" for s
    by (auto simp: get_token_balance_def Let_def split: prod.splits sum.splits err.splits rpc_error.splits)
  then show "makes calls only_reads (get_token_balance e rpc owner mint tp)"
    using reads(4) [of "x_get_ata e owner mint tp"] by (simp add: makes_def only_reads_def)
qed

text \<open>A priced swap costs two reads, the blockhash and the submission.\<close>

lemma snapshot_trace:
  "makes calls (\<lambda>r cs. cs = [GetMultipleAccounts
      [pi_pool p, pool_base_token_account p, pool_quote_token_account p]]) (fetch_pool_snapshot rpc p)"
  unfolding fetch_pool_snapshot_def Let_def
  by (rule makes_bind [where Q = "\<lambda>r cs. cs = []"], rule call_makes, rule get_multiple_accounts)
    (auto intro!: makes_no_calls)

lemma fees_trace:
  "makes calls (follows [GetMultipleAccounts [fee_config_pda e, base_mint p]]) (fetch_pool_fees e rpc p b q)"
  unfolding fetch_pool_fees_def Let_def
proof (rule makes_if)
  show "makes calls (follows [GetMultipleAccounts [fee_config_pda e, base_mint p]])
      (io_lift (Inl (CannotQuoteFees (pi_pool p) (quote_mint p))))"
    by (simp add: makes_def io_lift_def follows_def)
qed (rule makes_bind [where P = "\<lambda>r cs. cs = [GetMultipleAccounts [fee_config_pda e, base_mint p]]"
      and Q = "\<lambda>r cs. cs = []"], rule call_makes, rule get_multiple_accounts,
    auto simp: follows_def intro!: makes_no_calls)

lemma priced_swap_trace:
  "makes calls (swap_trace e p payer) (priced_swap e rpc p payer build)"
  unfolding priced_swap_def
proof (rule makes_bind [OF snapshot_trace], rule makes_prod, rule makes_prod)
  fix info b q
  show "makes calls (\<lambda>r cs. \<exists>mint tx. tx_payer tx = payer \<and> follows
      [GetMultipleAccounts [fee_config_pda e, mint], GetLatestBlockhash, SendAndConfirmTransaction tx] r cs)
    (io_bind (fetch_pool_fees e rpc info b q) (\<lambda>fees.
     io_bind (io_lift (build info b (snd (effective_reserves info b q)) fees)) (\<lambda>ixs.
     submit rpc payer ([x_set_compute_unit_limit e 1000000, x_set_compute_unit_price e 100000] @ ixs))))"
  proof (rule makes_bind [OF fees_trace])
    show "makes calls (\<lambda>r cs. \<exists>tx. tx_payer tx = payer \<and>
        follows [GetLatestBlockhash, SendAndConfirmTransaction tx] r cs)
      (io_bind (io_lift (build info b (snd (effective_reserves info b q)) fees)) (\<lambda>ixs.
       submit rpc payer ([x_set_compute_unit_limit e 1000000, x_set_compute_unit_price e 100000] @ ixs)))" for fees
      by (rule makes_bind [OF makes_no_calls(1) submit_trace]) (auto simp: follows_def intro: some_tx)
  qed (auto simp: follows_def prefix_Cons intro: some_tx)
qed (auto simp: swap_trace_def follows_def intro: some_tx)

lemmas dry_operations [dry_intros] =
  fetch_reads [THEN dry_parts(1)] quote_reads [THEN dry_parts(1)] payout_reads [THEN dry_parts(1)]
  balance_reads [THEN dry_parts(1)] swaps_act_last(4-6) [THEN dry_parts(2)]

lemma swaps_trace:
  "makes calls (swap_trace e p payer) (buy e rpc d a p payer)"
  "makes calls (swap_trace e p payer) (sell e rpc d a p payer)"
  unfolding buy_priced_swap sell_priced_swap by (rule priced_swap_trace)+

end

interpretation tr: traced_endpoint "traced rpc" snd for rpc
  by unfold_locales (simp_all add: traced_def observe_def split: prod.splits)

section \<open>The calls of each operation\<close>

text \<open>
  C7: what each operation asks of the endpoint, whatever the endpoint answers. A \<open>buy\<close> or \<open>sell\<close>
  makes four calls when it returns: the snapshot, the fee accounts, the blockhash and one
  submission paid by the payer; on an error, the first few of them. The other submitting
  operations submit at most once, after all their reads and as their last call, and exactly once
  when they return; a simulation does the same with a simulation and submits nothing; and the
  quotes and the builders of the creator-fee payout only read.
\<close>

theorem operations_submit_once:
  "makes snd (swap_trace e p payer) (buy e (traced rpc) d a p payer) \<and>
   makes snd (swap_trace e p payer) (sell e (traced rpc) d a p payer) \<and>
   makes snd (acts_last SendAndConfirmTransaction payer) (buy_exact_quote_in e (traced rpc) d a m p payer) \<and>
   makes snd (acts_last SendAndConfirmTransaction payer) (claim_cashback e (traced rpc) qm qt payer) \<and>
   makes snd (acts_last SendAndConfirmTransaction payer)
     (create_wsol_pool_with_options e (traced rpc) i a q cc bm bt mayhem cashback payer) \<and>
   makes snd (acts_last SendAndConfirmTransaction payer) (create_wsol_pool e (traced rpc) a q cc bm payer) \<and>
   makes snd (acts_last SendAndConfirmTransaction payer)
     (deposit_into_wsol_pool e (traced rpc) p payer lp mb mq) \<and>
   makes snd (acts_last SendAndConfirmTransaction payer)
     (withdraw_from_wsol_pool e (traced rpc) pool bm payer pct mb mq) \<and>
   makes snd (acts_last SendAndConfirmTransaction payer) (withdraw_creator_fees e (traced rpc) payer mint) \<and>
   makes snd (acts_last SimulateTransaction payer) (simulate_buy e (traced rpc) d p a payer) \<and>
   makes snd (acts_last SimulateTransaction payer) (simulate_sell e (traced rpc) d p a payer) \<and>
   makes snd (acts_last SimulateTransaction payer)
     (simulate_buy_exact_quote_in e (traced rpc) d a m p payer) \<and>
   makes snd only_reads (quote_token_buy e (traced rpc) a p slippage) \<and>
   makes snd only_reads (quote_token_sell e (traced rpc) a p slippage) \<and>
   makes snd only_reads (build_creator_fee_withdraw_ixs e (traced rpc) payer mint) \<and>
   makes snd only_reads (build_creator_fee_withdraw_ixs_v2 e (traced rpc) payer mint qm qt init)"
  by (intro conjI tr.swaps_trace tr.swaps_act_last tr.liquidity_acts_last tr.quote_reads tr.payout_reads)

end
