(* ===== verification/Host.thy ===== *)
theory Host
  imports Jito Endpoint
begin

text \<open>
  What the programs under \<open>examples/\<close> take from their process: environment variables, the text
  functions of the standard library (\<open>split\<close>, \<open>trim\<close>, \<open>f64::from_str\<close>), and keys. The environment,
  the connection to an RPC endpoint and the parsers of the Solana crates are the record \<open>host\<close>.
  \<open>clone_keypairs\<close> of \<open>util.rs\<close> is here too. A string is the list of the bytes of its UTF-8
  encoding.
\<close>

section \<open>Splitting and trimming\<close>

text \<open>\<open>str::split(',')\<close> keeps empty pieces; there is always at least one.\<close>

fun split_on :: "char \<Rightarrow> string \<Rightarrow> string list" where
  "split_on d [] = [[]]"
| "split_on d (c # cs) =
     (if c = d then [] # split_on d cs
      else case split_on d cs of p # ps \<Rightarrow> (c # p) # ps | [] \<Rightarrow> [[c]])"

text \<open>The UTF-8 encodings of the characters with the Unicode property White_Space.\<close>

definition utf8 :: "nat list \<Rightarrow> string" where
  "utf8 ns = map char_of ns"

definition white_space :: "string list" where
  "white_space = map (\<lambda>n. utf8 [n]) [9, 10, 11, 12, 13, 32] @
     [utf8 [194, 133], utf8 [194, 160], utf8 [225, 154, 128]] @
     map (\<lambda>n. utf8 [226, 128, n]) ([128..<139] @ [168, 169, 175]) @
     [utf8 [226, 129, 159], utf8 [227, 128, 128]]"

text \<open>Drop the longest sequence of pieces from \<open>ws\<close> at the front.\<close>

function strip_front :: "string list \<Rightarrow> string \<Rightarrow> string" where
  "strip_front ws s =
     (case find (\<lambda>w. w \<noteq> [] \<and> prefix w s) ws of None \<Rightarrow> s | Some w \<Rightarrow> strip_front ws (drop (length w) s))"
  by pat_completeness auto
termination
proof (relation "measure (length \<circ> snd)")
  fix ws s w
  assume "find (\<lambda>w. w \<noteq> [] \<and> prefix w s) ws = Some w"
  then have "w \<noteq> []" "prefix w s" by (auto simp: find_Some_iff)
  then show "((ws, drop (length w) s), (ws, s)) \<in> measure (length \<circ> snd)"
    by (auto simp: prefix_def)
qed simp

declare strip_front.simps [simp del]

definition trim :: "string \<Rightarrow> string" where
  "trim s = rev (strip_front (map rev white_space) (rev (strip_front white_space s)))"

text \<open>\<open>s.split(',').map(str::trim).filter(|s| !s.is_empty())\<close>.\<close>

definition csv_items :: "string \<Rightarrow> string list" where
  "csv_items csv = filter (\<lambda>s. s \<noteq> []) (map trim (split_on (CHR '','') csv))"

section \<open>Parsing floats\<close>

definition is_digit :: "char \<Rightarrow> bool" where
  "is_digit c \<longleftrightarrow> 48 \<le> (of_char c :: nat) \<and> (of_char c :: nat) \<le> 57"

definition digits_nat :: "string \<Rightarrow> nat" where
  "digits_nat ds = foldl (\<lambda>acc c. acc * 10 + (of_char c - 48)) 0 ds"

definition to_lower :: "char \<Rightarrow> char" where
  "to_lower c = (if 65 \<le> (of_char c :: nat) \<and> (of_char c :: nat) \<le> 90 then char_of (of_char c + 32 :: nat) else c)"

text \<open>An optional sign.\<close>

fun parse_sign :: "string \<Rightarrow> bool \<times> string" where
  "parse_sign [] = (False, [])"
| "parse_sign (c # cs) =
     (if c = CHR ''-'' then (True, cs) else if c = CHR ''+'' then (False, cs) else (False, c # cs))"

text \<open>The exponent part, to the end of the text.\<close>

fun parse_exponent :: "string \<Rightarrow> int option" where
  "parse_exponent [] = Some 0"
| "parse_exponent (c # cs) =
     (if to_lower c \<noteq> CHR ''e'' then None
      else case parse_sign cs of (neg, ds) \<Rightarrow>
        if ds = [] \<or> \<not> list_all is_digit ds then None
        else Some (if neg then - int (digits_nat ds) else int (digits_nat ds)))"

text \<open>Digits with an optional point, at least one digit on one side of it.\<close>

definition parse_decimal :: "string \<Rightarrow> rat option" where
  "parse_decimal s =
     (let whole = takeWhile is_digit s;
          after = dropWhile is_digit s;
          (fraction, rest) = (case after of
              c # cs \<Rightarrow> if c = CHR ''.'' then (takeWhile is_digit cs, dropWhile is_digit cs) else ([], after)
            | [] \<Rightarrow> ([], []))
      in if whole = [] \<and> fraction = [] then None
         else map_option (\<lambda>ex. of_nat (digits_nat (whole @ fraction)) * 10 powi (ex - int (length fraction)))
           (parse_exponent rest))"

definition parse_f64 :: "string \<Rightarrow> f64 option" where
  "parse_f64 s =
     (case parse_sign s of (neg, body) \<Rightarrow>
      let name = map to_lower body
      in if name = ''nan'' then Some NaN
         else if name = ''inf'' \<or> name = ''infinity'' then Some (Inf neg)
         else map_option (\<lambda>x. f64_rnd (if neg then - x else x)) (parse_decimal body))"

section \<open>The process\<close>

record 'w host =
  h_var :: "string \<Rightarrow> string option"
  h_connect :: "string \<Rightarrow> commitment \<Rightarrow> 'w rpc"
  h_pubkey_from_str :: "string \<Rightarrow> pubkey res"
  h_keypair_from_base58_string :: "string \<Rightarrow> pubkey option"
  h_bs58_decode :: "string \<Rightarrow> bytes option"
  h_keypair_try_from :: "bytes \<Rightarrow> pubkey res"
  h_sol_str_to_lamports :: "string \<Rightarrow> u64 option"
  h_LAMPORTS_PER_SOL :: u64

text \<open>\<open>std::env::var(name).context("<name> not set")?\<close>.\<close>

definition env_var :: "'w host \<Rightarrow> string \<Rightarrow> string res" where
  "env_var h name = ok_or (h_var h name) (EnvNotSet name)"

text \<open>\<open>std::env::var(name).ok().and_then(|s| s.parse().ok()).unwrap_or(default)\<close>.\<close>

definition env_or :: "'w host \<Rightarrow> string \<Rightarrow> (string \<Rightarrow> 'a option) \<Rightarrow> 'a \<Rightarrow> 'a" where
  "env_or h name parse default' =
     unwrap_or (case h_var h name of None \<Rightarrow> None | Some s \<Rightarrow> parse s) default'"

text \<open>An amount in SOL from the environment, or a default in lamports.\<close>

definition env_sol :: "'w host \<Rightarrow> string \<Rightarrow> u64 \<Rightarrow> u64 res" where
  "env_sol h name default' =
     (case h_var h name of
        Some s \<Rightarrow> ok_or (h_sol_str_to_lamports h s) (InvalidSolAmount name)
      | None \<Rightarrow> Inr default')"

text \<open>\<open>Keypair::from_base58_string\<close> panics on malformed text.\<close>

definition keypair_from_base58_string :: "'w host \<Rightarrow> string \<Rightarrow> pubkey res" where
  "keypair_from_base58_string h s = ok_or (h_keypair_from_base58_string h s) (Panic ''from_base58_string'')"

text \<open>\<open>Result::ok\<close>.\<close>

definition res_ok :: "'a res \<Rightarrow> 'a option" where
  "res_ok r = (case r of Inl _ \<Rightarrow> None | Inr x \<Rightarrow> Some x)"

section \<open>Keypairs\<close>

definition clone_keypairs :: "('k \<Rightarrow> bytes) \<Rightarrow> (bytes \<Rightarrow> 'k res) \<Rightarrow> 'k list \<Rightarrow> 'k list res" where
  "clone_keypairs to_bytes try_from kps = map_res (\<lambda>kp. try_from (to_bytes kp)) kps"

text \<open>With the documented inverse, what is cloned is the slice; else the first failure is returned.\<close>

lemma clone_keypairs_same:
  "(\<And>kp. kp \<in> set kps \<Longrightarrow> try_from (to_bytes kp) = Inr kp) \<Longrightarrow>
    clone_keypairs to_bytes try_from kps = Inr kps"
  unfolding clone_keypairs_def by (induction kps) simp_all

lemma clone_keypairs_error:
  assumes "\<And>kp. kp \<in> set pre \<Longrightarrow> try_from (to_bytes kp) = Inr kp" and "try_from (to_bytes bad) = Inl err"
  shows "clone_keypairs to_bytes try_from (pre @ bad # post) = Inl err"
  using assms(1) unfolding clone_keypairs_def by (induction pre) (simp_all add: assms(2))

section \<open>Text lemmas\<close>

lemma split_on_not_Nil [simp]: "split_on d s \<noteq> []"
  by (induction s) (auto split: list.splits)

lemma split_on_join:
  "d \<notin> set s \<Longrightarrow> split_on d (s @ d # t) = s # split_on d t"
  "d \<notin> set s \<Longrightarrow> split_on d s = [s]"
  by (induction s) auto

lemma csv_items_nonempty: "s \<in> set (csv_items csv) \<Longrightarrow> s \<noteq> []"
  by (auto simp: csv_items_def)

lemma csv_items_blank [simp]: "csv_items [] = []"
  by (simp add: csv_items_def trim_def strip_front.simps white_space_def utf8_def)

end
