(* ===== verification/Examples.thy ===== *)
theory Examples
  imports Host
begin

text \<open>
  The programs under \<open>examples/\<close>. Each \<open>main\<close> is a function of the host it runs on: it reads its
  parameters from the environment in the source's order, connects, and runs. What a program
  prints is its result where a line depends on what the endpoint answered, and is left out
  otherwise. The draws of the builders are indexed by the order of the builder calls.
\<close>

text \<open>\<open>pk\<close> of \<open>creator_fees_runner.rs\<close>.\<close>

definition pk :: "'w host \<Rightarrow> string \<Rightarrow> pubkey res" where
  "pk h env =
     bindE (env_var h env) (\<lambda>raw.
     ok_or (res_ok (h_pubkey_from_str h raw)) (External (env @ '' parse'')))"

section \<open>load_pool.rs and simulate_buy.rs\<close>

definition load_pool_main :: "ext \<Rightarrow> 'w host \<Rightarrow> ('w, PoolInfo \<times> u64 \<times> u64) io" where
  "load_pool_main e h =
     io_bind (io_lift (env_var h ''RPC_URL'')) (\<lambda>rpc_url.
     io_bind (io_lift (env_var h ''POOL'')) (\<lambda>pool.
     let rpc = h_connect h rpc_url Confirmed in
     io_bind (io_lift (h_pubkey_from_str h pool)) (\<lambda>pool_pubkey.
     io_bind (load_pool e rpc pool_pubkey) (\<lambda>pool_info.
     io_bind (fetch_pool_reserves rpc pool_info) (\<lambda>reserves.
     io_lift (Inr (pool_info, reserves)))))))"

definition simulate_buy_main :: "ext \<Rightarrow> 'w host \<Rightarrow> draws \<Rightarrow> ('w, unit) io" where
  "simulate_buy_main e h d =
     io_bind (io_lift (env_var h ''RPC_URL'')) (\<lambda>rpc_url.
     io_bind (io_lift (env_var h ''POOL'')) (\<lambda>pool.
     io_bind (io_lift (env_var h ''KEYPAIR'')) (\<lambda>keypair_b58.
     io_bind (io_lift (env_sol h ''AMOUNT_SOL'' (h_LAMPORTS_PER_SOL h div 1000))) (\<lambda>amount_lamports.
     let rpc = h_connect h rpc_url Confirmed in
     io_bind (io_lift (h_pubkey_from_str h pool)) (\<lambda>pool_pubkey.
     io_bind (load_pool e rpc pool_pubkey) (\<lambda>pool_info.
     io_bind (io_lift (keypair_from_base58_string h keypair_b58)) (\<lambda>payer.
     simulate_buy e rpc d pool_info amount_lamports payer)))))))"

section \<open>creator_fees_runner.rs\<close>

record runner_config =
  rc_rpc_url :: string
  rc_admin :: pubkey
  rc_token_mint :: pubkey
  rc_target :: pubkey
  rc_min_claimable_lamports :: u64
  rc_reserve_lamports :: u64

definition runner_config_from_env :: "'w host \<Rightarrow> runner_config res" where
  "runner_config_from_env h =
     bindE (env_var h ''RPC_URL'') (\<lambda>rpc_url.
     bindE (env_var h ''ADMIN_KEYPAIR'') (\<lambda>raw.
     bindE (keypair_from_base58_string h raw) (\<lambda>admin.
     bindE (pk h ''TOKEN_MINT'') (\<lambda>token_mint'.
     bindE (pk h ''TARGET'') (\<lambda>target.
     bindE (env_sol h ''MIN_CLAIMABLE_SOL'' (h_LAMPORTS_PER_SOL h div 2)) (\<lambda>min_claimable_lamports.
     bindE (env_sol h ''RESERVE_SOL'' (h_LAMPORTS_PER_SOL h div 100)) (\<lambda>reserve_lamports.
     Inr \<lparr>rc_rpc_url = rpc_url, rc_admin = admin, rc_token_mint = token_mint', rc_target = target,
       rc_min_claimable_lamports = min_claimable_lamports, rc_reserve_lamports = reserve_lamports\<rparr>)))))))"

definition runner_cycle :: "ext \<Rightarrow> 'w rpc \<Rightarrow> runner_config \<Rightarrow> ('w, unit) io" where
  "runner_cycle e rpc c =
     (let coin_creator' = sharing_config_pda e (rc_token_mint c);
          vault_authority = find_coin_creator_vault_authority e coin_creator' in
      io_bind (get_token_balance e rpc vault_authority (WRAPPED_SOL_MINT e) (x_spl_token_ID e)) (\<lambda>balance.
      let claimable_lamports = unwrap_or balance 0 in
      io_bind (if rc_min_claimable_lamports c \<le> claimable_lamports
               then withdraw_creator_fees e rpc (rc_admin c) (rc_token_mint c)
               else io_lift (Inr ())) (\<lambda>_.
      io_bind (rpc_call (r_get_balance rpc (rc_admin c))) (\<lambda>admin_balance.
      let fee_estimate = 5000;
          transfer = saturating_sub admin_balance (saturating_add (rc_reserve_lamports c) fee_estimate) in
      if transfer = 0 then io_lift (Inr ())
      else submit rpc (rc_admin c) [x_transfer e (rc_admin c) (rc_target c) transfer]))))"

definition creator_fees_runner_main :: "ext \<Rightarrow> 'w host \<Rightarrow> ('w, unit) io" where
  "creator_fees_runner_main e h =
     io_bind (io_lift (runner_config_from_env h)) (\<lambda>c.
     runner_cycle e (h_connect h (rc_rpc_url c) Confirmed) c)"

section \<open>batch_buy.rs\<close>

definition parse_keypairs :: "'w host \<Rightarrow> string \<Rightarrow> pubkey list res" where
  "parse_keypairs h csv =
     map_res (\<lambda>s. bindE (ok_or (h_bs58_decode h s) (External ''base58 decode'')) (h_keypair_try_from h)) (csv_items csv)"

definition parse_jito_pool ::
  "'w host \<Rightarrow> (string \<Rightarrow> string option \<Rightarrow> 'c) \<Rightarrow> nat \<Rightarrow> 'c jito_pool option" where
  "parse_jito_pool h sdk_new now =
     (case h_var h ''JITO_ENDPOINTS'' of None \<Rightarrow> None
      | Some endpoints \<Rightarrow>
          let refs = csv_items endpoints in
          if refs = [] then None else res_ok (jito_pool_new sdk_new now refs None 0))"

record batch_config =
  bc_rpc_url :: string
  bc_pool :: pubkey
  bc_keypairs :: "pubkey list"
  bc_amount_in :: u64
  bc_interval_ms :: u64
  bc_slippage :: f64

definition batch_config_from_env :: "'w host \<Rightarrow> batch_config res" where
  "batch_config_from_env h =
     bindE (env_var h ''RPC_URL'') (\<lambda>rpc_url.
     bindE (bindE (env_var h ''POOL'') (h_pubkey_from_str h)) (\<lambda>pool.
     bindE (env_var h ''KEYPAIRS'') (\<lambda>csv.
     bindE (parse_keypairs h csv) (\<lambda>keypairs.
     bindE (env_var h ''AMOUNT_LAMPORTS'') (\<lambda>raw.
     bindE (parse_u64 raw) (\<lambda>amount_in.
     Inr \<lparr>bc_rpc_url = rpc_url, bc_pool = pool, bc_keypairs = keypairs, bc_amount_in = amount_in,
       bc_interval_ms = env_or h ''INTERVAL_MS'' (res_ok \<circ> parse_u64) 700,
       bc_slippage = env_or h ''SLIPPAGE'' parse_f64 (f64_rnd (1 / 10))\<rparr>))))))"

text \<open>The transaction of one wallet.\<close>

definition batch_tx ::
  "ext \<Rightarrow> 'w rpc \<Rightarrow> draws \<Rightarrow> u64 \<Rightarrow> f64 \<Rightarrow> PoolInfo \<Rightarrow> pubkey \<Rightarrow> ('w, transaction) io" where
  "batch_tx e rpc d amount_in slippage pool_info payer =
     io_bind (fetch_pool_snapshot rpc pool_info) (\<lambda>(pool_info, base_vault, quote_vault).
     let (base_reserve, quote_reserve) = effective_reserves pool_info base_vault quote_vault;
         amount_out = calc_amount_out amount_in quote_reserve base_reserve slippage
     in io_bind (io_lift (build_buy_ixs e d amount_out amount_in True pool_info payer True)) (\<lambda>buy_ixs.
     io_bind (rpc_call (r_get_latest_blockhash rpc)) (\<lambda>blockhash.
     io_lift (Inr \<lparr>tx_instructions =
         [x_set_compute_unit_limit e 1000000, x_set_compute_unit_price e 100000] @ buy_ixs,
       tx_payer = payer, tx_blockhash = blockhash\<rparr>))))"

text \<open>What sends the transactions: the RPC endpoint, or a Jito pool with its clock and encoder.\<close>

record ('c, 'w) jito_env =
  je_encode :: "transaction \<Rightarrow> string res"
  je_send :: "'c \<Rightarrow> string list \<Rightarrow> 'w \<Rightarrow> string option res \<times> 'w"
  je_clock :: "'w env \<Rightarrow> nat"
  je_late :: "'w env \<Rightarrow> nat"

definition batch_send ::
  "'w rpc \<Rightarrow> ('c, 'w) jito_env \<Rightarrow> transaction \<Rightarrow> 'c jito_pool option \<Rightarrow> 'w env \<Rightarrow>
   unit res \<times> 'c jito_pool option \<times> 'w env" where
  "batch_send rpc je tx jito s =
     (case jito of
        Some pool \<Rightarrow>
          (case next_client (je_late je s) (je_clock je s) pool of (client, t, pool) \<Rightarrow>
           let s = (if je_clock je s < t then sleep_ms (t - je_clock je s) s else s)
           in case send_jito_bundle (je_encode je) (je_send je) [tx] client s of
                (r, s) \<Rightarrow> (r, Some pool, s))
      | None \<Rightarrow>
          (case rpc_call (r_send_and_confirm_transaction rpc tx) s of
             (r, s) \<Rightarrow> (bindE r (\<lambda>_. Inr ()), None, s)))"

text \<open>
  The loop over the wallets. The list is what was printed: each wallet's number, key and outcome.
  A failed send goes on with the next wallet, any other error ends the batch.
\<close>

fun batch_loop ::
  "(nat \<Rightarrow> pubkey \<Rightarrow> ('w, transaction) io) \<Rightarrow>
   (transaction \<Rightarrow> 'j \<Rightarrow> 'w env \<Rightarrow> unit res \<times> 'j \<times> 'w env) \<Rightarrow> nat \<Rightarrow> nat \<Rightarrow> pubkey list \<Rightarrow> 'j \<Rightarrow> 'w env \<Rightarrow>
   unit res \<times> (nat \<times> pubkey \<times> unit res) list \<times> 'w env" where
  "batch_loop build send interval i [] jito s = (Inr (), [], s)"
| "batch_loop build send interval i (payer # wallets) jito s =
     (let s = (if 0 < i then sleep_ms interval s else s)
      in case build i payer s of
           (Inl err, s) \<Rightarrow> (Inl err, [], s)
         | (Inr tx, s) \<Rightarrow>
             (case send tx jito s of (outcome, jito, s) \<Rightarrow>
              case batch_loop build send interval (i + 1) wallets jito s of (r, lines, s) \<Rightarrow>
                (r, (i + 1, payer, outcome) # lines, s)))"

definition batch_buy_main ::
  "ext \<Rightarrow> 'w host \<Rightarrow> (nat \<Rightarrow> draws) \<Rightarrow> (string \<Rightarrow> string option \<Rightarrow> 'c) \<Rightarrow> ('c, 'w) jito_env \<Rightarrow> 'w env \<Rightarrow>
   unit res \<times> (nat \<times> pubkey \<times> unit res) list \<times> 'w env" where
  "batch_buy_main e h ds sdk_new je s =
     (case batch_config_from_env h of
        Inl err \<Rightarrow> (Inl err, [], s)
      | Inr c \<Rightarrow>
          let rpc = h_connect h (bc_rpc_url c) Processed in
          case load_pool e rpc (bc_pool c) s of
            (Inl err, s) \<Rightarrow> (Inl err, [], s)
          | (Inr pool_info, s) \<Rightarrow>
              let jito = parse_jito_pool h sdk_new (je_clock je s) in
              batch_loop (\<lambda>i. batch_tx e rpc (ds i) (bc_amount_in c) (bc_slippage c) pool_info)
                (batch_send rpc je) (unat (bc_interval_ms c)) 0 (bc_keypairs c) jito s)"

section \<open>sim_trade_flow.rs and verify_layout.rs\<close>

text \<open>
  An unsigned transaction over the zero blockhash, simulated with the blockhash replaced and no
  signature check.
\<close>

definition simulate_unsigned :: "'w rpc \<Rightarrow> instruction list \<Rightarrow> pubkey \<Rightarrow> ('w, sim_result) io" where
  "simulate_unsigned rpc ixs user =
     rpc_call (r_simulate_transaction_with_config rpc
       \<lparr>msg_instructions = ixs, msg_payer = user, msg_blockhash = replicate 32 0\<rparr>
       \<lparr>sig_verify = False, replace_recent_blockhash = True, sim_commitment = Some Confirmed\<rparr>)"

text \<open>\<open>simulate\<close> of \<open>sim_trade_flow.rs\<close>: the label, the error, the units and the log lines it prints.\<close>

definition simulate_leg ::
  "string \<Rightarrow> 'w rpc \<Rightarrow> instruction list \<Rightarrow> pubkey \<Rightarrow> ('w, string \<times> sim_result) io" where
  "simulate_leg label rpc ixs user =
     io_bind (simulate_unsigned rpc ixs user) (\<lambda>result.
     io_lift (Inr (label, result\<lparr>sim_logs := map_option (filter (\<lambda>line.
       str_contains line ''Instruction:'' \<or> str_contains line ''Error'' \<or> str_contains line ''failed''))
       (sim_logs result)\<rparr>)))"

definition sim_trade_flow_main ::
  "ext \<Rightarrow> 'w host \<Rightarrow> draws \<Rightarrow> draws \<Rightarrow> ('w, (string \<times> sim_result) list) io" where
  "sim_trade_flow_main e h d d' =
     io_bind (io_lift (env_var h ''RPC_URL'')) (\<lambda>rpc_url.
     io_bind (io_lift (env_var h ''POOL'')) (\<lambda>pool.
     io_bind (io_lift (env_var h ''USER'')) (\<lambda>user.
     let rpc = h_connect h rpc_url Confirmed in
     io_bind (io_lift (h_pubkey_from_str h pool)) (\<lambda>pool_pubkey.
     io_bind (io_lift (h_pubkey_from_str h user)) (\<lambda>user_pubkey.
     io_bind (load_pool e rpc pool_pubkey) (\<lambda>pool_info.
     io_bind (fetch_pool_snapshot rpc pool_info) (\<lambda>(pool_info, base_vault, quote_vault).
     let sol_in = h_LAMPORTS_PER_SOL h div 1000 in
     io_bind (quote_token_buy e rpc sol_in pool_info (f64_rnd (1 / 1000))) (\<lambda>quote.
     let min_tokens_out = min_amount_out quote in
     io_bind (io_lift (bindE (mul_u64 e min_tokens_out 9) (\<lambda>n. Inr (n div 10)))) (\<lambda>tokens_to_sell.
     io_bind (io_lift (build_token_buy_ixs e d sol_in min_tokens_out True pool_info user_pubkey True)) (\<lambda>buy_ixs.
     io_bind (quote_token_sell e rpc tokens_to_sell pool_info (f64_rnd (1 / 1000))) (\<lambda>sell_quote.
     io_bind (io_lift (build_token_sell_ixs e d' tokens_to_sell (min_amount_out sell_quote) pool_info
       user_pubkey False)) (\<lambda>sell_ixs.
     io_bind (simulate_leg ''TOKEN BUY'' rpc buy_ixs user_pubkey) (\<lambda>buy_report.
     let create_token_ata = snd (create_ata_token_or_not_with_program e user_pubkey (token_mint e pool_info)
           user_pubkey (token_program e pool_info) True);
         sell_leg = opt_list create_token_ata @ sell_ixs in
     io_bind (simulate_leg ''TOKEN SELL (expect insufficient-funds, NOT account errors)'' rpc sell_leg
       user_pubkey) (\<lambda>sell_report.
     io_lift (Inr [buy_report, sell_report])))))))))))))))"

definition find_pump_amm_ix :: "ext \<Rightarrow> instruction list \<Rightarrow> bytes \<Rightarrow> instruction res" where
  "find_pump_amm_ix e ixs discriminator =
     ok_or (find (\<lambda>ix. ix_program_id ix = PUMP_SWAP_PROGRAM_ID e \<and> prefix discriminator (ix_data ix)) ixs)
       InstructionNotFound"

text \<open>What one check prints: the number of accounts of the instruction, and the simulation.\<close>

definition check_layout ::
  "ext \<Rightarrow> 'w rpc \<Rightarrow> instruction list res \<Rightarrow> bytes \<Rightarrow> pubkey \<Rightarrow> ('w, nat \<times> sim_result) io" where
  "check_layout e rpc built discriminator user =
     io_bind (io_lift built) (\<lambda>ixs.
     io_bind (io_lift (find_pump_amm_ix e ixs discriminator)) (\<lambda>ix.
     io_bind (simulate_unsigned rpc ixs user) (\<lambda>result.
     io_lift (Inr (length (ix_accounts ix), result)))))"

definition verify_layout_main ::
  "ext \<Rightarrow> 'w host \<Rightarrow> (nat \<Rightarrow> draws) \<Rightarrow> ('w, (nat \<times> sim_result) list) io" where
  "verify_layout_main e h ds =
     io_bind (io_lift (env_var h ''RPC_URL'')) (\<lambda>rpc_url.
     io_bind (io_lift (env_var h ''POOL'')) (\<lambda>pool.
     io_bind (io_lift (env_var h ''USER'')) (\<lambda>user.
     let rpc = h_connect h rpc_url Confirmed in
     io_bind (io_lift (h_pubkey_from_str h pool)) (\<lambda>pool_pubkey.
     io_bind (io_lift (h_pubkey_from_str h user)) (\<lambda>user_pubkey.
     io_bind (load_pool e rpc pool_pubkey) (\<lambda>pool_info.
     io_bind (fetch_pool_snapshot rpc pool_info) (\<lambda>(pool_info, base_vault, quote_vault).
     let (base_reserve, quote_reserve) = effective_reserves pool_info base_vault quote_vault;
         amount_in = h_LAMPORTS_PER_SOL h div 1000;
         base_amount_out = calc_amount_out amount_in quote_reserve base_reserve (f64_rnd (1 / 10));
         spend = h_LAMPORTS_PER_SOL h div 1000
     in
     io_bind (check_layout e rpc (build_buy_ixs e (ds 0) base_amount_out amount_in True pool_info
       user_pubkey True) [102, 6, 61, 18, 1, 218, 235, 234] user_pubkey) (\<lambda>buy.
     io_bind (check_layout e rpc (build_buy_exact_quote_in_ixs e (ds 1) spend 1 True pool_info
       user_pubkey True) [198, 46, 21, 82, 180, 217, 232, 112] user_pubkey) (\<lambda>buy_exact.
     io_bind (check_layout e rpc (build_sell_ixs e (ds 2) 1000 0 pool_info user_pubkey False)
       [51, 230, 133, 164, 1, 127, 131, 173] user_pubkey) (\<lambda>sell.
     io_lift (Inr [buy, map_prod id (sim_logs_update (\<lambda>_. None)) buy_exact,
       map_prod id (sim_units_update (\<lambda>_. None)) sell])))))))))))"

section \<open>The dry runs\<close>

text \<open>A host whose every connection keeps its calls.\<close>

definition traced_host :: "'w host \<Rightarrow> ('w \<times> call list) host" where
  "traced_host h = \<lparr>h_var = h_var h, h_connect = (\<lambda>url c. traced (h_connect h url c)),
     h_pubkey_from_str = h_pubkey_from_str h,
     h_keypair_from_base58_string = h_keypair_from_base58_string h,
     h_bs58_decode = h_bs58_decode h, h_keypair_try_from = h_keypair_try_from h,
     h_sol_str_to_lamports = h_sol_str_to_lamports h, h_LAMPORTS_PER_SOL = h_LAMPORTS_PER_SOL h\<rparr>"

lemma traced_host_sel [simp]:
  "h_connect (traced_host h) url c = traced (h_connect h url c)"
  by (simp add: traced_host_def)

lemma simulate_unsigned_dry [dry_intros]:
  "makes snd submits_none (simulate_unsigned (traced rpc) ixs user)"
  unfolding simulate_unsigned_def by (rule tr.dry_calls)

lemma simulate_leg_dry [dry_intros]:
  "makes snd submits_none (simulate_leg label (traced rpc) ixs user)"
  unfolding simulate_leg_def by (intro dry_intros)

lemma check_layout_dry [dry_intros]:
  "makes snd submits_none (check_layout e (traced rpc) built disc user)"
  unfolding check_layout_def by (intro dry_intros)

text \<open>
  C10: the programs that only look never submit a transaction, whatever the endpoint answers and
  whether or not they run to their end: \<open>load_pool\<close>, \<open>simulate_buy\<close>, \<open>sim_trade_flow\<close> and
  \<open>verify_layout\<close>.
\<close>

theorem dry_runs_submit_nothing:
  "makes snd submits_none (load_pool_main e (traced_host h)) \<and>
   makes snd submits_none (simulate_buy_main e (traced_host h) d) \<and>
   makes snd submits_none (sim_trade_flow_main e (traced_host h) d d') \<and>
   makes snd submits_none (verify_layout_main e (traced_host h) ds)"
  unfolding load_pool_main_def simulate_buy_main_def sim_trade_flow_main_def verify_layout_main_def
    Let_def traced_host_sel
  by (intro conjI dry_intros tr.dry_operations)

section \<open>The creator-fee cycle\<close>

text \<open>
  C9: one cycle of the runner that ends well has claimed exactly when the vault held at least the
  threshold (an account that does not exist counts as empty), and then has swept exactly the
  balance above the reserve and the fee estimate to the target, or nothing when there is none
  above it: the sweep never touches the reserve, not even where the sum does not fit a \<open>u64\<close>.
\<close>

theorem runner_cycle_keeps_reserve:
  assumes "runner_cycle e rpc c s = (Inr (), s')"
  shows "\<exists>held bal s1 s2 s3.
    get_token_balance e rpc (find_coin_creator_vault_authority e (sharing_config_pda e (rc_token_mint c)))
      (WRAPPED_SOL_MINT e) (x_spl_token_ID e) s = (Inr held, s1) \<and>
    (if rc_min_claimable_lamports c \<le> unwrap_or held 0
     then withdraw_creator_fees e rpc (rc_admin c) (rc_token_mint c) s1 = (Inr (), s2) else s2 = s1) \<and>
    rpc_call (r_get_balance rpc (rc_admin c)) s2 = (Inr bal, s3) \<and>
    (if unat bal \<le> unat (rc_reserve_lamports c) + 5000 then s' = s3
     else \<exists>t. sent_by rpc (rc_admin c) [x_transfer e (rc_admin c) (rc_target c) t] s' \<and>
       unat t + unat (rc_reserve_lamports c) + 5000 = unat bal)"
proof -
  let ?t = "\<lambda>bal. saturating_sub bal (saturating_add (rc_reserve_lamports c) (5000 :: u64))"
  obtain held s1 s2 bal s3 where
    b: "get_token_balance e rpc (find_coin_creator_vault_authority e (sharing_config_pda e (rc_token_mint c)))
      (WRAPPED_SOL_MINT e) (x_spl_token_ID e) s = (Inr held, s1)"
    and claim: "(if rc_min_claimable_lamports c \<le> unwrap_or held 0
      then withdraw_creator_fees e rpc (rc_admin c) (rc_token_mint c) else io_lift (Inr ())) s1 = (Inr (), s2)"
    and bal: "rpc_call (r_get_balance rpc (rc_admin c)) s2 = (Inr bal, s3)"
    and sweep: "(if ?t bal = 0 then io_lift (Inr ())
      else submit rpc (rc_admin c) [x_transfer e (rc_admin c) (rc_target c) (?t bal)]) s3 = (Inr (), s')"
    using assms by (auto simp: runner_cycle_def Let_def io_bind_eq_Inr_iff)
  have t: "unat (?t bal) = unat bal - (unat (rc_reserve_lamports c) + 5000)"
    by (simp add: unat_saturating_sub unat_saturating_add min_def) (use unat_u64_le [of bal] in linarith)
  show ?thesis
  proof (intro exI conjI)
    show "if unat bal \<le> unat (rc_reserve_lamports c) + 5000 then s' = s3
     else \<exists>t. sent_by rpc (rc_admin c) [x_transfer e (rc_admin c) (rc_target c) t] s' \<and>
       unat t + unat (rc_reserve_lamports c) + 5000 = unat bal"
    proof (cases "unat bal \<le> unat (rc_reserve_lamports c) + 5000")
      case True
      then have "?t bal = 0" using t by (simp add: unat_eq_0 [symmetric])
      then show ?thesis using sweep True by simp
    next
      case False
      then have "?t bal \<noteq> 0" using t by (auto simp: unat_eq_0 [symmetric])
      then have "sent_by rpc (rc_admin c) [x_transfer e (rc_admin c) (rc_target c) (?t bal)] s'"
        using sweep by (auto intro: submit_sent_by)
      then show ?thesis using False t by auto
    qed
  qed (use b claim bal in \<open>auto split: if_splits\<close>)
qed

theorem runner_cycle_keeps_reserve_witness:
  "\<exists>s' bal t.
    runner_cycle (ext_example True) sell_rpc_example \<lparr>rc_rpc_url = [], rc_admin = key 1, rc_token_mint = key 2,
      rc_target = key 3, rc_min_claimable_lamports = 10, rc_reserve_lamports = 10000000\<rparr> env_example = (Inr (), s') \<and>
    sent_by sell_rpc_example (key 1) [x_transfer (ext_example True) (key 1) (key 3) t] s' \<and>
    unat t = 9995000"
proof -
  let ?e = "ext_example True" and ?c = "\<lparr>rc_rpc_url = [], rc_admin = key 1, rc_token_mint = key 2,
      rc_target = key 3, rc_min_claimable_lamports = 10, rc_reserve_lamports = 10000000\<rparr>"
  have parse: "parse_u64 ''7'' = Inr 7" by (simp add: parse_u64_def)
  have held: "get_token_balance ?e sell_rpc_example k (WRAPPED_SOL_MINT ?e) (x_spl_token_ID ?e) env_example =
      (Inr (Some 7), env_example)" for k
    by (simp add: get_token_balance_def rpc_call_def sell_rpc_example_def parse)
  have bal: "rpc_call (r_get_balance sell_rpc_example k) s = (Inr 20000000, s)" for k s
    by (simp add: rpc_call_def sell_rpc_example_def)
  obtain s' where run: "runner_cycle ?e sell_rpc_example ?c env_example = (Inr (), s')"
    by (simp add: runner_cycle_def Let_def io_bind_def [of "get_token_balance _ _ _ _ _"] held
        unwrap_or_def io_bind_def [of "rpc_call _"] bal saturating_sub_def saturating_add_def)
      (use submit_example in blast)
  from runner_cycle_keeps_reserve [OF run] show ?thesis
    using run by (auto simp: held bal unwrap_or_def)
qed

section \<open>The batch\<close>

lemma batch_tx_dry: "makes snd submits_none (batch_tx e (traced rpc) d a slippage p payer)"
  unfolding batch_tx_def Let_def by (intro dry_intros tr.dry_operations)

lemma fetch_pool_snapshot_no_sleep: "no_sleep (fetch_pool_snapshot rpc p)"
  unfolding fetch_pool_snapshot_def Let_def by (intro no_sleep_intros)

lemma batch_tx_no_sleep: "no_sleep (batch_tx e rpc d a slippage p payer)"
  unfolding batch_tx_def Let_def
  by (auto intro!: no_sleep_intros fetch_pool_snapshot_no_sleep split: prod.splits)

lemma batch_tx_payer: "batch_tx e rpc d a slippage p payer s = (Inr tx, s') \<Longrightarrow> tx_payer tx = payer"
  by (auto simp: batch_tx_def Let_def io_bind_eq_Inr_iff split_beta)

lemma batch_tx_step:
  assumes "batch_tx e (traced rpc) d a slippage p payer s = (r, s')"
  obtains cs where "snd (env_chain s') = snd (env_chain s) @ cs" and "submissions cs = []"
    and "env_slept s' = env_slept s" and "\<And>tx. r = Inr tx \<Longrightarrow> tx_payer tx = payer"
proof -
  obtain cs where "snd (env_chain s') = snd (env_chain s) @ cs" "submissions cs = []"
    using batch_tx_dry [of e rpc d a slippage p payer] assms
    unfolding makes_def submits_none_def by (metis snd_conv)
  moreover have "env_slept s' = env_slept s"
    using batch_tx_no_sleep [of e "traced rpc" d a slippage p payer] assms
    unfolding no_sleep_def by (metis snd_conv)
  moreover have "tx_payer tx = payer" if "r = Inr tx" for tx
    using assms unfolding that by (rule batch_tx_payer)
  ultimately show ?thesis by (rule that)
qed

lemma batch_send_rpc:
  obtains r w where "batch_send (traced rpc) je tx None s =
    (r, None, s\<lparr>env_chain := (w, snd (env_chain s) @ [SendAndConfirmTransaction tx])\<rparr>)"
proof -
  obtain r w where "r_send_and_confirm_transaction rpc tx (fst (env_chain s)) = (r, w)" by fastforce
  then show ?thesis
    by (intro that [of "bindE r (\<lambda>_. Inr ())" w])
      (simp add: batch_send_def rpc_call_def traced_def observe_def)
qed

text \<open>
  A batch from wallet number \<open>i\<close> on: \<open>made\<close> rounds were begun, one more than there are lines when
  the last one failed before its send.
\<close>

definition batch_result ::
  "(nat \<Rightarrow> pubkey \<Rightarrow> ('w \<times> call list, transaction) io) \<Rightarrow> nat \<Rightarrow> nat \<Rightarrow> pubkey list \<Rightarrow> ('w \<times> call list) env \<Rightarrow>
   unit res \<times> (nat \<times> pubkey \<times> unit res) list \<times> ('w \<times> call list) env \<Rightarrow> bool" where
  "batch_result build interval i wallets s res \<longleftrightarrow> (case res of (r, lines, s') \<Rightarrow>
     let sent = length lines; begun = sent + (if isl r then 1 else 0) in
     (\<exists>cs. snd (env_chain s') = snd (env_chain s) @ cs \<and>
       map tx_payer (submissions cs) = take sent wallets) \<and>
     map fst lines = [i + 1..<i + 1 + sent] \<and> map (fst \<circ> snd) lines = take sent wallets \<and>
     env_slept s' = env_slept s @ replicate (if i = 0 then begun - 1 else begun) interval \<and>
     (case r of
        Inr _ \<Rightarrow> sent = length wallets
      | Inl err \<Rightarrow> sent < length wallets \<and> (\<exists>t. fst (build (i + sent) (wallets ! sent) t) = Inl err)))"

lemma batch_loop_result:
  defines "build \<equiv> \<lambda>e rpc ds a slippage p i. batch_tx e (traced rpc) (ds i) a slippage p"
  shows "batch_result (build e rpc ds a slippage p) interval i wallets s
    (batch_loop (build e rpc ds a slippage p) (batch_send (traced rpc) je) interval i wallets None s)"
proof (induction wallets arbitrary: i s)
  case Nil
  then show ?case by (simp add: batch_result_def)
next
  case (Cons payer wallets)
  let ?b = "build e rpc ds a slippage p" and ?s0 = "if 0 < i then sleep_ms interval s else s"
  obtain r s1 where b: "?b i payer ?s0 = (r, s1)" by fastforce
  obtain cs where cs: "snd (env_chain s1) = snd (env_chain ?s0) @ cs" "submissions cs = []"
    "env_slept s1 = env_slept ?s0" "\<And>tx. r = Inr tx \<Longrightarrow> tx_payer tx = payer"
    using b unfolding build_def by (rule batch_tx_step) blast
  have s0: "snd (env_chain ?s0) = snd (env_chain s)"
    "env_slept ?s0 = env_slept s @ replicate (if i = 0 then 0 else 1) interval"
    by (simp_all add: sleep_ms_def)
  show ?case
  proof (cases r)
    case (Inl err)
    then show ?thesis
      using b cs s0 by (auto simp: batch_result_def Let_def intro: exI [of _ ?s0])
  next
    case (Inr tx)
    obtain o' w where sd: "batch_send (traced rpc) je tx None s1 =
        (o', None, s1\<lparr>env_chain := (w, snd (env_chain s1) @ [SendAndConfirmTransaction tx])\<rparr>)"
      by (rule batch_send_rpc)
    let ?s2 = "s1\<lparr>env_chain := (w, snd (env_chain s1) @ [SendAndConfirmTransaction tx])\<rparr>"
    obtain r' lines s' where rec:
      "batch_loop ?b (batch_send (traced rpc) je) interval (i + 1) wallets None ?s2 = (r', lines, s')"
      by (metis prod_cases3)
    have run: "batch_loop ?b (batch_send (traced rpc) je) interval i (payer # wallets) None s =
        (r', (i + 1, payer, o') # lines, s')"
      using b Inr sd rec by (simp add: Let_def)
    have IH: "batch_result ?b interval (i + 1) wallets ?s2 (r', lines, s')"
      using Cons.IH [of "i + 1" ?s2] rec by simp
    then obtain ds' where ds': "snd (env_chain s') = snd (env_chain ?s2) @ ds'"
      "map tx_payer (submissions ds') = take (length lines) wallets"
      unfolding batch_result_def Let_def by auto
    have "\<exists>cs. snd (env_chain s') = snd (env_chain s) @ cs \<and>
        map tx_payer (submissions cs) = payer # take (length lines) wallets"
      using cs s0 ds' Inr by (intro exI [of _ "cs @ SendAndConfirmTransaction tx # ds'"]) simp
    then show ?thesis
      using IH cs(3) s0(2) unfolding run
      by (auto simp: batch_result_def Let_def upt_conv_Cons replicate_add [symmetric] split: sum.splits)
  qed
qed

text \<open>
  C8: a batch over RPC, for any endpoint. The wallets are served in order: each one that is
  reached submits exactly one transaction, which it pays itself, and gets one line, numbered from
  one; the pause is taken between rounds and nowhere else. A batch that returns has served every
  wallet, so a submission that failed did not stop it; one that fails stops at the wallet whose
  transaction could not be built, with that error.
\<close>

theorem batch_serves_wallets_in_order:
  "case batch_loop (\<lambda>i. batch_tx e (traced rpc) (ds i) a slippage p) (batch_send (traced rpc) je) interval 0
      wallets None s of (r, lines, s') \<Rightarrow>
    (\<exists>cs. snd (env_chain s') = snd (env_chain s) @ cs \<and>
      map tx_payer (submissions cs) = take (length lines) wallets) \<and>
    map fst lines = [1..<1 + length lines] \<and> map (fst \<circ> snd) lines = take (length lines) wallets \<and>
    (case r of
       Inr _ \<Rightarrow> length lines = length wallets \<and>
         env_slept s' = env_slept s @ replicate (length wallets - 1) interval
     | Inl err \<Rightarrow> length lines < length wallets \<and>
         env_slept s' = env_slept s @ replicate (length lines) interval \<and>
         (\<exists>t. fst (batch_tx e (traced rpc) (ds (length lines)) a slippage p (wallets ! length lines) t) = Inl err))"
  using batch_loop_result [of e rpc ds a slippage p interval 0 wallets s je]
  by (auto simp: batch_result_def Let_def split: prod.splits sum.splits)

section \<open>The layout check\<close>

lemma find_first: "P x \<Longrightarrow> (\<And>y. y \<in> set pre \<Longrightarrow> \<not> P y) \<Longrightarrow> find P (pre @ x # post) = Some x"
  by (induction pre) auto

context swap_builder
begin

lemma found:
  assumes "build e d p payer = Inr ixs" and "spl_programs_documented e"
    and disc: "\<not> prefix disc [234, 102, 194, 203, 150, 72, 62, 229]"
    and data: "\<And>ub uq ix. swap e d p payer ub uq = Inr ix \<Longrightarrow> prefix disc (ix_data ix)"
  shows "\<exists>ub uq ix. find_pump_amm_ix e ixs disc = Inr ix \<and> swap e d p payer ub uq = Inr ix"
proof -
  obtain wsol seed lamports swap_ix close_ata ub uq where
    s: "swap e d p payer ub uq = Inr swap_ix"
    and q: "swap_sequence e p payer wsol seed lamports
          (if creates then [x_create_ata_idempotent e payer payer (token_mint e p) (token_program e p)] else [])
          swap_ix close_ata ixs"
    using sequence [OF assms(1)] by blast
  obtain extend init close where
    x: "maybe_extend_pool_ix e p payer = Inr extend"
    and i: "x_initialize_account e (x_spl_token_ID e) wsol (WRAPPED_SOL_MINT e) payer = Inr init"
    and ixs: "ixs = (opt_list extend @
      [x_create_account_with_seed e payer wsol payer seed lamports
        (word_of_nat (x_token_account_LEN e)) (x_spl_token_ID e), init] @
      (if creates then [x_create_ata_idempotent e payer payer (token_mint e p) (token_program e p)] else []))
      @ swap_ix # close # close_ata"
    using q by (auto simp: swap_sequence_def)
  have "find (\<lambda>ix. ix_program_id ix = PUMP_SWAP_PROGRAM_ID e \<and> prefix disc (ix_data ix)) ixs = Some swap_ix"
    unfolding ixs
  proof (rule find_first)
    show "ix_program_id swap_ix = PUMP_SWAP_PROGRAM_ID e \<and> prefix disc (ix_data swap_ix)"
      using swap_user [OF s] data [OF s] by blast
  qed (use assms(2) x i disc in \<open>auto simp: spl_programs_documented_def maybe_extend_eq opt_list_def
      split: if_splits option.splits\<close>)
  then show ?thesis using s by (auto simp: find_pump_amm_ix_def)
qed

end

text \<open>
  C11: in each of the three sequences that \<open>verify_layout\<close> checks, the instruction it finds by its
  discriminator is the swap instruction of that sequence, so the check never fails on a sequence
  that was built and reports on no other instruction.
\<close>

theorem layout_check_finds_swap:
  assumes "spl_programs_documented e"
    and "build_buy_ixs e d y a t p payer c = Inr ixs1"
    and "build_buy_exact_quote_in_ixs e d a y t p payer c = Inr ixs2"
    and "build_sell_ixs e d a y p payer c = Inr ixs3"
  shows "(\<exists>ub uq ix. find_pump_amm_ix e ixs1 [102, 6, 61, 18, 1, 218, 235, 234] = Inr ix \<and>
      make_buy_instruction e (dr_fee d) (dr_buyback d) y a t p payer ub uq = Inr ix) \<and>
    (\<exists>ub uq ix. find_pump_amm_ix e ixs2 [198, 46, 21, 82, 180, 217, 232, 112] = Inr ix \<and>
      make_buy_exact_quote_in_instruction e (dr_fee d) (dr_buyback d) a y t p payer ub uq = Inr ix) \<and>
    (\<exists>ub uq ix. find_pump_amm_ix e ixs3 [51, 230, 133, 164, 1, 127, 131, 173] = Inr ix \<and>
      make_sell_instruction e (dr_fee d) (dr_buyback d) a y p payer ub uq = Inr ix)"
proof (intro conjI)
  show "\<exists>ub uq ix. find_pump_amm_ix e ixs1 [102, 6, 61, 18, 1, 218, 235, 234] = Inr ix \<and>
      make_buy_instruction e (dr_fee d) (dr_buyback d) y a t p payer ub uq = Inr ix"
    by (rule buy_builder.found [OF assms(2,1)])
      (auto simp: make_buy_instruction_def bindE_eq_Inr_iff BuyInstruction_to_vec_def BuyInstruction_new_def
        BuyInstruction_DISCRIMINATOR_def)
  show "\<exists>ub uq ix. find_pump_amm_ix e ixs2 [198, 46, 21, 82, 180, 217, 232, 112] = Inr ix \<and>
      make_buy_exact_quote_in_instruction e (dr_fee d) (dr_buyback d) a y t p payer ub uq = Inr ix"
    by (rule buy_exact_builder.found [OF assms(3,1)])
      (auto simp: make_buy_exact_quote_in_instruction_def bindE_eq_Inr_iff BuyExactQuoteInInstruction_to_vec_def
        BuyExactQuoteInInstruction_new_def BuyExactQuoteInInstruction_DISCRIMINATOR_def)
  show "\<exists>ub uq ix. find_pump_amm_ix e ixs3 [51, 230, 133, 164, 1, 127, 131, 173] = Inr ix \<and>
      make_sell_instruction e (dr_fee d) (dr_buyback d) a y p payer ub uq = Inr ix"
    by (rule sell_builder.found [OF assms(4,1)])
      (auto simp: make_sell_instruction_def bindE_eq_Inr_iff SellInstruction_to_vec_def SellInstruction_new_def)
qed

theorem layout_check_finds_swap_witness:
  "\<exists>ixs ub uq ix. build_buy_ixs (ext_example True) draws_example 7 5000 False spl_pool_example (key 1) False = Inr ixs \<and>
    find_pump_amm_ix (ext_example True) ixs [102, 6, 61, 18, 1, 218, 235, 234] = Inr ix \<and>
    make_buy_instruction (ext_example True) (dr_fee draws_example) (dr_buyback draws_example) 7 5000 False
      spl_pool_example (key 1) ub uq = Inr ix"
proof -
  let ?e = "ext_example True"
  note doc = choose_documented_example [of True] spl_token_documented_example [of True]
  obtain i1 where i1: "build_buy_ixs ?e draws_example 7 5000 False spl_pool_example (key 1) False = Inr i1"
    using build_buy_ok [OF doc example_seed example_rent] by blast
  obtain i3 where i3: "build_sell_ixs ?e draws_example 5000 7 spl_pool_example (key 1) False = Inr i3"
    using build_sell_ok [OF doc example_program example_seed example_rent] by blast
  obtain i2 where i2:
    "build_buy_exact_quote_in_ixs ?e draws_example 5000 7 False spl_pool_example (key 1) False = Inr i2"
    using token_builders_ok [OF doc example_program example_seed [of True "key 1"] example_rent,
        where y = 7 and t = False and flag = False]
      token_builders_orient_eq [of ?e spl_pool_example draws_example 5000 7 False "key 1" False]
    by (auto split: if_splits)
  from layout_check_finds_swap [OF spl_programs_documented_example i1 i2 i3] i1 show ?thesis by blast
qed

end
