(* ===== verification/Unit_Tests.thy ===== *)
theory Unit_Tests
  imports Client Jito
begin

text \<open>
  The unit tests of the crate, from the \<open>#[cfg(test)]\<close> modules of \<open>math.rs\<close>, \<open>util.rs\<close>,
  \<open>instruction.rs\<close> and \<open>client.rs\<close>: each test is a predicate of what it draws, true when no
  assertion and no \<open>unwrap\<close> of it fails. The theorems show that the model passes them, for every
  draw and every fresh key and not only those of one run. \<open>Pubkey::new_unique()\<close> is \<open>u i\<close> for the
  \<open>i\<close>th call.
\<close>

section \<open>Assertions\<close>

text \<open>\<open>r.unwrap()\<close> followed by assertions on the value.\<close>

definition unwrap_and :: "'a res \<Rightarrow> ('a \<Rightarrow> bool) \<Rightarrow> bool" where
  "unwrap_and r p = (case r of Inl _ \<Rightarrow> False | Inr x \<Rightarrow> p x)"

definition expect_and :: "'a option \<Rightarrow> ('a \<Rightarrow> bool) \<Rightarrow> bool" where
  "expect_and r p = (case r of None \<Rightarrow> False | Some x \<Rightarrow> p x)"

text \<open>\<open>make(..).unwrap().accounts.len() == n\<close>.\<close>

definition has_accounts :: "instruction res \<Rightarrow> nat \<Rightarrow> bool" where
  "has_accounts r n = unwrap_and r (\<lambda>ix. length (ix_accounts ix) = n)"

definition u64_at :: "bytes \<Rightarrow> nat \<Rightarrow> u64 option" where
  "u64_at data i = map_option from_le_bytes (slice_get data i (i + 8))"

lemma unwrap_and_simps [simp]:
  "unwrap_and (Inr x) p = p x" "\<not> unwrap_and (Inl err) p"
  "expect_and (Some x) p = p x" "\<not> expect_and None p"
  by (simp_all add: unwrap_and_def expect_and_def)

section \<open>math.rs\<close>

definition test_fees :: "u64 \<Rightarrow> u64 \<Rightarrow> u64 \<Rightarrow> Fees" where
  "test_fees lp protocol creator = \<lparr>lp_fee_bps = lp, protocol_fee_bps = protocol, creator_fee_bps = creator\<rparr>"

definition fee_rounds_each_component_up_separately :: bool where
  "fee_rounds_each_component_up_separately \<longleftrightarrow>
     fee_on (test_fees 10 10 10) 1 = 3 \<and> fee_on (test_fees 30 0 0) 1 = 1"

definition zero_fee_quote_still_subtracts_nothing :: bool where
  "zero_fee_quote_still_subtracts_nothing \<longleftrightarrow>
     (let quote = quote_sell 1000 10000 10000 fees_default 0 in
      sq_fee quote = 0 \<and> amount_out quote = gross_amount_out quote)"

definition slippage_only_reduces_the_minimum_not_the_expected_fill :: bool where
  "slippage_only_reduces_the_minimum_not_the_expected_fill \<longleftrightarrow>
     (let quote = quote_sell 1000 10000 10000 (test_fees 20 5 5) (f64_rnd (1 / 100)) in
      min_amount_out quote < amount_out quote \<and>
      min_amount_out quote = u64_of_f64 (f64_of_u64 (amount_out quote) * f64_rnd (99 / 100)))"

definition exact_base_out_quote_rejects_draining_the_reserve :: bool where
  "exact_base_out_quote_rejects_draining_the_reserve \<longleftrightarrow>
     quote_buy_exact_base_out 10000 10000 10000 fees_default 0 = None \<and>
     quote_buy_exact_base_out 10001 10000 10000 fees_default 0 = None \<and>
     quote_buy_exact_base_out 9999 10000 10000 fees_default 0 \<noteq> None"

definition constant_product_out_is_exact_at_the_boundary :: bool where
  "constant_product_out_is_exact_at_the_boundary \<longleftrightarrow>
     constant_product_out 10 10 100 = 50 \<and> constant_product_out 3 10 100 = 23"

section \<open>util.rs\<close>

definition jito_pool_rejects_empty_endpoint_list :: "(string \<Rightarrow> string option \<Rightarrow> 'c) \<Rightarrow> nat \<Rightarrow> bool" where
  "jito_pool_rejects_empty_endpoint_list sdk_new now \<longleftrightarrow> isl (jito_pool_new sdk_new now [] None 0)"

definition indexed_pool_pda_keeps_zero_index_backward_compatible :: "ext \<Rightarrow> bool" where
  "indexed_pool_pda_keeps_zero_index_backward_compatible e \<longleftrightarrow>
     (let creator = key 1; base = key 2; quote = key 3 in
      calc_pool_pda e creator base quote = calc_pool_pda_with_index e 0 creator base quote \<and>
      fst (calc_pool_pda e creator base quote) \<noteq> fst (calc_pool_pda_with_index e 1 creator base quote))"

section \<open>instruction.rs\<close>

definition instruction_pool_info :: "ext \<Rightarrow> pubkey \<Rightarrow> bool \<Rightarrow> PoolInfo" where
  "instruction_pool_info e coin_creator' cashback = \<lparr>
     pi_pool = key 1, pool_account_data_len = POOL_ACCOUNT_NEW_SIZE, base_mint = key 2,
     quote_mint = WRAPPED_SOL_MINT e, lp_mint = key 3, pool_base_token_account = key 4,
     pool_quote_token_account = key 5, pi_creator = key 6, coin_creator = coin_creator',
     is_mayhem_mode = False, is_cashback_coin = cashback, virtual_quote_reserves = 0,
     pi_creator_fee_bps = 0, is_holder_reward = False, protocol_fees = 0, creator_fees = 0,
     base_token_program = x_spl_token_ID e, quote_token_program = x_spl_token_ID e\<rparr>"

text \<open>The draws of the test's builder calls are \<open>d 0\<close>, \<open>d 1\<close>, \<open>...\<close>.\<close>

definition swap_instruction_account_counts_include_required_remaining_accounts ::
  "ext \<Rightarrow> (nat \<Rightarrow> nat \<times> nat) \<Rightarrow> bool" where
  "swap_instruction_account_counts_include_required_remaining_accounts e d \<longleftrightarrow>
     (let user = key 7; user_base_ata = key 8; user_quote_ata = key 9;
          buy = (\<lambda>i info. make_buy_instruction e (fst (d i)) (snd (d i)) 1 2 True info user user_base_ata
            user_quote_ata);
          exact = (\<lambda>i info. make_buy_exact_quote_in_instruction e (fst (d i)) (snd (d i)) 1 2 True info user
            user_base_ata user_quote_ata);
          sell = (\<lambda>i info. make_sell_instruction e (fst (d i)) (snd (d i)) 1 2 info user user_base_ata
            user_quote_ata);
          classic = instruction_pool_info e pubkey_default False;
          creator_pool = instruction_pool_info e (key 10) False;
          cashback_creator_pool = instruction_pool_info e (key 10) True
      in has_accounts (buy 0 classic) 25 \<and> has_accounts (exact 1 classic) 25 \<and> has_accounts (sell 2 classic) 23 \<and>
         has_accounts (buy 3 creator_pool) 26 \<and> has_accounts (sell 4 creator_pool) 24 \<and>
         has_accounts (buy 5 cashback_creator_pool) 27 \<and> has_accounts (sell 6 cashback_creator_pool) 26)"

definition buy_instruction_data_layout_matches_idl :: bool where
  "buy_instruction_data_layout_matches_idl \<longleftrightarrow>
     (let bytes = BuyInstruction_to_vec (BuyInstruction_new 50000000 564953706 True);
          bytes_off = BuyInstruction_to_vec (BuyInstruction_new 1 2 False)
      in length bytes = 25 \<and> slice_get bytes 0 8 = Some BuyInstruction_DISCRIMINATOR \<and>
         u64_at bytes 8 = Some 50000000 \<and> u64_at bytes 16 = Some 564953706 \<and>
         byte_get bytes 24 = Some 1 \<and> byte_get bytes_off 24 = Some 0)"

definition buy_exact_quote_in_data_layout_matches_idl :: bool where
  "buy_exact_quote_in_data_layout_matches_idl \<longleftrightarrow>
     (let bytes = BuyExactQuoteInInstruction_to_vec (BuyExactQuoteInInstruction_new 50000000 564953706 True)
      in length bytes = 25 \<and> slice_get bytes 0 8 = Some BuyExactQuoteInInstruction_DISCRIMINATOR \<and>
         u64_at bytes 8 = Some 50000000 \<and> u64_at bytes 16 = Some 564953706 \<and> byte_get bytes 24 = Some 1)"

definition deposit_instruction_account_count :: "ext \<Rightarrow> bool" where
  "deposit_instruction_account_count e \<longleftrightarrow>
     has_accounts (make_deposit_instruction e 1 2 3 (instruction_pool_info e pubkey_default False) (key 7)
       (key 8) (key 9) (key 10)) 15"

definition claim_cashback_instruction_account_count :: "ext \<Rightarrow> bool" where
  "claim_cashback_instruction_account_count e \<longleftrightarrow>
     has_accounts (make_claim_cashback_instruction e (key 7) (WRAPPED_SOL_MINT e) (x_spl_token_ID e)) 9"

definition create_pool_instruction_data_layout_includes_current_flags :: bool where
  "create_pool_instruction_data_layout_includes_current_flags \<longleftrightarrow>
     (let ix = CreatePoolInstruction_to_vec (CreatePoolInstruction_new_with_options 7 1 2 (key 3) True False)
      in length ix = 60 \<and> slice_get ix 0 8 = Some [233, 146, 209, 142, 207, 104, 64, 188] \<and>
         map_option from_le_bytes (slice_get ix 8 10) = Some (7 :: u16) \<and>
         u64_at ix 10 = Some 1 \<and> u64_at ix 18 = Some 2 \<and>
         slice_get ix 26 58 = Some (pk_bytes (key 3)) \<and> byte_get ix 58 = Some 1 \<and> byte_get ix 59 = Some 0)"

definition current_auxiliary_instruction_builders_match_idl_account_counts :: "ext \<Rightarrow> bool" where
  "current_auxiliary_instruction_builders_match_idl_account_counts e \<longleftrightarrow>
     (let user = key 7; payer = key 8; mint = WRAPPED_SOL_MINT e; token_program' = x_spl_token_ID e;
          user_ata = x_get_ata e user mint (x_spl_token_ID e);
          global_ata = x_get_ata e (GLOBAL_VOLUME_ACCUMULATOR e) mint (x_spl_token_ID e)
      in unwrap_and (make_extend_account_instruction e (key 1) user) (\<lambda>extend_ix.
           ix_data extend_ix = [234, 102, 194, 203, 150, 72, 62, 229] \<and> length (ix_accounts extend_ix) = 5) \<and>
         has_accounts (make_init_user_volume_accumulator_instruction e payer user) 6 \<and>
         has_accounts (make_sync_user_volume_accumulator_instruction e user) 5 \<and>
         has_accounts (make_close_user_volume_accumulator_instruction e user) 4 \<and>
         has_accounts (make_claim_token_incentives_instruction e user payer mint token_program' user_ata global_ata) 12 \<and>
         has_accounts (make_collect_coin_creator_fee_instruction e user mint token_program' user_ata) 8)"

section \<open>client.rs: orientation\<close>

text \<open>A pool over eight fresh keys \<open>u 0\<close> to \<open>u 6\<close>; the payers are \<open>u 7\<close>.\<close>

definition orientation_pool_info :: "ext \<Rightarrow> (nat \<Rightarrow> pubkey) \<Rightarrow> bool \<Rightarrow> PoolInfo" where
  "orientation_pool_info e u sol_base =
     (let token = u 0;
          (base_mint', quote_mint') =
            (if sol_base then (WRAPPED_SOL_MINT e, token) else (token, WRAPPED_SOL_MINT e))
      in \<lparr>pi_pool = u 1, pool_account_data_len = POOL_ACCOUNT_NEW_SIZE, base_mint = base_mint',
        quote_mint = quote_mint', lp_mint = u 2, pool_base_token_account = u 3,
        pool_quote_token_account = u 4, pi_creator = u 5, coin_creator = u 6, is_mayhem_mode = False,
        is_cashback_coin = False, virtual_quote_reserves = 0, pi_creator_fee_bps = 0,
        is_holder_reward = False, protocol_fees = 0, creator_fees = 0,
        base_token_program = x_spl_token_ID e, quote_token_program = x_spl_token_ID e\<rparr>)"

definition pump_amm_ix :: "ext \<Rightarrow> instruction list \<Rightarrow> instruction option" where
  "pump_amm_ix e ixs = find (\<lambda>ix. ix_program_id ix = PUMP_SWAP_PROGRAM_ID e) ixs"

definition account_key :: "instruction \<Rightarrow> nat \<Rightarrow> pubkey option" where
  "account_key ix i = map_option am_pubkey (byte_get (ix_accounts ix) i)"

definition wsol_seeded_account :: "ext \<Rightarrow> instruction list \<Rightarrow> pubkey option" where
  "wsol_seeded_account e ixs =
     (case find (\<lambda>ix. ix_program_id ix = x_spl_token_ID e \<and> byte_get (ix_data ix) 0 = Some 1) ixs of
        None \<Rightarrow> None | Some ix \<Rightarrow> account_key ix 0)"

definition token_ata_of :: "ext \<Rightarrow> PoolInfo \<Rightarrow> pubkey \<Rightarrow> pubkey" where
  "token_ata_of e info payer = x_get_ata e payer (token_mint e info) (x_spl_token_ID e)"

text \<open>The assertions on the swap: its discriminator, where the test looks at it, and accounts 5 and 6.\<close>

definition swap_asserted ::
  "ext \<Rightarrow> instruction list res \<Rightarrow> bytes option \<Rightarrow> (pubkey \<Rightarrow> pubkey \<times> pubkey) \<Rightarrow> bool" where
  "swap_asserted e built disc accounts = unwrap_and built (\<lambda>ixs.
     expect_and (pump_amm_ix e ixs) (\<lambda>ix.
     expect_and (wsol_seeded_account e ixs) (\<lambda>wsol.
     (disc = None \<or> slice_get (ix_data ix) 0 8 = disc) \<and>
     account_key ix 5 = Some (fst (accounts wsol)) \<and> account_key ix 6 = Some (snd (accounts wsol)))))"

definition token_buy_uses_sell_ix_with_wsol_as_base_on_sol_base_pool :: "ext \<Rightarrow> draws \<Rightarrow> (nat \<Rightarrow> pubkey) \<Rightarrow> bool" where
  "token_buy_uses_sell_ix_with_wsol_as_base_on_sol_base_pool e d u \<longleftrightarrow>
     (let info = orientation_pool_info e u True; payer = u 7 in
      swap_asserted e (build_token_buy_ixs e d 1000000 1 True info payer True)
        (Some [51, 230, 133, 164, 1, 127, 131, 173]) (\<lambda>wsol. (wsol, token_ata_of e info payer)))"

definition token_buy_uses_buy_exact_quote_in_on_token_base_pool :: "ext \<Rightarrow> draws \<Rightarrow> (nat \<Rightarrow> pubkey) \<Rightarrow> bool" where
  "token_buy_uses_buy_exact_quote_in_on_token_base_pool e d u \<longleftrightarrow>
     (let info = orientation_pool_info e u False; payer = u 7 in
      swap_asserted e (build_token_buy_ixs e d 1000000 1 True info payer True)
        (Some BuyExactQuoteInInstruction_DISCRIMINATOR) (\<lambda>wsol. (token_ata_of e info payer, wsol)))"

definition token_sell_uses_buy_exact_quote_in_on_sol_base_pool :: "ext \<Rightarrow> draws \<Rightarrow> (nat \<Rightarrow> pubkey) \<Rightarrow> bool" where
  "token_sell_uses_buy_exact_quote_in_on_sol_base_pool e d u \<longleftrightarrow>
     (let info = orientation_pool_info e u True; payer = u 7 in
      swap_asserted e (build_token_sell_ixs e d 500000 1 info payer False)
        (Some BuyExactQuoteInInstruction_DISCRIMINATOR) (\<lambda>wsol. (wsol, token_ata_of e info payer)))"

definition token_sell_uses_sell_ix_on_token_base_pool :: "ext \<Rightarrow> draws \<Rightarrow> (nat \<Rightarrow> pubkey) \<Rightarrow> bool" where
  "token_sell_uses_sell_ix_on_token_base_pool e d u \<longleftrightarrow>
     (let info = orientation_pool_info e u False; payer = u 7 in
      swap_asserted e (build_token_sell_ixs e d 500000 1 info payer False)
        (Some [51, 230, 133, 164, 1, 127, 131, 173]) (\<lambda>wsol. (token_ata_of e info payer, wsol)))"

definition legacy_builders_orient_user_accounts_on_sol_base_pool ::
  "ext \<Rightarrow> draws \<Rightarrow> draws \<Rightarrow> (nat \<Rightarrow> pubkey) \<Rightarrow> bool" where
  "legacy_builders_orient_user_accounts_on_sol_base_pool e d d' u \<longleftrightarrow>
     (let info = orientation_pool_info e u True; payer = u 7 in
      swap_asserted e (build_buy_ixs e d 1000 1000000 True info payer True) None
        (\<lambda>wsol. (wsol, token_ata_of e info payer)) \<and>
      swap_asserted e (build_sell_ixs e d' 1000000 1 info payer False) None
        (\<lambda>wsol. (wsol, token_ata_of e info payer)))"

text \<open>
  The lamports of the first instruction of the system program that \<open>decode\<close>, the bincode decoder,
  reads as \<open>CreateAccountWithSeed\<close>.
\<close>

definition funding :: "ext \<Rightarrow> (bytes \<Rightarrow> u64 option) \<Rightarrow> instruction list \<Rightarrow> u64 option" where
  "funding e decode ixs =
     (case find (\<lambda>ix. ix_program_id ix = x_system_program_ID e \<and> decode (ix_data ix) \<noteq> None) ixs of
        None \<Rightarrow> None | Some ix \<Rightarrow> decode (ix_data ix))"

definition wsol_funding_matches_spend_side ::
  "ext \<Rightarrow> (bytes \<Rightarrow> u64 option) \<Rightarrow> (bool \<Rightarrow> draws) \<Rightarrow> (bool \<Rightarrow> draws) \<Rightarrow> pubkey \<Rightarrow> (bool \<Rightarrow> nat \<Rightarrow> pubkey) \<Rightarrow>
   (bool \<Rightarrow> nat \<Rightarrow> pubkey) \<Rightarrow> bool" where
  "wsol_funding_matches_spend_side e decode d d' payer u u' \<longleftrightarrow>
     (let rent' = x_minimum_balance e (x_token_account_LEN e); sol_in = 250000000 in
      list_all (\<lambda>sol_base. let info = orientation_pool_info e (u sol_base) sol_base in
        unwrap_and (build_token_buy_ixs e (d sol_base) sol_in 1 True info payer True) (\<lambda>ixs.
        unwrap_and (add_u64 e rent' sol_in) (\<lambda>expected. funding e decode ixs = Some expected))) [True, False] \<and>
      list_all (\<lambda>sol_base. let info = orientation_pool_info e (u' sol_base) sol_base in
        unwrap_and (build_token_sell_ixs e (d' sol_base) 1000 1 info payer False) (\<lambda>ixs.
        funding e decode ixs = Some rent')) [True, False])"

section \<open>client.rs: the extend gate\<close>

definition EXTEND_ACCOUNT_DISCRIMINATOR :: bytes where
  "EXTEND_ACCOUNT_DISCRIMINATOR = [234, 102, 194, 203, 150, 72, 62, 229]"

text \<open>The files under \<open>tests/fixtures/pools\<close> that the tests include.\<close>

definition POOL_LEGACY_SHORT :: bytes where
  "POOL_LEGACY_SHORT = [241, 154, 109, 4, 17, 177, 109, 188, 254, 0, 0, 203, 190, 201, 119, 68, 227, 140, 118, 211, 26,
    105, 172, 85, 182, 213, 102, 226, 150, 138, 49, 42, 136, 212, 14, 193, 69, 105, 147, 50, 73,
    66, 95, 6, 155, 136, 87, 254, 171, 129, 132, 251, 104, 127, 99, 70, 24, 192, 53, 218, 196, 57,
    220, 26, 235, 59, 85, 152, 160, 240, 0, 0, 0, 0, 1, 116, 121, 17, 199, 13, 94, 154, 65, 112,
    93, 45, 73, 27, 55, 104, 240, 27, 105, 169, 196, 77, 233, 188, 193, 52, 230, 133, 212, 7, 56,
    205, 119, 213, 227, 132, 161, 171, 31, 165, 172, 247, 119, 113, 14, 251, 102, 220, 22, 194,
    157, 176, 23, 159, 17, 121, 46, 151, 180, 51, 143, 79, 14, 111, 41, 105, 167, 57, 66, 199, 49,
    205, 152, 5, 92, 77, 172, 23, 26, 225, 99, 233, 69, 13, 181, 219, 143, 172, 107, 235, 232, 97,
    227, 37, 57, 149, 218, 116, 155, 98, 178, 210, 207, 64, 65, 112, 173, 102, 7, 215, 12, 141, 12,
    84, 178, 25, 113, 178, 136, 3, 74, 95, 164, 52, 36, 109, 198, 238, 49, 100, 0, 0, 0, 0, 0, 0,
    0, 0, 0, 0, 0, 0, 0, 0, 0, 0, 0, 0, 0, 0, 0, 0, 0, 0, 0, 0, 0, 0, 0, 0, 0, 0, 0, 0, 0, 0, 0, 0,
    0, 0, 0, 0, 0, 0, 0, 0, 0, 0, 0, 0, 0, 0, 0, 0, 0, 0, 0, 0, 0, 0, 0, 0, 0, 0, 0, 0, 0]"

definition POOL_CURRENT :: bytes where
  "POOL_CURRENT = [241, 154, 109, 4, 17, 177, 109, 188, 254, 0, 0, 68, 101, 134, 141, 166, 84, 234, 6, 31, 31, 25,
    230, 127, 187, 224, 130, 219, 159, 165, 242, 71, 78, 154, 88, 189, 39, 72, 54, 169, 105, 48,
    46, 6, 155, 136, 87, 254, 171, 129, 132, 251, 104, 127, 99, 70, 24, 192, 53, 218, 196, 57, 220,
    26, 235, 59, 85, 152, 160, 240, 0, 0, 0, 0, 1, 95, 70, 201, 163, 97, 251, 214, 148, 188, 143,
    145, 8, 69, 143, 217, 99, 104, 46, 87, 234, 5, 138, 179, 226, 199, 222, 192, 92, 53, 205, 112,
    255, 65, 47, 15, 226, 82, 42, 45, 89, 97, 22, 17, 210, 149, 195, 204, 104, 32, 15, 152, 140,
    44, 208, 123, 46, 16, 127, 105, 193, 112, 91, 194, 192, 208, 91, 155, 148, 169, 15, 138, 93,
    92, 116, 201, 24, 241, 156, 146, 85, 55, 133, 97, 9, 139, 214, 44, 218, 36, 204, 75, 195, 35,
    193, 163, 77, 211, 114, 2, 233, 2, 31, 165, 95, 254, 57, 224, 207, 71, 16, 4, 173, 234, 12, 56,
    35, 52, 69, 196, 121, 213, 128, 173, 129, 87, 132, 165, 2, 100, 0, 0, 0, 0, 0, 0, 0, 0, 0, 0,
    0, 0, 0, 0, 0, 0, 0, 0, 0, 0, 0, 0, 0, 0, 0, 0, 0, 0, 0, 0, 0, 0, 0, 0, 0, 0, 0, 0, 0, 0, 0, 0,
    0, 0, 0, 0, 0, 0, 0, 0, 0, 0, 0, 0, 0, 0, 0, 0, 0, 0, 0, 0, 0, 0, 0, 0, 0, 0, 0, 0, 0, 0, 0, 0,
    0, 0, 0, 0, 0, 0, 0, 0, 0, 0, 0, 0, 0, 0, 0, 0, 0, 0, 0, 0, 0, 0, 0]"

definition pool_info_with_len :: "ext \<Rightarrow> (nat \<Rightarrow> pubkey) \<Rightarrow> pubkey \<Rightarrow> nat \<Rightarrow> PoolInfo" where
  "pool_info_with_len e u pool len = \<lparr>
     pi_pool = pool, pool_account_data_len = len, base_mint = WRAPPED_SOL_MINT e, quote_mint = u 0,
     lp_mint = u 1, pool_base_token_account = u 2, pool_quote_token_account = u 3, pi_creator = u 4,
     coin_creator = u 5, is_mayhem_mode = False, is_cashback_coin = False, virtual_quote_reserves = 0,
     pi_creator_fee_bps = 0, is_holder_reward = False, protocol_fees = 0, creator_fees = 0,
     base_token_program = x_spl_token_ID e, quote_token_program = x_spl_token_ID e\<rparr>"

definition gate :: "ext \<Rightarrow> (nat \<Rightarrow> pubkey) \<Rightarrow> nat \<Rightarrow> pubkey \<Rightarrow> pubkey \<Rightarrow> instruction option res" where
  "gate e u len payer pool = maybe_extend_pool_ix e (pool_info_with_len e u pool len) payer"

definition gate_flips_between_300_and_301_bytes :: "ext \<Rightarrow> (nat \<Rightarrow> pubkey) \<Rightarrow> pubkey \<Rightarrow> pubkey \<Rightarrow> bool" where
  "gate_flips_between_300_and_301_bytes e u payer pool \<longleftrightarrow>
     POOL_ACCOUNT_NEW_SIZE = 301 \<and>
     unwrap_and (gate e u (POOL_ACCOUNT_NEW_SIZE - 1) payer pool) (\<lambda>found. expect_and found (\<lambda>below.
       ix_program_id below = PUMP_SWAP_PROGRAM_ID e \<and> ix_data below = EXTEND_ACCOUNT_DISCRIMINATOR \<and>
       account_key below 0 = Some pool \<and> account_key below 1 = Some payer)) \<and>
     unwrap_and (gate e u POOL_ACCOUNT_NEW_SIZE payer pool) (\<lambda>found. found = None)"

definition gate_extends_everything_shorter_and_nothing_longer ::
  "ext \<Rightarrow> (nat \<Rightarrow> pubkey) \<Rightarrow> pubkey \<Rightarrow> pubkey \<Rightarrow> bool" where
  "gate_extends_everything_shorter_and_nothing_longer e u payer pool \<longleftrightarrow>
     list_all (\<lambda>len. unwrap_and (gate e u len payer pool) (\<lambda>found. found \<noteq> None)) [0, 245, 271, 299, 300] \<and>
     list_all (\<lambda>len. unwrap_and (gate e u len payer pool) (\<lambda>found. found = None)) [301, 302, 400]"

definition gate_matches_real_pool_fixtures :: "ext \<Rightarrow> pubkey \<Rightarrow> pubkey \<Rightarrow> pubkey \<Rightarrow> bool" where
  "gate_matches_real_pool_fixtures e payer k1 k2 \<longleftrightarrow>
     (let decode = (\<lambda>k data. pool_info_from_account_data k data (x_spl_token_ID e) (x_spl_token_ID e)) in
      unwrap_and (decode k1 POOL_LEGACY_SHORT) (\<lambda>legacy.
        pool_account_data_len legacy = 271 \<and>
        unwrap_and (maybe_extend_pool_ix e legacy payer) (\<lambda>found. found \<noteq> None) \<and>
      unwrap_and (decode k2 POOL_CURRENT) (\<lambda>current.
        pool_account_data_len current = POOL_ACCOUNT_NEW_SIZE \<and>
        unwrap_and (maybe_extend_pool_ix e current payer) (\<lambda>found. found = None))))"

section \<open>The tests of math.rs and util.rs pass\<close>

lemma slippage_test_amounts:
  "amount_out (quote_sell 1000 10000 10000 (test_fees 20 5 5) s) = 905"
proof -
  have "unat (amount_out (quote_sell 1000 10000 10000 (test_fees 20 5 5) s)) = 905"
    unfolding unat_sell_out by (simp add: test_fees_def exact_fee_def ceil_bps_def cp_out_def)
  then show ?thesis by (simp add: word_unat_eq_iff)
qed

lemma floor_905:
  assumes "\<bar>f - 99 / 100\<bar> \<le> 1 / 1000000"
  shows "\<lfloor>round_rat (905 * f)\<rfloor> = 895"
proof -
  have b: "8959 / 10 \<le> 905 * f" "905 * f \<le> 8959 / 10 + 9 / 100" using assms unfolding abs_le_iff by linarith+
  then have "\<bar>round_rat (905 * f) - 905 * f\<bar> \<le> 1 / 16 * 1 / 8192"
    using round_rat_abs_error [of "905 * f" 10] by (simp add: power_int_def power_divide)
  then show ?thesis using b unfolding abs_le_iff floor_eq_iff by (simp; linarith)
qed

lemma slippage_test_minimum:
  "unat (apply_slippage 905 (f64_rnd (1 / 100))) = 895"
  "unat (u64_of_f64 (f64_of_u64 905 * f64_rnd (99 / 100))) = 895"
proof -
  have half: "(2 :: rat) powi (- 1022) \<le> 2 powi (- 7)" unfolding powi_le_iff by simp
  have seven: "(2 :: rat) powi (- 7) = 1 / 128" by (simp add: power_int_minus)
  have small: "2 powi (- 1022) \<le> (1 / 100 :: rat)" "2 powi (- 1022) \<le> (99 / 100 :: rat)"
    using half unfolding seven by linarith+
  define s f where "s = round_rat (1 / 100)" and "f = round_rat (1 - s)"
  have s: "\<bar>s - 1 / 100\<bar> \<le> 1 / 100 / 2 ^ 53" unfolding s_def by (rule round_rat_error [OF small(1)])
  then have s01: "0 \<le> s" "s \<le> 1" unfolding abs_le_iff by simp_all
  have rs: "f64_rnd (1 / 100) = Fin s" unfolding s_def by (rule f64_rnd_finite) simp_all
  note os = one_minus_slippage [OF s01, folded f_def]
  have "\<bar>f - 99 / 100\<bar> \<le> 1 / 1000000" using os(4) s unfolding abs_le_iff by simp
  then show "unat (apply_slippage 905 (f64_rnd (1 / 100))) = 895"
    using apply_slippage_factor(1) [OF _ os(1-3), of 905] by (simp add: rs floor_905)
  define g where "g = round_rat (99 / 100)"
  have g: "\<bar>g - 99 / 100\<bar> \<le> 99 / 100 / 2 ^ 53" unfolding g_def by (rule round_rat_error [OF small(2)])
  then have g01: "0 \<le> g" "g \<le> 1" "\<bar>g - 99 / 100\<bar> \<le> 1 / 1000000" unfolding abs_le_iff by simp_all
  have rg: "f64_rnd (99 / 100) = Fin g" unfolding g_def by (rule f64_rnd_finite) simp_all
  note sc = scaled_amount [of 905, OF _ g01(1,2)]
  show "unat (u64_of_f64 (f64_of_u64 905 * f64_rnd (99 / 100))) = 895"
    using sc(1) unat_u64_of_f64_floor(1) [of "round_rat (905 * g)" 905] sc(2,3) floor_905 [OF g01(3)]
    by (simp add: rg)
qed

lemma math_tests_pass:
  "fee_rounds_each_component_up_separately" "zero_fee_quote_still_subtracts_nothing"
  "exact_base_out_quote_rejects_draining_the_reserve" "constant_product_out_is_exact_at_the_boundary"
  "slippage_only_reduces_the_minimum_not_the_expected_fill"
proof -
  show "fee_rounds_each_component_up_separately"
    by (simp add: fee_rounds_each_component_up_separately_def word_unat_eq_iff unat_fee_on exact_fee_def
        test_fees_def ceil_bps_def)
  show "constant_product_out_is_exact_at_the_boundary"
    by (simp add: constant_product_out_is_exact_at_the_boundary_def word_unat_eq_iff
        unat_constant_product_out cp_out_def)
  show "zero_fee_quote_still_subtracts_nothing"
    by (simp add: zero_fee_quote_still_subtracts_nothing_def Let_def word_unat_eq_iff unat_fee_on
        unat_saturating_sub exact_fee_def fees_default_def ceil_bps_def)
  show "exact_base_out_quote_rejects_draining_the_reserve"
    by (auto simp: exact_base_out_quote_rejects_draining_the_reserve_def quote_buy_exact_base_out_eq_None_iff)
  show "slippage_only_reduces_the_minimum_not_the_expected_fill"
    using slippage_test_minimum
    by (simp add: slippage_only_reduces_the_minimum_not_the_expected_fill_def Let_def slippage_test_amounts
        word_less_nat_alt word_unat_eq_iff del: quote_sell_simps(3))
qed

lemma util_tests_pass:
  "jito_pool_rejects_empty_endpoint_list sdk_new now"
  "indexed_pool_pda_keeps_zero_index_backward_compatible e \<longleftrightarrow>
    fst (calc_pool_pda_with_index e 0 (key 1) (key 2) (key 3)) \<noteq>
    fst (calc_pool_pda_with_index e 1 (key 1) (key 2) (key 3))"
  by (simp_all add: jito_pool_rejects_empty_endpoint_list_def jito_pool_new_def
      indexed_pool_pda_keeps_zero_index_backward_compatible_def Let_def calc_pool_pda_def)

section \<open>The tests of instruction.rs pass\<close>

lemmas test_layout_simps = BuyInstruction_to_vec_def BuyInstruction_new_def BuyInstruction_DISCRIMINATOR_def
  BuyExactQuoteInInstruction_to_vec_def BuyExactQuoteInInstruction_new_def
  BuyExactQuoteInInstruction_DISCRIMINATOR_def CreatePoolInstruction_to_vec_def
  CreatePoolInstruction_new_with_options_def u64_at_def slice_get_def byte_get_def from_le_to_le_simps
  bool_as_u8_def nth_append

lemma swap_accounts_length:
  assumes "choose_documented e"
  shows "\<exists>accs. swap_accounts e d1 d2 p user ub uq kind = Inr accs \<and> length accs = swap_count p kind"
proof -
  obtain r where "pick_protocol_fee_recipient_for_pool e d1 (is_mayhem_mode p) = Inr r"
    using pick_protocol_fee_recipient_for_pool_ok [OF assms] by blast
  moreover obtain b where "pick_buyback_fee_recipient e d2 = Inr b"
    using pick_buyback_fee_recipient_ok [OF assms] by blast
  ultimately show ?thesis
    by (cases kind) (simp_all add: swap_accounts_def append_swap_remaining_accounts_def Let_def
        swap_count_def remaining_count_def)
qed

lemma swap_has_accounts:
  assumes "choose_documented e"
  shows "has_accounts (make_buy_instruction e d1 d2 x y t p user ub uq) n \<longleftrightarrow> swap_count p Buy = n"
    and "has_accounts (make_buy_exact_quote_in_instruction e d1 d2 x y t p user ub uq) n \<longleftrightarrow> swap_count p Buy = n"
    and "has_accounts (make_sell_instruction e d1 d2 x y p user ub uq) n \<longleftrightarrow> swap_count p Sell = n"
  using swap_accounts_length [OF assms, of d1 d2 p user ub uq Buy]
    swap_accounts_length [OF assms, of d1 d2 p user ub uq Sell]
  by (auto simp: has_accounts_def make_buy_instruction_def make_buy_exact_quote_in_instruction_def
      make_sell_instruction_def)

lemma instruction_tests_pass:
  assumes "choose_documented e"
  shows "swap_instruction_account_counts_include_required_remaining_accounts e d"
    and "buy_instruction_data_layout_matches_idl" and "buy_exact_quote_in_data_layout_matches_idl"
    and "deposit_instruction_account_count e" and "claim_cashback_instruction_account_count e"
    and "create_pool_instruction_data_layout_includes_current_flags"
    and "current_auxiliary_instruction_builders_match_idl_account_counts e"
proof -
  have "key 10 \<noteq> pubkey_default" by (simp add: pubkey_default_def)
  then show "swap_instruction_account_counts_include_required_remaining_accounts e d"
    by (simp add: swap_instruction_account_counts_include_required_remaining_accounts_def Let_def
        swap_has_accounts [OF assms] swap_count_def remaining_count_def instruction_pool_info_def)
  show "buy_instruction_data_layout_matches_idl" "buy_exact_quote_in_data_layout_matches_idl"
    "create_pool_instruction_data_layout_includes_current_flags"
    by (simp_all add: buy_instruction_data_layout_matches_idl_def buy_exact_quote_in_data_layout_matches_idl_def
        create_pool_instruction_data_layout_includes_current_flags_def Let_def test_layout_simps)
  show "deposit_instruction_account_count e" "claim_cashback_instruction_account_count e"
    "current_auxiliary_instruction_builders_match_idl_account_counts e"
    by (simp_all add: deposit_instruction_account_count_def claim_cashback_instruction_account_count_def
        current_auxiliary_instruction_builders_match_idl_account_counts_def has_accounts_def Let_def
        make_deposit_instruction_def make_claim_cashback_instruction_def make_extend_account_instruction_def
        make_init_user_volume_accumulator_instruction_def make_sync_user_volume_accumulator_instruction_def
        make_close_user_volume_accumulator_instruction_def make_claim_token_incentives_instruction_def
        make_collect_coin_creator_fee_instruction_def)
qed

section \<open>The tests of client.rs pass\<close>

lemma gate_eq:
  "gate e u len payer pool = Inr (if len < 301
    then Some \<lparr>ix_program_id = PUMP_SWAP_PROGRAM_ID e,
      ix_accounts = [meta_new pool False, meta_readonly payer True,
        meta_readonly (x_system_program_ID e) False, meta_readonly (EVENT_AUTHORITY e) False,
        meta_readonly (PUMP_SWAP_PROGRAM_ID e) False],
      ix_data = [234, 102, 194, 203, 150, 72, 62, 229]\<rparr>
    else None)"
  by (simp add: gate_def maybe_extend_eq pool_info_with_len_def)

lemma fixture_lengths: "length POOL_LEGACY_SHORT = 271" "length POOL_CURRENT = 301"
  by (simp_all add: POOL_LEGACY_SHORT_def POOL_CURRENT_def)

lemma gate_tests_pass:
  "gate_flips_between_300_and_301_bytes e u payer pool"
  "gate_extends_everything_shorter_and_nothing_longer e u payer pool"
  "gate_matches_real_pool_fixtures e payer k1 k2"
proof -
  show "gate_flips_between_300_and_301_bytes e u payer pool"
    by (simp add: gate_flips_between_300_and_301_bytes_def POOL_ACCOUNT_NEW_SIZE_def gate_eq
        EXTEND_ACCOUNT_DISCRIMINATOR_def account_key_def byte_get_def)
  show "gate_extends_everything_shorter_and_nothing_longer e u payer pool"
    by (simp add: gate_extends_everything_shorter_and_nothing_longer_def gate_eq)
  show "gate_matches_real_pool_fixtures e payer k1 k2"
    by (simp add: gate_matches_real_pool_fixtures_def Let_def pool_info_eq fixture_lengths maybe_extend_eq
        pool_info_of_def POOL_ACCOUNT_NEW_SIZE_def)
qed

text \<open>
  What the tests of the sequences take from the SPL and system crates: the documented data and
  first account of \<open>InitializeAccount\<close>, programs that differ, and a decoder that reads back the
  lamports \<open>create_account_with_seed\<close> was given.
\<close>

definition sequences_documented :: "ext \<Rightarrow> (bytes \<Rightarrow> u64 option) \<Rightarrow> bool" where
  "sequences_documented e decode \<longleftrightarrow>
     spl_programs_documented e \<and> x_system_program_ID e \<noteq> x_spl_token_ID e \<and>
     (\<forall>a m w ix. x_initialize_account e (x_spl_token_ID e) a m w = Inr ix \<longrightarrow>
       byte_get (ix_data ix) 0 = Some 1 \<and> account_key ix 0 = Some a) \<and>
     (\<forall>from to base seed lamports space owner.
       decode (ix_data (x_create_account_with_seed e from to base seed lamports space owner)) = Some lamports)"

lemma swap_accounts_keys:
  assumes "swap_accounts e d1 d2 p user ub uq kind = Inr accs"
  shows "6 < length accs" and "accs ! 5 = meta_new ub False" and "accs ! 6 = meta_new uq False"
  using assms
  by (auto simp: swap_accounts_def append_swap_remaining_accounts_def Let_def bindE_eq_Inr_iff)

lemma swap_keys:
  "make_buy_instruction e d1 d2 x y t p user ub uq = Inr ix \<Longrightarrow>
    account_key ix 5 = Some ub \<and> account_key ix 6 = Some uq"
  "make_buy_exact_quote_in_instruction e d1 d2 x y t p user ub uq = Inr ix \<Longrightarrow>
    account_key ix 5 = Some ub \<and> account_key ix 6 = Some uq \<and>
    slice_get (ix_data ix) 0 8 = Some BuyExactQuoteInInstruction_DISCRIMINATOR"
  "make_sell_instruction e d1 d2 x y p user ub uq = Inr ix \<Longrightarrow>
    account_key ix 5 = Some ub \<and> account_key ix 6 = Some uq \<and>
    slice_get (ix_data ix) 0 8 = Some [51, 230, 133, 164, 1, 127, 131, 173]"
  by (auto simp: make_buy_instruction_def make_buy_exact_quote_in_instruction_def make_sell_instruction_def
      Let_def bindE_eq_Inr_iff account_key_def byte_get_def slice_get_def swap_accounts_keys
      BuyExactQuoteInInstruction_to_vec_def BuyExactQuoteInInstruction_new_def
      BuyExactQuoteInInstruction_DISCRIMINATOR_def SellInstruction_to_vec_def SellInstruction_new_def
      dest: swap_accounts_keys(1))

context swap_builder
begin

lemma built_sequence:
  assumes "build e d p payer = Inr ixs" and "\<not> pool_account_data_len p < 301"
    and "sequences_documented e decode"
  shows "\<exists>wsol lamports ix. fund e p = Inr lamports \<and> funding e decode ixs = Some lamports \<and>
    pump_amm_ix e ixs = Some ix \<and> wsol_seeded_account e ixs = Some wsol \<and>
    swap e d p payer (if sol_is_base e p then wsol else token_ata e p payer)
      (if sol_is_base e p then token_ata e p payer else wsol) = Inr ix"
proof -
  obtain wsol seed lamports swap_ix close_ata where
    f: "fund e p = Inr lamports" and
    s: "swap e d p payer (if sol_is_base e p then wsol else token_ata e p payer)
          (if sol_is_base e p then token_ata e p payer else wsol) = Inr swap_ix"
    and q: "swap_sequence e p payer wsol seed lamports
          (if creates then [x_create_ata_idempotent e payer payer (token_mint e p) (token_program e p)] else [])
          swap_ix close_ata ixs"
    using sequence [OF assms(1)] by blast
  obtain init close where
    i: "x_initialize_account e (x_spl_token_ID e) wsol (WRAPPED_SOL_MINT e) payer = Inr init"
    and ixs: "ixs = [x_create_account_with_seed e payer wsol payer seed lamports
        (word_of_nat (x_token_account_LEN e)) (x_spl_token_ID e), init] @
      (if creates then [x_create_ata_idempotent e payer payer (token_mint e p) (token_program e p)] else [])
      @ swap_ix # close # close_ata"
    using q assms(2) by (auto simp: swap_sequence_def maybe_extend_eq)
  show ?thesis
    using f s i assms(3) swap_user [OF s]
    by (intro exI [of _ wsol] exI [of _ lamports] exI [of _ swap_ix])
      (auto simp: ixs funding_def pump_amm_ix_def wsol_seeded_account_def sequences_documented_def
        spl_programs_documented_def)
qed

lemma swap_asserted_built:
  assumes "\<exists>ixs. build e d p payer = Inr ixs" and "\<not> pool_account_data_len p < 301"
    and "sequences_documented e decode" and "token_program e p = x_spl_token_ID e"
    and "\<And>ub uq ix. swap e d p payer ub uq = Inr ix \<Longrightarrow> account_key ix 5 = Some ub \<and> account_key ix 6 = Some uq \<and>
      (disc = None \<or> slice_get (ix_data ix) 0 8 = disc)"
  shows "swap_asserted e (build e d p payer) disc (\<lambda>wsol. if sol_is_base e p
    then (wsol, token_ata_of e p payer) else (token_ata_of e p payer, wsol))"
proof -
  obtain ixs where b: "build e d p payer = Inr ixs" using assms(1) by blast
  show ?thesis using built_sequence [OF b assms(2,3)] assms(4) assms(5)
    by (auto simp: b swap_asserted_def token_ata_of_def split: if_splits)
qed

lemma funding_built:
  assumes "\<exists>ixs. build e d p payer = Inr ixs" and "\<not> pool_account_data_len p < 301"
    and "sequences_documented e decode"
  shows "\<exists>ixs lamports. build e d p payer = Inr ixs \<and> fund e p = Inr lamports \<and>
    funding e decode ixs = Some lamports"
  using built_sequence [OF _ assms(2,3)] assms(1) by blast

end

lemma orientation_pool_simps [simp]:
  "pool_account_data_len (orientation_pool_info e u sol_base) = 301"
  "token_program e (orientation_pool_info e u sol_base) = x_spl_token_ID e"
  "sol_is_base e (orientation_pool_info e u sol_base) \<longleftrightarrow> sol_base \<or> u 0 = WRAPPED_SOL_MINT e"
  by (auto simp: orientation_pool_info_def POOL_ACCOUNT_NEW_SIZE_def token_program_def sol_is_base_def
      Let_def split: TokenSide.split)

text \<open>The seed of a draw derives an address from the payer.\<close>

definition derivable :: "ext \<Rightarrow> pubkey \<Rightarrow> draws \<Rightarrow> bool" where
  "derivable e payer d \<longleftrightarrow> \<not> isl (gen_pubkey_with_seed e (dr_seed d) payer)"

lemma derivableE:
  assumes "derivable e payer d"
  obtains wsol seed where "gen_pubkey_with_seed e (dr_seed d) payer = Inr (wsol, seed)"
  using assms by (cases "gen_pubkey_with_seed e (dr_seed d) payer") (auto simp: derivable_def)

lemma orientation_builds:
  assumes "choose_documented e" and "spl_token_documented e" and "derivable e payer d"
    and "unat (rent e) + unat x < 2 ^ 64"
  shows "\<exists>ixs. build_token_buy_ixs e d x y t (orientation_pool_info e u s) payer flag = Inr ixs"
    and "\<exists>ixs. build_token_sell_ixs e d x y (orientation_pool_info e u s) payer flag = Inr ixs"
    and "\<exists>ixs. build_sell_ixs e d x y (orientation_pool_info e u s) payer flag = Inr ixs"
    and "\<exists>ixs. build_buy_ixs e d y x t (orientation_pool_info e u s) payer flag = Inr ixs"
proof -
  obtain wsol seed where g: "gen_pubkey_with_seed e (dr_seed d) payer = Inr (wsol, seed)"
    using assms(3) by (rule derivableE)
  note tok = token_builders_ok [OF assms(1,2) orientation_pool_simps(2) g assms(4)]
  show "\<exists>ixs. build_token_buy_ixs e d x y t (orientation_pool_info e u s) payer flag = Inr ixs"
    "\<exists>ixs. build_token_sell_ixs e d x y (orientation_pool_info e u s) payer flag = Inr ixs"
    using tok by blast+
  show "\<exists>ixs. build_sell_ixs e d x y (orientation_pool_info e u s) payer flag = Inr ixs"
    by (rule build_sell_ok [OF assms(1,2) orientation_pool_simps(2) g assms(4)])
  show "\<exists>ixs. build_buy_ixs e d y x t (orientation_pool_info e u s) payer flag = Inr ixs"
    by (rule build_buy_ok [OF assms(1,2) g assms(4)])
qed

lemma orientation_tests_pass:
  assumes "choose_documented e" and "spl_token_documented e" and "sequences_documented e decode"
    and "derivable e (u 7) d" and "derivable e (u 7) d'" and "unat (rent e) + 1000000 < 2 ^ 64"
    and "u 0 \<noteq> WRAPPED_SOL_MINT e"
  shows "token_buy_uses_sell_ix_with_wsol_as_base_on_sol_base_pool e d u"
    and "token_buy_uses_buy_exact_quote_in_on_token_base_pool e d u"
    and "token_sell_uses_buy_exact_quote_in_on_sol_base_pool e d u"
    and "token_sell_uses_sell_ix_on_token_base_pool e d u"
    and "legacy_builders_orient_user_accounts_on_sol_base_pool e d d' u"
proof -
  have r: "unat (rent e) + unat (1000000 :: u64) < 2 ^ 64" "unat (rent e) + unat (500000 :: u64) < 2 ^ 64"
    using assms(6) by simp_all
  note builds = orientation_builds [OF assms(1,2,4) r(1)] orientation_builds [OF assms(1,2,4) r(2)]
    orientation_builds [OF assms(1,2,5) r(1)]
  note keys = swap_keys token_buy_swap_def token_sell_swap_def assms(7)
  show "token_buy_uses_sell_ix_with_wsol_as_base_on_sol_base_pool e d u"
    using token_buy_builder.swap_asserted_built [OF builds(1) [where s = True and u = u] _ assms(3) orientation_pool_simps(2),
        where disc = "Some [51, 230, 133, 164, 1, 127, 131, 173]"]
    by (simp add: token_buy_uses_sell_ix_with_wsol_as_base_on_sol_base_pool_def Let_def keys)
  show "token_buy_uses_buy_exact_quote_in_on_token_base_pool e d u"
    using token_buy_builder.swap_asserted_built [OF builds(1) [where s = False and u = u] _ assms(3) orientation_pool_simps(2),
        where disc = "Some BuyExactQuoteInInstruction_DISCRIMINATOR"]
    by (simp add: token_buy_uses_buy_exact_quote_in_on_token_base_pool_def Let_def keys)
  show "token_sell_uses_buy_exact_quote_in_on_sol_base_pool e d u"
    using token_sell_builder.swap_asserted_built [OF builds(6) [where s = True and u = u] _ assms(3) orientation_pool_simps(2),
        where disc = "Some BuyExactQuoteInInstruction_DISCRIMINATOR"]
    by (simp add: token_sell_uses_buy_exact_quote_in_on_sol_base_pool_def Let_def keys)
  show "token_sell_uses_sell_ix_on_token_base_pool e d u"
    using token_sell_builder.swap_asserted_built [OF builds(6) [where s = False and u = u] _ assms(3) orientation_pool_simps(2),
        where disc = "Some [51, 230, 133, 164, 1, 127, 131, 173]"]
    by (simp add: token_sell_uses_sell_ix_on_token_base_pool_def Let_def keys)
  show "legacy_builders_orient_user_accounts_on_sol_base_pool e d d' u"
    using buy_builder.swap_asserted_built [OF builds(4) [where s = True and u = u] _ assms(3) orientation_pool_simps(2),
        where disc = None]
      sell_builder.swap_asserted_built [OF builds(11) [where s = True and u = u] _ assms(3) orientation_pool_simps(2),
        where disc = None]
    by (simp add: legacy_builders_orient_user_accounts_on_sol_base_pool_def Let_def keys)
qed

lemma funding_test_passes:
  assumes "choose_documented e" and "spl_token_documented e" and "sequences_documented e decode"
    and "\<And>b. derivable e payer (d b)" and "\<And>b. derivable e payer (d' b)"
    and "unat (rent e) + 250000000 < 2 ^ 64"
  shows "wsol_funding_matches_spend_side e decode d d' payer u u'"
proof -
  have r: "unat (rent e) + unat (250000000 :: u64) < 2 ^ 64" "unat (rent e) + unat (1000 :: u64) < 2 ^ 64"
    using assms(6) by simp_all
  have buy: "\<exists>ixs l. build_token_buy_ixs e (d b) 250000000 1 True (orientation_pool_info e (u b) b) payer True =
      Inr ixs \<and> add_u64 e (rent e) 250000000 = Inr l \<and> funding e decode ixs = Some l" for b
    by (rule token_buy_builder.funding_built [OF orientation_builds(1) [OF assms(1,2,4) r(1)] _ assms(3)]) simp
  have sell: "\<exists>ixs l. build_token_sell_ixs e (d' b) 1000 1 (orientation_pool_info e (u' b) b) payer False =
      Inr ixs \<and> (Inr (rent e) :: u64 res) = Inr l \<and> funding e decode ixs = Some l" for b
    by (rule token_sell_builder.funding_built [OF orientation_builds(2) [OF assms(1,2,5) r(2)] _ assms(3)]) simp
  show ?thesis
    using buy [of True] buy [of False] sell [of True] sell [of False]
    by (auto simp: wsol_funding_matches_spend_side_def rent_def)
qed

section \<open>All of them\<close>

text \<open>The decoder and the fresh keys of the instance below.\<close>

definition lamports_example :: "bytes \<Rightarrow> u64 option" where
  "lamports_example data = (case data of [] \<Rightarrow> None | t # rest \<Rightarrow>
     if t = 3 \<and> length rest = 8 then Some (from_le_bytes rest) else None)"

lemma sequences_documented_example: "sequences_documented (ext_example c) lamports_example"
  unfolding sequences_documented_def
  by (intro conjI spl_programs_documented_example)
    (auto simp: lamports_example_def account_key_def byte_get_def ext_example_def tagged_def pad32_def)

lemma derivable_example: "derivable (ext_example c) payer draws_example"
  by (simp add: derivable_def example_seed)

text \<open>
  C29: with the documented behaviour of \<open>choose\<close>, of the SPL and system constructors and of the
  decoder the funding test uses, every unit test of \<open>math.rs\<close>, \<open>instruction.rs\<close> and \<open>client.rs\<close>
  passes, whatever recipients it picks, whatever fresh keys and seeds it draws (a token mint other
  than the WSOL mint, seeds that derive an address) and whatever the rent (if it and the funded
  amount fit a \<open>u64\<close>).
\<close>

theorem unit_tests_pass:
  assumes "choose_documented e" and "spl_token_documented e" and "sequences_documented e decode"
    and "\<And>k b. derivable e k (d b)" and "\<And>k b. derivable e k (d' b)"
    and "unat (rent e) + 250000000 < 2 ^ 64" and "u 0 \<noteq> WRAPPED_SOL_MINT e"
  shows "fee_rounds_each_component_up_separately \<and>
    zero_fee_quote_still_subtracts_nothing \<and>
    slippage_only_reduces_the_minimum_not_the_expected_fill \<and>
    exact_base_out_quote_rejects_draining_the_reserve \<and>
    constant_product_out_is_exact_at_the_boundary \<and>
    swap_instruction_account_counts_include_required_remaining_accounts e picks \<and>
    buy_instruction_data_layout_matches_idl \<and>
    buy_exact_quote_in_data_layout_matches_idl \<and>
    deposit_instruction_account_count e \<and>
    claim_cashback_instruction_account_count e \<and>
    create_pool_instruction_data_layout_includes_current_flags \<and>
    current_auxiliary_instruction_builders_match_idl_account_counts e \<and>
    token_buy_uses_sell_ix_with_wsol_as_base_on_sol_base_pool e (d b) u \<and>
    token_buy_uses_buy_exact_quote_in_on_token_base_pool e (d b) u \<and>
    token_sell_uses_buy_exact_quote_in_on_sol_base_pool e (d b) u \<and>
    token_sell_uses_sell_ix_on_token_base_pool e (d b) u \<and>
    legacy_builders_orient_user_accounts_on_sol_base_pool e (d b) (d' b) u \<and>
    wsol_funding_matches_spend_side e decode d d' payer us us' \<and>
    gate_flips_between_300_and_301_bytes e u payer k1 \<and>
    gate_extends_everything_shorter_and_nothing_longer e u payer k1 \<and>
    gate_matches_real_pool_fixtures e payer k1 k2"
proof -
  have r: "unat (rent e) + 1000000 < 2 ^ 64" using assms(6) by simp
  have drawn: "derivable e (u 7) (d b)" "derivable e (u 7) (d' b)" using assms(4,5) by blast+
  have funding: "wsol_funding_matches_spend_side e decode d d' payer us us'"
    by (rule funding_test_passes [OF assms(1-3) assms(4) assms(5) assms(6)])
  show ?thesis
    using orientation_tests_pass [OF assms(1-3) drawn r assms(7)] funding
    by (intro conjI math_tests_pass instruction_tests_pass [OF assms(1)] gate_tests_pass)
qed

theorem unit_tests_pass_witness:
  "wsol_funding_matches_spend_side (ext_example True) lamports_example (\<lambda>_. draws_example) (\<lambda>_. draws_example)
      (key 1) (\<lambda>_ _. key 4) (\<lambda>_ _. key 4) \<and>
    legacy_builders_orient_user_accounts_on_sol_base_pool (ext_example True) draws_example draws_example (\<lambda>_. key 4)"
proof -
  have "unat (rent (ext_example True)) + 250000000 < 2 ^ 64" by (simp add: rent_def ext_example_def)
  moreover have "key 4 \<noteq> WRAPPED_SOL_MINT (ext_example True)"
    using example_token_base [of True pool_example] by (simp add: sol_is_base_def)
  ultimately show ?thesis
    using unit_tests_pass [OF choose_documented_example [of True] spl_token_documented_example [of True]
        sequences_documented_example [of True], of "\<lambda>_. draws_example" "\<lambda>_. draws_example" "\<lambda>_. key 4"]
    by (simp add: derivable_example)
qed

end
