(* ===== verification/Recorded_Swaps.thy ===== *)
theory Recorded_Swaps
  imports Unit_Tests
begin

text \<open>
  The offline tests of \<open>tests/swap_math.rs\<close>: the quotes against swaps that the pump-amm program
  executed on mainnet, and the decoder against recorded pool accounts. The fixtures are the bytes
  of the files under \<open>tests/fixtures\<close>. A test is a predicate, true when none of its assertions
  fails; plain \<open>+\<close> on \<open>u64\<close> is \<open>add_u64\<close>, which a test must not let overflow. The theorems evaluate
  the model on the fixtures: its quotes are to the unit what the program paid and charged.
\<close>

section \<open>The events\<close>

text \<open>\<open>u64_at\<close> of the test file; its callers have checked that the bytes are there.\<close>

definition event_u64 :: "bytes \<Rightarrow> nat \<Rightarrow> u64" where
  "event_u64 data offset = from_le_bytes (field data offset 8)"

record SellEvent =
  se_base_amount_in :: u64
  se_pool_base_token_reserves :: u64
  se_pool_quote_token_reserves :: u64
  se_quote_amount_out :: u64
  se_user_quote_amount_out :: u64
  se_lp_fee_basis_points :: u64
  se_lp_fee :: u64
  se_protocol_fee_basis_points :: u64
  se_protocol_fee :: u64
  se_coin_creator_fee_basis_points :: u64
  se_coin_creator_fee :: u64
  se_cashback_fee_basis_points :: u64
  se_cashback :: u64

record BuyEvent =
  be_base_amount_out :: u64
  be_pool_base_token_reserves :: u64
  be_pool_quote_token_reserves :: u64
  be_quote_amount_in :: u64
  be_user_quote_amount_in :: u64
  be_lp_fee_basis_points :: u64
  be_lp_fee :: u64
  be_protocol_fee_basis_points :: u64
  be_protocol_fee :: u64
  be_coin_creator_fee_basis_points :: u64
  be_coin_creator_fee :: u64
  be_cashback_fee_basis_points :: u64
  be_cashback :: u64
  be_ix_name :: bytes

text \<open>A slice past the end panics, which is \<open>None\<close>. The name is compared by its UTF-8 bytes.\<close>

definition SellEvent_decode :: "bytes \<Rightarrow> SellEvent option" where
  "SellEvent_decode data =
     (if length data < 376 then None
      else Some \<lparr>
        se_base_amount_in = event_u64 data 16,
        se_pool_base_token_reserves = event_u64 data 48,
        se_pool_quote_token_reserves = event_u64 data 56,
        se_quote_amount_out = event_u64 data 64,
        se_user_quote_amount_out = event_u64 data 112,
        se_lp_fee_basis_points = event_u64 data 72,
        se_lp_fee = event_u64 data 80,
        se_protocol_fee_basis_points = event_u64 data 88,
        se_protocol_fee = event_u64 data 96,
        se_coin_creator_fee_basis_points = event_u64 data 344,
        se_coin_creator_fee = event_u64 data 352,
        se_cashback_fee_basis_points = event_u64 data 360,
        se_cashback = event_u64 data 368\<rparr>)"

definition BuyEvent_decode :: "bytes \<Rightarrow> BuyEvent option" where
  "BuyEvent_decode data =
     (if length data < 405 then None
      else let name_len = unat (from_le_bytes (field data 401 4) :: u32);
        tail = 405 + name_len
      in if length data < tail + 16 then None
      else Some \<lparr>
        be_base_amount_out = event_u64 data 16,
        be_pool_base_token_reserves = event_u64 data 48,
        be_pool_quote_token_reserves = event_u64 data 56,
        be_quote_amount_in = event_u64 data 64,
        be_user_quote_amount_in = event_u64 data 112,
        be_lp_fee_basis_points = event_u64 data 72,
        be_lp_fee = event_u64 data 80,
        be_protocol_fee_basis_points = event_u64 data 88,
        be_protocol_fee = event_u64 data 96,
        be_coin_creator_fee_basis_points = event_u64 data 344,
        be_coin_creator_fee = event_u64 data 352,
        be_cashback_fee_basis_points = event_u64 data tail,
        be_cashback = event_u64 data (tail + 8),
        be_ix_name = field data 405 name_len\<rparr>)"

definition event_fees :: "ext \<Rightarrow> u64 \<Rightarrow> u64 \<Rightarrow> u64 \<Rightarrow> u64 \<Rightarrow> Fees res" where
  "event_fees e lp protocol creator cashback =
     bindE (add_u64 e creator cashback) (\<lambda>creator_fee.
     Inr \<lparr>lp_fee_bps = lp, protocol_fee_bps = protocol, creator_fee_bps = creator_fee\<rparr>)"

definition event_total_fee :: "ext \<Rightarrow> u64 \<Rightarrow> u64 \<Rightarrow> u64 \<Rightarrow> u64 \<Rightarrow> u64 res" where
  "event_total_fee e lp protocol creator cashback =
     bindE (add_u64 e lp protocol) (\<lambda>a. bindE (add_u64 e a creator) (\<lambda>b. add_u64 e b cashback))"

definition SellEvent_fees :: "ext \<Rightarrow> SellEvent \<Rightarrow> Fees res" where
  "SellEvent_fees e event = event_fees e (se_lp_fee_basis_points event) (se_protocol_fee_basis_points event)
     (se_coin_creator_fee_basis_points event) (se_cashback_fee_basis_points event)"

definition SellEvent_total_fee :: "ext \<Rightarrow> SellEvent \<Rightarrow> u64 res" where
  "SellEvent_total_fee e event = event_total_fee e (se_lp_fee event) (se_protocol_fee event)
     (se_coin_creator_fee event) (se_cashback event)"

definition BuyEvent_fees :: "ext \<Rightarrow> BuyEvent \<Rightarrow> Fees res" where
  "BuyEvent_fees e event = event_fees e (be_lp_fee_basis_points event) (be_protocol_fee_basis_points event)
     (be_coin_creator_fee_basis_points event) (be_cashback_fee_basis_points event)"

definition BuyEvent_total_fee :: "ext \<Rightarrow> BuyEvent \<Rightarrow> u64 res" where
  "BuyEvent_total_fee e event = event_total_fee e (be_lp_fee event) (be_protocol_fee event)
     (be_coin_creator_fee event) (be_cashback event)"

section \<open>The fixtures\<close>

definition SELL_FLAT_FEE :: bytes where
  "SELL_FLAT_FEE = [62, 47, 55, 10, 165, 3, 220, 42, 131, 203, 174, 106, 0, 0, 0, 0, 64, 66, 15, 0, 0, 0, 0, 0, 0, 0,
    0, 0, 0, 0, 0, 0, 248, 169, 23, 0, 0, 0, 0, 0, 0, 0, 0, 0, 0, 0, 0, 0, 130, 42, 0, 0, 0, 0, 0,
    0, 168, 87, 129, 43, 0, 0, 0, 0, 84, 115, 9, 43, 0, 0, 0, 0, 25, 0, 0, 0, 0, 0, 0, 0, 44, 139,
    27, 0, 0, 0, 0, 0, 5, 0, 0, 0, 0, 0, 0, 0, 60, 130, 5, 0, 0, 0, 0, 0, 40, 232, 237, 42, 0, 0, 0,
    0, 236, 101, 232, 42, 0, 0, 0, 0, 21, 188, 111, 214, 47, 65, 51, 132, 193, 159, 224, 66, 48, 24,
    57, 236, 21, 107, 179, 156, 149, 170, 121, 149, 90, 7, 42, 42, 248, 147, 63, 110, 206, 146, 70,
    22, 203, 169, 178, 125, 88, 234, 94, 102, 23, 140, 110, 191, 21, 14, 49, 138, 29, 195, 78, 193,
    253, 209, 171, 200, 186, 238, 224, 219, 218, 128, 166, 94, 69, 175, 253, 29, 6, 251, 191, 15,
    195, 168, 128, 139, 142, 121, 175, 146, 33, 151, 97, 15, 3, 146, 131, 131, 59, 186, 182, 50, 85,
    12, 87, 50, 223, 223, 92, 214, 13, 28, 169, 222, 6, 62, 232, 199, 217, 34, 58, 127, 233, 136,
    214, 95, 189, 174, 128, 30, 197, 48, 156, 207, 96, 140, 204, 29, 252, 233, 97, 180, 59, 119,
    156, 25, 21, 5, 166, 226, 211, 191, 69, 213, 164, 219, 70, 24, 173, 118, 200, 45, 97, 117, 69,
    53, 180, 93, 201, 219, 19, 210, 54, 253, 33, 34, 112, 16, 148, 144, 61, 114, 88, 159, 14, 108,
    194, 85, 178, 151, 227, 227, 36, 199, 59, 115, 147, 19, 0, 0, 0, 0, 0, 0, 0, 0, 0, 0, 0, 0, 0,
    0, 0, 0, 0, 0, 0, 0, 0, 0, 0, 0, 0, 0, 0, 0, 0, 0, 0, 0, 0, 0, 0, 0, 0, 0, 0, 0, 0, 0, 0, 0, 0,
    0, 0, 0, 0, 0, 0, 0, 0, 0, 0, 0, 0, 0, 0, 0, 0, 0, 0, 0, 136, 19, 0, 0, 0, 0, 0, 0, 30, 193, 2,
    0, 0, 0, 0, 0, 0, 0, 0, 0, 0, 0, 0, 0, 0, 0, 0, 0, 0, 0, 0, 0, 0, 0, 0, 0, 0, 0, 0, 0, 0, 0, 0,
    0, 0, 0, 0, 0, 0, 0, 0, 0, 0, 0, 0, 0, 0]"

definition SELL_VIRTUAL :: bytes where
  "SELL_VIRTUAL = [62, 47, 55, 10, 165, 3, 220, 42, 19, 213, 174, 106, 0, 0, 0, 0, 157, 14, 89, 187, 19, 0, 0, 0, 0,
    0, 0, 0, 0, 0, 0, 0, 211, 53, 178, 195, 158, 8, 0, 0, 0, 0, 0, 0, 0, 0, 0, 0, 235, 193, 64, 164,
    186, 121, 0, 0, 73, 113, 174, 252, 28, 0, 0, 0, 99, 228, 91, 5, 0, 0, 0, 0, 20, 0, 0, 0, 0, 0,
    0, 0, 105, 190, 2, 0, 0, 0, 0, 0, 5, 0, 0, 0, 0, 0, 0, 0, 155, 175, 0, 0, 0, 0, 0, 0, 250, 37,
    89, 5, 0, 0, 0, 0, 237, 109, 75, 5, 0, 0, 0, 0, 2, 2, 150, 198, 113, 70, 251, 137, 53, 255, 42,
    72, 138, 183, 18, 48, 73, 157, 164, 47, 202, 222, 35, 130, 219, 55, 202, 115, 88, 99, 103, 255,
    210, 111, 70, 13, 206, 219, 80, 108, 93, 245, 18, 12, 55, 183, 62, 213, 50, 118, 242, 49, 227,
    122, 255, 148, 159, 32, 205, 45, 76, 129, 159, 54, 161, 147, 232, 213, 43, 2, 232, 186, 239,
    197, 176, 115, 60, 132, 232, 80, 17, 106, 20, 68, 93, 35, 127, 137, 192, 238, 145, 223, 215, 35,
    215, 9, 243, 22, 225, 200, 95, 228, 9, 229, 5, 121, 96, 97, 2, 61, 5, 52, 208, 130, 87, 179,
    136, 168, 69, 50, 219, 110, 32, 235, 47, 162, 113, 149, 74, 194, 248, 208, 221, 92, 188, 151,
    227, 40, 156, 25, 124, 181, 6, 42, 84, 243, 217, 86, 185, 206, 110, 81, 21, 249, 101, 103, 170,
    92, 179, 230, 119, 217, 21, 149, 95, 136, 128, 115, 28, 235, 74, 117, 160, 204, 150, 193, 116,
    250, 64, 149, 196, 225, 217, 150, 122, 207, 196, 40, 69, 174, 103, 174, 58, 231, 167, 13, 1,
    219, 156, 51, 177, 82, 113, 123, 233, 172, 177, 179, 30, 118, 22, 91, 16, 6, 155, 157, 1, 81, 6,
    252, 141, 182, 188, 103, 95, 0, 0, 0, 0, 0, 0, 0, 114, 8, 13, 0, 0, 0, 0, 0, 0, 0, 0, 0, 0, 0,
    0, 0, 0, 0, 0, 0, 0, 0, 0, 0, 136, 19, 0, 0, 0, 0, 0, 0, 205, 87, 0, 0, 0, 0, 0, 0, 201, 65, 30,
    24, 4, 0, 0, 0, 0, 0, 0, 0, 0, 0, 0, 0, 1, 201, 172, 117, 143, 208, 128, 3, 0, 0, 0, 0, 0, 0, 0,
    0, 0, 0, 0, 0, 0, 0, 0, 0, 0]"

definition SELL_CASHBACK :: bytes where
  "SELL_CASHBACK = [62, 47, 55, 10, 165, 3, 220, 42, 19, 213, 174, 106, 0, 0, 0, 0, 35, 208, 244, 142, 5, 0, 0, 0, 0,
    0, 0, 0, 0, 0, 0, 0, 35, 208, 244, 142, 5, 0, 0, 0, 0, 0, 0, 0, 0, 0, 0, 0, 183, 91, 71, 163,
    141, 174, 2, 0, 221, 167, 115, 175, 8, 0, 0, 0, 51, 0, 18, 0, 0, 0, 0, 0, 2, 0, 0, 0, 0, 0, 0,
    0, 236, 0, 0, 0, 0, 0, 0, 0, 93, 0, 0, 0, 0, 0, 0, 0, 220, 42, 0, 0, 0, 0, 0, 0, 71, 255, 17, 0,
    0, 0, 0, 0, 151, 198, 17, 0, 0, 0, 0, 0, 158, 223, 169, 70, 206, 107, 239, 37, 209, 26, 165,
    184, 5, 2, 64, 109, 162, 132, 8, 218, 249, 88, 158, 18, 170, 147, 160, 237, 186, 26, 101, 67,
    172, 119, 225, 168, 211, 191, 148, 160, 194, 127, 201, 27, 251, 239, 63, 206, 35, 156, 131, 70,
    241, 21, 57, 97, 37, 137, 133, 242, 29, 141, 112, 26, 14, 22, 30, 110, 163, 27, 166, 245, 221,
    244, 144, 233, 213, 146, 64, 156, 53, 69, 93, 89, 234, 224, 3, 136, 225, 199, 56, 121, 244, 216,
    94, 58, 8, 133, 41, 92, 80, 144, 255, 121, 200, 38, 240, 231, 32, 43, 156, 183, 13, 90, 66, 193,
    186, 244, 159, 97, 180, 26, 228, 67, 112, 17, 229, 218, 224, 4, 200, 124, 235, 152, 250, 92,
    228, 127, 128, 56, 6, 253, 44, 121, 69, 210, 149, 36, 149, 154, 236, 0, 222, 217, 120, 20, 243,
    143, 120, 70, 156, 37, 36, 124, 122, 254, 104, 119, 156, 78, 124, 220, 65, 57, 229, 107, 132,
    205, 238, 120, 164, 237, 155, 71, 78, 161, 250, 142, 233, 60, 226, 37, 131, 24, 194, 231, 40,
    76, 34, 115, 18, 114, 7, 227, 27, 139, 216, 63, 89, 217, 31, 246, 130, 103, 133, 27, 181, 206,
    199, 38, 12, 50, 184, 82, 0, 0, 0, 0, 0, 0, 0, 0, 0, 0, 0, 0, 0, 0, 0, 0, 30, 0, 0, 0, 0, 0, 0,
    0, 212, 13, 0, 0, 0, 0, 0, 0, 136, 19, 0, 0, 0, 0, 0, 0, 110, 21, 0, 0, 0, 0, 0, 0, 0, 0, 0, 0,
    0, 0, 0, 0, 0, 0, 0, 0, 0, 0, 0, 0, 0, 42, 227, 6, 165, 105, 138, 3, 0, 0, 0, 0, 0, 0, 0, 0, 0,
    0, 0, 0, 0, 0, 0, 0, 0]"

definition SELL_BASE_TIER :: bytes where
  "SELL_BASE_TIER = [62, 47, 55, 10, 165, 3, 220, 42, 18, 213, 174, 106, 0, 0, 0, 0, 50, 200, 240, 57, 0, 0, 0, 0, 0, 0,
    0, 0, 0, 0, 0, 0, 50, 200, 240, 57, 0, 0, 0, 0, 0, 0, 0, 0, 0, 0, 0, 0, 87, 218, 55, 48, 9, 185,
    1, 0, 95, 79, 36, 90, 18, 0, 0, 0, 54, 105, 2, 0, 0, 0, 0, 0, 2, 0, 0, 0, 0, 0, 0, 0, 32, 0, 0,
    0, 0, 0, 0, 0, 93, 0, 0, 0, 0, 0, 0, 0, 190, 5, 0, 0, 0, 0, 0, 0, 22, 105, 2, 0, 0, 0, 0, 0,
    125, 97, 2, 0, 0, 0, 0, 0, 22, 213, 17, 168, 20, 165, 20, 122, 14, 62, 89, 224, 100, 171, 232,
    46, 159, 136, 123, 53, 112, 8, 56, 96, 100, 215, 228, 173, 84, 33, 40, 179, 8, 153, 148, 108,
    12, 52, 173, 164, 238, 171, 215, 68, 218, 245, 113, 78, 182, 53, 103, 16, 192, 254, 67, 6, 154,
    222, 87, 65, 113, 169, 125, 175, 63, 7, 106, 173, 33, 102, 45, 206, 189, 230, 32, 131, 24, 18,
    221, 231, 232, 61, 78, 240, 65, 237, 89, 138, 153, 6, 4, 169, 107, 66, 9, 246, 244, 120, 48,
    220, 102, 155, 26, 137, 247, 86, 185, 58, 29, 76, 201, 61, 108, 81, 144, 254, 165, 114, 145,
    132, 75, 164, 194, 236, 182, 190, 199, 166, 224, 4, 200, 124, 235, 152, 250, 92, 228, 127, 128,
    56, 6, 253, 44, 121, 69, 210, 149, 36, 149, 154, 236, 0, 222, 217, 120, 20, 243, 143, 120, 70,
    156, 37, 36, 124, 122, 254, 104, 119, 156, 78, 124, 220, 65, 57, 229, 107, 132, 205, 238, 120,
    164, 237, 155, 71, 78, 161, 250, 142, 233, 60, 226, 37, 172, 161, 52, 177, 141, 75, 228, 140,
    252, 195, 126, 177, 66, 249, 88, 170, 112, 184, 114, 195, 171, 228, 165, 137, 157, 248, 63, 174,
    205, 150, 37, 145, 30, 0, 0, 0, 0, 0, 0, 0, 219, 1, 0, 0, 0, 0, 0, 0, 0, 0, 0, 0, 0, 0, 0, 0, 0,
    0, 0, 0, 0, 0, 0, 0, 136, 19, 0, 0, 0, 0, 0, 0, 223, 2, 0, 0, 0, 0, 0, 0, 0, 0, 0, 0, 0, 0, 0,
    0, 0, 0, 0, 0, 0, 0, 0, 0, 0, 18, 241, 236, 32, 250, 140, 3, 0, 0, 0, 0, 0, 0, 0, 0, 0, 0, 0, 0,
    0, 0, 0, 0, 0]"

definition BUY_QUOTE_IN_VIRTUAL :: bytes where
  "BUY_QUOTE_IN_VIRTUAL = [103, 244, 82, 31, 44, 245, 119, 119, 19, 213, 174, 106, 0, 0, 0, 0, 75, 16, 239, 2, 0, 0, 0, 0, 52,
    44, 4, 0, 0, 0, 0, 0, 189, 224, 64, 4, 0, 0, 0, 0, 52, 44, 4, 0, 0, 0, 0, 0, 213, 158, 209, 183,
    121, 51, 0, 0, 127, 187, 48, 100, 68, 0, 0, 0, 52, 44, 4, 0, 0, 0, 0, 0, 20, 0, 0, 0, 0, 0, 0,
    0, 30, 2, 0, 0, 0, 0, 0, 0, 5, 0, 0, 0, 0, 0, 0, 0, 136, 0, 0, 0, 0, 0, 0, 0, 189, 35, 4, 0, 0,
    0, 0, 0, 159, 33, 4, 0, 0, 0, 0, 0, 35, 17, 129, 232, 223, 17, 135, 153, 148, 47, 108, 24, 215,
    227, 130, 201, 43, 176, 190, 121, 71, 254, 123, 182, 109, 155, 61, 4, 205, 57, 56, 220, 240,
    153, 11, 217, 26, 73, 109, 110, 183, 99, 103, 106, 132, 17, 172, 46, 143, 230, 71, 14, 252, 197,
    172, 247, 231, 231, 189, 12, 32, 164, 88, 201, 180, 181, 249, 142, 16, 224, 19, 218, 93, 170, 4,
    243, 180, 160, 113, 29, 117, 115, 193, 63, 13, 239, 248, 19, 69, 117, 186, 224, 126, 218, 151,
    59, 201, 75, 164, 28, 155, 61, 50, 224, 252, 255, 39, 93, 209, 215, 235, 161, 3, 78, 3, 184,
    134, 146, 245, 93, 100, 113, 59, 241, 226, 82, 154, 235, 74, 194, 248, 208, 221, 92, 188, 151,
    227, 40, 156, 25, 124, 181, 6, 42, 84, 243, 217, 86, 185, 206, 110, 81, 21, 249, 101, 103, 170,
    92, 179, 230, 119, 217, 21, 149, 95, 136, 128, 115, 28, 235, 74, 117, 160, 204, 150, 193, 116,
    250, 64, 149, 196, 225, 217, 150, 122, 207, 196, 40, 69, 174, 103, 174, 21, 193, 70, 136, 114,
    165, 88, 158, 194, 148, 4, 169, 103, 173, 73, 141, 189, 81, 246, 215, 2, 55, 45, 120, 199, 187,
    231, 182, 172, 230, 149, 148, 75, 0, 0, 0, 0, 0, 0, 0, 239, 7, 0, 0, 0, 0, 0, 0, 1, 0, 0, 0, 0,
    0, 0, 0, 0, 0, 0, 0, 0, 0, 0, 0, 0, 0, 0, 0, 0, 0, 0, 0, 0, 0, 0, 0, 0, 0, 0, 0, 0, 1, 0, 0, 0,
    0, 0, 0, 0, 18, 0, 0, 0, 98, 117, 121, 95, 101, 120, 97, 99, 116, 95, 113, 117, 111, 116, 101,
    95, 105, 110, 0, 0, 0, 0, 0, 0, 0, 0, 0, 0, 0, 0, 0, 0, 0, 0, 136, 19, 0, 0, 0, 0, 0, 0, 68, 0,
    0, 0, 0, 0, 0, 0, 200, 65, 30, 24, 4, 0, 0, 0, 0, 0, 0, 0, 0, 0, 0, 0, 1, 9, 23, 9, 204, 136,
    136, 3, 0, 0, 0, 0, 0, 0, 0, 0, 0, 0, 0, 0, 0, 0, 0, 0, 0]"

definition BUY_QUOTE_IN_PLAIN :: bytes where
  "BUY_QUOTE_IN_PLAIN = [103, 244, 82, 31, 44, 245, 119, 119, 19, 213, 174, 106, 0, 0, 0, 0, 82, 40, 13, 37, 0, 0, 0, 0,
    163, 143, 1, 0, 0, 0, 0, 0, 0, 0, 0, 0, 0, 0, 0, 0, 163, 143, 1, 0, 0, 0, 0, 0, 64, 73, 217, 36,
    9, 185, 1, 0, 197, 200, 36, 90, 18, 0, 0, 0, 163, 143, 1, 0, 0, 0, 0, 0, 2, 0, 0, 0, 0, 0, 0, 0,
    21, 0, 0, 0, 0, 0, 0, 0, 93, 0, 0, 0, 0, 0, 0, 0, 172, 3, 0, 0, 0, 0, 0, 0, 199, 138, 1, 0, 0,
    0, 0, 0, 178, 138, 1, 0, 0, 0, 0, 0, 22, 213, 17, 168, 20, 165, 20, 122, 14, 62, 89, 224, 100,
    171, 232, 46, 159, 136, 123, 53, 112, 8, 56, 96, 100, 215, 228, 173, 84, 33, 40, 179, 8, 153,
    148, 108, 12, 52, 173, 164, 238, 171, 215, 68, 218, 245, 113, 78, 182, 53, 103, 16, 192, 254,
    67, 6, 154, 222, 87, 65, 113, 169, 125, 175, 63, 7, 106, 173, 33, 102, 45, 206, 189, 230, 32,
    131, 24, 18, 221, 231, 232, 61, 78, 240, 65, 237, 89, 138, 153, 6, 4, 169, 107, 66, 9, 246, 244,
    120, 48, 220, 102, 155, 26, 137, 247, 86, 185, 58, 29, 76, 201, 61, 108, 81, 144, 254, 165, 114,
    145, 132, 75, 164, 194, 236, 182, 190, 199, 166, 224, 4, 200, 124, 235, 152, 250, 92, 228, 127,
    128, 56, 6, 253, 44, 121, 69, 210, 149, 36, 149, 154, 236, 0, 222, 217, 120, 20, 243, 143, 120,
    70, 156, 37, 36, 124, 122, 254, 104, 119, 156, 78, 124, 220, 65, 57, 229, 107, 132, 205, 238,
    120, 164, 237, 155, 71, 78, 161, 250, 142, 233, 60, 226, 37, 172, 161, 52, 177, 141, 75, 228,
    140, 252, 195, 126, 177, 66, 249, 88, 170, 112, 184, 114, 195, 171, 228, 165, 137, 157, 248, 63,
    174, 205, 150, 37, 145, 30, 0, 0, 0, 0, 0, 0, 0, 48, 1, 0, 0, 0, 0, 0, 0, 0, 0, 0, 0, 0, 0, 0,
    0, 0, 0, 0, 0, 0, 0, 0, 0, 0, 0, 0, 0, 0, 0, 0, 0, 0, 0, 0, 0, 0, 0, 0, 0, 0, 1, 0, 0, 0, 0, 0,
    0, 0, 18, 0, 0, 0, 98, 117, 121, 95, 101, 120, 97, 99, 116, 95, 113, 117, 111, 116, 101, 95,
    105, 110, 0, 0, 0, 0, 0, 0, 0, 0, 0, 0, 0, 0, 0, 0, 0, 0, 136, 19, 0, 0, 0, 0, 0, 0, 214, 1, 0,
    0, 0, 0, 0, 0, 0, 0, 0, 0, 0, 0, 0, 0, 0, 0, 0, 0, 0, 0, 0, 0, 0, 18, 241, 236, 32, 250, 140, 3,
    0, 0, 0, 0, 0, 0, 0, 0, 0, 0, 0, 0, 0, 0, 0, 0, 0]"

definition BUY_EXACT_BASE_OUT :: bytes where
  "BUY_EXACT_BASE_OUT = [103, 244, 82, 31, 44, 245, 119, 119, 19, 213, 174, 106, 0, 0, 0, 0, 225, 35, 207, 31, 2, 0, 0, 0,
    10, 100, 89, 52, 73, 25, 0, 0, 0, 0, 0, 0, 0, 0, 0, 0, 100, 227, 6, 58, 173, 241, 0, 0, 97, 31,
    33, 164, 92, 1, 0, 0, 242, 208, 233, 16, 156, 23, 15, 0, 180, 32, 78, 99, 175, 23, 0, 0, 25, 0,
    0, 0, 0, 0, 0, 0, 175, 121, 145, 40, 15, 0, 0, 0, 5, 0, 0, 0, 0, 0, 0, 0, 87, 24, 29, 8, 3, 0,
    0, 0, 99, 154, 223, 139, 190, 23, 0, 0, 186, 178, 252, 147, 193, 23, 0, 0, 247, 173, 3, 52, 18,
    14, 67, 97, 7, 18, 194, 68, 236, 126, 99, 54, 46, 169, 224, 208, 182, 27, 29, 167, 174, 207, 74,
    59, 198, 192, 197, 118, 91, 222, 49, 53, 3, 7, 83, 243, 201, 39, 47, 108, 36, 141, 74, 249, 83,
    28, 114, 64, 196, 152, 223, 127, 153, 212, 79, 29, 182, 126, 134, 235, 14, 225, 69, 131, 148,
    176, 101, 236, 88, 202, 92, 184, 6, 187, 228, 152, 87, 49, 244, 225, 180, 86, 122, 115, 141, 56,
    169, 173, 1, 227, 67, 41, 217, 76, 68, 227, 219, 94, 122, 194, 74, 166, 7, 228, 209, 20, 53,
    238, 0, 136, 107, 202, 246, 33, 149, 223, 59, 184, 2, 99, 80, 137, 211, 214, 99, 131, 115, 0,
    14, 162, 44, 178, 100, 211, 74, 255, 100, 160, 75, 94, 250, 191, 187, 116, 221, 205, 4, 137,
    151, 177, 152, 21, 71, 215, 209, 16, 161, 164, 60, 187, 148, 237, 71, 250, 20, 27, 15, 77, 160,
    35, 254, 237, 209, 216, 185, 182, 232, 2, 150, 113, 239, 166, 254, 246, 199, 116, 227, 79, 0, 0,
    0, 0, 0, 0, 0, 0, 0, 0, 0, 0, 0, 0, 0, 0, 0, 0, 0, 0, 0, 0, 0, 0, 0, 0, 0, 0, 0, 0, 0, 0, 0, 0,
    0, 0, 0, 0, 0, 0, 0, 0, 0, 0, 0, 0, 0, 0, 1, 0, 0, 0, 0, 0, 0, 0, 0, 0, 0, 0, 0, 0, 0, 0, 0, 0,
    0, 0, 0, 0, 0, 0, 0, 0, 0, 0, 0, 0, 0, 0, 0, 225, 35, 207, 31, 2, 0, 0, 0, 3, 0, 0, 0, 98, 117,
    121, 0, 0, 0, 0, 0, 0, 0, 0, 0, 0, 0, 0, 0, 0, 0, 0, 136, 19, 0, 0, 0, 0, 0, 0, 43, 140, 14,
    132, 1, 0, 0, 0, 0, 0, 0, 0, 0, 0, 0, 0, 0, 0, 0, 0, 0, 0, 0, 0, 0, 0, 0, 0, 0, 0, 0, 0, 0, 0,
    0, 0, 0, 0, 0, 0, 0, 0, 0, 0, 0, 0, 0, 0, 0]"

definition POOL_FEES_WAITING :: bytes where
  "POOL_FEES_WAITING = [241, 154, 109, 4, 17, 177, 109, 188, 255, 0, 0, 62, 19, 111, 186, 196, 1, 66, 69, 133, 33, 209,
    143, 134, 11, 26, 235, 14, 161, 146, 143, 254, 69, 22, 149, 204, 153, 72, 69, 97, 1, 154, 171,
    0, 240, 126, 157, 70, 67, 8, 95, 63, 58, 168, 142, 105, 164, 160, 4, 88, 214, 64, 67, 232, 245,
    173, 19, 121, 228, 68, 45, 5, 251, 216, 95, 6, 155, 136, 87, 254, 171, 129, 132, 251, 104, 127,
    99, 70, 24, 192, 53, 218, 196, 57, 220, 26, 235, 59, 85, 152, 160, 240, 0, 0, 0, 0, 1, 247, 214,
    39, 182, 235, 158, 23, 194, 24, 240, 238, 104, 152, 141, 45, 57, 64, 183, 237, 71, 142, 201,
    145, 249, 51, 66, 160, 221, 216, 225, 139, 239, 94, 76, 244, 75, 33, 98, 24, 201, 143, 157, 145,
    37, 79, 38, 180, 172, 18, 253, 72, 105, 236, 247, 174, 108, 178, 160, 194, 244, 52, 107, 220,
    45, 36, 101, 209, 131, 192, 250, 10, 235, 250, 66, 113, 151, 245, 156, 216, 8, 162, 30, 241, 20,
    79, 87, 162, 91, 237, 202, 149, 197, 236, 36, 10, 13, 236, 66, 107, 89, 208, 3, 0, 0, 97, 120,
    40, 30, 142, 77, 232, 118, 102, 62, 135, 220, 159, 68, 175, 183, 243, 49, 105, 2, 65, 214, 29,
    57, 144, 194, 252, 131, 215, 39, 199, 184, 0, 0, 185, 65, 30, 24, 4, 0, 0, 0, 0, 0, 0, 0, 0, 0,
    0, 0, 0, 0, 0, 0, 0, 0, 0, 0, 0, 0, 9, 0, 0, 0, 0, 0, 0, 0, 6, 0, 0, 0, 0, 0, 0, 0, 0, 0, 0, 0,
    0, 0, 0, 0, 0, 0, 0, 0, 0, 0]"

definition POOL_VIRTUAL :: bytes where
  "POOL_VIRTUAL = [241, 154, 109, 4, 17, 177, 109, 188, 255, 0, 0, 151, 158, 175, 67, 30, 165, 103, 179, 51, 216, 108,
    59, 237, 145, 11, 144, 200, 80, 228, 231, 221, 224, 192, 215, 4, 250, 55, 182, 45, 231, 205, 80,
    185, 69, 212, 237, 55, 105, 166, 67, 215, 139, 27, 187, 75, 122, 191, 125, 150, 220, 80, 48, 53,
    64, 157, 250, 105, 242, 127, 130, 250, 85, 28, 159, 6, 155, 136, 87, 254, 171, 129, 132, 251,
    104, 127, 99, 70, 24, 192, 53, 218, 196, 57, 220, 26, 235, 59, 85, 152, 160, 240, 0, 0, 0, 0, 1,
    230, 177, 133, 30, 252, 158, 44, 235, 245, 176, 124, 157, 231, 189, 147, 46, 193, 49, 255, 155,
    179, 111, 126, 213, 153, 94, 199, 171, 252, 184, 138, 252, 95, 93, 188, 100, 217, 150, 238, 171,
    114, 233, 116, 211, 115, 41, 31, 133, 205, 203, 178, 83, 24, 65, 207, 167, 227, 180, 110, 183,
    26, 249, 150, 108, 150, 75, 45, 171, 127, 51, 66, 208, 73, 234, 70, 216, 197, 7, 117, 157, 206,
    142, 173, 218, 251, 48, 199, 251, 219, 167, 60, 170, 91, 233, 19, 92, 236, 66, 107, 89, 208, 3,
    0, 0, 21, 193, 70, 136, 114, 165, 88, 158, 194, 148, 4, 169, 103, 173, 73, 141, 189, 81, 246,
    215, 2, 55, 45, 120, 199, 187, 231, 182, 172, 230, 149, 148, 0, 0, 200, 65, 30, 24, 4, 0, 0, 0,
    0, 0, 0, 0, 0, 0, 0, 0, 0, 0, 0, 0, 0, 0, 0, 0, 0, 0, 0, 0, 0, 0, 0, 0, 0, 0, 0, 0, 0, 0, 0, 0,
    0, 0, 0, 0, 0, 0, 0, 0, 0, 0, 0, 0, 0, 0, 0, 0]"

definition POOL_NON_SOL_QUOTE_PUMP :: bytes where
  "POOL_NON_SOL_QUOTE_PUMP = [241, 154, 109, 4, 17, 177, 109, 188, 252, 0, 0, 105, 92, 52, 64, 25, 93, 131, 222, 168, 233, 174,
    211, 194, 31, 146, 61, 203, 132, 254, 180, 198, 87, 212, 82, 155, 52, 51, 135, 23, 15, 0, 165,
    172, 111, 183, 93, 3, 17, 62, 50, 24, 106, 45, 181, 29, 159, 199, 96, 186, 24, 20, 161, 227,
    219, 46, 252, 76, 252, 56, 161, 181, 39, 119, 15, 6, 199, 20, 147, 8, 215, 46, 77, 177, 160, 73,
    141, 217, 144, 130, 131, 52, 25, 101, 8, 95, 78, 233, 170, 252, 70, 229, 109, 36, 137, 65, 138,
    137, 133, 194, 59, 180, 170, 44, 80, 92, 17, 155, 45, 223, 192, 106, 64, 111, 63, 196, 206, 4,
    153, 78, 85, 6, 245, 36, 11, 124, 21, 19, 62, 119, 155, 145, 227, 4, 157, 208, 140, 32, 203, 53,
    28, 164, 198, 112, 193, 230, 124, 15, 40, 61, 75, 74, 232, 34, 79, 138, 63, 5, 48, 12, 135, 144,
    147, 207, 133, 108, 11, 147, 189, 105, 242, 127, 19, 208, 47, 157, 21, 38, 156, 99, 184, 132,
    197, 83, 220, 37, 132, 237, 112, 162, 94, 100, 250, 161, 37, 251, 73, 25, 0, 0, 0, 177, 86, 76,
    174, 12, 52, 194, 233, 140, 193, 220, 176, 61, 39, 147, 253, 222, 65, 66, 27, 2, 99, 82, 187,
    227, 158, 235, 70, 51, 122, 84, 75, 0, 0, 52, 3, 180, 0, 0, 0, 0, 0, 0, 0, 0, 0, 0, 0, 0, 0, 44,
    1, 0, 0, 0, 0, 0, 0, 0, 1, 0, 0, 0, 0, 0, 0, 0, 0, 0, 0, 0, 0, 0, 0, 0, 0, 0, 0, 0, 0, 0, 0, 0,
    0, 0, 0, 0, 0, 0, 0]"

section \<open>The swap tests\<close>

text \<open>\<open>assert_sell_matches\<close> and \<open>assert_buy_quote_in_matches\<close>.\<close>

definition assert_sell_matches :: "ext \<Rightarrow> bytes \<Rightarrow> u64 \<Rightarrow> bool" where
  "assert_sell_matches e fixture virtual_reserves \<longleftrightarrow>
     expect_and (SellEvent_decode fixture) (\<lambda>event.
     unwrap_and (add_u64 e (se_pool_quote_token_reserves event) virtual_reserves) (\<lambda>quote_reserves.
     unwrap_and (SellEvent_fees e event) (\<lambda>fees.
     unwrap_and (SellEvent_total_fee e event) (\<lambda>total_fee.
     let quote = quote_sell (se_base_amount_in event) (se_pool_base_token_reserves event) quote_reserves fees 0
     in gross_amount_out quote = se_quote_amount_out event \<and> sq_fee quote = total_fee \<and>
        amount_out quote = se_user_quote_amount_out event \<and>
        min_amount_out quote = se_user_quote_amount_out event))))"

definition assert_buy_quote_in_matches :: "ext \<Rightarrow> bytes \<Rightarrow> u64 \<Rightarrow> bool" where
  "assert_buy_quote_in_matches e fixture virtual_reserves \<longleftrightarrow>
     expect_and (BuyEvent_decode fixture) (\<lambda>event.
     be_ix_name event = bytes_of_string ''buy_exact_quote_in'' \<and>
     unwrap_and (add_u64 e (be_pool_quote_token_reserves event) virtual_reserves) (\<lambda>quote_reserves.
     unwrap_and (BuyEvent_fees e event) (\<lambda>fees.
     unwrap_and (BuyEvent_total_fee e event) (\<lambda>total_fee.
     let quote = quote_buy_exact_quote_in (be_quote_amount_in event) (be_pool_base_token_reserves event)
           quote_reserves fees 0
     in amount_out quote = be_base_amount_out event \<and> sq_fee quote = total_fee \<and>
        checked_sub (be_quote_amount_in event) (sq_fee quote) = Some (be_user_quote_amount_in event) \<and>
        min_amount_out quote = be_base_amount_out event))))"

definition sell_quote_matches_the_program_on_a_flat_fee_pool :: "ext \<Rightarrow> bool" where
  "sell_quote_matches_the_program_on_a_flat_fee_pool e \<longleftrightarrow> assert_sell_matches e SELL_FLAT_FEE 0"

definition sell_quote_matches_the_program_on_the_base_fee_tier :: "ext \<Rightarrow> bool" where
  "sell_quote_matches_the_program_on_the_base_fee_tier e \<longleftrightarrow> assert_sell_matches e SELL_BASE_TIER 0"

definition sell_quote_matches_the_program_when_the_pool_has_virtual_quote_liquidity :: "ext \<Rightarrow> bool" where
  "sell_quote_matches_the_program_when_the_pool_has_virtual_quote_liquidity e \<longleftrightarrow>
     assert_sell_matches e SELL_VIRTUAL 17584505289"

definition sell_quote_counts_cashback_as_part_of_the_fee :: "ext \<Rightarrow> bool" where
  "sell_quote_counts_cashback_as_part_of_the_fee e \<longleftrightarrow>
     expect_and (SellEvent_decode SELL_CASHBACK) (\<lambda>event.
       se_cashback event \<noteq> 0 \<and> se_coin_creator_fee_basis_points event = 0 \<and>
       assert_sell_matches e SELL_CASHBACK 0)"

definition dropping_virtual_quote_liquidity_overquotes_a_buy :: "ext \<Rightarrow> bool" where
  "dropping_virtual_quote_liquidity_overquotes_a_buy e \<longleftrightarrow>
     expect_and (BuyEvent_decode BUY_QUOTE_IN_VIRTUAL) (\<lambda>event.
     unwrap_and (BuyEvent_fees e event) (\<lambda>fees.
       be_base_amount_out event < amount_out (quote_buy_exact_quote_in (be_quote_amount_in event)
         (be_pool_base_token_reserves event) (be_pool_quote_token_reserves event) fees 0)))"

definition dropping_virtual_quote_liquidity_underquotes_a_sell :: "ext \<Rightarrow> bool" where
  "dropping_virtual_quote_liquidity_underquotes_a_sell e \<longleftrightarrow>
     expect_and (SellEvent_decode SELL_VIRTUAL) (\<lambda>event.
     unwrap_and (SellEvent_fees e event) (\<lambda>fees.
       amount_out (quote_sell (se_base_amount_in event) (se_pool_base_token_reserves event)
         (se_pool_quote_token_reserves event) fees 0) < se_user_quote_amount_out event))"

definition buy_exact_quote_in_matches_the_program :: "ext \<Rightarrow> bool" where
  "buy_exact_quote_in_matches_the_program e \<longleftrightarrow> assert_buy_quote_in_matches e BUY_QUOTE_IN_PLAIN 0"

definition buy_exact_quote_in_matches_the_program_with_virtual_quote_liquidity :: "ext \<Rightarrow> bool" where
  "buy_exact_quote_in_matches_the_program_with_virtual_quote_liquidity e \<longleftrightarrow>
     assert_buy_quote_in_matches e BUY_QUOTE_IN_VIRTUAL 17584505288"

definition buy_exact_base_out_matches_the_program :: "ext \<Rightarrow> bool" where
  "buy_exact_base_out_matches_the_program e \<longleftrightarrow>
     expect_and (BuyEvent_decode BUY_EXACT_BASE_OUT) (\<lambda>event.
     be_ix_name event = bytes_of_string ''buy'' \<and>
     unwrap_and (BuyEvent_fees e event) (\<lambda>fees.
     unwrap_and (BuyEvent_total_fee e event) (\<lambda>total_fee.
     expect_and (quote_buy_exact_base_out (be_base_amount_out event) (be_pool_base_token_reserves event)
       (be_pool_quote_token_reserves event) fees 0) (\<lambda>quote.
       quote_amount_in quote = be_quote_amount_in event \<and> bq_fee quote = total_fee \<and>
       total_quote_in quote = be_user_quote_amount_in event \<and>
       max_quote_in quote = be_user_quote_amount_in event))))"

section \<open>The pool tests\<close>

text \<open>\<open>u i\<close> is the \<open>i\<close>th fresh key a test draws.\<close>

definition decode_pool :: "ext \<Rightarrow> pubkey \<Rightarrow> bytes \<Rightarrow> PoolInfo res" where
  "decode_pool e k data = pool_info_from_account_data k data (x_spl_token_ID e) (x_spl_token_ID e)"

text \<open>\<open>data[i..i + n].copy_from_slice(..)\<close>, for an index in range.\<close>

definition copy_at :: "bytes \<Rightarrow> nat \<Rightarrow> bytes \<Rightarrow> bytes" where
  "copy_at data i bs = take i data @ bs @ drop (i + length bs) data"

definition pool_decoding_reads_virtual_quote_reserves :: "ext \<Rightarrow> (nat \<Rightarrow> pubkey) \<Rightarrow> bool" where
  "pool_decoding_reads_virtual_quote_reserves e u \<longleftrightarrow>
     unwrap_and (decode_pool e (u 0) POOL_VIRTUAL) (\<lambda>pool. virtual_quote_reserves pool = 17584505288)"

definition pool_decoding_treats_a_short_account_as_having_no_virtual_reserves ::
  "ext \<Rightarrow> (nat \<Rightarrow> pubkey) \<Rightarrow> bool" where
  "pool_decoding_treats_a_short_account_as_having_no_virtual_reserves e u \<longleftrightarrow>
     unwrap_and (decode_pool e (u 0) POOL_LEGACY_SHORT) (\<lambda>pool.
       virtual_quote_reserves pool = 0 \<and> pool_account_data_len pool = length POOL_LEGACY_SHORT)"

definition effective_reserves_add_virtual_liquidity_to_the_quote_side_only :: "ext \<Rightarrow> (nat \<Rightarrow> pubkey) \<Rightarrow> bool" where
  "effective_reserves_add_virtual_liquidity_to_the_quote_side_only e u \<longleftrightarrow>
     unwrap_and (decode_pool e (u 0) POOL_VIRTUAL) (\<lambda>pool.
       effective_reserves pool 1000 2000 = (1000, 2000 + 17584505288)) \<and>
     unwrap_and (decode_pool e (u 1) POOL_CURRENT) (\<lambda>sol_base.
       virtual_quote_reserves sol_base = 0 \<and> effective_reserves sol_base 1000 2000 = (1000, 2000) \<and>
       sol_is_base e sol_base)"

definition pool_decoding_reads_the_fees_waiting_for_a_sweep :: "ext \<Rightarrow> (nat \<Rightarrow> pubkey) \<Rightarrow> bool" where
  "pool_decoding_reads_the_fees_waiting_for_a_sweep e u \<longleftrightarrow>
     unwrap_and (decode_pool e (u 0) POOL_FEES_WAITING) (\<lambda>pool.
       protocol_fees pool = 9 \<and> creator_fees pool = 6 \<and> virtual_quote_reserves pool = 17584505273 \<and>
       pi_creator_fee_bps pool = 0 \<and> \<not> is_holder_reward pool)"

definition pool_decoding_reads_the_custom_creator_fee_and_holder_reward_flag ::
  "ext \<Rightarrow> (nat \<Rightarrow> pubkey) \<Rightarrow> bool" where
  "pool_decoding_reads_the_custom_creator_fee_and_holder_reward_flag e u \<longleftrightarrow>
     (let data = (copy_at POOL_FEES_WAITING 261 (to_le_bytes (250 :: u64)))[270 := 1] in
      unwrap_and (decode_pool e (u 0) data) (\<lambda>pool. pi_creator_fee_bps pool = 250 \<and> is_holder_reward pool))"

definition pool_decoding_treats_missing_trailing_fields_as_zero :: "ext \<Rightarrow> (nat \<Rightarrow> pubkey) \<Rightarrow> bool" where
  "pool_decoding_treats_missing_trailing_fields_as_zero e u \<longleftrightarrow>
     unwrap_and (decode_pool e (u 0) POOL_LEGACY_SHORT) (\<lambda>pool.
       pi_creator_fee_bps pool = 0 \<and> \<not> is_holder_reward pool \<and> protocol_fees pool = 0 \<and>
       creator_fees pool = 0) \<and>
     unwrap_and (decode_pool e (u 1) (take 283 POOL_FEES_WAITING)) (\<lambda>pool.
       protocol_fees pool = 9 \<and> creator_fees pool = 0)"

definition pool_with_virtual_quote_reserves :: "ext \<Rightarrow> pubkey \<Rightarrow> i128 \<Rightarrow> PoolInfo res" where
  "pool_with_virtual_quote_reserves e k v = decode_pool e k (copy_at POOL_VIRTUAL 245 (to_le_bytes v))"

definition effective_reserves_subtract_negative_virtual_reserves :: "ext \<Rightarrow> (nat \<Rightarrow> pubkey) \<Rightarrow> bool" where
  "effective_reserves_subtract_negative_virtual_reserves e u \<longleftrightarrow>
     unwrap_and (pool_with_virtual_quote_reserves e (u 0) (- 30000000)) (\<lambda>pool.
       effective_reserves pool 1000 110000000000 = (1000, 109970000000))"

definition effective_reserves_stay_in_range_for_a_stale_pool_and_vault_pair ::
  "ext \<Rightarrow> (nat \<Rightarrow> pubkey) \<Rightarrow> bool" where
  "effective_reserves_stay_in_range_for_a_stale_pool_and_vault_pair e u \<longleftrightarrow>
     unwrap_and (pool_with_virtual_quote_reserves e (u 0) (- 30000000)) (\<lambda>negative.
       effective_reserves negative 1000 10000000 = (1000, 0)) \<and>
     unwrap_and (pool_with_virtual_quote_reserves e (u 1) 1) (\<lambda>positive.
       effective_reserves positive 1000 u64_MAX = (1000, u64_MAX)) \<and>
     unwrap_and (pool_with_virtual_quote_reserves e (u 2) (2 ^ 127 - 1)) (\<lambda>largest.
       effective_reserves largest 1000 1 = (1000, u64_MAX))"

definition pool_decoding_ignores_an_account_ending_inside_the_field :: "ext \<Rightarrow> (nat \<Rightarrow> pubkey) \<Rightarrow> bool" where
  "pool_decoding_ignores_an_account_ending_inside_the_field e u \<longleftrightarrow>
     unwrap_and (decode_pool e (u 0) (take 253 POOL_VIRTUAL)) (\<lambda>pool.
       effective_reserves pool 1000 2000 = (1000, 2000))"

definition tiered_fee_pools_are_the_ones_with_a_coin_creator :: "ext \<Rightarrow> (nat \<Rightarrow> pubkey) \<Rightarrow> bool" where
  "tiered_fee_pools_are_the_ones_with_a_coin_creator e u \<longleftrightarrow>
     unwrap_and (decode_pool e (u 0) POOL_NON_SOL_QUOTE_PUMP) (\<lambda>non_sol_quote.
       coin_creator non_sol_quote \<noteq> pubkey_default \<and> quote_mint non_sol_quote \<noteq> WRAPPED_SOL_MINT e \<and>
       is_tiered_fee_pool non_sol_quote) \<and>
     unwrap_and (decode_pool e (u 1) POOL_VIRTUAL) (\<lambda>with_creator.
       coin_creator with_creator \<noteq> pubkey_default \<and> is_tiered_fee_pool with_creator) \<and>
     unwrap_and (decode_pool e (u 2) POOL_CURRENT) (\<lambda>without_creator.
       coin_creator without_creator = pubkey_default \<and> \<not> is_tiered_fee_pool without_creator)"

definition a_pump_pool_quoted_in_another_mint_is_not_quotable :: "ext \<Rightarrow> (nat \<Rightarrow> pubkey) \<Rightarrow> bool" where
  "a_pump_pool_quoted_in_another_mint_is_not_quotable e u \<longleftrightarrow>
     unwrap_and (decode_pool e (u 0) POOL_NON_SOL_QUOTE_PUMP) (\<lambda>pool. \<not> can_quote_fees e pool) \<and>
     unwrap_and (decode_pool e (u 1) POOL_VIRTUAL) (can_quote_fees e) \<and>
     unwrap_and (decode_pool e (u 2) POOL_CURRENT) (can_quote_fees e) \<and>
     unwrap_and (decode_pool e (u 3) POOL_LEGACY_SHORT) (can_quote_fees e)"

text \<open>The documented value of \<open>pubkey!("So11111111111111111111111111111111111111112")\<close>.\<close>

definition wsol :: pubkey where
  "wsol = Pubkey [6, 155, 136, 87, 254, 171, 129, 132, 251, 104, 127, 99, 70, 24, 192, 53, 218, 196, 57, 220,
     26, 235, 59, 85, 152, 160, 240, 0, 0, 0, 0, 1]"

section \<open>The quotes are those of the program\<close>

lemmas event_bytes = event_u64_def field_def from_le_bytes_def

lemma SELL_FLAT_FEE_decoded:
  "SellEvent_decode SELL_FLAT_FEE = Some \<lparr>se_base_amount_in = 1000000, se_pool_base_token_reserves = 10882, se_pool_quote_token_reserves =
    729896872, se_quote_amount_out = 722039636, se_user_quote_amount_out = 719873516,
    se_lp_fee_basis_points = 25, se_lp_fee = 1805100, se_protocol_fee_basis_points = 5,
    se_protocol_fee = 361020, se_coin_creator_fee_basis_points = 0, se_coin_creator_fee = 0,
    se_cashback_fee_basis_points = 0, se_cashback = 0\<rparr>"
  by (simp add: SellEvent_decode_def event_bytes SELL_FLAT_FEE_def)

lemma SELL_VIRTUAL_decoded:
  "SellEvent_decode SELL_VIRTUAL = Some \<lparr>se_base_amount_in = 84747554461, se_pool_base_token_reserves = 133842526585323,
    se_pool_quote_token_reserves = 124498374985, se_quote_amount_out = 89908323,
    se_user_quote_amount_out = 88829421, se_lp_fee_basis_points = 20, se_lp_fee = 179817,
    se_protocol_fee_basis_points = 5, se_protocol_fee = 44955, se_coin_creator_fee_basis_points =
    95, se_coin_creator_fee = 854130, se_cashback_fee_basis_points = 0, se_cashback = 0\<rparr>"
  by (simp add: SellEvent_decode_def event_bytes SELL_VIRTUAL_def)

lemma SELL_CASHBACK_decoded:
  "SellEvent_decode SELL_CASHBACK = Some \<lparr>se_base_amount_in = 23873245219, se_pool_base_token_reserves = 754873306405815,
    se_pool_quote_token_reserves = 37303330781, se_quote_amount_out = 1179699,
    se_user_quote_amount_out = 1164951, se_lp_fee_basis_points = 2, se_lp_fee = 236,
    se_protocol_fee_basis_points = 93, se_protocol_fee = 10972, se_coin_creator_fee_basis_points =
    0, se_coin_creator_fee = 0, se_cashback_fee_basis_points = 30, se_cashback = 3540\<rparr>"
  by (simp add: SellEvent_decode_def event_bytes SELL_CASHBACK_def)

lemma SELL_BASE_TIER_decoded:
  "SellEvent_decode SELL_BASE_TIER = Some \<lparr>se_base_amount_in = 972081202, se_pool_base_token_reserves = 484924091521623,
    se_pool_quote_token_reserves = 78821740383, se_quote_amount_out = 158006,
    se_user_quote_amount_out = 156029, se_lp_fee_basis_points = 2, se_lp_fee = 32,
    se_protocol_fee_basis_points = 93, se_protocol_fee = 1470, se_coin_creator_fee_basis_points =
    30, se_coin_creator_fee = 475, se_cashback_fee_basis_points = 0, se_cashback = 0\<rparr>"
  by (simp add: SellEvent_decode_def event_bytes SELL_BASE_TIER_def)

lemma BUY_QUOTE_IN_VIRTUAL_decoded:
  "BuyEvent_decode BUY_QUOTE_IN_VIRTUAL = Some \<lparr>be_base_amount_out = 49221707, be_pool_base_token_reserves = 56597868027605,
    be_pool_quote_token_reserves = 293738691455, be_quote_amount_in = 273460,
    be_user_quote_amount_in = 270751, be_lp_fee_basis_points = 20, be_lp_fee = 542,
    be_protocol_fee_basis_points = 5, be_protocol_fee = 136, be_coin_creator_fee_basis_points = 75,
    be_coin_creator_fee = 2031, be_cashback_fee_basis_points = 0, be_cashback = 0, be_ix_name = [98,
    117, 121, 95, 101, 120, 97, 99, 116, 95, 113, 117, 111, 116, 101, 95, 105, 110]\<rparr>"
  by (simp add: BuyEvent_decode_def event_bytes BUY_QUOTE_IN_VIRTUAL_def)

lemma BUY_QUOTE_IN_PLAIN_decoded:
  "BuyEvent_decode BUY_QUOTE_IN_PLAIN = Some \<lparr>be_base_amount_out = 621619282, be_pool_base_token_reserves = 484923900774720,
    be_pool_quote_token_reserves = 78821771461, be_quote_amount_in = 102307, be_user_quote_amount_in
    = 101042, be_lp_fee_basis_points = 2, be_lp_fee = 21, be_protocol_fee_basis_points = 93,
    be_protocol_fee = 940, be_coin_creator_fee_basis_points = 30, be_coin_creator_fee = 304,
    be_cashback_fee_basis_points = 0, be_cashback = 0, be_ix_name = [98, 117, 121, 95, 101, 120, 97,
    99, 116, 95, 113, 117, 111, 116, 101, 95, 105, 110]\<rparr>"
  by (simp add: BuyEvent_decode_def event_bytes BUY_QUOTE_IN_PLAIN_def)

lemma BUY_EXACT_BASE_OUT_decoded:
  "BuyEvent_decode BUY_EXACT_BASE_OUT = Some \<lparr>be_base_amount_out = 9123603425, be_pool_base_token_reserves = 1497402253153,
    be_pool_quote_token_reserves = 4248083716755698, be_quote_amount_in = 26042052780212,
    be_user_quote_amount_in = 26120178938554, be_lp_fee_basis_points = 25, be_lp_fee = 65105131951,
    be_protocol_fee_basis_points = 5, be_protocol_fee = 13021026391,
    be_coin_creator_fee_basis_points = 0, be_coin_creator_fee = 0, be_cashback_fee_basis_points = 0,
    be_cashback = 0, be_ix_name = [98, 117, 121]\<rparr>"
  by (simp add: BuyEvent_decode_def event_bytes BUY_EXACT_BASE_OUT_def)

lemmas events_decoded = SELL_FLAT_FEE_decoded SELL_VIRTUAL_decoded SELL_CASHBACK_decoded SELL_BASE_TIER_decoded
  BUY_QUOTE_IN_VIRTUAL_decoded BUY_QUOTE_IN_PLAIN_decoded BUY_EXACT_BASE_OUT_decoded

lemmas event_simps = SellEvent_fees_def SellEvent_total_fee_def BuyEvent_fees_def BuyEvent_total_fee_def
  event_fees_def event_total_fee_def add_u64_def

text \<open>A quote at zero slippage from its numbers.\<close>

lemma quote_sell_value:
  assumes "unat q * unat a div (unat b + unat a) = unat g" and "exact_fee f (unat g) = unat fee"
    and "unat g = unat out + unat fee" and "unat out \<le> 2 ^ 53"
  shows "quote_sell a b q f 0 =
    \<lparr>gross_amount_out = g, sq_fee = fee, amount_out = out, min_amount_out = out\<rparr>"
proof -
  have g: "constant_product_out a b q = g"
    using assms(1) by (simp add: word_unat_eq_iff unat_constant_product_out cp_out_def)
  moreover have "fee_on f g = fee"
    using assms(2) unat_u64_less [of fee] by (simp add: word_unat_eq_iff unat_fee_on)
  moreover have "saturating_sub g fee = out" using assms(3) by (simp add: word_unat_eq_iff unat_saturating_sub)
  ultimately show ?thesis using apply_slippage_zero [OF assms(4)] by (simp add: quote_sell_def)
qed

lemma quote_buy_value:
  assumes "exact_fee f (unat a * 10000 div (10000 + exact_bps f)) = unat fee" and "exact_bps f \<le> 10000"
    and "unat b * (unat a - unat fee - 1) div (unat q + (unat a - unat fee - 1)) = unat out"
    and "unat out \<le> 2 ^ 53"
  shows "quote_buy_exact_quote_in a b q f 0 =
    \<lparr>gross_amount_out = out, sq_fee = fee, amount_out = out, min_amount_out = out\<rparr>"
proof -
  have fee: "min (exact_fee f (charged_amount f (unat a))) (2 ^ 64 - 1) = unat fee"
    using assms(1,2) unat_u64_less [of fee] by (simp add: charged_amount_def unat_total_bps)
  have "amount_out (quote_buy_exact_quote_in a b q f 0) = out"
    using assms(3) unfolding word_unat_eq_iff unat_buy_out curve_input_def cp_out_def fee .
  moreover have "sq_fee (quote_buy_exact_quote_in a b q f 0) = fee"
    unfolding word_unat_eq_iff unat_buy_fee fee ..
  ultimately show ?thesis
    using quote_buy_simps [of a b q f 0] apply_slippage_zero [OF assms(4)] by (cases "quote_buy_exact_quote_in a b q f 0") simp
qed

lemma recorded_sells:
  "quote_sell 1000000 10882 729896872 \<lparr>lp_fee_bps = 25, protocol_fee_bps = 5, creator_fee_bps = 0\<rparr> 0 =
     \<lparr>gross_amount_out = 722039636, sq_fee = 2166120, amount_out = 719873516, min_amount_out = 719873516\<rparr>"
  "quote_sell 84747554461 133842526585323 124498374985 \<lparr>lp_fee_bps = 20, protocol_fee_bps = 5, creator_fee_bps = 95\<rparr> 0 =
     \<lparr>gross_amount_out = 78781061, sq_fee = 945375, amount_out = 77835686, min_amount_out = 77835686\<rparr>"
  "quote_sell 84747554461 133842526585323 142082880274 \<lparr>lp_fee_bps = 20, protocol_fee_bps = 5, creator_fee_bps = 95\<rparr> 0 =
     \<lparr>gross_amount_out = 89908323, sq_fee = 1078902, amount_out = 88829421, min_amount_out = 88829421\<rparr>"
  "quote_sell 23873245219 754873306405815 37303330781 \<lparr>lp_fee_bps = 2, protocol_fee_bps = 93, creator_fee_bps = 30\<rparr> 0 =
     \<lparr>gross_amount_out = 1179699, sq_fee = 14748, amount_out = 1164951, min_amount_out = 1164951\<rparr>"
  "quote_sell 972081202 484924091521623 78821740383 \<lparr>lp_fee_bps = 2, protocol_fee_bps = 93, creator_fee_bps = 30\<rparr> 0 =
     \<lparr>gross_amount_out = 158006, sq_fee = 1977, amount_out = 156029, min_amount_out = 156029\<rparr>"
  by (rule quote_sell_value; simp add: exact_fee_def ceil_bps_def)+

lemma recorded_buys:
  "quote_buy_exact_quote_in 273460 56597868027605 293738691455 \<lparr>lp_fee_bps = 20, protocol_fee_bps = 5, creator_fee_bps = 75\<rparr> 0 =
     \<lparr>gross_amount_out = 52168335, sq_fee = 2709, amount_out = 52168335, min_amount_out = 52168335\<rparr>"
  "quote_buy_exact_quote_in 273460 56597868027605 311323196743 \<lparr>lp_fee_bps = 20, protocol_fee_bps = 5, creator_fee_bps = 75\<rparr> 0 =
     \<lparr>gross_amount_out = 49221707, sq_fee = 2709, amount_out = 49221707, min_amount_out = 49221707\<rparr>"
  "quote_buy_exact_quote_in 102307 484923900774720 78821771461 \<lparr>lp_fee_bps = 2, protocol_fee_bps = 93, creator_fee_bps = 30\<rparr> 0 =
     \<lparr>gross_amount_out = 621619282, sq_fee = 1265, amount_out = 621619282, min_amount_out = 621619282\<rparr>"
  by (rule quote_buy_value; simp add: exact_fee_def ceil_bps_def exact_bps_def)+

lemma sells_match:
  "assert_sell_matches e SELL_FLAT_FEE 0" "assert_sell_matches e SELL_BASE_TIER 0"
  "assert_sell_matches e SELL_VIRTUAL 17584505289" "assert_sell_matches e SELL_CASHBACK 0"
  by (simp_all add: assert_sell_matches_def events_decoded event_simps recorded_sells Let_def
    del: quote_sell_simps)

lemma buys_match:
  "assert_buy_quote_in_matches e BUY_QUOTE_IN_PLAIN 0"
  "assert_buy_quote_in_matches e BUY_QUOTE_IN_VIRTUAL 17584505288"
  by (simp_all add: assert_buy_quote_in_matches_def events_decoded event_simps recorded_buys Let_def
      bytes_of_string_def checked_sub_def del: quote_buy_simps)

text \<open>With zero slippage the cap is the total itself, as long as a float holds it.\<close>

lemma max_quote_in_exact:
  assumes t: "unat t \<le> 2 ^ 53"
  shows "u64_of_f64 (f64_ceil (f64_of_u64 t * f64_min (1 + f64_max 0 0) (Fin 4294967295))) = t"
proof -
  have one: "f64_rnd 1 = Fin 1" using representable_of_nat [of 1] by (intro f64_rnd_exact) simp_all
  have "f64_rnd (of_nat (unat t)) = Fin (of_nat (unat t))"
    using u64_le_2_64 [of t] representable_of_nat [OF t] by (intro f64_rnd_exact) simp_all
  then have "f64_of_u64 t * f64_min (1 + f64_max 0 0) (Fin 4294967295) = Fin (of_nat (unat t))"
    by (simp add: one f64_of_u64_exact [OF t] f64_max_def zero_f64_def one_f64_def f64_min_def)
  moreover have "(of_nat (unat t) :: rat) < 2 ^ 64"
    using order_le_less_trans [of "of_nat (unat t) :: rat" "of_nat (2 ^ 53)" "2 ^ 64"] t
    by (simp only: of_nat_le_iff) simp
  ultimately show ?thesis by (simp add: not_le [symmetric])
qed

lemma exact_out_value:
  "constant_product_in 9123603425 4248083716755698 1497402253153 = Some 26042052780212"
  by (simp add: constant_product_in_def checked_sub_def div_ceil_def u64_try_from_def Let_def)

lemma exact_out_fee:
  "fee_on \<lparr>lp_fee_bps = 25, protocol_fee_bps = 5, creator_fee_bps = 0\<rparr> 26042052780212 = 78126158342"
  by (simp add: word_unat_eq_iff unat_fee_on exact_fee_def ceil_bps_def)

lemma exact_out_matches: "buy_exact_base_out_matches_the_program e"
  using max_quote_in_exact [of 26120178938554]
  by (simp add: buy_exact_base_out_matches_the_program_def events_decoded event_simps exact_out_fee Let_def
      bytes_of_string_def quote_buy_exact_base_out_def exact_out_value saturating_add_def)

lemma swap_tests_pass:
  "sell_quote_matches_the_program_on_a_flat_fee_pool e" "sell_quote_matches_the_program_on_the_base_fee_tier e"
  "sell_quote_matches_the_program_when_the_pool_has_virtual_quote_liquidity e"
  "sell_quote_counts_cashback_as_part_of_the_fee e" "buy_exact_quote_in_matches_the_program e"
  "buy_exact_quote_in_matches_the_program_with_virtual_quote_liquidity e"
  "dropping_virtual_quote_liquidity_overquotes_a_buy e" "dropping_virtual_quote_liquidity_underquotes_a_sell e"
proof -
  show "sell_quote_matches_the_program_on_a_flat_fee_pool e" "sell_quote_matches_the_program_on_the_base_fee_tier e"
    "sell_quote_matches_the_program_when_the_pool_has_virtual_quote_liquidity e"
    "sell_quote_counts_cashback_as_part_of_the_fee e" "buy_exact_quote_in_matches_the_program e"
    "buy_exact_quote_in_matches_the_program_with_virtual_quote_liquidity e"
    by (simp_all add: sell_quote_matches_the_program_on_a_flat_fee_pool_def sells_match buys_match events_decoded
        sell_quote_matches_the_program_on_the_base_fee_tier_def
        sell_quote_matches_the_program_when_the_pool_has_virtual_quote_liquidity_def
        sell_quote_counts_cashback_as_part_of_the_fee_def buy_exact_quote_in_matches_the_program_def
        buy_exact_quote_in_matches_the_program_with_virtual_quote_liquidity_def)
  show "dropping_virtual_quote_liquidity_overquotes_a_buy e" "dropping_virtual_quote_liquidity_underquotes_a_sell e"
    by (simp_all add: dropping_virtual_quote_liquidity_overquotes_a_buy_def events_decoded event_simps recorded_buys
        recorded_sells dropping_virtual_quote_liquidity_underquotes_a_sell_def del: quote_sell_simps)
qed

text \<open>The fields of the recorded pools.\<close>

lemma pool_fixture_lengths:
  "length POOL_VIRTUAL = 301" "length POOL_FEES_WAITING = 301" "length POOL_NON_SOL_QUOTE_PUMP = 301"
  by (simp_all add: POOL_VIRTUAL_def POOL_FEES_WAITING_def POOL_NON_SOL_QUOTE_PUMP_def)

lemma length_copy_at [simp]: "i + length bs \<le> length data \<Longrightarrow> length (copy_at data i bs) = length data"
  by (simp add: copy_at_def)

lemma slice_copy_at: "i + length bs \<le> length data \<Longrightarrow> slice_get (copy_at data i bs) i (i + length bs) = Some bs"
  by (simp add: slice_get_def copy_at_def)

lemma virtual_reserves_replaced:
  "\<exists>pool. pool_with_virtual_quote_reserves e k v = Inr pool \<and> virtual_quote_reserves pool = v"
  using slice_copy_at [of 245 "to_le_bytes v" POOL_VIRTUAL]
  by (simp add: pool_with_virtual_quote_reserves_def decode_pool_def pool_info_eq pool_fixture_lengths pool_info_of_def)

lemma effective_reserves_value:
  assumes "max 0 (min (2 ^ 64 - 1) (int (unat q) + sint (virtual_quote_reserves p))) = int (unat r)"
  shows "effective_reserves p b q = (b, r)"
  using effective_quote_reserve [of p b q] assms effective_base_reserve [of p b q]
  by (cases "effective_reserves p b q") (simp add: word_unat_eq_iff)

lemmas pool_field_simps = decode_pool_def pool_info_eq pool_fixture_lengths fixture_lengths pool_info_of_def
  trailing_u64_def slice_get_def byte_get_def

lemma reserve_tests_pass:
  "effective_reserves_subtract_negative_virtual_reserves e u"
  "effective_reserves_stay_in_range_for_a_stale_pool_and_vault_pair e u"
proof -
  obtain p where p: "pool_with_virtual_quote_reserves e (u 0) (- 30000000) = Inr p"
      "virtual_quote_reserves p = - 30000000"
    using virtual_reserves_replaced by blast
  obtain q where q: "pool_with_virtual_quote_reserves e (u 1) 1 = Inr q" "virtual_quote_reserves q = 1"
    using virtual_reserves_replaced by blast
  obtain r where r: "pool_with_virtual_quote_reserves e (u 2) (2 ^ 127 - 1) = Inr r"
      "virtual_quote_reserves r = 2 ^ 127 - 1"
    using virtual_reserves_replaced by blast
  show "effective_reserves_subtract_negative_virtual_reserves e u"
    using p by (simp add: effective_reserves_subtract_negative_virtual_reserves_def effective_reserves_value)
  show "effective_reserves_stay_in_range_for_a_stale_pool_and_vault_pair e u"
    using p q r
    by (simp add: effective_reserves_stay_in_range_for_a_stale_pool_and_vault_pair_def effective_reserves_value
        unat_u64_MAX)
qed

lemma virtual_pool_value: "from_le_bytes (take 16 (drop 245 POOL_VIRTUAL)) = (17584505288 :: i128)"
  by (simp add: POOL_VIRTUAL_def from_le_bytes_def)

lemma waiting_pool_values:
  "from_le_bytes (take 16 (drop 245 POOL_FEES_WAITING)) = (17584505273 :: i128)"
  "from_le_bytes (take 8 (drop 261 POOL_FEES_WAITING)) = (0 :: u64)"
  "POOL_FEES_WAITING ! 270 = 0"
  "from_le_bytes (take 8 (drop 271 POOL_FEES_WAITING)) = (9 :: u64)"
  "from_le_bytes (take 8 (drop 279 POOL_FEES_WAITING)) = (6 :: u64)"
  by (simp_all add: POOL_FEES_WAITING_def from_le_bytes_def)

lemma legacy_pool_values:
  "from_le_bytes (take 16 (drop 245 POOL_LEGACY_SHORT)) = (0 :: i128)"
  "from_le_bytes (take 8 (drop 261 POOL_LEGACY_SHORT)) = (0 :: u64)" "POOL_LEGACY_SHORT ! 270 = 0"
  by (simp_all add: POOL_LEGACY_SHORT_def from_le_bytes_def)

lemma decode_tests_pass:
  "pool_decoding_reads_virtual_quote_reserves e u"
  "pool_decoding_treats_a_short_account_as_having_no_virtual_reserves e u"
  "pool_decoding_reads_the_fees_waiting_for_a_sweep e u"
  "pool_decoding_reads_the_custom_creator_fee_and_holder_reward_flag e u"
  "pool_decoding_treats_missing_trailing_fields_as_zero e u"
  "pool_decoding_ignores_an_account_ending_inside_the_field e u"
  by (simp_all add: pool_decoding_reads_virtual_quote_reserves_def pool_field_simps virtual_pool_value
      pool_decoding_treats_a_short_account_as_having_no_virtual_reserves_def
      pool_decoding_reads_the_fees_waiting_for_a_sweep_def waiting_pool_values
      pool_decoding_reads_the_custom_creator_fee_and_holder_reward_flag_def legacy_pool_values
      pool_decoding_treats_missing_trailing_fields_as_zero_def copy_at_def drop_take
      drop_update_swap take_update_cancel
      pool_decoding_ignores_an_account_ending_inside_the_field_def Let_def effective_reserves_value)

lemma zero_key: "replicate 32 (0 :: u8) = [0, 0, 0, 0, 0, 0, 0, 0, 0, 0, 0, 0, 0, 0, 0, 0, 0, 0, 0, 0, 0, 0, 0, 0,
    0, 0, 0, 0, 0, 0, 0, 0]"
  by (simp add: numeral_eq_Suc)

lemma fixture_keys:
  "take 32 (drop 75 POOL_VIRTUAL) = pk_bytes wsol" "take 32 (drop 43 POOL_CURRENT) = pk_bytes wsol"
  "take 32 (drop 75 POOL_NON_SOL_QUOTE_PUMP) \<noteq> pk_bytes wsol"
  "take 32 (drop 211 POOL_NON_SOL_QUOTE_PUMP) \<noteq> replicate 32 0" "take 32 (drop 211 POOL_VIRTUAL) \<noteq> replicate 32 0"
  "take 32 (drop 211 POOL_CURRENT) = replicate 32 0" "take 32 (drop 211 POOL_LEGACY_SHORT) = replicate 32 0"
  by (simp_all add: POOL_VIRTUAL_def POOL_CURRENT_def POOL_LEGACY_SHORT_def POOL_NON_SOL_QUOTE_PUMP_def wsol_def
      zero_key)

lemma current_pool_value: "from_le_bytes (take 16 (drop 245 POOL_CURRENT)) = (0 :: i128)"
  by (simp add: POOL_CURRENT_def from_le_bytes_def)

lemma Pubkey_wsol: "Pubkey bs = wsol \<longleftrightarrow> bs = pk_bytes wsol"
  by (simp add: wsol_def)

lemma mint_tests_pass:
  assumes "WRAPPED_SOL_MINT e = wsol"
  shows "effective_reserves_add_virtual_liquidity_to_the_quote_side_only e u"
    and "tiered_fee_pools_are_the_ones_with_a_coin_creator e u"
    and "a_pump_pool_quoted_in_another_mint_is_not_quotable e u"
  by (simp_all add: effective_reserves_add_virtual_liquidity_to_the_quote_side_only_def pool_field_simps
      virtual_pool_value current_pool_value effective_reserves_value sol_is_base_def assms Pubkey_wsol field_def
      pool_from_bytes_def drop_take fixture_keys tiered_fee_pools_are_the_ones_with_a_coin_creator_def
      a_pump_pool_quoted_in_another_mint_is_not_quotable_def pubkey_default_def is_tiered_fee_pool_def
      can_quote_fees_def)

section \<open>All of them\<close>

text \<open>
  On the seven recorded swaps, with and without virtual reserves, on the flat schedule, the
  ladder and a cashback pool, the three quotes give to the unit what the program paid, charged and
  took; a quote that leaves the virtual reserves out overstates a buy and understates a sell. The
  decoder reads from the recorded pools what they hold, whole, truncated or overwritten.
\<close>

lemma recorded_swaps_reproduced:
  "sell_quote_matches_the_program_on_a_flat_fee_pool e \<and>
    sell_quote_matches_the_program_on_the_base_fee_tier e \<and>
    sell_quote_matches_the_program_when_the_pool_has_virtual_quote_liquidity e \<and>
    sell_quote_counts_cashback_as_part_of_the_fee e \<and>
    dropping_virtual_quote_liquidity_overquotes_a_buy e \<and>
    dropping_virtual_quote_liquidity_underquotes_a_sell e \<and>
    buy_exact_quote_in_matches_the_program e \<and>
    buy_exact_quote_in_matches_the_program_with_virtual_quote_liquidity e \<and>
    buy_exact_base_out_matches_the_program e \<and>
    pool_decoding_reads_virtual_quote_reserves e u \<and>
    pool_decoding_treats_a_short_account_as_having_no_virtual_reserves e u \<and>
    pool_decoding_reads_the_fees_waiting_for_a_sweep e u \<and>
    pool_decoding_reads_the_custom_creator_fee_and_holder_reward_flag e u \<and>
    pool_decoding_treats_missing_trailing_fields_as_zero e u \<and>
    effective_reserves_subtract_negative_virtual_reserves e u \<and>
    effective_reserves_stay_in_range_for_a_stale_pool_and_vault_pair e u \<and>
    pool_decoding_ignores_an_account_ending_inside_the_field e u"
  by (intro conjI swap_tests_pass exact_out_matches decode_tests_pass reserve_tests_pass)

end
