(* ===== verification/Mainnet.thy ===== *)
theory Mainnet
  imports Addresses
begin

text \<open>
  The addresses of the live programs that the integration tests compare with. \<open>pubkey!\<close> is the
  base58 decoder; a derivation is a hash, which stays a parameter, but its values on the
  recorded seeds are known: each row of the tables below is one derivation of the live programs,
  by the seeds and the program that their interface descriptions give, and not by the seeds of
  the crate. \<open>mainnet\<close> says that the outside world derives these; \<open>ext_mainnet\<close> is one that does.
\<close>

section \<open>Base58\<close>

text \<open>
  The alphabet has the digits and letters without \<open>0\<close>, \<open>O\<close>, \<open>I\<close> and \<open>l\<close>; the digits of the text are
  those of a big-endian number, and a leading \<open>1\<close> stands for a zero byte.
\<close>

definition base58_digit :: "char \<Rightarrow> nat option" where
  "base58_digit c = (let n = of_char c in
     if n < 49 then None else if n < 58 then Some (n - 49)
     else if n < 65 then None else if n < 73 then Some (n - 56)
     else if n = 73 then None else if n < 79 then Some (n - 57)
     else if n = 79 then None else if n < 91 then Some (n - 58)
     else if n < 97 then None else if n < 108 then Some (n - 64)
     else if n = 108 then None else if n < 123 then Some (n - 65) else None)"

fun base58_number :: "nat \<Rightarrow> string \<Rightarrow> nat option" where
  "base58_number acc [] = Some acc"
| "base58_number acc (c # s) =
     (case base58_digit c of None \<Rightarrow> None | Some d \<Rightarrow> base58_number (58 * acc + d) s)"

fun be_bytes :: "nat \<Rightarrow> bytes \<Rightarrow> bytes" where
  "be_bytes n bs = (if n = 0 then bs else be_bytes (n div 256) (word_of_nat (n mod 256) # bs))"

declare be_bytes.simps [simp del]

definition base58_decode :: "string \<Rightarrow> bytes option" where
  "base58_decode s = map_option
     (\<lambda>n. replicate (length (takeWhile ((=) CHR ''1'') s)) 0 @ be_bytes n []) (base58_number 0 s)"

text \<open>
  A text is decoded by comparing the number of its digits with the number of the bytes, which
  takes no division.
\<close>

fun be_val :: "nat \<Rightarrow> bytes \<Rightarrow> nat" where
  "be_val acc [] = acc"
| "be_val acc (b # bs) = be_val (256 * acc + unat b) bs"

lemma unat_byte: "unat (b :: u8) < 256"
  using unsigned_less [of b, where 'a = nat] by simp

lemma be_bytes_step:
  assumes "0 < a \<or> b \<noteq> 0"
  shows "be_bytes (256 * a + unat b) bs = be_bytes a (b # bs)"
proof -
  have nonzero: "256 * a + unat b \<noteq> 0" using assms by (auto simp: unat_eq_0)
  have parts: "(256 * a + unat b) div 256 = a" "(256 * a + unat b) mod 256 = unat b"
    using unat_byte [of b] by simp_all
  have "be_bytes (256 * a + unat b) bs = be_bytes a (word_of_nat (unat b) # bs)"
    by (subst be_bytes.simps) (simp only: if_not_P [OF nonzero] parts)
  then show ?thesis by simp
qed

lemma be_bytes_val:
  "0 < a \<or> xs \<noteq> [] \<and> hd xs \<noteq> 0 \<Longrightarrow> be_bytes (be_val a xs) ys = be_bytes a (xs @ ys)"
proof (induction xs arbitrary: a)
  case (Cons x xs)
  then have "0 < a \<or> x \<noteq> 0" by auto
  then have "0 < 256 * a + unat x" by (auto simp: unat_gt_0)
  then show ?case using Cons.IH [of "256 * a + unat x"] be_bytes_step [OF \<open>0 < a \<or> x \<noteq> 0\<close>] by simp
qed simp

lemma base58_decodeI:
  assumes "c \<noteq> CHR ''1'' \<and> b \<noteq> 0 \<and> base58_number 0 (c # s) = Some (be_val 0 (b # bs))"
  shows "base58_decode (c # s) = Some (b # bs)"
proof -
  have "takeWhile ((=) CHR ''1'') (c # s) = []" using assms by auto
  then show ?thesis using assms be_bytes_val [of 0 "b # bs" "[]"]
    by (simp add: base58_decode_def be_bytes.simps [of 0] del: base58_number.simps be_val.simps takeWhile.simps)
qed

text \<open>The digits, and the steps of \<open>be_bytes\<close> on numerals for the texts with a leading \<open>1\<close>.\<close>

lemma base58_digits:
  "base58_digit CHR ''1'' = Some 0" "base58_digit CHR ''2'' = Some (Suc 0)"
  "base58_digit CHR ''3'' = Some 2" "base58_digit CHR ''4'' = Some 3"
  "base58_digit CHR ''5'' = Some 4" "base58_digit CHR ''6'' = Some 5"
  "base58_digit CHR ''7'' = Some 6" "base58_digit CHR ''8'' = Some 7"
  "base58_digit CHR ''9'' = Some 8" "base58_digit CHR ''A'' = Some 9"
  "base58_digit CHR ''B'' = Some 10" "base58_digit CHR ''C'' = Some 11"
  "base58_digit CHR ''D'' = Some 12" "base58_digit CHR ''E'' = Some 13"
  "base58_digit CHR ''F'' = Some 14" "base58_digit CHR ''G'' = Some 15"
  "base58_digit CHR ''H'' = Some 16" "base58_digit CHR ''J'' = Some 17"
  "base58_digit CHR ''K'' = Some 18" "base58_digit CHR ''L'' = Some 19"
  "base58_digit CHR ''M'' = Some 20" "base58_digit CHR ''N'' = Some 21"
  "base58_digit CHR ''P'' = Some 22" "base58_digit CHR ''Q'' = Some 23"
  "base58_digit CHR ''R'' = Some 24" "base58_digit CHR ''S'' = Some 25"
  "base58_digit CHR ''T'' = Some 26" "base58_digit CHR ''U'' = Some 27"
  "base58_digit CHR ''V'' = Some 28" "base58_digit CHR ''W'' = Some 29"
  "base58_digit CHR ''X'' = Some 30" "base58_digit CHR ''Y'' = Some 31"
  "base58_digit CHR ''Z'' = Some 32" "base58_digit CHR ''a'' = Some 33"
  "base58_digit CHR ''b'' = Some 34" "base58_digit CHR ''c'' = Some 35"
  "base58_digit CHR ''d'' = Some 36" "base58_digit CHR ''e'' = Some 37"
  "base58_digit CHR ''f'' = Some 38" "base58_digit CHR ''g'' = Some 39"
  "base58_digit CHR ''h'' = Some 40" "base58_digit CHR ''i'' = Some 41"
  "base58_digit CHR ''j'' = Some 42" "base58_digit CHR ''k'' = Some 43"
  "base58_digit CHR ''m'' = Some 44" "base58_digit CHR ''n'' = Some 45"
  "base58_digit CHR ''o'' = Some 46" "base58_digit CHR ''p'' = Some 47"
  "base58_digit CHR ''q'' = Some 48" "base58_digit CHR ''r'' = Some 49"
  "base58_digit CHR ''s'' = Some 50" "base58_digit CHR ''t'' = Some 51"
  "base58_digit CHR ''u'' = Some 52" "base58_digit CHR ''v'' = Some 53"
  "base58_digit CHR ''w'' = Some 54" "base58_digit CHR ''x'' = Some 55"
  "base58_digit CHR ''y'' = Some 56" "base58_digit CHR ''z'' = Some 57"
  by (simp_all add: base58_digit_def)

lemma be_bytes_eval:
  "be_bytes 0 bs = bs"
  "be_bytes (Suc 0) bs = 1 # bs"
  "be_bytes (numeral n) bs = be_bytes (numeral n div 256) (word_of_nat (numeral n mod 256) # bs)"
  by (simp_all add: be_bytes.simps)

lemmas base58_simps = base58_decode_def base58_digits be_bytes_eval

text \<open>\<open>pubkey!\<close> accepts the base58 texts of 32 bytes.\<close>

definition pubkey_macro :: "ext \<Rightarrow> bool" where
  "pubkey_macro e \<longleftrightarrow> (\<forall>s bs. base58_decode s = Some bs \<longrightarrow> length bs = 32 \<longrightarrow> x_pubkey e s = Pubkey bs)"

lemma pubkey_macroD:
  "pubkey_macro e \<Longrightarrow> base58_decode s = Some bs \<Longrightarrow> length bs = 32 \<Longrightarrow> x_pubkey e s = Pubkey bs"
  by (simp add: pubkey_macro_def)

section \<open>The recorded derivations\<close>

datatype seed = Text string | Index u16 | Address string

fun seed_bytes :: "(string \<Rightarrow> pubkey) \<Rightarrow> seed \<Rightarrow> bytes" where
  "seed_bytes pk (Text s) = bytes_of_string s"
| "seed_bytes pk (Index i) = to_le_bytes i"
| "seed_bytes pk (Address a) = pk_bytes (pk a)"

text \<open>Seeds, program and derived address.\<close>

definition mainnet_pdas :: "(seed list \<times> string \<times> string) list" where
  "mainnet_pdas = [
     ([Text ''sharing-config'', Address ''DmMpRXCfh2Kpy9dvb2Hor5MvHSfhdAfa3hqX1u7ypump''],
       ''pfeeUxB6jkeY1Hxd7CsFCAjcbHA9rWtchMGdZ6VojVZ'', ''12P8uYeeBLpQACDR4JzHiireQp9UhSGuAsgybCAy8kkb''),
     ([Text ''sharing-config'', Address ''8mgM8w9BDeZvL1pm86xPDvPw9XHL3vwXkFBqU693pump''],
       ''pfeeUxB6jkeY1Hxd7CsFCAjcbHA9rWtchMGdZ6VojVZ'', ''3gm2fowrH1dJLgwJsT23UBJa4en11hXNNSqfvdCyFfPx''),
     ([Text ''sharing-config'', Address ''GhhaqhLh9ZR1WRLdTxBRkKaK21HEvb7N4MoxvuTapump''],
       ''pfeeUxB6jkeY1Hxd7CsFCAjcbHA9rWtchMGdZ6VojVZ'', ''5tw6HCdjzQvxkgvocBkb6T4Yj7pBPC4UZSn1GyKAEPT''),
     ([Text ''sharing-config'', Address ''57KoEZXm2mJwFqbB7fvcgZmmjc9mivFmKhXA45H3pump''],
       ''pfeeUxB6jkeY1Hxd7CsFCAjcbHA9rWtchMGdZ6VojVZ'', ''YezcoBYwhL2V5ZLcPWrbFJQetvjtUXAyNWQmrkxAPgh''),
     ([Text ''sharing-config'', Address ''3RzyjCaSHjDDaa4jrZfhDyQ3cLA8jSXvqEnWHwYcg4Hg''],
       ''pfeeUxB6jkeY1Hxd7CsFCAjcbHA9rWtchMGdZ6VojVZ'', ''B8NYJNrff1PJsSWpEdrKPkFG3ntNFpJgFercJBz89ey''),
     ([Text ''sharing-config'', Address ''So11111111111111111111111111111111111111112''],
       ''pfeeUxB6jkeY1Hxd7CsFCAjcbHA9rWtchMGdZ6VojVZ'', ''JByeZXCdfwWAbviYMpqZ1scSuopRtz5DwzcLtQ3bd3uH''),
     ([Text ''sharing-config'', Address ''GaCewzuGZ4U3shAmiLnqXMAN8WX4X7QRdJb3vy8ppump''],
       ''pfeeUxB6jkeY1Hxd7CsFCAjcbHA9rWtchMGdZ6VojVZ'', ''AnF2iyZS2FmwzdHs4JGnEmsg6FRh7gtk39rtSKMgxHav''),
     ([Text ''bonding-curve'', Address ''GhhaqhLh9ZR1WRLdTxBRkKaK21HEvb7N4MoxvuTapump''],
       ''6EF8rrecthR5Dkzon8Nwu78hRvfCKubJ14M5uBEwF6P'', ''8ueBrJgPmGYYm2QGcYZ5zXru1MTEDCMcoVDphbhfs9Xr''),
     ([Text ''bonding-curve'', Address ''57KoEZXm2mJwFqbB7fvcgZmmjc9mivFmKhXA45H3pump''],
       ''6EF8rrecthR5Dkzon8Nwu78hRvfCKubJ14M5uBEwF6P'', ''GE4Mcujd5zYiqWDjRg68CEh67mfX5BsS1VyUWPPsQgCG''),
     ([Text ''bonding-curve'', Address ''ED5nyyWEzpPPiWimP8vYm7sD7TD3LAt3Q3gRTWHzPJBY''],
       ''6EF8rrecthR5Dkzon8Nwu78hRvfCKubJ14M5uBEwF6P'', ''Ak4Cu8ZTTbaLvAubaCSpzdrEKbpwMpkF4RArSoRLRvMF''),
     ([Text ''creator-vault'', Address ''5tw6HCdjzQvxkgvocBkb6T4Yj7pBPC4UZSn1GyKAEPT''],
       ''6EF8rrecthR5Dkzon8Nwu78hRvfCKubJ14M5uBEwF6P'', ''CijnjLEPfz3Locv6mmdwhDvfpkwjcwrkWGyXgUhxcwm2''),
     ([Text ''creator-vault'', Address ''YezcoBYwhL2V5ZLcPWrbFJQetvjtUXAyNWQmrkxAPgh''],
       ''6EF8rrecthR5Dkzon8Nwu78hRvfCKubJ14M5uBEwF6P'', ''8CoWk2ZYjsBZEy8yLqWEK9mtZ8tkAbAFrbmtyyuhEqGg''),
     ([Text ''creator-vault'', Address ''CwFVCjUVG8s1rf7YJMZX8sy4sgnoePCDGk1uEnCTeEVQ''],
       ''6EF8rrecthR5Dkzon8Nwu78hRvfCKubJ14M5uBEwF6P'', ''AKGFkTrBYW7hdAvsF8H4egADvMQuNw5TpKk97xc7jyG1''),
     ([Text ''creator_vault'', Address ''5tw6HCdjzQvxkgvocBkb6T4Yj7pBPC4UZSn1GyKAEPT''],
       ''pAMMBay6oceH9fJKBRHGP5D4bD4sWpmSwMn52FMfXEA'', ''ExDDic9zyNLvrRWL2qn2FepmmPApLFgFZgYaYocZ9Ksk''),
     ([Text ''creator_vault'', Address ''YezcoBYwhL2V5ZLcPWrbFJQetvjtUXAyNWQmrkxAPgh''],
       ''pAMMBay6oceH9fJKBRHGP5D4bD4sWpmSwMn52FMfXEA'', ''BXdAfYjPKUmmix5zYVdVrkDyPQRAj5ZZDM933cZK9Tad''),
     ([Text ''creator_vault'', Address ''CwFVCjUVG8s1rf7YJMZX8sy4sgnoePCDGk1uEnCTeEVQ''],
       ''pAMMBay6oceH9fJKBRHGP5D4bD4sWpmSwMn52FMfXEA'', ''9RbdpSXdJkKvSTdNJUvJDrqVMRBa7X5v3hrz2y5CmNE''),
     ([Text ''creator_vault'', Address ''EPnuYuF9m6Z2mvxnp4rMDNbN1VbwVe6e3YdZKdPo8UZw''],
       ''pAMMBay6oceH9fJKBRHGP5D4bD4sWpmSwMn52FMfXEA'', ''CbvjtLskdpRbGLaKsQmtF9UMwEdyWhaeLkB7PiBZWPqv''),
     ([Text ''pool-authority'', Address ''3RzyjCaSHjDDaa4jrZfhDyQ3cLA8jSXvqEnWHwYcg4Hg''],
       ''6EF8rrecthR5Dkzon8Nwu78hRvfCKubJ14M5uBEwF6P'', ''4xRZEkKPs2RDmKx5FAQdrQUD66JdkcwLs3JNvvRA3qEc''),
     ([Text ''pool'', Index 0,
        Address ''4xRZEkKPs2RDmKx5FAQdrQUD66JdkcwLs3JNvvRA3qEc'',
        Address ''3RzyjCaSHjDDaa4jrZfhDyQ3cLA8jSXvqEnWHwYcg4Hg'',
        Address ''So11111111111111111111111111111111111111112''],
       ''pAMMBay6oceH9fJKBRHGP5D4bD4sWpmSwMn52FMfXEA'', ''FAbQ88YXBRCw8A2t7Lomg9s1Ds2dX7hUvqwWtdfG4AWL''),
     ([Text ''metadata'', Address ''metaqbxxUerdq28cj1RbAWkYQm3ybzjb6a8bt518x1s'',
        Address ''ED5nyyWEzpPPiWimP8vYm7sD7TD3LAt3Q3gRTWHzPJBY''],
       ''metaqbxxUerdq28cj1RbAWkYQm3ybzjb6a8bt518x1s'', ''4Q7aoDr7zBsaBB7emx9vvugE71xsPUsc8MvKHtRfhgY1''),
     ([Text ''metadata'', Address ''metaqbxxUerdq28cj1RbAWkYQm3ybzjb6a8bt518x1s'',
        Address ''EPjFWdd5AufqSSqeM2qN1xzybapC8G4wEGGkZwyTDt1v''],
       ''metaqbxxUerdq28cj1RbAWkYQm3ybzjb6a8bt518x1s'', ''5x38Kp4hvdomTCnCrAny4UtMUt5rQBdB6px2K1Ui45Wq''),
     ([Text ''user_volume_accumulator'', Address ''YbBux65QrEjMj3UiraGgxBtyd6Jfioi5ofLd3M7kFC6''],
       ''pAMMBay6oceH9fJKBRHGP5D4bD4sWpmSwMn52FMfXEA'', ''112P247K33FPVxY8PHrT4u5dowFibaKhYcoForDK1FP'')]"

text \<open>Owner, mint, token program and associated token account.\<close>

definition mainnet_atas :: "(string \<times> string \<times> string \<times> string) list" where
  "mainnet_atas = [
     (''CijnjLEPfz3Locv6mmdwhDvfpkwjcwrkWGyXgUhxcwm2'', ''So11111111111111111111111111111111111111112'',
       ''TokenkegQfeZyiNwAJbNbGKPFXCWuBvf9Ss623VQ5DA'', ''FJvQRQ6pphra97MJWujDF4ngoxdx6gLonW7UJha9ruKL''),
     (''BXdAfYjPKUmmix5zYVdVrkDyPQRAj5ZZDM933cZK9Tad'', ''So11111111111111111111111111111111111111112'',
       ''TokenkegQfeZyiNwAJbNbGKPFXCWuBvf9Ss623VQ5DA'', ''26mpTjY6VebDVFKUUuHN2v2qj2FJy6P9Ui7GvVZSJgRg''),
     (''9RbdpSXdJkKvSTdNJUvJDrqVMRBa7X5v3hrz2y5CmNE'', ''TTWofwAge91oFhZs7kpQdyrVRkmevgM88xijGvQFbKo'',
       ''TokenzQdBNbLqP5VEhdkAS6EPFLC1PHnBqCXEpPxuEb'', ''398HozNLoJDk8ShrY8rJaECrogsQgLS68akPqDNQun1Q''),
     (''AKGFkTrBYW7hdAvsF8H4egADvMQuNw5TpKk97xc7jyG1'', ''TTWofwAge91oFhZs7kpQdyrVRkmevgM88xijGvQFbKo'',
       ''TokenzQdBNbLqP5VEhdkAS6EPFLC1PHnBqCXEpPxuEb'', ''FgrfbN61FNvQYBSbVFCD6XpFMhWmbQogHRvZYgrGaCZV''),
     (''9RbdpSXdJkKvSTdNJUvJDrqVMRBa7X5v3hrz2y5CmNE'', ''So11111111111111111111111111111111111111112'',
       ''TokenkegQfeZyiNwAJbNbGKPFXCWuBvf9Ss623VQ5DA'', ''2KtjWMuu5QKFTiqspXdE7g3JXucLXfTtg6a9WK2KSCdC''),
     (''CbvjtLskdpRbGLaKsQmtF9UMwEdyWhaeLkB7PiBZWPqv'', ''BN4Z5NtntHhu6p3atEqkeAVi8Bn9Ri2QTv8FD7iupump'',
       ''TokenzQdBNbLqP5VEhdkAS6EPFLC1PHnBqCXEpPxuEb'', ''7zBqtpLBQqzaZNypdTufQs2ztqAzTK1Xb3uus1aCARcL'')]"

definition mainnet :: "ext \<Rightarrow> bool" where
  "mainnet e \<longleftrightarrow> pubkey_macro e \<and>
     x_system_program_ID e = x_pubkey e ''11111111111111111111111111111111'' \<and>
     x_ata_program_ID e = x_pubkey e ''ATokenGPvbdGVxr1b2hvZbsiqW5xWH25efTNsLJA8knL'' \<and>
     x_spl_token_ID e = x_pubkey e ''TokenkegQfeZyiNwAJbNbGKPFXCWuBvf9Ss623VQ5DA'' \<and>
     x_spl_token_2022_ID e = x_pubkey e ''TokenzQdBNbLqP5VEhdkAS6EPFLC1PHnBqCXEpPxuEb'' \<and>
     list_all (\<lambda>(seeds, program, address).
       fst (x_find_program_address e (map (seed_bytes (x_pubkey e)) seeds) (x_pubkey e program)) =
         x_pubkey e address) mainnet_pdas \<and>
     list_all (\<lambda>(owner, mint, program, address).
       x_get_ata e (x_pubkey e owner) (x_pubkey e mint) (x_pubkey e program) = x_pubkey e address) mainnet_atas"

lemma key_bytes:
  assumes "mainnet e" and "base58_decode s = Some bs" and "length bs = 32"
  shows "x_pubkey e s = Pubkey bs"
  using assms by (simp add: mainnet_def pubkey_macro_def)

section \<open>An outside world that derives them\<close>

text \<open>The keys of the tables.\<close>

lemma table_keys_1:
  "base58_decode ''DmMpRXCfh2Kpy9dvb2Hor5MvHSfhdAfa3hqX1u7ypump'' = Some
    [189, 169, 86, 88, 151, 172, 229, 90, 149, 24, 109, 21, 78, 47, 52, 42, 171, 207, 215, 202, 111,
     15, 203, 134, 85, 197, 84, 180, 45, 254, 67, 15]"
  "base58_decode ''pfeeUxB6jkeY1Hxd7CsFCAjcbHA9rWtchMGdZ6VojVZ'' = Some
    [12, 53, 255, 169, 5, 90, 142, 86, 141, 168, 247, 188, 7, 86, 21, 39, 76, 241, 201, 44, 164, 31,
     64, 0, 156, 81, 106, 164, 20, 194, 124, 112]"
  "base58_decode ''8mgM8w9BDeZvL1pm86xPDvPw9XHL3vwXkFBqU693pump'' = Some
    [115, 115, 218, 165, 143, 47, 162, 109, 8, 134, 5, 4, 102, 62, 8, 98, 23, 245, 91, 131, 251, 15,
     233, 3, 74, 15, 111, 245, 244, 126, 232, 175]"
  "base58_decode ''3gm2fowrH1dJLgwJsT23UBJa4en11hXNNSqfvdCyFfPx'' = Some
    [39, 230, 207, 20, 96, 228, 148, 126, 207, 119, 191, 194, 167, 100, 56, 54, 130, 221, 13, 199,
     219, 179, 151, 26, 177, 24, 43, 15, 222, 10, 159, 155]"
  "base58_decode ''GhhaqhLh9ZR1WRLdTxBRkKaK21HEvb7N4MoxvuTapump'' = Some
    [233, 76, 108, 145, 231, 88, 208, 186, 96, 116, 25, 65, 240, 134, 251, 8, 126, 130, 127, 123,
     168, 131, 147, 16, 53, 197, 24, 238, 74, 236, 80, 159]"
  "base58_decode ''5tw6HCdjzQvxkgvocBkb6T4Yj7pBPC4UZSn1GyKAEPT'' = Some
    [1, 65, 11, 42, 151, 202, 79, 179, 7, 240, 201, 248, 114, 81, 231, 42, 183, 45, 74, 132, 216,
     139, 226, 150, 134, 115, 235, 200, 109, 8, 30, 50]"
  by (rule base58_decodeI, simp add: base58_digits)+

lemma table_keys_2:
  "base58_decode ''57KoEZXm2mJwFqbB7fvcgZmmjc9mivFmKhXA45H3pump'' = Some
    [61, 13, 124, 142, 100, 115, 178, 186, 68, 62, 110, 205, 204, 21, 115, 93, 191, 6, 60, 117, 229,
     242, 60, 57, 156, 41, 33, 31, 4, 77, 148, 111]"
  "base58_decode ''YezcoBYwhL2V5ZLcPWrbFJQetvjtUXAyNWQmrkxAPgh'' = Some
    [8, 27, 246, 223, 251, 149, 83, 140, 31, 150, 15, 47, 206, 109, 35, 177, 142, 24, 111, 52, 85,
     124, 177, 239, 147, 174, 95, 72, 204, 149, 211, 14]"
  "base58_decode ''3RzyjCaSHjDDaa4jrZfhDyQ3cLA8jSXvqEnWHwYcg4Hg'' = Some
    [36, 30, 222, 136, 187, 156, 210, 214, 32, 198, 197, 58, 16, 111, 137, 8, 210, 130, 168, 107,
     113, 144, 167, 189, 113, 35, 124, 191, 213, 203, 251, 91]"
  "base58_decode ''B8NYJNrff1PJsSWpEdrKPkFG3ntNFpJgFercJBz89ey'' = Some
    [2, 152, 36, 150, 255, 147, 149, 212, 205, 207, 126, 58, 216, 105, 115, 190, 116, 219, 175, 88,
     214, 37, 19, 254, 203, 153, 134, 68, 166, 113, 182, 98]"
  "base58_decode ''So11111111111111111111111111111111111111112'' = Some
    [6, 155, 136, 87, 254, 171, 129, 132, 251, 104, 127, 99, 70, 24, 192, 53, 218, 196, 57, 220, 26,
     235, 59, 85, 152, 160, 240, 0, 0, 0, 0, 1]"
  "base58_decode ''JByeZXCdfwWAbviYMpqZ1scSuopRtz5DwzcLtQ3bd3uH'' = Some
    [255, 102, 137, 152, 113, 100, 123, 186, 77, 84, 248, 25, 11, 114, 178, 97, 239, 86, 184, 99,
     29, 80, 180, 95, 157, 143, 84, 54, 126, 189, 183, 96]"
  by (rule base58_decodeI, simp add: base58_digits)+

lemma table_keys_3:
  "base58_decode ''GaCewzuGZ4U3shAmiLnqXMAN8WX4X7QRdJb3vy8ppump'' = Some
    [231, 96, 165, 235, 238, 187, 232, 87, 153, 30, 134, 208, 230, 175, 178, 158, 50, 123, 84, 183,
     157, 152, 39, 197, 182, 126, 250, 254, 121, 139, 228, 159]"
  "base58_decode ''AnF2iyZS2FmwzdHs4JGnEmsg6FRh7gtk39rtSKMgxHav'' = Some
    [145, 80, 46, 164, 161, 25, 27, 9, 101, 56, 121, 172, 23, 6, 100, 55, 157, 22, 180, 121, 140,
     20, 246, 28, 35, 173, 143, 240, 29, 232, 170, 119]"
  "base58_decode ''6EF8rrecthR5Dkzon8Nwu78hRvfCKubJ14M5uBEwF6P'' = Some
    [1, 86, 224, 246, 147, 102, 90, 207, 68, 219, 21, 104, 191, 23, 91, 170, 81, 137, 203, 151, 245,
     210, 255, 59, 101, 93, 43, 182, 253, 109, 24, 176]"
  "base58_decode ''8ueBrJgPmGYYm2QGcYZ5zXru1MTEDCMcoVDphbhfs9Xr'' = Some
    [117, 126, 14, 224, 91, 98, 184, 149, 241, 216, 23, 95, 45, 35, 96, 14, 58, 52, 151, 80, 181,
     52, 93, 178, 30, 100, 205, 128, 74, 218, 236, 205]"
  "base58_decode ''GE4Mcujd5zYiqWDjRg68CEh67mfX5BsS1VyUWPPsQgCG'' = Some
    [226, 55, 166, 3, 140, 56, 235, 128, 158, 109, 160, 65, 31, 216, 109, 228, 20, 53, 11, 71, 251,
     82, 209, 82, 132, 145, 241, 115, 203, 125, 106, 129]"
  "base58_decode ''ED5nyyWEzpPPiWimP8vYm7sD7TD3LAt3Q3gRTWHzPJBY'' = Some
    [196, 64, 81, 169, 17, 181, 76, 126, 207, 252, 126, 224, 176, 164, 10, 244, 139, 50, 138, 231,
     85, 169, 149, 51, 200, 64, 44, 178, 109, 244, 56, 7]"
  by (rule base58_decodeI, simp add: base58_digits)+

lemma table_keys_4:
  "base58_decode ''Ak4Cu8ZTTbaLvAubaCSpzdrEKbpwMpkF4RArSoRLRvMF'' = Some
    [144, 192, 199, 252, 252, 1, 1, 195, 157, 101, 236, 159, 54, 188, 17, 123, 103, 244, 128, 83,
     82, 44, 77, 218, 107, 90, 39, 123, 41, 174, 8, 250]"
  "base58_decode ''CijnjLEPfz3Locv6mmdwhDvfpkwjcwrkWGyXgUhxcwm2'' = Some
    [174, 33, 192, 26, 253, 71, 101, 40, 214, 171, 110, 37, 89, 219, 33, 150, 100, 46, 98, 113, 45,
     155, 202, 36, 252, 84, 4, 4, 24, 10, 150, 185]"
  "base58_decode ''8CoWk2ZYjsBZEy8yLqWEK9mtZ8tkAbAFrbmtyyuhEqGg'' = Some
    [107, 7, 202, 32, 222, 232, 168, 52, 51, 140, 219, 0, 244, 255, 90, 219, 156, 131, 153, 248,
     203, 168, 65, 107, 70, 207, 101, 47, 143, 47, 194, 85]"
  "base58_decode ''CwFVCjUVG8s1rf7YJMZX8sy4sgnoePCDGk1uEnCTeEVQ'' = Some
    [177, 86, 76, 174, 12, 52, 194, 233, 140, 193, 220, 176, 61, 39, 147, 253, 222, 65, 66, 27, 2,
     99, 82, 187, 227, 158, 235, 70, 51, 122, 84, 75]"
  "base58_decode ''AKGFkTrBYW7hdAvsF8H4egADvMQuNw5TpKk97xc7jyG1'' = Some
    [138, 102, 226, 142, 209, 172, 21, 40, 206, 9, 68, 75, 66, 120, 19, 212, 134, 15, 140, 68, 93,
     123, 31, 32, 49, 84, 193, 116, 219, 48, 13, 214]"
  "base58_decode ''pAMMBay6oceH9fJKBRHGP5D4bD4sWpmSwMn52FMfXEA'' = Some
    [12, 20, 222, 252, 130, 94, 198, 118, 148, 37, 8, 24, 187, 101, 64, 101, 244, 41, 141, 49, 86,
     213, 113, 180, 212, 248, 9, 12, 24, 233, 168, 99]"
  by (rule base58_decodeI, simp add: base58_digits)+

lemma table_keys_5:
  "base58_decode ''ExDDic9zyNLvrRWL2qn2FepmmPApLFgFZgYaYocZ9Ksk'' = Some
    [207, 76, 176, 223, 92, 206, 187, 250, 190, 14, 218, 104, 200, 66, 32, 190, 104, 9, 189, 49,
     191, 209, 31, 208, 228, 142, 195, 28, 4, 149, 8, 39]"
  "base58_decode ''BXdAfYjPKUmmix5zYVdVrkDyPQRAj5ZZDM933cZK9Tad'' = Some
    [156, 109, 47, 241, 81, 24, 228, 87, 35, 0, 77, 193, 193, 48, 16, 198, 226, 40, 60, 217, 255,
     75, 120, 238, 27, 190, 54, 86, 137, 181, 95, 102]"
  "base58_decode ''9RbdpSXdJkKvSTdNJUvJDrqVMRBa7X5v3hrz2y5CmNE'' = Some
    [2, 40, 117, 100, 57, 163, 55, 184, 134, 197, 107, 4, 131, 155, 81, 4, 161, 31, 189, 204, 230,
     2, 104, 252, 106, 254, 188, 181, 30, 211, 3, 183]"
  "base58_decode ''EPnuYuF9m6Z2mvxnp4rMDNbN1VbwVe6e3YdZKdPo8UZw'' = Some
    [198, 254, 157, 44, 142, 236, 244, 126, 244, 98, 99, 74, 182, 107, 154, 29, 73, 79, 4, 193, 123,
     194, 228, 105, 95, 217, 159, 19, 87, 118, 119, 250]"
  "base58_decode ''CbvjtLskdpRbGLaKsQmtF9UMwEdyWhaeLkB7PiBZWPqv'' = Some
    [172, 99, 17, 41, 3, 196, 104, 184, 177, 97, 2, 83, 213, 255, 19, 158, 169, 8, 154, 51, 191, 66,
     2, 14, 183, 84, 104, 129, 167, 162, 130, 53]"
  "base58_decode ''4xRZEkKPs2RDmKx5FAQdrQUD66JdkcwLs3JNvvRA3qEc'' = Some
    [58, 197, 197, 71, 119, 113, 147, 141, 158, 86, 242, 56, 109, 138, 39, 49, 84, 138, 184, 158,
     233, 235, 64, 88, 251, 69, 27, 98, 87, 199, 89, 117]"
  by (rule base58_decodeI, simp add: base58_digits)+

lemma table_keys_6:
  "base58_decode ''FAbQ88YXBRCw8A2t7Lomg9s1Ds2dX7hUvqwWtdfG4AWL'' = Some
    [210, 120, 189, 43, 248, 89, 206, 231, 62, 15, 104, 181, 249, 46, 101, 172, 49, 70, 44, 177,
     135, 192, 155, 253, 19, 167, 255, 166, 127, 123, 14, 145]"
  "base58_decode ''metaqbxxUerdq28cj1RbAWkYQm3ybzjb6a8bt518x1s'' = Some
    [11, 112, 101, 177, 227, 209, 124, 69, 56, 157, 82, 127, 107, 4, 195, 205, 88, 184, 108, 115,
     26, 160, 253, 181, 73, 182, 209, 188, 3, 248, 41, 70]"
  "base58_decode ''4Q7aoDr7zBsaBB7emx9vvugE71xsPUsc8MvKHtRfhgY1'' = Some
    [50, 126, 220, 203, 69, 171, 173, 219, 86, 54, 238, 65, 252, 128, 142, 215, 134, 144, 221, 201,
     148, 129, 116, 110, 30, 105, 236, 157, 98, 183, 199, 226]"
  "base58_decode ''EPjFWdd5AufqSSqeM2qN1xzybapC8G4wEGGkZwyTDt1v'' = Some
    [198, 250, 122, 243, 190, 219, 173, 58, 61, 101, 243, 106, 171, 201, 116, 49, 177, 187, 228,
     194, 210, 246, 224, 228, 124, 166, 2, 3, 69, 47, 93, 97]"
  "base58_decode ''5x38Kp4hvdomTCnCrAny4UtMUt5rQBdB6px2K1Ui45Wq'' = Some
    [73, 136, 24, 173, 152, 105, 114, 247, 124, 17, 186, 135, 135, 129, 147, 103, 214, 46, 137, 36,
     246, 219, 107, 107, 211, 125, 199, 76, 47, 217, 97, 58]"
  "base58_decode ''YbBux65QrEjMj3UiraGgxBtyd6Jfioi5ofLd3M7kFC6'' = Some
    [8, 23, 169, 104, 118, 21, 99, 209, 166, 43, 202, 172, 202, 133, 95, 35, 70, 79, 230, 236, 49,
     74, 40, 242, 48, 0, 154, 65, 121, 27, 251, 147]"
  by (rule base58_decodeI, simp add: base58_digits)+

lemma table_keys_7:
  "base58_decode ''TokenkegQfeZyiNwAJbNbGKPFXCWuBvf9Ss623VQ5DA'' = Some
    [6, 221, 246, 225, 215, 101, 161, 147, 217, 203, 225, 70, 206, 235, 121, 172, 28, 180, 133, 237,
     95, 91, 55, 145, 58, 140, 245, 133, 126, 255, 0, 169]"
  "base58_decode ''FJvQRQ6pphra97MJWujDF4ngoxdx6gLonW7UJha9ruKL'' = Some
    [212, 154, 223, 229, 158, 66, 21, 224, 184, 225, 174, 115, 65, 43, 81, 84, 9, 38, 224, 172, 111,
     20, 100, 16, 69, 79, 246, 42, 55, 97, 162, 191]"
  "base58_decode ''26mpTjY6VebDVFKUUuHN2v2qj2FJy6P9Ui7GvVZSJgRg'' = Some
    [16, 86, 68, 101, 161, 49, 171, 241, 171, 246, 21, 250, 199, 122, 232, 66, 180, 28, 239, 143,
     168, 203, 179, 188, 115, 206, 25, 65, 103, 100, 255, 203]"
  "base58_decode ''TTWofwAge91oFhZs7kpQdyrVRkmevgM88xijGvQFbKo'' = Some
    [6, 199, 20, 147, 8, 215, 46, 77, 177, 160, 73, 141, 217, 144, 130, 131, 52, 25, 101, 8, 95, 78,
     233, 170, 252, 70, 229, 109, 36, 137, 65, 138]"
  "base58_decode ''TokenzQdBNbLqP5VEhdkAS6EPFLC1PHnBqCXEpPxuEb'' = Some
    [6, 221, 246, 225, 238, 117, 143, 222, 24, 66, 93, 188, 228, 108, 205, 218, 182, 26, 252, 77,
     131, 185, 13, 39, 254, 189, 249, 40, 216, 161, 139, 252]"
  "base58_decode ''398HozNLoJDk8ShrY8rJaECrogsQgLS68akPqDNQun1Q'' = Some
    [31, 204, 67, 81, 133, 236, 51, 248, 121, 223, 192, 203, 161, 42, 101, 117, 200, 2, 137, 94, 56,
     227, 233, 104, 71, 68, 106, 51, 224, 105, 149, 27]"
  by (rule base58_decodeI, simp add: base58_digits)+

lemma table_keys_8:
  "base58_decode ''FgrfbN61FNvQYBSbVFCD6XpFMhWmbQogHRvZYgrGaCZV'' = Some
    [218, 57, 108, 228, 25, 194, 40, 255, 17, 64, 187, 157, 146, 133, 212, 64, 80, 87, 142, 37, 185,
     122, 36, 24, 108, 233, 196, 63, 122, 102, 233, 224]"
  "base58_decode ''2KtjWMuu5QKFTiqspXdE7g3JXucLXfTtg6a9WK2KSCdC'' = Some
    [19, 178, 162, 210, 179, 138, 119, 140, 183, 136, 113, 139, 5, 168, 71, 134, 202, 200, 234, 151,
     162, 161, 138, 87, 237, 132, 198, 24, 177, 74, 102, 103]"
  "base58_decode ''BN4Z5NtntHhu6p3atEqkeAVi8Bn9Ri2QTv8FD7iupump'' = Some
    [153, 250, 21, 107, 147, 134, 37, 0, 92, 43, 60, 175, 198, 19, 31, 39, 49, 120, 226, 103, 34,
     180, 194, 43, 190, 104, 165, 143, 159, 203, 188, 47]"
  "base58_decode ''7zBqtpLBQqzaZNypdTufQs2ztqAzTK1Xb3uus1aCARcL'' = Some
    [103, 204, 124, 229, 221, 248, 6, 160, 192, 247, 89, 86, 26, 74, 74, 167, 216, 155, 246, 109,
     230, 210, 40, 89, 73, 236, 197, 143, 98, 107, 41, 25]"
  "base58_decode ''ATokenGPvbdGVxr1b2hvZbsiqW5xWH25efTNsLJA8knL'' = Some
    [140, 151, 37, 143, 78, 36, 137, 241, 187, 61, 16, 41, 20, 142, 13, 131, 11, 90, 19, 153, 218,
     255, 16, 132, 4, 142, 123, 216, 219, 233, 248, 89]"
  by (rule base58_decodeI, simp add: base58_digits)+

lemma table_keys_9:
  "base58_decode ''12P8uYeeBLpQACDR4JzHiireQp9UhSGuAsgybCAy8kkb'' = Some
    [0, 90, 156, 68, 26, 205, 82, 88, 75, 163, 82, 65, 223, 208, 135, 149, 9, 130, 171, 15, 169,
     136, 236, 102, 141, 6, 71, 20, 65, 75, 59, 228]"
  "base58_decode ''112P247K33FPVxY8PHrT4u5dowFibaKhYcoForDK1FP'' = Some
    [0, 0, 6, 226, 161, 112, 115, 130, 170, 18, 124, 248, 209, 103, 124, 3, 132, 241, 55, 169, 82,
     12, 163, 241, 179, 172, 226, 160, 227, 37, 164, 242]"
  "base58_decode ''11111111111111111111111111111111'' = Some
    [0, 0, 0, 0, 0, 0, 0, 0, 0, 0, 0, 0, 0, 0, 0, 0, 0, 0, 0, 0, 0, 0, 0, 0, 0, 0, 0, 0, 0, 0, 0, 0]"
  by (simp_all add: base58_simps)

lemmas table_keys = table_keys_1 table_keys_2 table_keys_3 table_keys_4 table_keys_5 table_keys_6 table_keys_7 table_keys_8 table_keys_9

definition literal_key :: "string \<Rightarrow> pubkey" where
  "literal_key s = (case base58_decode s of None \<Rightarrow> pubkey_default | Some bs \<Rightarrow> Pubkey bs)"

definition mainnet_find_program_address :: "bytes list \<Rightarrow> pubkey \<Rightarrow> pubkey \<times> u8" where
  "mainnet_find_program_address seeds program =
     (case find (\<lambda>(ss, p, a). (map (seed_bytes literal_key) ss, literal_key p) = (seeds, program)) mainnet_pdas of
        Some (ss, p, a) \<Rightarrow> (literal_key a, 255) | None \<Rightarrow> (pubkey_default, 0))"

definition mainnet_get_ata :: "pubkey \<Rightarrow> pubkey \<Rightarrow> pubkey \<Rightarrow> pubkey" where
  "mainnet_get_ata owner mint program =
     (case find (\<lambda>(o', m, p, a). (literal_key o', literal_key m, literal_key p) = (owner, mint, program)) mainnet_atas of
        Some (o', m, p, a) \<Rightarrow> literal_key a | None \<Rightarrow> pubkey_default)"

definition ext_mainnet :: ext where
  "ext_mainnet = ext_example True\<lparr>x_pubkey := literal_key,
     x_find_program_address := mainnet_find_program_address, x_get_ata := mainnet_get_ata,
     x_spl_token_ID := literal_key ''TokenkegQfeZyiNwAJbNbGKPFXCWuBvf9Ss623VQ5DA'',
     x_spl_token_2022_ID := literal_key ''TokenzQdBNbLqP5VEhdkAS6EPFLC1PHnBqCXEpPxuEb'',
     x_ata_program_ID := literal_key ''ATokenGPvbdGVxr1b2hvZbsiqW5xWH25efTNsLJA8knL'',
     x_system_program_ID := literal_key ''11111111111111111111111111111111''\<rparr>"

text \<open>A search by a key that is different in every row finds the row it is given.\<close>

lemma find_by_key:
  "distinct (map f xs) \<Longrightarrow> x \<in> set xs \<Longrightarrow> find (\<lambda>y. f y = f x) xs = Some x"
  by (induction xs) auto

text \<open>The first seed and the first bytes of the keys tell the rows apart.\<close>

lemma distinct_by_part: "distinct (map (\<lambda>x. g (f x)) xs) \<Longrightarrow> distinct (map f xs)"
  by (induction xs) auto

lemma mainnet_keys_distinct:
  "distinct (map (\<lambda>(ss, p, a). (map (seed_bytes literal_key) ss, literal_key p)) mainnet_pdas)"
  "distinct (map (\<lambda>(o', m, p, a). (literal_key o', literal_key m, literal_key p)) mainnet_atas)"
  by (rule distinct_by_part [where g = "\<lambda>(seeds, _). (hd seeds, hd (last seeds))"],
      simp add: mainnet_pdas_def literal_key_def table_keys bytes_of_string_inj)
    (rule distinct_by_part [where g = "\<lambda>(o', m, _). (hd (pk_bytes o'), take 2 (pk_bytes m))"],
      simp add: mainnet_atas_def literal_key_def table_keys)

lemma mainnet_derives:
  "(ss, p, a) \<in> set mainnet_pdas \<Longrightarrow>
    fst (mainnet_find_program_address (map (seed_bytes literal_key) ss) (literal_key p)) = literal_key a"
  "(o', m, t, a) \<in> set mainnet_atas \<Longrightarrow>
    mainnet_get_ata (literal_key o') (literal_key m) (literal_key t) = literal_key a"
  using find_by_key [OF mainnet_keys_distinct(1), of "(ss, p, a)"]
    find_by_key [OF mainnet_keys_distinct(2), of "(o', m, t, a)"]
  by (simp_all add: mainnet_find_program_address_def mainnet_get_ata_def case_prod_unfold)

lemma mainnet_example: "mainnet ext_mainnet"
proof -
  have "pubkey_macro ext_mainnet" by (simp add: pubkey_macro_def ext_mainnet_def literal_key_def)
  then show ?thesis by (simp add: mainnet_def) (auto simp: ext_mainnet_def list_all_iff mainnet_derives)
qed

end
