(* ===== verification/Recorded_Accounts.thy ===== *)
theory Recorded_Accounts
  imports Mainnet Recorded_Swaps
begin

text \<open>
  The offline tests of \<open>tests/fee_state.rs\<close>, \<open>tests/volume_accumulator.rs\<close> and
  \<open>tests/sharing_config.rs\<close>: what the decoders read from the accounts of the live programs that
  the repository keeps under \<open>tests/fixtures\<close>, byte by byte below in rows of one element each, and
  which fees the recorded schedule gives the pools of recorded transactions.
\<close>

unbundle bit_operations_syntax

section \<open>Fixtures\<close>

definition FEE_TIER_ROWS :: "bytes list" where
  "FEE_TIER_ROWS = [
     [0, 0, 0, 0, 0, 0, 0, 0, 0, 0, 0, 0, 0, 0, 0, 0, 2, 0, 0, 0, 0, 0, 0, 0, 93, 0, 0, 0, 0, 0, 0, 0,
     30, 0, 0, 0, 0, 0, 0, 0],
     [0, 104, 243, 201, 97, 0, 0, 0, 0, 0, 0, 0, 0, 0, 0, 0, 20, 0, 0, 0, 0, 0, 0, 0, 5, 0, 0, 0, 0, 0,
     0, 0, 95, 0, 0, 0, 0, 0, 0, 0],
     [0, 236, 211, 66, 86, 1, 0, 0, 0, 0, 0, 0, 0, 0, 0, 0, 20, 0, 0, 0, 0, 0, 0, 0, 5, 0, 0, 0, 0, 0,
     0, 0, 90, 0, 0, 0, 0, 0, 0, 0],
     [0, 24, 109, 195, 60, 2, 0, 0, 0, 0, 0, 0, 0, 0, 0, 0, 20, 0, 0, 0, 0, 0, 0, 0, 5, 0, 0, 0, 0, 0,
     0, 0, 85, 0, 0, 0, 0, 0, 0, 0],
     [0, 96, 250, 239, 32, 3, 0, 0, 0, 0, 0, 0, 0, 0, 0, 0, 20, 0, 0, 0, 0, 0, 0, 0, 5, 0, 0, 0, 0, 0,
     0, 0, 80, 0, 0, 0, 0, 0, 0, 0],
     [0, 168, 135, 28, 5, 4, 0, 0, 0, 0, 0, 0, 0, 0, 0, 0, 20, 0, 0, 0, 0, 0, 0, 0, 5, 0, 0, 0, 0, 0,
     0, 0, 75, 0, 0, 0, 0, 0, 0, 0],
     [0, 152, 156, 101, 238, 8, 0, 0, 0, 0, 0, 0, 0, 0, 0, 0, 20, 0, 0, 0, 0, 0, 0, 0, 5, 0, 0, 0, 0,
     0, 0, 0, 70, 0, 0, 0, 0, 0, 0, 0],
     [0, 200, 118, 236, 103, 13, 0, 0, 0, 0, 0, 0, 0, 0, 0, 0, 20, 0, 0, 0, 0, 0, 0, 0, 5, 0, 0, 0, 0,
     0, 0, 0, 65, 0, 0, 0, 0, 0, 0, 0],
     [0, 20, 69, 31, 223, 17, 0, 0, 0, 0, 0, 0, 0, 0, 0, 0, 20, 0, 0, 0, 0, 0, 0, 0, 5, 0, 0, 0, 0, 0,
     0, 0, 60, 0, 0, 0, 0, 0, 0, 0],
     [0, 96, 19, 82, 86, 22, 0, 0, 0, 0, 0, 0, 0, 0, 0, 0, 20, 0, 0, 0, 0, 0, 0, 0, 5, 0, 0, 0, 0, 0,
     0, 0, 55, 0, 0, 0, 0, 0, 0, 0],
     [0, 172, 225, 132, 205, 26, 0, 0, 0, 0, 0, 0, 0, 0, 0, 0, 20, 0, 0, 0, 0, 0, 0, 0, 5, 0, 0, 0, 0,
     0, 0, 0, 50, 0, 0, 0, 0, 0, 0, 0],
     [0, 248, 175, 183, 68, 31, 0, 0, 0, 0, 0, 0, 0, 0, 0, 0, 20, 0, 0, 0, 0, 0, 0, 0, 5, 0, 0, 0, 0,
     0, 0, 0, 45, 0, 0, 0, 0, 0, 0, 0],
     [0, 40, 138, 62, 190, 35, 0, 0, 0, 0, 0, 0, 0, 0, 0, 0, 20, 0, 0, 0, 0, 0, 0, 0, 5, 0, 0, 0, 0, 0,
     0, 0, 40, 0, 0, 0, 0, 0, 0, 0],
     [0, 116, 88, 113, 53, 40, 0, 0, 0, 0, 0, 0, 0, 0, 0, 0, 20, 0, 0, 0, 0, 0, 0, 0, 5, 0, 0, 0, 0, 0,
     0, 0, 35, 0, 0, 0, 0, 0, 0, 0],
     [0, 192, 38, 164, 172, 44, 0, 0, 0, 0, 0, 0, 0, 0, 0, 0, 20, 0, 0, 0, 0, 0, 0, 0, 5, 0, 0, 0, 0,
     0, 0, 0, 30, 0, 0, 0, 0, 0, 0, 0],
     [0, 12, 245, 214, 35, 49, 0, 0, 0, 0, 0, 0, 0, 0, 0, 0, 20, 0, 0, 0, 0, 0, 0, 0, 5, 0, 0, 0, 0, 0,
     0, 0, 28, 0, 0, 0, 0, 0, 0, 0],
     [0, 88, 195, 9, 155, 53, 0, 0, 0, 0, 0, 0, 0, 0, 0, 0, 20, 0, 0, 0, 0, 0, 0, 0, 5, 0, 0, 0, 0, 0,
     0, 0, 25, 0, 0, 0, 0, 0, 0, 0],
     [0, 136, 157, 144, 20, 58, 0, 0, 0, 0, 0, 0, 0, 0, 0, 0, 20, 0, 0, 0, 0, 0, 0, 0, 5, 0, 0, 0, 0,
     0, 0, 0, 23, 0, 0, 0, 0, 0, 0, 0],
     [0, 212, 107, 195, 139, 62, 0, 0, 0, 0, 0, 0, 0, 0, 0, 0, 20, 0, 0, 0, 0, 0, 0, 0, 5, 0, 0, 0, 0,
     0, 0, 0, 20, 0, 0, 0, 0, 0, 0, 0],
     [0, 234, 212, 49, 3, 67, 0, 0, 0, 0, 0, 0, 0, 0, 0, 0, 20, 0, 0, 0, 0, 0, 0, 0, 5, 0, 0, 0, 0, 0,
     0, 0, 18, 0, 0, 0, 0, 0, 0, 0],
     [0, 108, 8, 41, 122, 71, 0, 0, 0, 0, 0, 0, 0, 0, 0, 0, 20, 0, 0, 0, 0, 0, 0, 0, 5, 0, 0, 0, 0, 0,
     0, 0, 15, 0, 0, 0, 0, 0, 0, 0],
     [0, 184, 214, 91, 241, 75, 0, 0, 0, 0, 0, 0, 0, 0, 0, 0, 20, 0, 0, 0, 0, 0, 0, 0, 5, 0, 0, 0, 0,
     0, 0, 0, 13, 0, 0, 0, 0, 0, 0, 0],
     [0, 32, 153, 58, 102, 80, 0, 0, 0, 0, 0, 0, 0, 0, 0, 0, 20, 0, 0, 0, 0, 0, 0, 0, 5, 0, 0, 0, 0, 0,
     0, 0, 10, 0, 0, 0, 0, 0, 0, 0],
     [0, 52, 127, 21, 226, 84, 0, 0, 0, 0, 0, 0, 0, 0, 0, 0, 20, 0, 0, 0, 0, 0, 0, 0, 5, 0, 0, 0, 0, 0,
     0, 0, 8, 0, 0, 0, 0, 0, 0, 0],
     [0, 128, 77, 72, 89, 89, 0, 0, 0, 0, 0, 0, 0, 0, 0, 0, 20, 0, 0, 0, 0, 0, 0, 0, 5, 0, 0, 0, 0, 0,
     0, 0, 5, 0, 0, 0, 0, 0, 0, 0]]"

definition STABLE_TIER_ROWS :: "bytes list" where
  "STABLE_TIER_ROWS = [
     [0, 0, 0, 0, 0, 0, 0, 0, 0, 0, 0, 0, 0, 0, 0, 0, 2, 0, 0, 0, 0, 0, 0, 0, 93, 0, 0, 0, 0, 0, 0, 0,
     30, 0, 0, 0, 0, 0, 0, 0],
     [0, 142, 172, 188, 13, 0, 0, 0, 0, 0, 0, 0, 0, 0, 0, 0, 20, 0, 0, 0, 0, 0, 0, 0, 5, 0, 0, 0, 0, 0,
     0, 0, 95, 0, 0, 0, 0, 0, 0, 0],
     [0, 184, 100, 217, 69, 0, 0, 0, 0, 0, 0, 0, 0, 0, 0, 0, 20, 0, 0, 0, 0, 0, 0, 0, 5, 0, 0, 0, 0, 0,
     0, 0, 90, 0, 0, 0, 0, 0, 0, 0],
     [0, 136, 82, 106, 116, 0, 0, 0, 0, 0, 0, 0, 0, 0, 0, 0, 20, 0, 0, 0, 0, 0, 0, 0, 5, 0, 0, 0, 0, 0,
     0, 0, 85, 0, 0, 0, 0, 0, 0, 0],
     [0, 88, 64, 251, 162, 0, 0, 0, 0, 0, 0, 0, 0, 0, 0, 0, 20, 0, 0, 0, 0, 0, 0, 0, 5, 0, 0, 0, 0, 0,
     0, 0, 80, 0, 0, 0, 0, 0, 0, 0],
     [0, 40, 46, 140, 209, 0, 0, 0, 0, 0, 0, 0, 0, 0, 0, 0, 20, 0, 0, 0, 0, 0, 0, 0, 5, 0, 0, 0, 0, 0,
     0, 0, 75, 0, 0, 0, 0, 0, 0, 0],
     [0, 32, 74, 169, 209, 1, 0, 0, 0, 0, 0, 0, 0, 0, 0, 0, 20, 0, 0, 0, 0, 0, 0, 0, 5, 0, 0, 0, 0, 0,
     0, 0, 70, 0, 0, 0, 0, 0, 0, 0],
     [0, 48, 239, 125, 186, 2, 0, 0, 0, 0, 0, 0, 0, 0, 0, 0, 20, 0, 0, 0, 0, 0, 0, 0, 5, 0, 0, 0, 0, 0,
     0, 0, 65, 0, 0, 0, 0, 0, 0, 0],
     [0, 64, 148, 82, 163, 3, 0, 0, 0, 0, 0, 0, 0, 0, 0, 0, 20, 0, 0, 0, 0, 0, 0, 0, 5, 0, 0, 0, 0, 0,
     0, 0, 60, 0, 0, 0, 0, 0, 0, 0],
     [0, 80, 57, 39, 140, 4, 0, 0, 0, 0, 0, 0, 0, 0, 0, 0, 20, 0, 0, 0, 0, 0, 0, 0, 5, 0, 0, 0, 0, 0,
     0, 0, 55, 0, 0, 0, 0, 0, 0, 0],
     [0, 96, 222, 251, 116, 5, 0, 0, 0, 0, 0, 0, 0, 0, 0, 0, 20, 0, 0, 0, 0, 0, 0, 0, 5, 0, 0, 0, 0, 0,
     0, 0, 50, 0, 0, 0, 0, 0, 0, 0],
     [0, 112, 131, 208, 93, 6, 0, 0, 0, 0, 0, 0, 0, 0, 0, 0, 20, 0, 0, 0, 0, 0, 0, 0, 5, 0, 0, 0, 0, 0,
     0, 0, 45, 0, 0, 0, 0, 0, 0, 0],
     [0, 128, 40, 165, 70, 7, 0, 0, 0, 0, 0, 0, 0, 0, 0, 0, 20, 0, 0, 0, 0, 0, 0, 0, 5, 0, 0, 0, 0, 0,
     0, 0, 40, 0, 0, 0, 0, 0, 0, 0],
     [0, 144, 205, 121, 47, 8, 0, 0, 0, 0, 0, 0, 0, 0, 0, 0, 20, 0, 0, 0, 0, 0, 0, 0, 5, 0, 0, 0, 0, 0,
     0, 0, 35, 0, 0, 0, 0, 0, 0, 0],
     [0, 160, 114, 78, 24, 9, 0, 0, 0, 0, 0, 0, 0, 0, 0, 0, 20, 0, 0, 0, 0, 0, 0, 0, 5, 0, 0, 0, 0, 0,
     0, 0, 30, 0, 0, 0, 0, 0, 0, 0],
     [0, 176, 23, 35, 1, 10, 0, 0, 0, 0, 0, 0, 0, 0, 0, 0, 20, 0, 0, 0, 0, 0, 0, 0, 5, 0, 0, 0, 0, 0,
     0, 0, 28, 0, 0, 0, 0, 0, 0, 0],
     [0, 192, 188, 247, 233, 10, 0, 0, 0, 0, 0, 0, 0, 0, 0, 0, 20, 0, 0, 0, 0, 0, 0, 0, 5, 0, 0, 0, 0,
     0, 0, 0, 25, 0, 0, 0, 0, 0, 0, 0],
     [0, 208, 97, 204, 210, 11, 0, 0, 0, 0, 0, 0, 0, 0, 0, 0, 20, 0, 0, 0, 0, 0, 0, 0, 5, 0, 0, 0, 0,
     0, 0, 0, 23, 0, 0, 0, 0, 0, 0, 0],
     [0, 224, 6, 161, 187, 12, 0, 0, 0, 0, 0, 0, 0, 0, 0, 0, 20, 0, 0, 0, 0, 0, 0, 0, 5, 0, 0, 0, 0, 0,
     0, 0, 20, 0, 0, 0, 0, 0, 0, 0],
     [0, 240, 171, 117, 164, 13, 0, 0, 0, 0, 0, 0, 0, 0, 0, 0, 20, 0, 0, 0, 0, 0, 0, 0, 5, 0, 0, 0, 0,
     0, 0, 0, 18, 0, 0, 0, 0, 0, 0, 0],
     [0, 0, 81, 74, 141, 14, 0, 0, 0, 0, 0, 0, 0, 0, 0, 0, 20, 0, 0, 0, 0, 0, 0, 0, 5, 0, 0, 0, 0, 0,
     0, 0, 15, 0, 0, 0, 0, 0, 0, 0],
     [0, 16, 246, 30, 118, 15, 0, 0, 0, 0, 0, 0, 0, 0, 0, 0, 20, 0, 0, 0, 0, 0, 0, 0, 5, 0, 0, 0, 0, 0,
     0, 0, 13, 0, 0, 0, 0, 0, 0, 0],
     [0, 32, 155, 243, 94, 16, 0, 0, 0, 0, 0, 0, 0, 0, 0, 0, 20, 0, 0, 0, 0, 0, 0, 0, 5, 0, 0, 0, 0, 0,
     0, 0, 10, 0, 0, 0, 0, 0, 0, 0],
     [0, 48, 64, 200, 71, 17, 0, 0, 0, 0, 0, 0, 0, 0, 0, 0, 20, 0, 0, 0, 0, 0, 0, 0, 5, 0, 0, 0, 0, 0,
     0, 0, 8, 0, 0, 0, 0, 0, 0, 0],
     [0, 64, 229, 156, 48, 18, 0, 0, 0, 0, 0, 0, 0, 0, 0, 0, 20, 0, 0, 0, 0, 0, 0, 0, 5, 0, 0, 0, 0, 0,
     0, 0, 5, 0, 0, 0, 0, 0, 0, 0]]"

definition FEE_CONFIG_FIXTURE :: bytes where
  "FEE_CONFIG_FIXTURE = [143, 52, 146, 187, 219, 123, 76, 155, 255, 211, 187, 140, 171, 52, 28, 224, 82, 132, 87, 242,
     195, 129, 125, 50, 120, 68, 25, 99, 220, 213, 95, 237, 88, 186, 36, 201, 153, 221, 172, 2, 170,
     25, 0, 0, 0, 0, 0, 0, 0, 5, 0, 0, 0, 0, 0, 0, 0, 0, 0, 0, 0, 0, 0, 0, 0]
     @ [25, 0, 0, 0] @ concat FEE_TIER_ROWS @ [25, 0, 0, 0] @ concat STABLE_TIER_ROWS
     @ [20, 0, 0, 0, 0, 0, 0, 0, 5, 0, 0, 0, 0, 0, 0, 0, 5] @ replicate 2007 0"

definition PROTOCOL_ROWS :: "bytes list" where
  "PROTOCOL_ROWS = [
     [74, 194, 248, 208, 221, 92, 188, 151, 227, 40, 156, 25, 124, 181, 6, 42, 84, 243, 217, 86, 185,
     206, 110, 81, 21, 249, 101, 103, 170, 92, 179, 230],
     [96, 140, 204, 29, 252, 233, 97, 180, 59, 119, 156, 25, 21, 5, 166, 226, 211, 191, 69, 213, 164,
     219, 70, 24, 173, 118, 200, 45, 97, 117, 69, 53],
     [99, 131, 115, 0, 14, 162, 44, 178, 100, 211, 74, 255, 100, 160, 75, 94, 250, 191, 187, 116, 221,
     205, 4, 137, 151, 177, 152, 21, 71, 215, 209, 16],
     [131, 132, 116, 41, 46, 103, 90, 148, 180, 54, 236, 176, 169, 152, 137, 66, 50, 138, 131, 221,
     198, 35, 56, 2, 150, 18, 103, 197, 205, 97, 23, 203],
     [141, 24, 26, 12, 132, 159, 169, 55, 166, 243, 74, 222, 211, 8, 30, 249, 87, 0, 170, 203, 12, 155,
     179, 217, 9, 164, 185, 20, 117, 39, 164, 235],
     [215, 170, 143, 176, 96, 216, 41, 27, 76, 77, 71, 93, 175, 247, 98, 201, 107, 220, 13, 172, 235,
     54, 192, 18, 234, 209, 46, 211, 169, 72, 65, 97],
     [224, 4, 200, 124, 235, 152, 250, 92, 228, 127, 128, 56, 6, 253, 44, 121, 69, 210, 149, 36, 149,
     154, 236, 0, 222, 217, 120, 20, 243, 143, 120, 70],
     [255, 131, 131, 129, 139, 168, 250, 40, 195, 205, 59, 109, 94, 147, 249, 250, 184, 240, 151, 155,
     195, 114, 21, 172, 197, 178, 70, 135, 123, 168, 195, 201]]"

definition RESERVED_ROWS :: "bytes list" where
  "RESERVED_ROWS = [
     [53, 132, 83, 98, 86, 9, 79, 145, 40, 25, 18, 126, 250, 78, 68, 107, 67, 51, 114, 23, 147, 209,
     56, 118, 249, 170, 219, 243, 220, 125, 11, 95],
     [110, 117, 1, 130, 32, 249, 66, 103, 112, 3, 35, 123, 77, 107, 69, 55, 89, 180, 165, 198, 144,
     181, 156, 53, 217, 187, 24, 122, 9, 12, 189, 42],
     [51, 152, 122, 158, 187, 19, 103, 153, 171, 89, 146, 91, 19, 229, 220, 139, 48, 129, 223, 0, 93,
     180, 39, 193, 71, 143, 164, 111, 248, 195, 71, 160],
     [116, 233, 84, 63, 62, 55, 162, 208, 70, 34, 122, 221, 203, 78, 156, 119, 76, 68, 37, 140, 67,
     237, 242, 74, 168, 170, 225, 240, 2, 20, 102, 91],
     [218, 76, 56, 205, 109, 183, 67, 143, 89, 180, 8, 187, 158, 195, 180, 202, 158, 138, 209, 241,
     242, 70, 83, 196, 153, 181, 121, 108, 32, 219, 249, 179],
     [45, 221, 158, 234, 63, 57, 179, 114, 17, 92, 113, 132, 124, 24, 69, 207, 165, 54, 198, 133, 7,
     78, 3, 14, 68, 208, 33, 222, 62, 249, 227, 92],
     [76, 183, 128, 240, 142, 226, 254, 232, 75, 236, 68, 106, 87, 120, 37, 218, 104, 212, 57, 250,
     138, 93, 163, 176, 197, 207, 245, 15, 99, 244, 84, 107]]"

definition BUYBACK_ROWS :: "bytes list" where
  "BUYBACK_ROWS = [
     [67, 158, 101, 16, 192, 61, 101, 250, 217, 49, 232, 157, 4, 190, 11, 183, 13, 81, 151, 31, 81,
     196, 21, 251, 52, 76, 7, 219, 65, 159, 33, 34],
     [2, 35, 85, 22, 169, 23, 19, 76, 103, 88, 140, 73, 56, 32, 174, 21, 94, 233, 102, 101, 87, 122,
     193, 183, 24, 218, 71, 221, 207, 42, 5, 14],
     [230, 167, 226, 32, 104, 187, 136, 100, 10, 165, 127, 144, 147, 8, 198, 31, 239, 113, 26, 1, 99,
     245, 167, 85, 192, 112, 188, 134, 13, 31, 99, 103],
     [32, 124, 236, 218, 91, 204, 108, 177, 234, 240, 241, 109, 104, 64, 69, 102, 177, 141, 86, 210,
     72, 26, 203, 49, 112, 50, 101, 110, 144, 85, 28, 120],
     [68, 150, 65, 248, 73, 88, 220, 115, 167, 106, 133, 216, 117, 111, 85, 192, 44, 218, 202, 137,
     186, 25, 50, 121, 12, 54, 138, 177, 87, 233, 45, 115],
     [197, 75, 150, 181, 201, 49, 148, 30, 70, 234, 75, 226, 224, 227, 17, 39, 116, 79, 198, 183, 76,
     251, 69, 94, 254, 175, 139, 213, 113, 121, 44, 237],
     [68, 252, 31, 120, 249, 74, 51, 208, 144, 156, 94, 107, 95, 176, 33, 87, 10, 216, 219, 173, 141,
     232, 253, 179, 210, 14, 209, 205, 153, 235, 142, 78],
     [135, 112, 21, 126, 235, 235, 103, 138, 101, 93, 185, 155, 55, 246, 177, 50, 108, 118, 87, 219,
     144, 207, 184, 168, 122, 190, 248, 199, 182, 242, 200, 105]]"

definition RESERVED_FIRST :: bytes where
  "RESERVED_FIRST = [232, 147, 20, 31, 177, 142, 159, 21, 116, 216, 16, 225, 120, 225, 158, 48, 96, 78, 49, 117, 170,
     46, 74, 50, 223, 200, 96, 7, 39, 209, 7, 9]"

definition GLOBAL_CONFIG_FIXTURE :: bytes where
  "GLOBAL_CONFIG_FIXTURE = [149, 8, 156, 202, 160, 252, 176, 217]
     @ [211, 187, 140, 171, 52, 28, 224, 82, 132, 87, 242, 195, 129, 125, 50, 120, 68, 25, 99, 220, 213,
     95, 237, 88, 186, 36, 201, 153, 221, 172, 2, 170]
     @ [20, 0, 0, 0, 0, 0, 0, 0, 5, 0, 0, 0, 0, 0, 0, 0, 0]
     @ concat PROTOCOL_ROWS @ [5, 0, 0, 0, 0, 0, 0, 0]
     @ [7, 33, 93, 153, 64, 121, 54, 148, 225, 22, 6, 108, 228, 89, 184, 24, 253, 249, 187, 160, 199,
     180, 27, 120, 63, 163, 161, 32, 202, 65, 149, 50]
     @ [162, 139, 95, 210, 106, 180, 121, 166, 169, 204, 108, 191, 107, 11, 35, 235, 97, 136, 90, 55, 30,
     1, 32, 172, 169, 19, 190, 239, 61, 19, 138, 120]
     @ RESERVED_FIRST @ [1] @ concat RESERVED_ROWS @ [1] @ concat BUYBACK_ROWS @ [136, 19, 0, 0, 0, 0, 0, 0]
     @ [244, 132, 98, 135, 193, 210, 252, 171, 214, 241, 129, 95, 105, 127, 84, 0, 86, 253, 22, 85, 104,
     97, 27, 0, 211, 202, 233, 116, 130, 193, 44, 101, 1, 1, 44, 1] @ replicate 6 0"

definition GLOBAL_FIXTURE :: bytes where
  "GLOBAL_FIXTURE = [202, 42, 246, 43, 142, 190, 30, 255, 0, 0, 0, 0, 0, 0, 0, 0, 0, 0, 0, 0, 0, 0, 0, 0, 0, 0, 0, 0,
     0, 0, 0, 0, 0, 0, 0, 0, 0, 0, 0, 0, 0, 0, 0, 0, 0, 0, 0, 0, 0, 0, 0, 0, 0, 0, 0, 0, 0, 0, 0, 0, 0,
     0, 0, 0, 0, 0, 0, 0, 0, 0, 0, 0, 0, 0, 0, 0, 0, 0, 0, 0, 0, 0, 0, 0, 0, 0, 0, 0, 0, 0, 0, 0, 0, 0,
     0, 0, 0, 0, 0, 0, 0, 0, 0, 0, 0, 0, 0, 0, 0, 0, 0, 0, 0, 0, 0, 0, 0, 0, 0, 0, 0, 0, 0, 0, 0, 0, 0,
     0, 0, 0, 0, 0, 0, 0, 0, 0, 0, 0, 0, 0, 0, 0, 0, 0, 0, 0, 0, 0, 0, 0, 0, 0, 0, 0, 0, 0, 0, 0, 0, 0,
     0, 0, 0, 0, 0, 0, 0, 0, 0, 0, 0, 0, 0, 0, 0, 0, 0, 0, 0, 0, 0, 0, 0, 0, 0, 0, 0, 0, 0, 0, 0, 0, 0,
     0, 0, 0, 0, 0, 0, 0, 0, 0, 0, 0, 0, 0, 0, 0, 0, 0, 0, 0, 0, 0, 0, 0, 0, 0, 0, 0, 0, 0, 0, 0, 0, 0,
     0, 0, 0, 0, 0, 0, 0, 0, 0, 0, 0, 0, 0, 0, 0, 0, 0, 0, 0, 0, 0, 0, 0, 0, 0, 0, 0, 0, 0, 0, 0, 0, 0,
     0, 0, 0, 0, 0, 0, 0, 0, 0, 0, 0, 0, 0, 0, 0, 0, 0, 0, 0, 0, 0, 0, 0, 0, 0, 0, 0, 0, 0, 0, 0, 0, 0,
     0, 0, 0, 0, 0, 0, 0, 0, 0, 0, 0, 0, 0, 0, 0, 0, 0, 0, 0, 0, 0, 0, 0, 0, 0, 0, 0, 0, 0, 0, 0, 0, 0,
     0, 0, 0, 0, 0, 0, 0, 0, 0, 0, 0, 0, 0, 0, 0, 0, 0, 0, 0, 0, 0, 0, 0, 0, 0, 0, 0, 0, 0, 0, 0, 0, 0,
     0, 0, 0, 0, 0, 0, 0, 0, 0, 0, 0, 0, 0, 0, 0, 0, 0, 0, 0, 0, 0, 0, 0, 0, 0, 0, 0, 0, 0, 0, 0, 0, 0,
     0, 0, 0, 0, 0, 0, 0, 0, 0, 0, 0, 0, 0, 0, 0, 0, 0, 0, 0, 0, 0, 0, 0, 0, 0, 0, 0, 0, 0, 0, 0, 0, 0,
     0, 0, 0, 0, 0, 0, 0, 0, 0, 0, 0, 0, 0, 0, 0, 0, 0, 0, 0, 0, 0, 0, 0, 0, 0, 0, 0, 0, 0, 0, 0, 0, 0,
     0, 0, 0, 0, 0, 0, 0, 0, 0, 0, 0, 0, 0, 0, 0, 0, 0, 0, 0, 0, 0, 0, 0, 0, 0, 0, 0, 0, 0, 0, 0, 0, 0,
     0, 0, 0, 0, 0, 0, 0, 0, 0, 0, 0, 0, 0, 0, 0, 0, 0, 0, 0, 0, 0, 0, 0, 0, 0, 0, 0, 0, 0, 0, 0, 0, 0,
     0, 0, 0, 0, 0, 0, 0, 0, 0, 0, 0, 0, 0, 0, 0, 0, 0, 0, 0, 0, 0] @ replicate 56 0"

definition USER_FIXTURE :: bytes where
  "USER_FIXTURE = [86, 255, 112, 14, 102, 53, 154, 250, 8, 23, 169, 104, 118, 21, 99, 209, 166, 43, 202, 172, 202,
     133, 95, 35, 70, 79, 230, 236, 49, 74, 40, 242, 48, 0, 154, 65, 121, 27, 251, 147, 0, 0, 0, 0, 0,
     0, 0, 0, 0, 0, 0, 0, 0, 0, 0, 0, 0, 0, 0, 0, 0, 0, 0, 0, 0, 0, 0, 0, 0, 0, 0, 0, 0, 0, 55, 121,
     83, 5, 0, 0, 0, 0, 225, 155, 227, 14, 0, 0, 0, 0, 0, 0, 0, 0, 0, 0, 0, 0, 0, 0, 0, 0, 0, 0, 0, 0,
     0, 0, 0, 0, 0, 0, 0, 0, 0, 0, 0, 0, 0, 0, 0, 0, 0, 0, 0, 0, 0, 0, 0, 0, 0, 0, 0, 0, 0, 0, 0]"

definition SPLIT_FIXTURE :: bytes where
  "SPLIT_FIXTURE = [216, 74, 9, 0, 56, 140, 93, 75, 251, 1, 1, 189, 169, 86, 88, 151, 172, 229, 90, 149, 24, 109, 21,
     78, 47, 52, 42, 171, 207, 215, 202, 111, 15, 203, 134, 85, 197, 84, 180, 45, 254, 67, 15, 252, 35,
     101, 252, 129, 99, 83, 149, 90, 141, 254, 5, 143, 7, 105, 82, 93, 183, 146, 203, 191, 171, 17, 21,
     102, 40, 151, 168, 144, 98, 83, 35, 0, 4, 0, 0, 0, 116, 191, 164, 70, 76, 127, 166, 149, 167, 222,
     18, 36, 224, 198, 124, 205, 18, 208, 3, 153, 110, 57, 232, 119, 228, 33, 207, 103, 206, 217, 186,
     108, 196, 9, 63, 53, 7, 72, 60, 74, 137, 63, 85, 13, 222, 240, 251, 175, 84, 8, 246, 62, 244, 174,
     247, 169, 204, 201, 174, 82, 153, 137, 46, 218, 158, 111, 196, 9, 37, 239, 166, 130, 59, 242, 205,
     188, 186, 217, 83, 228, 105, 192, 146, 90, 3, 158, 1, 6, 164, 78, 117, 200, 208, 202, 153, 19,
     228, 133, 51, 226, 196, 9, 252, 35, 101, 252, 129, 99, 83, 149, 90, 141, 254, 5, 143, 7, 105, 82,
     93, 183, 146, 203, 191, 171, 17, 21, 102, 40, 151, 168, 144, 98, 83, 35, 196, 9] @ replicate 808 0"

definition PAUSED_FIXTURE :: bytes where
  "PAUSED_FIXTURE = [216, 74, 9, 0, 56, 140, 93, 75, 254, 2, 0, 115, 115, 218, 165, 143, 47, 162, 109, 8, 134, 5, 4,
     102, 62, 8, 98, 23, 245, 91, 131, 251, 15, 233, 3, 74, 15, 111, 245, 244, 126, 232, 175, 0, 0, 0,
     0, 0, 0, 0, 0, 0, 0, 0, 0, 0, 0, 0, 0, 0, 0, 0, 0, 0, 0, 0, 0, 0, 0, 0, 0, 0, 0, 0, 0, 1, 0, 0, 0,
     0, 113, 55, 157, 28, 214, 92, 63, 125, 242, 241, 54, 129, 130, 205, 152, 135, 236, 101, 94, 216,
     35, 210, 115, 185, 46, 42, 43, 6, 4, 76, 28, 159, 40, 35, 17, 240, 47, 53, 238, 72, 252, 187, 207,
     69, 2, 198, 82, 41, 201, 226, 138, 195, 184, 72, 20, 188, 126, 130, 94, 39, 219, 191, 141, 56,
     152, 25, 232, 3] @ replicate 876 0"

section \<open>fee_state.rs\<close>

definition slice_first :: "'a list \<Rightarrow> 'a option" where
  "slice_first xs = (if xs = [] then None else Some (hd xs))"

definition slice_last :: "'a list \<Rightarrow> 'a option" where
  "slice_last xs = (if xs = [] then None else Some (last xs))"

definition fee_config :: "FeeConfig res" where
  "fee_config = fee_config_from_account_data FEE_CONFIG_FIXTURE"

definition global_config :: "GlobalConfig res" where
  "global_config = global_config_from_account_data GLOBAL_CONFIG_FIXTURE"

definition fee_config_decodes_flat_fees :: bool where
  "fee_config_decodes_flat_fees \<longleftrightarrow> unwrap_and fee_config (\<lambda>c. let fees = flat_fees c in
     lp_fee_bps fees = 25 \<and> protocol_fee_bps fees = 5 \<and> creator_fee_bps fees = 0 \<and> total_bps fees = 30)"

definition fee_config_decodes_both_tier_vectors :: bool where
  "fee_config_decodes_both_tier_vectors \<longleftrightarrow> unwrap_and fee_config (\<lambda>config.
     length (fee_tiers config) = 25 \<and> length (stable_fee_tiers config) = 25)"

definition fee_config_decodes_first_and_last_tier :: bool where
  "fee_config_decodes_first_and_last_tier \<longleftrightarrow> unwrap_and fee_config (\<lambda>config.
     expect_and (slice_first (fee_tiers config)) (\<lambda>first. expect_and (slice_last (fee_tiers config)) (\<lambda>last.
       market_cap_lamports_threshold first = 0 \<and> total_bps (tier_fees first) = 125 \<and>
       market_cap_lamports_threshold last = 98240000000000 \<and> total_bps (tier_fees last) = 30)))"

definition fee_tier_thresholds_are_strictly_increasing :: bool where
  "fee_tier_thresholds_are_strictly_increasing \<longleftrightarrow> unwrap_and fee_config (\<lambda>config.
     list_all (\<lambda>tiers. list_all (\<lambda>(a, b). market_cap_lamports_threshold a < market_cap_lamports_threshold b)
       (zip tiers (tl tiers))) [fee_tiers config, stable_fee_tiers config])"

definition fee_tier_lookup_picks_the_highest_threshold_at_or_below_market_cap :: bool where
  "fee_tier_lookup_picks_the_highest_threshold_at_or_below_market_cap \<longleftrightarrow> unwrap_and fee_config (\<lambda>config.
     expect_and (slice_last (fee_tiers config)) (\<lambda>cheapest.
     expect_and (fee_tier_for_market_cap config 0) (\<lambda>base.
       market_cap_lamports_threshold base = 0 \<and> total_bps (tier_fees base) = 125) \<and>
     expect_and (fee_tier_for_market_cap config (2 ^ 128 - 1)) (\<lambda>top.
       market_cap_lamports_threshold top = 98240000000000 \<and> tier_fees top = tier_fees cheapest) \<and>
     expect_and (byte_get (fee_tiers config) 1) (\<lambda>second. let threshold = market_cap_lamports_threshold second in
       expect_and (fee_tier_for_market_cap config threshold) (\<lambda>tier.
         market_cap_lamports_threshold tier = threshold) \<and>
       0 < threshold \<and> expect_and (fee_tier_for_market_cap config (threshold - 1)) (\<lambda>tier.
         market_cap_lamports_threshold tier = 0))))"

definition stable_fee_tier_lookup_uses_the_stable_ladder :: bool where
  "stable_fee_tier_lookup_uses_the_stable_ladder \<longleftrightarrow> unwrap_and fee_config (\<lambda>config.
     expect_and (stable_fee_tier_for_market_cap config (2 ^ 128 - 1)) (\<lambda>stable_top.
       market_cap_lamports_threshold stable_top = 20000000000000 \<and> total_bps (tier_fees stable_top) = 30))"

definition global_config_decodes_scalar_fields :: bool where
  "global_config_decodes_scalar_fields \<longleftrightarrow> unwrap_and global_config (\<lambda>config.
     lp_fee_basis_points config = 20 \<and> protocol_fee_basis_points config = 5 \<and>
     coin_creator_fee_basis_points config = 5 \<and> buyback_basis_points config = 5000 \<and>
     disable_flags config = 0 \<and> mayhem_mode_enabled config \<and> is_cashback_enabled config)"

definition global_config_recipients_match_hardcoded_constants :: "ext \<Rightarrow> bool" where
  "global_config_recipients_match_hardcoded_constants e \<longleftrightarrow> unwrap_and global_config (\<lambda>config.
     protocol_fee_recipients config = PROTOCOL_FEE_RECIPIENTS e \<and>
     all_reserved_fee_recipients config = RESERVED_FEE_RECIPIENTS e \<and>
     buyback_fee_recipients config = BUYBACK_FEE_RECIPIENTS e)"

definition global_config_keeps_the_reserved_recipient_split :: "ext \<Rightarrow> bool" where
  "global_config_keeps_the_reserved_recipient_split e \<longleftrightarrow> unwrap_and global_config (\<lambda>config.
     reserved_fee_recipient config = RESERVED_FEE_RECIPIENTS e ! 0 \<and>
     reserved_fee_recipients config = drop 1 (RESERVED_FEE_RECIPIENTS e))"

text \<open>
  \<open>data[0] ^= 0xff\<close>, and the two assertions on the text of an error: the messages that mention a
  discriminator, and those that name the account.
\<close>

definition foreign :: "bytes \<Rightarrow> bytes" where
  "foreign data = data[0 := data ! 0 XOR 0xff]"

definition mentions_discriminator :: "err \<Rightarrow> bool" where
  "mentions_discriminator err = (case err of
     UnexpectedDiscriminator _ _ _ \<Rightarrow> True | TooShortForDiscriminator _ \<Rightarrow> True | _ \<Rightarrow> False)"

definition mentions_account :: "string \<Rightarrow> err \<Rightarrow> bool" where
  "mentions_account name err = (case err of
     UnexpectedDiscriminator account _ _ \<Rightarrow> account = name | TooShortForDiscriminator account \<Rightarrow> account = name
   | _ \<Rightarrow> False)"

definition expect_err_and :: "'a res \<Rightarrow> (err \<Rightarrow> bool) \<Rightarrow> bool" where
  "expect_err_and r p = (case r of Inl err \<Rightarrow> p err | Inr _ \<Rightarrow> False)"

definition fee_state_rejects_a_foreign_discriminator :: bool where
  "fee_state_rejects_a_foreign_discriminator \<longleftrightarrow>
     expect_err_and (global_config_from_account_data (foreign GLOBAL_CONFIG_FIXTURE)) mentions_discriminator"

definition fee_state_rejects_truncated_accounts :: bool where
  "fee_state_rejects_truncated_accounts \<longleftrightarrow>
     isl (global_config_from_account_data (take 100 GLOBAL_CONFIG_FIXTURE)) \<and>
     isl (fee_config_from_account_data (take 100 FEE_CONFIG_FIXTURE))"

definition fee_state_tolerates_trailing_account_slack :: bool where
  "fee_state_tolerates_trailing_account_slack \<longleftrightarrow>
     unwrap_and (global_config_from_account_data (GLOBAL_CONFIG_FIXTURE @ replicate 64 0xab))
       (\<lambda>config. global_config = Inr config)"

definition OBSERVED_SCHEDULES :: "(bool \<times> u128 \<times> Fees) list" where
  "OBSERVED_SCHEDULES = [
     (False, 0, test_fees 25 5 0),
     (True, 155988215454556, test_fees 20 5 5),
     (True, 95165109922025, test_fees 20 5 8),
     (True, 85235430439200, test_fees 20 5 13),
     (True, 74967324444046, test_fees 20 5 18),
     (True, 65090408441691, test_fees 20 5 23),
     (True, 61264917393483, test_fees 20 5 25),
     (True, 53969221648203, test_fees 20 5 30),
     (True, 46357214426210, test_fees 20 5 35),
     (True, 37584591767307, test_fees 20 5 45),
     (True, 15869836765263, test_fees 20 5 65),
     (True, 10690600722838, test_fees 20 5 70),
     (True, 5470616941054, test_fees 20 5 75),
     (True, 3684524298250, test_fees 20 5 80),
     (True, 2692043212031, test_fees 20 5 85),
     (True, 1917839092121, test_fees 20 5 90),
     (True, 1046767344422, test_fees 20 5 95),
     (True, 162452108672, test_fees 2 93 30)]"

definition fees_for_pool_reproduces_every_observed_mainnet_schedule :: "(nat \<Rightarrow> pubkey) \<Rightarrow> bool" where
  "fees_for_pool_reproduces_every_observed_mainnet_schedule u \<longleftrightarrow> unwrap_and fee_config (\<lambda>config.
     list_all (\<lambda>(is_tiered, market_cap, expected). fees_for_pool config is_tiered market_cap (u 0) = expected)
       OBSERVED_SCHEDULES)"

definition a_tiered_pool_below_every_threshold_gets_the_base_rung_not_the_flat_fee :: "(nat \<Rightarrow> pubkey) \<Rightarrow> bool" where
  "a_tiered_pool_below_every_threshold_gets_the_base_rung_not_the_flat_fee u \<longleftrightarrow> unwrap_and fee_config (\<lambda>config.
     let base = fees_for_pool config True 0 (u 0)
     in total_bps base = 125 \<and> base \<noteq> flat_fees config \<and> total_bps (flat_fees config) = 30)"

section \<open>volume_accumulator.rs\<close>

definition FIXTURE_USER :: "ext \<Rightarrow> pubkey" where
  "FIXTURE_USER e = x_pubkey e ''YbBux65QrEjMj3UiraGgxBtyd6Jfioi5ofLd3M7kFC6''"

definition FIXTURE_ACCUMULATOR_PDA :: "ext \<Rightarrow> pubkey" where
  "FIXTURE_ACCUMULATOR_PDA e = x_pubkey e ''112P247K33FPVxY8PHrT4u5dowFibaKhYcoForDK1FP''"

definition global_accumulator :: "GlobalVolumeAccumulator res" where
  "global_accumulator = global_volume_accumulator_from_account_data GLOBAL_FIXTURE"

definition user_accumulator :: "UserVolumeAccumulator res" where
  "user_accumulator = user_volume_accumulator_from_account_data USER_FIXTURE"

definition global_accumulator_has_thirty_day_buckets :: bool where
  "global_accumulator_has_thirty_day_buckets \<longleftrightarrow> unwrap_and global_accumulator (\<lambda>accumulator.
     length (total_token_supply accumulator) = 30 \<and> length (sol_volumes accumulator) = 30 \<and>
     VOLUME_ACCUMULATOR_DAYS = 30)"

definition global_accumulator_fixture_has_the_expected_shape :: bool where
  "global_accumulator_fixture_has_the_expected_shape \<longleftrightarrow> length GLOBAL_FIXTURE = 600 \<and>
     GlobalVolumeAccumulator_ENCODED_LEN < length GLOBAL_FIXTURE \<and> GlobalVolumeAccumulator_ENCODED_LEN = 544"

definition global_accumulator_is_dormant_on_mainnet :: "ext \<Rightarrow> bool" where
  "global_accumulator_is_dormant_on_mainnet e \<longleftrightarrow> unwrap_and global_accumulator (\<lambda>accumulator.
     start_time accumulator = 0 \<and> end_time accumulator = 0 \<and> seconds_in_a_day accumulator = 0 \<and>
     gva_mint accumulator = pubkey_default \<and> list_all ((=) 0) (total_token_supply accumulator) \<and>
     list_all ((=) 0) (sol_volumes accumulator) \<and> \<not> is_active_at accumulator (2 ^ 63 - 1) \<and>
     day_index e accumulator 0 = Inr None)"

definition day_index_buckets_by_day_within_the_program_window :: "ext \<Rightarrow> bool" where
  "day_index_buckets_by_day_within_the_program_window e \<longleftrightarrow> unwrap_and global_accumulator (\<lambda>global.
     let accumulator = global\<lparr>start_time := 1000, end_time := 1000 + 86400 * 30, seconds_in_a_day := 86400\<rparr>
     in day_index e accumulator 999 = Inr None \<and> day_index e accumulator 1000 = Inr (Some 0) \<and>
        day_index e accumulator (1000 + 86399) = Inr (Some 0) \<and>
        day_index e accumulator (1000 + 86400) = Inr (Some 1) \<and>
        day_index e accumulator (1000 + 86400 * 29) = Inr (Some 29) \<and>
        day_index e accumulator (1000 + 86400 * 30) = Inr None)"

definition day_index_rejects_a_non_positive_day_length :: "ext \<Rightarrow> bool" where
  "day_index_rejects_a_non_positive_day_length e \<longleftrightarrow> unwrap_and global_accumulator (\<lambda>global.
     day_index e (global\<lparr>start_time := 0, end_time := 2 ^ 63 - 1, seconds_in_a_day := 0\<rparr>) 1000 = Inr None)"

definition user_accumulator_field_round_trips_to_its_own_pda :: "ext \<Rightarrow> bool" where
  "user_accumulator_field_round_trips_to_its_own_pda e \<longleftrightarrow>
     unwrap_and user_accumulator (\<lambda>user. uva_user user = FIXTURE_USER e) \<and>
     find_user_vol_accumulator e (FIXTURE_USER e) = FIXTURE_ACCUMULATOR_PDA e"

definition user_accumulator_decodes_its_cashback_counters :: bool where
  "user_accumulator_decodes_its_cashback_counters \<longleftrightarrow> unwrap_and user_accumulator (\<lambda>accumulator.
     cashback_earned accumulator = 89356599 \<and> total_cashback_claimed accumulator = 249797601 \<and>
     cashback_earned accumulator < total_cashback_claimed accumulator \<and> \<not> needs_claim accumulator \<and>
     total_unclaimed_tokens accumulator = 0 \<and> total_claimed_tokens accumulator = 0 \<and>
     current_sol_volume accumulator = 0 \<and> last_update_timestamp accumulator = 0 \<and>
     \<not> has_total_claimed_tokens accumulator)"

definition user_accumulator_cashback_counters_sit_where_the_idl_puts_them :: bool where
  "user_accumulator_cashback_counters_sit_where_the_idl_puts_them \<longleftrightarrow>
     slice_get USER_FIXTURE 74 82 = Some (to_le_bytes (89356599 :: u64)) \<and>
     slice_get USER_FIXTURE 82 90 = Some (to_le_bytes (249797601 :: u64))"

definition user_accumulator_fixture_has_the_expected_shape :: bool where
  "user_accumulator_fixture_has_the_expected_shape \<longleftrightarrow> length USER_FIXTURE = 137 \<and>
     UserVolumeAccumulator_ENCODED_LEN < length USER_FIXTURE \<and> UserVolumeAccumulator_ENCODED_LEN = 90"

definition empty_accumulator_carries_the_user_and_nothing_else :: "(nat \<Rightarrow> pubkey) \<Rightarrow> bool" where
  "empty_accumulator_carries_the_user_and_nothing_else u \<longleftrightarrow>
     (let user = u 0; empty = user_volume_accumulator_empty user
      in uva_user empty = user \<and> \<not> needs_claim empty \<and> total_unclaimed_tokens empty = 0 \<and>
         total_claimed_tokens empty = 0 \<and> current_sol_volume empty = 0 \<and> last_update_timestamp empty = 0 \<and>
         \<not> has_total_claimed_tokens empty \<and> cashback_earned empty = 0 \<and> total_cashback_claimed empty = 0)"

definition volume_rejects_a_foreign_discriminator :: bool where
  "volume_rejects_a_foreign_discriminator \<longleftrightarrow>
     expect_err_and (user_volume_accumulator_from_account_data (foreign USER_FIXTURE)) mentions_discriminator \<and>
     isl (user_volume_accumulator_from_account_data GLOBAL_FIXTURE) \<and>
     isl (global_volume_accumulator_from_account_data USER_FIXTURE)"

definition volume_rejects_truncated_accounts :: bool where
  "volume_rejects_truncated_accounts \<longleftrightarrow>
     isl (user_volume_accumulator_from_account_data (take 50 USER_FIXTURE)) \<and>
     isl (global_volume_accumulator_from_account_data (take 50 GLOBAL_FIXTURE)) \<and>
     isl (user_volume_accumulator_from_account_data [])"

definition volume_tolerates_trailing_account_slack :: bool where
  "volume_tolerates_trailing_account_slack \<longleftrightarrow>
     unwrap_and (user_volume_accumulator_from_account_data (USER_FIXTURE @ replicate 64 0xab))
       (\<lambda>user. user_accumulator = Inr user) \<and>
     unwrap_and (global_volume_accumulator_from_account_data (GLOBAL_FIXTURE @ replicate 64 0xab))
       (\<lambda>global. global_accumulator = Inr global)"

section \<open>sharing_config.rs\<close>

definition SPLIT_ADDRESS :: "ext \<Rightarrow> pubkey" where
  "SPLIT_ADDRESS e = x_pubkey e ''12P8uYeeBLpQACDR4JzHiireQp9UhSGuAsgybCAy8kkb''"

definition SPLIT_MINT :: "ext \<Rightarrow> pubkey" where
  "SPLIT_MINT e = x_pubkey e ''DmMpRXCfh2Kpy9dvb2Hor5MvHSfhdAfa3hqX1u7ypump''"

definition SPLIT_ADMIN :: "ext \<Rightarrow> pubkey" where
  "SPLIT_ADMIN e = x_pubkey e ''HyF3gui8takahPszgQYM1caHwEC8gT4gpnLnPFitQjrz''"

definition PAUSED_ADDRESS :: "ext \<Rightarrow> pubkey" where
  "PAUSED_ADDRESS e = x_pubkey e ''3gm2fowrH1dJLgwJsT23UBJa4en11hXNNSqfvdCyFfPx''"

definition PAUSED_MINT :: "ext \<Rightarrow> pubkey" where
  "PAUSED_MINT e = x_pubkey e ''8mgM8w9BDeZvL1pm86xPDvPw9XHL3vwXkFBqU693pump''"

definition split_config :: "SharingConfig res" where
  "split_config = sharing_config_from_account_data SPLIT_FIXTURE"

definition paused_config :: "SharingConfig res" where
  "paused_config = sharing_config_from_account_data PAUSED_FIXTURE"

definition decodes_an_active_four_way_split :: "ext \<Rightarrow> bool" where
  "decodes_an_active_four_way_split e \<longleftrightarrow> unwrap_and split_config (\<lambda>config.
     sc_bump config = 251 \<and> sc_version config = 1 \<and> sc_status config = Active \<and>
     sharing_config_is_active config \<and> sc_mint config = SPLIT_MINT e \<and> sc_admin config = SPLIT_ADMIN e \<and>
     \<not> admin_revoked config \<and>
     map (\<lambda>s. (sh_address s, share_bps s)) (shareholders config) =
       [(x_pubkey e ''8rjnM5GPXswFPBtgnoZUyK5RykuaLfPnTQTmAN5WDLbV'', 2500),
        (x_pubkey e ''5FjarBWs1Yb9FgQERdMusuHZgwvJvFiVfzxViiqkVgzz'', 2500),
        (x_pubkey e ''3Z62uZsndJRdQ5NLbK1CLraX7eX9myrYVdgAynMgc4X3'', 2500),
        (SPLIT_ADMIN e, 2500)] \<and>
     total_share_bps e config = Inr 10000)"

definition decodes_a_paused_config_with_a_revoked_admin :: "ext \<Rightarrow> bool" where
  "decodes_a_paused_config_with_a_revoked_admin e \<longleftrightarrow> unwrap_and paused_config (\<lambda>config.
     sc_bump config = 254 \<and> sc_version config = 2 \<and> sc_status config = Paused \<and>
     \<not> sharing_config_is_active config \<and> sc_mint config = PAUSED_MINT e \<and> admin_revoked config \<and>
     sc_admin config = pubkey_default \<and> shareholders config = [] \<and> total_share_bps e config = Inr 0)"

definition ignores_bytes_past_the_encoded_layout :: bool where
  "ignores_bytes_past_the_encoded_layout \<longleftrightarrow> list_all (\<lambda>fixture. length fixture = 1024 \<and>
     unwrap_and (sharing_config_from_account_data (fixture @ replicate 64 0xab)) (\<lambda>config.
       sharing_config_from_account_data fixture = Inr config)) [SPLIT_FIXTURE, PAUSED_FIXTURE]"

definition pda_derivation_matches_the_live_addresses :: "ext \<Rightarrow> bool" where
  "pda_derivation_matches_the_live_addresses e \<longleftrightarrow>
     sharing_config_pda e (SPLIT_MINT e) = SPLIT_ADDRESS e \<and> sharing_config_pda e (PAUSED_MINT e) = PAUSED_ADDRESS e"

definition sharing_rejects_a_foreign_discriminator :: bool where
  "sharing_rejects_a_foreign_discriminator \<longleftrightarrow>
     expect_err_and (sharing_config_from_account_data (foreign SPLIT_FIXTURE)) (mentions_account ''SharingConfig'')"

definition sharing_rejects_a_truncated_account :: bool where
  "sharing_rejects_a_truncated_account \<longleftrightarrow>
     list_all (\<lambda>len. isl (sharing_config_from_account_data (take len SPLIT_FIXTURE))) [8, 40, 100]"

section \<open>What the fixtures hold\<close>

text \<open>The records the fixtures hold.\<close>

definition recorded_tier :: "u128 \<Rightarrow> u64 \<Rightarrow> u64 \<Rightarrow> u64 \<Rightarrow> FeeTier" where
  "recorded_tier threshold lp protocol creator = \<lparr>market_cap_lamports_threshold = threshold,
     tier_fees = \<lparr>lp_fee_bps = lp, protocol_fee_bps = protocol, creator_fee_bps = creator\<rparr>\<rparr>"

definition RECORDED_TIERS :: "FeeTier list" where
  "RECORDED_TIERS = [
     recorded_tier 0 2 93 30,
     recorded_tier 420000000000 20 5 95,
     recorded_tier 1470000000000 20 5 90,
     recorded_tier 2460000000000 20 5 85,
     recorded_tier 3440000000000 20 5 80,
     recorded_tier 4420000000000 20 5 75,
     recorded_tier 9820000000000 20 5 70,
     recorded_tier 14740000000000 20 5 65,
     recorded_tier 19650000000000 20 5 60,
     recorded_tier 24560000000000 20 5 55,
     recorded_tier 29470000000000 20 5 50,
     recorded_tier 34380000000000 20 5 45,
     recorded_tier 39300000000000 20 5 40,
     recorded_tier 44210000000000 20 5 35,
     recorded_tier 49120000000000 20 5 30,
     recorded_tier 54030000000000 20 5 28,
     recorded_tier 58940000000000 20 5 25,
     recorded_tier 63860000000000 20 5 23,
     recorded_tier 68770000000000 20 5 20,
     recorded_tier 73681000000000 20 5 18,
     recorded_tier 78590000000000 20 5 15,
     recorded_tier 83500000000000 20 5 13,
     recorded_tier 88400000000000 20 5 10,
     recorded_tier 93330000000000 20 5 8,
     recorded_tier 98240000000000 20 5 5]"

definition RECORDED_STABLE_TIERS :: "FeeTier list" where
  "RECORDED_STABLE_TIERS = [
     recorded_tier 0 2 93 30,
     recorded_tier 59000000000 20 5 95,
     recorded_tier 300000000000 20 5 90,
     recorded_tier 500000000000 20 5 85,
     recorded_tier 700000000000 20 5 80,
     recorded_tier 900000000000 20 5 75,
     recorded_tier 2000000000000 20 5 70,
     recorded_tier 3000000000000 20 5 65,
     recorded_tier 4000000000000 20 5 60,
     recorded_tier 5000000000000 20 5 55,
     recorded_tier 6000000000000 20 5 50,
     recorded_tier 7000000000000 20 5 45,
     recorded_tier 8000000000000 20 5 40,
     recorded_tier 9000000000000 20 5 35,
     recorded_tier 10000000000000 20 5 30,
     recorded_tier 11000000000000 20 5 28,
     recorded_tier 12000000000000 20 5 25,
     recorded_tier 13000000000000 20 5 23,
     recorded_tier 14000000000000 20 5 20,
     recorded_tier 15000000000000 20 5 18,
     recorded_tier 16000000000000 20 5 15,
     recorded_tier 17000000000000 20 5 13,
     recorded_tier 18000000000000 20 5 10,
     recorded_tier 19000000000000 20 5 8,
     recorded_tier 20000000000000 20 5 5]"

definition RECORDED_FEE_CONFIG :: FeeConfig where
  "RECORDED_FEE_CONFIG = \<lparr>fc_bump = 255,
     fc_admin = Pubkey [211, 187, 140, 171, 52, 28, 224, 82, 132, 87, 242, 195, 129, 125, 50, 120, 68, 25, 99, 220, 213,
       95, 237, 88, 186, 36, 201, 153, 221, 172, 2, 170],
     flat_fees = \<lparr>lp_fee_bps = 25, protocol_fee_bps = 5, creator_fee_bps = 0\<rparr>,
     fee_tiers = RECORDED_TIERS, stable_fee_tiers = RECORDED_STABLE_TIERS\<rparr>"

definition RECORDED_GLOBAL_CONFIG :: GlobalConfig where
  "RECORDED_GLOBAL_CONFIG = \<lparr>gc_admin = Pubkey [211, 187, 140, 171, 52, 28, 224, 82, 132, 87, 242, 195, 129, 125, 50, 120, 68, 25, 99, 220, 213,
       95, 237, 88, 186, 36, 201, 153, 221, 172, 2, 170],
     lp_fee_basis_points = 20, protocol_fee_basis_points = 5, disable_flags = 0,
     protocol_fee_recipients = map Pubkey PROTOCOL_ROWS, coin_creator_fee_basis_points = 5,
     admin_set_coin_creator_authority = Pubkey [7, 33, 93, 153, 64, 121, 54, 148, 225, 22, 6, 108, 228, 89, 184, 24, 253, 249, 187, 160, 199,
       180, 27, 120, 63, 163, 161, 32, 202, 65, 149, 50],
     whitelist_pda = Pubkey [162, 139, 95, 210, 106, 180, 121, 166, 169, 204, 108, 191, 107, 11, 35, 235, 97, 136, 90, 55, 30,
       1, 32, 172, 169, 19, 190, 239, 61, 19, 138, 120],
     reserved_fee_recipient = Pubkey RESERVED_FIRST, mayhem_mode_enabled = True,
     reserved_fee_recipients = map Pubkey RESERVED_ROWS, is_cashback_enabled = True,
     buyback_fee_recipients = map Pubkey BUYBACK_ROWS, buyback_basis_points = 5000\<rparr>"

definition RECORDED_USER :: UserVolumeAccumulator where
  "RECORDED_USER = (user_volume_accumulator_empty (Pubkey [8, 23, 169, 104, 118, 21, 99, 209, 166, 43, 202, 172, 202, 133, 95, 35, 70, 79, 230, 236, 49, 74,
       40, 242, 48, 0, 154, 65, 121, 27, 251, 147]))
     \<lparr>cashback_earned := 89356599, total_cashback_claimed := 249797601\<rparr>"

definition RECORDED_GLOBAL :: GlobalVolumeAccumulator where
  "RECORDED_GLOBAL = \<lparr>start_time = 0, end_time = 0, seconds_in_a_day = 0, gva_mint = pubkey_default,
     total_token_supply = replicate 30 0, sol_volumes = replicate 30 0\<rparr>"

definition RECORDED_SPLIT :: SharingConfig where
  "RECORDED_SPLIT = \<lparr>sc_bump = 251, sc_version = 1, sc_status = Active,
     sc_mint = Pubkey [189, 169, 86, 88, 151, 172, 229, 90, 149, 24, 109, 21, 78, 47, 52, 42, 171, 207, 215, 202, 111,
       15, 203, 134, 85, 197, 84, 180, 45, 254, 67, 15],
     sc_admin = Pubkey [252, 35, 101, 252, 129, 99, 83, 149, 90, 141, 254, 5, 143, 7, 105, 82, 93, 183, 146, 203, 191,
       171, 17, 21, 102, 40, 151, 168, 144, 98, 83, 35],
     admin_revoked = False, shareholders = [\<lparr>sh_address = Pubkey [116, 191, 164, 70, 76, 127, 166, 149, 167, 222, 18, 36, 224, 198, 124, 205, 18, 208, 3, 153, 110,
       57, 232, 119, 228, 33, 207, 103, 206, 217, 186, 108], share_bps = 2500\<rparr>,
       \<lparr>sh_address = Pubkey [63, 53, 7, 72, 60, 74, 137, 63, 85, 13, 222, 240, 251, 175, 84, 8, 246, 62, 244, 174, 247, 169,
       204, 201, 174, 82, 153, 137, 46, 218, 158, 111], share_bps = 2500\<rparr>,
       \<lparr>sh_address = Pubkey [37, 239, 166, 130, 59, 242, 205, 188, 186, 217, 83, 228, 105, 192, 146, 90, 3, 158, 1, 6, 164,
       78, 117, 200, 208, 202, 153, 19, 228, 133, 51, 226], share_bps = 2500\<rparr>,
       \<lparr>sh_address = Pubkey [252, 35, 101, 252, 129, 99, 83, 149, 90, 141, 254, 5, 143, 7, 105, 82, 93, 183, 146, 203, 191,
       171, 17, 21, 102, 40, 151, 168, 144, 98, 83, 35], share_bps = 2500\<rparr>]\<rparr>"

definition RECORDED_PAUSED :: SharingConfig where
  "RECORDED_PAUSED = \<lparr>sc_bump = 254, sc_version = 2, sc_status = Paused,
     sc_mint = Pubkey [115, 115, 218, 165, 143, 47, 162, 109, 8, 134, 5, 4, 102, 62, 8, 98, 23, 245, 91, 131, 251, 15,
       233, 3, 74, 15, 111, 245, 244, 126, 232, 175],
     sc_admin = Pubkey [0, 0, 0, 0, 0, 0, 0, 0, 0, 0, 0, 0, 0, 0, 0, 0, 0, 0, 0, 0, 0, 0, 0, 0, 0, 0, 0, 0, 0, 0, 0, 0],
     admin_revoked = True, shareholders = []\<rparr>"

section \<open>They pass\<close>

text \<open>Encodings evaluate byte by byte on numerals.\<close>

lemma le_bytes_numeral:
  "le_bytes (numeral n) v = word_of_nat (v mod 256) # le_bytes (pred_numeral n) (v div 256)"
  by (simp only: numeral_eq_Suc [of n] le_bytes.simps)

lemma replicate_numeral: "replicate (numeral n) x = x # replicate (pred_numeral n) x"
  by (simp only: numeral_eq_Suc [of n] replicate.simps)

lemmas encode_simps = to_le_bytes_def le_bytes_numeral

lemma tier_rows:
  "map enc_fee_tier RECORDED_TIERS = FEE_TIER_ROWS" "map enc_fee_tier RECORDED_STABLE_TIERS = STABLE_TIER_ROWS"
  by (simp_all add: RECORDED_TIERS_def RECORDED_STABLE_TIERS_def FEE_TIER_ROWS_def STABLE_TIER_ROWS_def
      enc_fee_tier_def enc_fees_def recorded_tier_def encode_simps)

lemma tiers_length: "length RECORDED_TIERS = 25" "length RECORDED_STABLE_TIERS = 25"
  by (simp_all add: RECORDED_TIERS_def RECORDED_STABLE_TIERS_def)

text \<open>Each fixture decodes to its record, whatever follows it.\<close>

lemma fee_config_recorded: "fee_config = Inr RECORDED_FEE_CONFIG"
proof -
  have "length FEE_CONFIG_FIXTURE < 2 ^ 64"
    by (simp add: FEE_CONFIG_FIXTURE_def FEE_TIER_ROWS_def STABLE_TIER_ROWS_def)
  moreover have "fee_config_ok RECORDED_FEE_CONFIG"
    by (simp add: fee_config_ok_def RECORDED_FEE_CONFIG_def tiers_length)
  moreover have "FEE_CONFIG_DISCRIMINATOR @ enc_fee_config RECORDED_FEE_CONFIG =
      take 65 FEE_CONFIG_FIXTURE @ [25, 0, 0, 0] @ concat FEE_TIER_ROWS @ [25, 0, 0, 0] @ concat STABLE_TIER_ROWS"
    by (simp add: FEE_CONFIG_DISCRIMINATOR_def enc_fee_config_def RECORDED_FEE_CONFIG_def enc_vec_def tiers_length
        tier_rows enc_fees_def encode_simps FEE_CONFIG_FIXTURE_def)
  then have "prefix (FEE_CONFIG_DISCRIMINATOR @ enc_fee_config RECORDED_FEE_CONFIG) FEE_CONFIG_FIXTURE"
    by (simp add: FEE_CONFIG_FIXTURE_def)
  ultimately show ?thesis by (simp add: fee_config_def fee_config_decode_iff)
qed

lemma global_config_recorded:
  "length rest < 2 ^ 32 \<Longrightarrow>
    global_config_from_account_data (GLOBAL_CONFIG_FIXTURE @ rest) = Inr RECORDED_GLOBAL_CONFIG"
proof -
  assume rest: "length rest < 2 ^ 32"
  have "length (GLOBAL_CONFIG_FIXTURE @ rest) < 2 ^ 64"
    using rest by (simp add: GLOBAL_CONFIG_FIXTURE_def PROTOCOL_ROWS_def RESERVED_ROWS_def BUYBACK_ROWS_def RESERVED_FIRST_def)
  moreover have "global_config_ok RECORDED_GLOBAL_CONFIG"
    by (simp add: global_config_ok_def RECORDED_GLOBAL_CONFIG_def PROTOCOL_ROWS_def RESERVED_ROWS_def
        BUYBACK_ROWS_def RESERVED_FIRST_def)
  moreover have "prefix (GLOBAL_CONFIG_DISCRIMINATOR @ enc_global_config RECORDED_GLOBAL_CONFIG)
      (GLOBAL_CONFIG_FIXTURE @ rest)"
    by (simp add: GLOBAL_CONFIG_DISCRIMINATOR_def enc_global_config_def RECORDED_GLOBAL_CONFIG_def enc_pubkeys_def
        o_def enc_bool_def encode_simps GLOBAL_CONFIG_FIXTURE_def)
  ultimately show ?thesis by (simp add: global_config_decode_iff)
qed

lemma accumulators_recorded:
  assumes "length rest < 2 ^ 32"
  shows "user_volume_accumulator_from_account_data (USER_FIXTURE @ rest) = Inr RECORDED_USER"
    and "global_volume_accumulator_from_account_data (GLOBAL_FIXTURE @ rest) = Inr RECORDED_GLOBAL"
proof -
  have "length (USER_FIXTURE @ rest) < 2 ^ 64" "length (GLOBAL_FIXTURE @ rest) < 2 ^ 64"
    using assms by (simp_all add: USER_FIXTURE_def GLOBAL_FIXTURE_def)
  note iffs = user_volume_accumulator_decode_iff [OF this(1)] global_volume_accumulator_decode_iff [OF this(2)]
  show "user_volume_accumulator_from_account_data (USER_FIXTURE @ rest) = Inr RECORDED_USER"
    by (simp only: iffs) (simp add: RECORDED_USER_def user_volume_accumulator_empty_def USER_FIXTURE_def
        USER_VOLUME_ACCUMULATOR_DISCRIMINATOR_def enc_user_volume_accumulator_def enc_bool_def encode_simps)
  show "global_volume_accumulator_from_account_data (GLOBAL_FIXTURE @ rest) = Inr RECORDED_GLOBAL"
    by (simp only: iffs) (simp add: RECORDED_GLOBAL_def GLOBAL_FIXTURE_def pubkey_default_def replicate_numeral
        global_volume_accumulator_ok_def VOLUME_ACCUMULATOR_DAYS_def enc_u64s_def
        GLOBAL_VOLUME_ACCUMULATOR_DISCRIMINATOR_def enc_global_volume_accumulator_def encode_simps)
qed

lemma sharing_recorded:
  assumes "length rest < 2 ^ 32"
  shows "sharing_config_from_account_data (SPLIT_FIXTURE @ rest) = Inr RECORDED_SPLIT"
    and "sharing_config_from_account_data (PAUSED_FIXTURE @ rest) = Inr RECORDED_PAUSED"
proof -
  have "length (SPLIT_FIXTURE @ rest) < 2 ^ 64" "length (PAUSED_FIXTURE @ rest) < 2 ^ 64"
    using assms by (simp_all add: SPLIT_FIXTURE_def PAUSED_FIXTURE_def)
  note iffs = this [THEN sharing_config_decode_iff]
  show "sharing_config_from_account_data (SPLIT_FIXTURE @ rest) = Inr RECORDED_SPLIT"
    by (simp only: iffs) (simp add: RECORDED_SPLIT_def SPLIT_FIXTURE_def sharing_config_ok_def vec_ok_def
        SHARING_CONFIG_DISCRIMINATOR_def enc_sharing_config_def enc_config_status_def enc_vec_def
        enc_shareholder_def enc_bool_def encode_simps)
  show "sharing_config_from_account_data (PAUSED_FIXTURE @ rest) = Inr RECORDED_PAUSED"
    by (simp only: iffs) (simp add: RECORDED_PAUSED_def PAUSED_FIXTURE_def sharing_config_ok_def vec_ok_def
        SHARING_CONFIG_DISCRIMINATOR_def enc_sharing_config_def enc_config_status_def enc_vec_def
        enc_shareholder_def enc_bool_def encode_simps)
qed

text \<open>The tests of the fee schedule, evaluated on the decoded ladder.\<close>

lemma fee_config_fields:
  "flat_fees RECORDED_FEE_CONFIG = \<lparr>lp_fee_bps = 25, protocol_fee_bps = 5, creator_fee_bps = 0\<rparr>"
  "fee_tiers RECORDED_FEE_CONFIG = RECORDED_TIERS" "stable_fee_tiers RECORDED_FEE_CONFIG = RECORDED_STABLE_TIERS"
  by (simp_all add: RECORDED_FEE_CONFIG_def)

lemmas ladder_simps = fee_config_recorded fee_config_fields RECORDED_TIERS_def RECORDED_STABLE_TIERS_def
  recorded_tier_def slice_first_def slice_last_def total_bps_def saturating_add_def byte_get_def
  fee_tier_for_market_cap_def stable_fee_tier_for_market_cap_def tier_for_market_cap_def

lemma fee_config_tests_pass:
  "fee_config_decodes_flat_fees" "fee_config_decodes_both_tier_vectors" "fee_config_decodes_first_and_last_tier"
  "fee_tier_thresholds_are_strictly_increasing"
  "stable_fee_tier_lookup_uses_the_stable_ladder"
  by (simp_all add: fee_config_decodes_flat_fees_def fee_config_decodes_both_tier_vectors_def
      fee_config_decodes_first_and_last_tier_def fee_tier_thresholds_are_strictly_increasing_def
      stable_fee_tier_lookup_uses_the_stable_ladder_def ladder_simps)

lemma lookup_test_passes: "fee_tier_lookup_picks_the_highest_threshold_at_or_below_market_cap"
  by (simp add: fee_tier_lookup_picks_the_highest_threshold_at_or_below_market_cap_def ladder_simps)

lemma observed_schedules_pass: "fees_for_pool_reproduces_every_observed_mainnet_schedule u"
  by (simp add: fees_for_pool_reproduces_every_observed_mainnet_schedule_def OBSERVED_SCHEDULES_def test_fees_def
      fees_for_pool_def is_stable_quote_mint_def ladder_simps)

lemma base_rung_test_passes: "a_tiered_pool_below_every_threshold_gets_the_base_rung_not_the_flat_fee u"
  by (simp add: a_tiered_pool_below_every_threshold_gets_the_base_rung_not_the_flat_fee_def fees_for_pool_def
      is_stable_quote_mint_def ladder_simps)

lemmas schedule_tests_pass = lookup_test_passes observed_schedules_pass base_rung_test_passes

text \<open>The tests of the other accounts, on the records the fixtures hold.\<close>

lemma recorded_accounts:
  "global_config = Inr RECORDED_GLOBAL_CONFIG" "user_accumulator = Inr RECORDED_USER"
  "global_accumulator = Inr RECORDED_GLOBAL" "split_config = Inr RECORDED_SPLIT" "paused_config = Inr RECORDED_PAUSED"
  using global_config_recorded [of "[]"] accumulators_recorded [of "[]"] sharing_recorded [of "[]"]
  by (simp_all add: global_config_def user_accumulator_def global_accumulator_def split_config_def paused_config_def)

lemma slack_tests_pass:
  "fee_state_tolerates_trailing_account_slack" "volume_tolerates_trailing_account_slack"
  "ignores_bytes_past_the_encoded_layout"
proof -
  have "length SPLIT_FIXTURE = 1024" "length PAUSED_FIXTURE = 1024"
    by (simp_all add: SPLIT_FIXTURE_def PAUSED_FIXTURE_def)
  then show "ignores_bytes_past_the_encoded_layout"
    using sharing_recorded [of "[]"] by (simp add: ignores_bytes_past_the_encoded_layout_def sharing_recorded)
qed (simp_all add: fee_state_tolerates_trailing_account_slack_def volume_tolerates_trailing_account_slack_def
    recorded_accounts global_config_recorded accumulators_recorded)

lemmas read_simps = rd_after_discriminator_def rd_take_def rd_u8_def rd_u16_def rd_u32_def rd_u64_def rd_u128_def
  rd_i64_def rd_pubkey_def rd_bool_def rd_vec_def rd_u64_array_def rd_pubkey_array_def slice_get_def ok_or_def
  fees_read_def shareholder_read_def config_status_read_def FeeTier_ENCODED_LEN_def Shareholder_ENCODED_LEN_def

lemma rd_many_numeral:
  "rd_many rd (numeral n) r =
    bindE (rd r) (\<lambda>(x, r). bindE (rd_many rd (pred_numeral n) r) (\<lambda>(xs, r). Inr (x # xs, r)))"
  by (simp only: numeral_eq_Suc [of n] rd_many.simps)

lemma rejection_tests_pass:
  "fee_state_rejects_a_foreign_discriminator" "fee_state_rejects_truncated_accounts"
  "volume_rejects_a_foreign_discriminator" "volume_rejects_truncated_accounts"
  "sharing_rejects_a_foreign_discriminator" "sharing_rejects_a_truncated_account"
proof -
  note decoders = fee_config_from_account_data_def global_config_from_account_data_def
    user_volume_accumulator_from_account_data_def global_volume_accumulator_from_account_data_def
    sharing_config_from_account_data_def
  note discriminators = FEE_CONFIG_DISCRIMINATOR_def GLOBAL_CONFIG_DISCRIMINATOR_def
    USER_VOLUME_ACCUMULATOR_DISCRIMINATOR_def GLOBAL_VOLUME_ACCUMULATOR_DISCRIMINATOR_def
    SHARING_CONFIG_DISCRIMINATOR_def
  note errors = expect_err_and_def foreign_def mentions_discriminator_def mentions_account_def
  show "fee_state_rejects_a_foreign_discriminator"
    by (simp add: fee_state_rejects_a_foreign_discriminator_def decoders discriminators errors read_simps
        GLOBAL_CONFIG_FIXTURE_def)
  show "volume_rejects_a_foreign_discriminator"
    by (simp add: volume_rejects_a_foreign_discriminator_def decoders discriminators errors read_simps
        USER_FIXTURE_def GLOBAL_FIXTURE_def)
  show "sharing_rejects_a_foreign_discriminator"
    by (simp add: sharing_rejects_a_foreign_discriminator_def decoders discriminators errors read_simps
        SPLIT_FIXTURE_def)
  show "fee_state_rejects_truncated_accounts"
    by (simp add: fee_state_rejects_truncated_accounts_def decoders discriminators read_simps rd_many_numeral Let_def
        GLOBAL_CONFIG_FIXTURE_def FEE_CONFIG_FIXTURE_def FEE_TIER_ROWS_def PROTOCOL_ROWS_def from_le_bytes_def)
  show "volume_rejects_truncated_accounts"
    by (simp add: volume_rejects_truncated_accounts_def decoders discriminators read_simps rd_many_numeral Let_def
        USER_FIXTURE_def GLOBAL_FIXTURE_def from_le_bytes_def)
  show "sharing_rejects_a_truncated_account"
    by (simp add: sharing_rejects_a_truncated_account_def decoders discriminators read_simps Let_def
        SPLIT_FIXTURE_def from_le_bytes_def)
qed

lemma accumulator_tests_pass:
  "global_accumulator_has_thirty_day_buckets" "global_accumulator_fixture_has_the_expected_shape"
  "global_accumulator_is_dormant_on_mainnet e"
  "day_index_rejects_a_non_positive_day_length e"
  "user_accumulator_decodes_its_cashback_counters"
  "user_accumulator_fixture_has_the_expected_shape" "empty_accumulator_carries_the_user_and_nothing_else u"
  by (simp_all add: global_accumulator_has_thirty_day_buckets_def global_accumulator_fixture_has_the_expected_shape_def
    global_accumulator_is_dormant_on_mainnet_def day_index_rejects_a_non_positive_day_length_def
    user_accumulator_decodes_its_cashback_counters_def user_accumulator_fixture_has_the_expected_shape_def
    empty_accumulator_carries_the_user_and_nothing_else_def user_volume_accumulator_empty_def
    recorded_accounts RECORDED_USER_def RECORDED_GLOBAL_def VOLUME_ACCUMULATOR_DAYS_def GLOBAL_FIXTURE_def USER_FIXTURE_def
    GlobalVolumeAccumulator_ENCODED_LEN_def UserVolumeAccumulator_ENCODED_LEN_def is_active_at_def day_index_def
    list_all_iff)

lemma window_tests_pass:
  "day_index_buckets_by_day_within_the_program_window e"
  "user_accumulator_cashback_counters_sit_where_the_idl_puts_them"
proof -
  show "day_index_buckets_by_day_within_the_program_window e"
    by (simp add: day_index_buckets_by_day_within_the_program_window_def recorded_accounts RECORDED_GLOBAL_def Let_def
        day_index_in_range is_active_at_def VOLUME_ACCUMULATOR_DAYS_def)
  show "user_accumulator_cashback_counters_sit_where_the_idl_puts_them"
    by (simp add: user_accumulator_cashback_counters_sit_where_the_idl_puts_them_def slice_get_def USER_FIXTURE_def
        encode_simps)
qed

text \<open>The keys of the fixtures are those of the base58 texts.\<close>

lemma recipient_keys_1:
  "base58_decode ''62qc2CNXwrYqQScmEdiZFFAnJR262PxWEuNQtxfafNgV'' = Some
    [74, 194, 248, 208, 221, 92, 188, 151, 227, 40, 156, 25, 124, 181, 6, 42, 84, 243, 217, 86, 185,
     206, 110, 81, 21, 249, 101, 103, 170, 92, 179, 230]"
  "base58_decode ''7VtfL8fvgNfhz17qKRMjzQEXgbdpnHHHQRh54R9jP2RJ'' = Some
    [96, 140, 204, 29, 252, 233, 97, 180, 59, 119, 156, 25, 21, 5, 166, 226, 211, 191, 69, 213, 164,
     219, 70, 24, 173, 118, 200, 45, 97, 117, 69, 53]"
  "base58_decode ''7hTckgnGnLQR6sdH7YkqFTAA7VwTfYFaZ6EhEsU3saCX'' = Some
    [99, 131, 115, 0, 14, 162, 44, 178, 100, 211, 74, 255, 100, 160, 75, 94, 250, 191, 187, 116,
     221, 205, 4, 137, 151, 177, 152, 21, 71, 215, 209, 16]"
  "base58_decode ''9rPYyANsfQZw3DnDmKE3YCQF5E8oD89UXoHn9JFEhJUz'' = Some
    [131, 132, 116, 41, 46, 103, 90, 148, 180, 54, 236, 176, 169, 152, 137, 66, 50, 138, 131, 221,
     198, 35, 56, 2, 150, 18, 103, 197, 205, 97, 23, 203]"
  "base58_decode ''AVmoTthdrX6tKt4nDjco2D775W2YK3sDhxPcMmzUAmTY'' = Some
    [141, 24, 26, 12, 132, 159, 169, 55, 166, 243, 74, 222, 211, 8, 30, 249, 87, 0, 170, 203, 12,
     155, 179, 217, 9, 164, 185, 20, 117, 39, 164, 235]"
  "base58_decode ''FWsW1xNtWscwNmKv6wVsU1iTzRN6wmmk3MjxRP5tT7hz'' = Some
    [215, 170, 143, 176, 96, 216, 41, 27, 76, 77, 71, 93, 175, 247, 98, 201, 107, 220, 13, 172, 235,
     54, 192, 18, 234, 209, 46, 211, 169, 72, 65, 97]"
  by (rule base58_decodeI, simp add: base58_digits)+

lemma recipient_keys_2:
  "base58_decode ''G5UZAVbAf46s7cKWoyKu8kYTip9DGTpbLZ2qa9Aq69dP'' = Some
    [224, 4, 200, 124, 235, 152, 250, 92, 228, 127, 128, 56, 6, 253, 44, 121, 69, 210, 149, 36, 149,
     154, 236, 0, 222, 217, 120, 20, 243, 143, 120, 70]"
  "base58_decode ''JCRGumoE9Qi5BBgULTgdgTLjSgkCMSbF62ZZfGs84JeU'' = Some
    [255, 131, 131, 129, 139, 168, 250, 40, 195, 205, 59, 109, 94, 147, 249, 250, 184, 240, 151,
     155, 195, 114, 21, 172, 197, 178, 70, 135, 123, 168, 195, 201]"
  "base58_decode ''GesfTA3X2arioaHp8bbKdjG9vJtskViWACZoYvxp4twS'' = Some
    [232, 147, 20, 31, 177, 142, 159, 21, 116, 216, 16, 225, 120, 225, 158, 48, 96, 78, 49, 117,
     170, 46, 74, 50, 223, 200, 96, 7, 39, 209, 7, 9]"
  "base58_decode ''4budycTjhs9fD6xw62VBducVTNgMgJJ5BgtKq7mAZwn6'' = Some
    [53, 132, 83, 98, 86, 9, 79, 145, 40, 25, 18, 126, 250, 78, 68, 107, 67, 51, 114, 23, 147, 209,
     56, 118, 249, 170, 219, 243, 220, 125, 11, 95]"
  "base58_decode ''8SBKzEQU4nLSzcwF4a74F2iaUDQyTfjGndn6qUWBnrpR'' = Some
    [110, 117, 1, 130, 32, 249, 66, 103, 112, 3, 35, 123, 77, 107, 69, 55, 89, 180, 165, 198, 144,
     181, 156, 53, 217, 187, 24, 122, 9, 12, 189, 42]"
  "base58_decode ''4UQeTP1T39KZ9Sfxzo3WR5skgsaP6NZa87BAkuazLEKH'' = Some
    [51, 152, 122, 158, 187, 19, 103, 153, 171, 89, 146, 91, 19, 229, 220, 139, 48, 129, 223, 0, 93,
     180, 39, 193, 71, 143, 164, 111, 248, 195, 71, 160]"
  by (rule base58_decodeI, simp add: base58_digits)+

lemma recipient_keys_3:
  "base58_decode ''8sNeir4QsLsJdYpc9RZacohhK1Y5FLU3nC5LXgYB4aa6'' = Some
    [116, 233, 84, 63, 62, 55, 162, 208, 70, 34, 122, 221, 203, 78, 156, 119, 76, 68, 37, 140, 67,
     237, 242, 74, 168, 170, 225, 240, 2, 20, 102, 91]"
  "base58_decode ''Fh9HmeLNUMVCvejxCtCL2DbYaRyBFVJ5xrWkLnMH6fdk'' = Some
    [218, 76, 56, 205, 109, 183, 67, 143, 89, 180, 8, 187, 158, 195, 180, 202, 158, 138, 209, 241,
     242, 70, 83, 196, 153, 181, 121, 108, 32, 219, 249, 179]"
  "base58_decode ''463MEnMeGyJekNZFQSTUABBEbLnvMTALbT6ZmsxAbAdq'' = Some
    [45, 221, 158, 234, 63, 57, 179, 114, 17, 92, 113, 132, 124, 24, 69, 207, 165, 54, 198, 133, 7,
     78, 3, 14, 68, 208, 33, 222, 62, 249, 227, 92]"
  "base58_decode ''6AUH3WEHucYZyC61hqpqYUWVto5qA5hjHuNQ32GNnNxA'' = Some
    [76, 183, 128, 240, 142, 226, 254, 232, 75, 236, 68, 106, 87, 120, 37, 218, 104, 212, 57, 250,
     138, 93, 163, 176, 197, 207, 245, 15, 99, 244, 84, 107]"
  "base58_decode ''5YxQFdt3Tr9zJLvkFccqXVUwhdTWJQc1fFg2YPbxvxeD'' = Some
    [67, 158, 101, 16, 192, 61, 101, 250, 217, 49, 232, 157, 4, 190, 11, 183, 13, 81, 151, 31, 81,
     196, 21, 251, 52, 76, 7, 219, 65, 159, 33, 34]"
  "base58_decode ''9M4giFFMxmFGXtc3feFzRai56WbBqehoSeRE5GK7gf7'' = Some
    [2, 35, 85, 22, 169, 23, 19, 76, 103, 88, 140, 73, 56, 32, 174, 21, 94, 233, 102, 101, 87, 122,
     193, 183, 24, 218, 71, 221, 207, 42, 5, 14]"
  by (rule base58_decodeI, simp add: base58_digits)+

lemma recipient_keys_4:
  "base58_decode ''GXPFM2caqTtQYC2cJ5yJRi9VDkpsYZXzYdwYpGnLmtDL'' = Some
    [230, 167, 226, 32, 104, 187, 136, 100, 10, 165, 127, 144, 147, 8, 198, 31, 239, 113, 26, 1, 99,
     245, 167, 85, 192, 112, 188, 134, 13, 31, 99, 103]"
  "base58_decode ''3BpXnfJaUTiwXnJNe7Ej1rcbzqTTQUvLShZaWazebsVR'' = Some
    [32, 124, 236, 218, 91, 204, 108, 177, 234, 240, 241, 109, 104, 64, 69, 102, 177, 141, 86, 210,
     72, 26, 203, 49, 112, 50, 101, 110, 144, 85, 28, 120]"
  "base58_decode ''5cjcW9wExnJJiqgLjq7DEG75Pm6JBgE1hNv4B2vHXUW6'' = Some
    [68, 150, 65, 248, 73, 88, 220, 115, 167, 106, 133, 216, 117, 111, 85, 192, 44, 218, 202, 137,
     186, 25, 50, 121, 12, 54, 138, 177, 87, 233, 45, 115]"
  "base58_decode ''EHAAiTxcdDwQ3U4bU6YcMsQGaekdzLS3B5SmYo46kJtL'' = Some
    [197, 75, 150, 181, 201, 49, 148, 30, 70, 234, 75, 226, 224, 227, 17, 39, 116, 79, 198, 183, 76,
     251, 69, 94, 254, 175, 139, 213, 113, 121, 44, 237]"
  "base58_decode ''5eHhjP8JaYkz83CWwvGU2uMUXefd3AazWGx4gpcuEEYD'' = Some
    [68, 252, 31, 120, 249, 74, 51, 208, 144, 156, 94, 107, 95, 176, 33, 87, 10, 216, 219, 173, 141,
     232, 253, 179, 210, 14, 209, 205, 153, 235, 142, 78]"
  "base58_decode ''A7hAgCzFw14fejgCp387JUJRMNyz4j89JKnhtKU8piqW'' = Some
    [135, 112, 21, 126, 235, 235, 103, 138, 101, 93, 185, 155, 55, 246, 177, 50, 108, 118, 87, 219,
     144, 207, 184, 168, 122, 190, 248, 199, 182, 242, 200, 105]"
  by (rule base58_decodeI, simp add: base58_digits)+

lemmas recipient_keys = recipient_keys_1 recipient_keys_2 recipient_keys_3 recipient_keys_4

lemma holder_keys:
  "base58_decode ''HyF3gui8takahPszgQYM1caHwEC8gT4gpnLnPFitQjrz'' = Some
    [252, 35, 101, 252, 129, 99, 83, 149, 90, 141, 254, 5, 143, 7, 105, 82, 93, 183, 146, 203, 191,
     171, 17, 21, 102, 40, 151, 168, 144, 98, 83, 35]"
  "base58_decode ''8rjnM5GPXswFPBtgnoZUyK5RykuaLfPnTQTmAN5WDLbV'' = Some
    [116, 191, 164, 70, 76, 127, 166, 149, 167, 222, 18, 36, 224, 198, 124, 205, 18, 208, 3, 153,
     110, 57, 232, 119, 228, 33, 207, 103, 206, 217, 186, 108]"
  "base58_decode ''5FjarBWs1Yb9FgQERdMusuHZgwvJvFiVfzxViiqkVgzz'' = Some
    [63, 53, 7, 72, 60, 74, 137, 63, 85, 13, 222, 240, 251, 175, 84, 8, 246, 62, 244, 174, 247, 169,
     204, 201, 174, 82, 153, 137, 46, 218, 158, 111]"
  "base58_decode ''3Z62uZsndJRdQ5NLbK1CLraX7eX9myrYVdgAynMgc4X3'' = Some
    [37, 239, 166, 130, 59, 242, 205, 188, 186, 217, 83, 228, 105, 192, 146, 90, 3, 158, 1, 6, 164,
     78, 117, 200, 208, 202, 153, 19, 228, 133, 51, 226]"
  by (rule base58_decodeI, simp add: base58_digits)+


lemma recipient_tests_pass:
  assumes "mainnet e"
  shows "global_config_recipients_match_hardcoded_constants e"
    and "global_config_keeps_the_reserved_recipient_split e" and "global_config_decodes_scalar_fields"
proof -
  have keys: "PROTOCOL_FEE_RECIPIENTS e = map Pubkey PROTOCOL_ROWS" "BUYBACK_FEE_RECIPIENTS e = map Pubkey BUYBACK_ROWS"
    "RESERVED_FEE_RECIPIENTS e = Pubkey RESERVED_FIRST # map Pubkey RESERVED_ROWS"
    by (simp_all add: PROTOCOL_FEE_RECIPIENTS_def BUYBACK_FEE_RECIPIENTS_def RESERVED_FEE_RECIPIENTS_def
        PROTOCOL_ROWS_def BUYBACK_ROWS_def RESERVED_FIRST_def RESERVED_ROWS_def key_bytes [OF assms] recipient_keys)
  then show "global_config_recipients_match_hardcoded_constants e" "global_config_keeps_the_reserved_recipient_split e"
      "global_config_decodes_scalar_fields"
    by (simp_all add: global_config_recipients_match_hardcoded_constants_def global_config_decodes_scalar_fields_def
        global_config_keeps_the_reserved_recipient_split_def recorded_accounts RECORDED_GLOBAL_CONFIG_def
        all_reserved_fee_recipients_def replicate_numeral)
qed

lemma sharing_tests_pass:
  assumes "mainnet e"
  shows "decodes_an_active_four_way_split e" and "decodes_a_paused_config_with_a_revoked_admin e"
    and "pda_derivation_matches_the_live_addresses e" and "user_accumulator_field_round_trips_to_its_own_pda e"
proof -
  note keys = key_bytes [OF assms] table_keys holder_keys
  show "decodes_an_active_four_way_split e"
    by (simp add: decodes_an_active_four_way_split_def recorded_accounts RECORDED_SPLIT_def SPLIT_MINT_def SPLIT_ADMIN_def
        keys sharing_config_is_active_def total_share_bps_def)
  show "decodes_a_paused_config_with_a_revoked_admin e"
    by (simp add: decodes_a_paused_config_with_a_revoked_admin_def recorded_accounts RECORDED_PAUSED_def PAUSED_MINT_def
        keys sharing_config_is_active_def total_share_bps_def pubkey_default_def replicate_numeral)
  show "pda_derivation_matches_the_live_addresses e"
    using assms by (simp add: pda_derivation_matches_the_live_addresses_def mainnet_def mainnet_pdas_def
        sharing_config_pda_def FEE_PROGRAM_def SPLIT_MINT_def SPLIT_ADDRESS_def PAUSED_MINT_def PAUSED_ADDRESS_def)
  have "find_user_vol_accumulator e (FIXTURE_USER e) = FIXTURE_ACCUMULATOR_PDA e"
    using assms by (simp add: mainnet_def mainnet_pdas_def find_user_vol_accumulator_def PUMP_SWAP_PROGRAM_ID_def
        FIXTURE_USER_def FIXTURE_ACCUMULATOR_PDA_def)
  then show "user_accumulator_field_round_trips_to_its_own_pda e"
    by (simp add: user_accumulator_field_round_trips_to_its_own_pda_def recorded_accounts RECORDED_USER_def
        user_volume_accumulator_empty_def FIXTURE_USER_def keys)
qed

text \<open>
  On the accounts recorded from the live programs, and where the outside world derives the
  recorded addresses, every offline test of the three files holds, for all keys it draws: the
  fields the tests look at are decoded as recorded, whatever slack follows, and a foreign or
  truncated account is rejected; the schedule gives the eighteen recorded transactions the fees
  that the fee program gave them; the tables of recipients in \<open>constants.rs\<close> are those of the
  recorded configuration.
\<close>

lemma recorded_accounts_read:
  assumes "mainnet e"
  shows "fee_config_decodes_flat_fees \<and> fee_config_decodes_both_tier_vectors \<and>
    fee_config_decodes_first_and_last_tier \<and> fee_tier_thresholds_are_strictly_increasing \<and>
    fee_tier_lookup_picks_the_highest_threshold_at_or_below_market_cap \<and>
    stable_fee_tier_lookup_uses_the_stable_ladder \<and>
    global_config_decodes_scalar_fields \<and> global_config_recipients_match_hardcoded_constants e \<and>
    global_config_keeps_the_reserved_recipient_split e \<and>
    fee_state_rejects_a_foreign_discriminator \<and> fee_state_rejects_truncated_accounts \<and>
    fee_state_tolerates_trailing_account_slack \<and>
    fees_for_pool_reproduces_every_observed_mainnet_schedule u \<and>
    a_tiered_pool_below_every_threshold_gets_the_base_rung_not_the_flat_fee u \<and>
    global_accumulator_has_thirty_day_buckets \<and> global_accumulator_fixture_has_the_expected_shape \<and>
    global_accumulator_is_dormant_on_mainnet e \<and>
    day_index_buckets_by_day_within_the_program_window e \<and> day_index_rejects_a_non_positive_day_length e \<and>
    user_accumulator_field_round_trips_to_its_own_pda e \<and> user_accumulator_decodes_its_cashback_counters \<and>
    user_accumulator_cashback_counters_sit_where_the_idl_puts_them \<and>
    user_accumulator_fixture_has_the_expected_shape \<and> empty_accumulator_carries_the_user_and_nothing_else u \<and>
    volume_rejects_a_foreign_discriminator \<and> volume_rejects_truncated_accounts \<and>
    volume_tolerates_trailing_account_slack \<and>
    decodes_an_active_four_way_split e \<and> decodes_a_paused_config_with_a_revoked_admin e \<and>
    ignores_bytes_past_the_encoded_layout \<and> pda_derivation_matches_the_live_addresses e \<and>
    sharing_rejects_a_foreign_discriminator \<and> sharing_rejects_a_truncated_account"
  by (intro conjI fee_config_tests_pass schedule_tests_pass slack_tests_pass rejection_tests_pass accumulator_tests_pass
      window_tests_pass recipient_tests_pass [OF assms] sharing_tests_pass [OF assms])

end
