(* ===== verification/Recorded_Routes.thy ===== *)
theory Recorded_Routes
  imports Mainnet Recorded_Swaps
begin

unbundle bit_operations_syntax

text \<open>
  The offline tests of \<open>tests/creator_fee_routing.rs\<close>, \<open>tests/coin_creator_ix.rs\<close> and
  \<open>tests/fee_sweeps.rs\<close>: the account lists of the creator-fee instructions against the recorded
  transactions of the live programs, the pools that share their fees, and the fee of a bonding
  curve. Each test is a predicate of the outside world and of the keys \<open>u i\<close> it draws; where the
  world derives the recorded addresses, all of them hold. Left out are the tests of the
  transaction size, which measure the serialisation of the Solana crates.
\<close>

section \<open>The recorded addresses\<close>

definition route_MINT :: "ext \<Rightarrow> pubkey" where
  "route_MINT e = x_pubkey e ''GhhaqhLh9ZR1WRLdTxBRkKaK21HEvb7N4MoxvuTapump''"

definition route_BONDING_CURVE :: "ext \<Rightarrow> pubkey" where
  "route_BONDING_CURVE e = x_pubkey e ''8ueBrJgPmGYYm2QGcYZ5zXru1MTEDCMcoVDphbhfs9Xr''"

definition route_SHARING_CONFIG :: "ext \<Rightarrow> pubkey" where
  "route_SHARING_CONFIG e = x_pubkey e ''5tw6HCdjzQvxkgvocBkb6T4Yj7pBPC4UZSn1GyKAEPT''"

definition route_PUMP_CREATOR_VAULT :: "ext \<Rightarrow> pubkey" where
  "route_PUMP_CREATOR_VAULT e = x_pubkey e ''CijnjLEPfz3Locv6mmdwhDvfpkwjcwrkWGyXgUhxcwm2''"

definition route_PUMP_CREATOR_VAULT_WSOL_ATA :: "ext \<Rightarrow> pubkey" where
  "route_PUMP_CREATOR_VAULT_WSOL_ATA e = x_pubkey e ''FJvQRQ6pphra97MJWujDF4ngoxdx6gLonW7UJha9ruKL''"

definition route_SHAREHOLDERS :: "ext \<Rightarrow> pubkey list" where
  "route_SHAREHOLDERS e = map (x_pubkey e) [
     ''GV6UUmNxz2RpKxmNAPadYKb7uQpszwqQAu3qLJxVdC52'',
     ''2fg5QD1eD7rzNNCsvnhmXFm5hqNgwTTG8p7kQ6f3rx6f'',
     ''CEoJPnnCfYisckyJnqZLeefc559KeheVsFLbpfDuTPWo'',
     ''HH7jLETzcSBnFQcAG5D4VUiFYPSATTyhu5R3QCgzW2M'',
     ''9fnyojTv8GYHWr4Vaj4tvVL82scPPYYkW1CAXAbfUsdj'']"

definition single_MINT :: "ext \<Rightarrow> pubkey" where
  "single_MINT e = x_pubkey e ''57KoEZXm2mJwFqbB7fvcgZmmjc9mivFmKhXA45H3pump''"

definition single_BONDING_CURVE :: "ext \<Rightarrow> pubkey" where
  "single_BONDING_CURVE e = x_pubkey e ''GE4Mcujd5zYiqWDjRg68CEh67mfX5BsS1VyUWPPsQgCG''"

definition single_SHARING_CONFIG :: "ext \<Rightarrow> pubkey" where
  "single_SHARING_CONFIG e = x_pubkey e ''YezcoBYwhL2V5ZLcPWrbFJQetvjtUXAyNWQmrkxAPgh''"

definition single_PUMP_CREATOR_VAULT :: "ext \<Rightarrow> pubkey" where
  "single_PUMP_CREATOR_VAULT e = x_pubkey e ''8CoWk2ZYjsBZEy8yLqWEK9mtZ8tkAbAFrbmtyyuhEqGg''"

definition single_VAULT_AUTHORITY :: "ext \<Rightarrow> pubkey" where
  "single_VAULT_AUTHORITY e = x_pubkey e ''BXdAfYjPKUmmix5zYVdVrkDyPQRAj5ZZDM933cZK9Tad''"

definition single_VAULT_WSOL_ATA :: "ext \<Rightarrow> pubkey" where
  "single_VAULT_WSOL_ATA e = x_pubkey e ''26mpTjY6VebDVFKUUuHN2v2qj2FJy6P9Ui7GvVZSJgRg''"

definition single_SHAREHOLDER :: "ext \<Rightarrow> pubkey" where
  "single_SHAREHOLDER e = x_pubkey e ''Ao6bNP1o68EzVKy296rR5Jg6iAUUQNU2FA65Wvs7aR2U''"

definition t22_COIN_CREATOR :: "ext \<Rightarrow> pubkey" where
  "t22_COIN_CREATOR e = x_pubkey e ''CwFVCjUVG8s1rf7YJMZX8sy4sgnoePCDGk1uEnCTeEVQ''"

definition t22_QUOTE_MINT :: "ext \<Rightarrow> pubkey" where
  "t22_QUOTE_MINT e = x_pubkey e ''TTWofwAge91oFhZs7kpQdyrVRkmevgM88xijGvQFbKo''"

definition t22_VAULT_AUTHORITY :: "ext \<Rightarrow> pubkey" where
  "t22_VAULT_AUTHORITY e = x_pubkey e ''9RbdpSXdJkKvSTdNJUvJDrqVMRBa7X5v3hrz2y5CmNE''"

definition t22_VAULT_ATA :: "ext \<Rightarrow> pubkey" where
  "t22_VAULT_ATA e = x_pubkey e ''398HozNLoJDk8ShrY8rJaECrogsQgLS68akPqDNQun1Q''"

definition t22_PUMP_CREATOR_VAULT :: "ext \<Rightarrow> pubkey" where
  "t22_PUMP_CREATOR_VAULT e = x_pubkey e ''AKGFkTrBYW7hdAvsF8H4egADvMQuNw5TpKk97xc7jyG1''"

definition t22_PUMP_CREATOR_VAULT_ATA :: "ext \<Rightarrow> pubkey" where
  "t22_PUMP_CREATOR_VAULT_ATA e = x_pubkey e ''FgrfbN61FNvQYBSbVFCD6XpFMhWmbQogHRvZYgrGaCZV''"

definition SYSTEM_PROGRAM :: "ext \<Rightarrow> pubkey" where
  "SYSTEM_PROGRAM e = x_pubkey e ''11111111111111111111111111111111''"

definition ASSOCIATED_TOKEN_PROGRAM :: "ext \<Rightarrow> pubkey" where
  "ASSOCIATED_TOKEN_PROGRAM e = x_pubkey e ''ATokenGPvbdGVxr1b2hvZbsiqW5xWH25efTNsLJA8knL''"

definition MIGRATED_POOL :: "ext \<Rightarrow> pubkey" where
  "MIGRATED_POOL e = x_pubkey e ''FAbQ88YXBRCw8A2t7Lomg9s1Ds2dX7hUvqwWtdfG4AWL''"

definition MIGRATED_BASE_MINT :: "ext \<Rightarrow> pubkey" where
  "MIGRATED_BASE_MINT e = x_pubkey e ''3RzyjCaSHjDDaa4jrZfhDyQ3cLA8jSXvqEnWHwYcg4Hg''"

definition MIGRATED_SHARING_CONFIG :: "ext \<Rightarrow> pubkey" where
  "MIGRATED_SHARING_CONFIG e = x_pubkey e ''B8NYJNrff1PJsSWpEdrKPkFG3ntNFpJgFercJBz89ey''"

definition LEGACY_MINT :: "ext \<Rightarrow> pubkey" where
  "LEGACY_MINT e = x_pubkey e ''ED5nyyWEzpPPiWimP8vYm7sD7TD3LAt3Q3gRTWHzPJBY''"

definition LEGACY_METADATA :: "ext \<Rightarrow> pubkey" where
  "LEGACY_METADATA e = x_pubkey e ''4Q7aoDr7zBsaBB7emx9vvugE71xsPUsc8MvKHtRfhgY1''"

definition LEGACY_BONDING_CURVE :: "ext \<Rightarrow> pubkey" where
  "LEGACY_BONDING_CURVE e = x_pubkey e ''Ak4Cu8ZTTbaLvAubaCSpzdrEKbpwMpkF4RArSoRLRvMF''"

definition sweep_PAYER :: "ext \<Rightarrow> pubkey" where
  "sweep_PAYER e = x_pubkey e ''FHpcNSe6tb2n15bAdq4BkeYWGyZKFD7yLYrH92ng7wCT''"

definition sweep_POOL :: "ext \<Rightarrow> pubkey" where
  "sweep_POOL e = x_pubkey e ''65w3wn9GNC1mEPsXYBUZFHuPEZsckkpW58GHTv1x6f6B''"

definition sweep_TOKEN_2022 :: "ext \<Rightarrow> pubkey" where
  "sweep_TOKEN_2022 e = x_pubkey e ''TokenzQdBNbLqP5VEhdkAS6EPFLC1PHnBqCXEpPxuEb''"

text \<open>The live pool after its migration, and the pool of the recorded sweep.\<close>

definition POOL_FEE_SHARING :: bytes where
  "POOL_FEE_SHARING = [241, 154, 109, 4, 17, 177, 109, 188, 254, 0, 0, 58, 197, 197, 71, 119, 113, 147, 141, 158, 86,
    242, 56, 109, 138, 39, 49, 84, 138, 184, 158, 233, 235, 64, 88, 251, 69, 27, 98, 87, 199, 89,
    117, 36, 30, 222, 136, 187, 156, 210, 214, 32, 198, 197, 58, 16, 111, 137, 8, 210, 130, 168,
    107, 113, 144, 167, 189, 113, 35, 124, 191, 213, 203, 251, 91, 6, 155, 136, 87, 254, 171, 129,
    132, 251, 104, 127, 99, 70, 24, 192, 53, 218, 196, 57, 220, 26, 235, 59, 85, 152, 160, 240, 0,
    0, 0, 0, 1, 167, 215, 189, 33, 45, 48, 161, 49, 11, 196, 178, 45, 49, 233, 50, 3, 207, 224,
    50, 221, 183, 98, 59, 181, 128, 70, 158, 17, 134, 197, 78, 145, 215, 250, 53, 235, 121, 115,
    98, 65, 9, 138, 87, 200, 152, 238, 65, 76, 221, 122, 152, 14, 44, 176, 167, 45, 206, 229, 194,
    38, 5, 188, 170, 211, 194, 197, 145, 132, 4, 92, 78, 179, 90, 235, 27, 171, 7, 151, 39, 38,
    137, 136, 132, 143, 75, 141, 215, 194, 105, 86, 95, 206, 139, 111, 147, 130, 236, 74, 107, 89,
    208, 3, 0, 0, 2, 152, 36, 150, 255, 147, 149, 212, 205, 207, 126, 58, 216, 105, 115, 190, 116,
    219, 175, 88, 214, 37, 19, 254, 203, 153, 134, 68, 166, 113, 182, 98, 0, 0, 217, 65, 30, 24,
    4, 0, 0, 0, 0, 0, 0, 0, 0, 0, 0, 0, 0, 0, 0, 0, 0, 0, 0, 0, 0, 0, 0, 0, 0, 0, 0, 0, 0, 0, 0,
    0, 0, 0, 0, 0, 0, 0, 0, 0, 0, 0, 0, 0, 0, 0, 0, 0, 0, 0, 0, 0]"

definition POOL_SWEPT :: bytes where
  "POOL_SWEPT = [241, 154, 109, 4, 17, 177, 109, 188, 252, 0, 0, 181, 60, 61, 61, 129, 232, 245, 112, 39, 63, 199,
    254, 55, 26, 98, 198, 2, 85, 70, 246, 79, 144, 149, 240, 146, 56, 235, 54, 232, 205, 63, 189,
    231, 96, 165, 235, 238, 187, 232, 87, 153, 30, 134, 208, 230, 175, 178, 158, 50, 123, 84, 183,
    157, 152, 39, 197, 182, 126, 250, 254, 121, 139, 228, 159, 153, 250, 21, 107, 147, 134, 37, 0,
    92, 43, 60, 175, 198, 19, 31, 39, 49, 120, 226, 103, 34, 180, 194, 43, 190, 104, 165, 143,
    159, 203, 188, 47, 228, 125, 111, 74, 171, 70, 87, 104, 1, 201, 112, 215, 72, 61, 136, 112,
    40, 251, 80, 67, 234, 194, 75, 189, 109, 164, 238, 78, 240, 225, 141, 162, 83, 67, 226, 103,
    255, 187, 153, 118, 27, 152, 71, 10, 167, 11, 185, 61, 123, 14, 45, 5, 131, 206, 208, 238, 98,
    36, 37, 107, 173, 19, 210, 70, 255, 211, 163, 142, 164, 68, 249, 226, 85, 34, 93, 193, 121,
    227, 39, 61, 14, 232, 127, 3, 150, 171, 57, 11, 24, 252, 46, 137, 7, 164, 10, 112, 15, 119,
    186, 221, 166, 58, 0, 0, 198, 254, 157, 44, 142, 236, 244, 126, 244, 98, 99, 74, 182, 107,
    154, 29, 73, 79, 4, 193, 123, 194, 228, 105, 95, 217, 159, 19, 87, 118, 119, 250, 0, 0, 167,
    34, 60, 74, 195, 3, 0, 0, 0, 0, 0, 0, 0, 0, 0, 0, 44, 1, 0, 0, 0, 0, 0, 0, 0, 1, 216, 230,
    144, 10, 0, 0, 0, 0, 24, 53, 236, 243, 4, 0, 0, 0, 0, 0, 0, 0, 0, 0, 0, 0, 0, 0, 0, 0, 0, 0]"

definition CURVE :: bytes where
  "CURVE = [23, 183, 248, 55, 96, 216, 172, 96, 0, 0, 0, 0, 0, 0, 0, 0, 0, 0, 0, 0, 0, 0, 0, 0, 0, 0, 0, 0,
    0, 0, 0, 0, 0, 0, 0, 0, 0, 0, 0, 0, 0, 128, 198, 164, 126, 141, 3, 0, 1, 97, 120, 40, 30, 142,
    77, 232, 118, 102, 62, 135, 220, 159, 68, 175, 183, 243, 49, 105, 2, 65, 214, 29, 57, 144,
    194, 252, 131, 215, 39, 199, 184, 0, 0, 0, 0, 0, 0, 0, 0, 0, 0, 0, 0, 0, 0, 0, 0, 0, 0, 0, 0,
    0, 0, 0, 0, 0, 0, 0, 0, 0, 0, 0, 0, 0, 0, 0, 0, 0, 0, 0, 0, 0, 0, 0, 0, 0, 0, 0, 0, 0, 0, 0,
    0, 0, 0, 0, 0, 0, 0, 0, 0, 0, 0, 172, 35, 252, 6, 0, 0, 0, 0, 0, 0, 0, 0, 0, 0, 0, 0, 0, 0, 0,
    0, 0, 0, 0]"

text \<open>\<open>metas\<close>: the accounts of an instruction as key, writable, signer.\<close>

definition metas :: "instruction \<Rightarrow> (pubkey \<times> bool \<times> bool) list" where
  "metas ix = map (\<lambda>m. (am_pubkey m, am_is_writable m, am_is_signer m)) (ix_accounts ix)"

section \<open>creator_fee_routing.rs\<close>

definition the_whole_route_derives_from_the_mint ::
  "ext \<Rightarrow> bool" where
  "the_whole_route_derives_from_the_mint e \<longleftrightarrow>
     sharing_config_pda e (route_MINT e) = route_SHARING_CONFIG e \<and>
     bonding_curve_pda e (route_MINT e) = route_BONDING_CURVE e \<and>
     pump_creator_vault_pda e (route_SHARING_CONFIG e) = route_PUMP_CREATOR_VAULT e"

definition the_two_creator_vault_seeds_are_not_interchangeable ::
  "ext \<Rightarrow> bool" where
  "the_two_creator_vault_seeds_are_not_interchangeable e \<longleftrightarrow>
     pump_creator_vault_pda e (route_SHARING_CONFIG e) \<noteq> find_coin_creator_vault_authority e (route_SHARING_CONFIG e)"

definition distribute_creator_fees_matches_a_live_payout ::
  "ext \<Rightarrow> bool" where
  "distribute_creator_fees_matches_a_live_payout e \<longleftrightarrow>
     unwrap_and (distribute_creator_fees_instruction e (route_MINT e) (route_SHAREHOLDERS e)) (\<lambda>ix. ix_program_id ix = PUMPFUN_PROGRAM e \<and>
       ix_data ix = [165, 114, 103, 0, 121, 206, 247, 81] \<and> metas ix =
         [(route_MINT e, False, False),
          (route_BONDING_CURVE e, False, False),
          (route_SHARING_CONFIG e, False, False),
          (route_PUMP_CREATOR_VAULT e, True, False),
          (SYSTEM_PROGRAM e, False, False),
          (PUMPFUN_EVENT_AUTHORITY e, False, False),
          (PUMPFUN_PROGRAM e, False, False),
          (route_SHAREHOLDERS e ! 0, True, False),
          (route_SHAREHOLDERS e ! 1, True, False),
          (route_SHAREHOLDERS e ! 2, True, False),
          (route_SHAREHOLDERS e ! 3, True, False),
          (route_SHAREHOLDERS e ! 4, True, False)])"

definition distribute_creator_fees_preserves_shareholder_order ::
  "ext \<Rightarrow> bool" where
  "distribute_creator_fees_preserves_shareholder_order e \<longleftrightarrow>
     (let reversed = rev (route_SHAREHOLDERS e) in
      unwrap_and (distribute_creator_fees_instruction e (route_MINT e) reversed) (\<lambda>ix.
        7 \<le> length (ix_accounts ix) \<and> map am_pubkey (drop 7 (ix_accounts ix)) = reversed))"

definition distribute_creator_fees_accepts_an_empty_shareholder_list ::
  "ext \<Rightarrow> bool" where
  "distribute_creator_fees_accepts_an_empty_shareholder_list e \<longleftrightarrow>
     has_accounts (distribute_creator_fees_instruction e (route_MINT e) []) 7"

definition distribute_creator_fees_v2_matches_a_live_payout ::
  "ext \<Rightarrow> bool" where
  "distribute_creator_fees_v2_matches_a_live_payout e \<longleftrightarrow>
     (let payer = x_pubkey e ''9rDMVCH7mQ9N2PkyHw8KT8wraMhF8tyMz9R631yyL1df'' in
     unwrap_and (distribute_creator_fees_v2_instruction e payer (route_MINT e) (WRAPPED_SOL_MINT e) (x_spl_token_ID e) True [payer]) (\<lambda>ix. ix_program_id ix = PUMPFUN_PROGRAM e \<and>
       ix_data ix = [255, 203, 19, 79, 244, 68, 8, 159, 1] \<and> metas ix =
         [(payer, True, True),
          (route_MINT e, False, False),
          (route_BONDING_CURVE e, False, False),
          (route_SHARING_CONFIG e, False, False),
          (route_PUMP_CREATOR_VAULT e, True, False),
          (SYSTEM_PROGRAM e, False, False),
          (PUMPFUN_EVENT_AUTHORITY e, False, False),
          (PUMPFUN_PROGRAM e, False, False),
          (route_PUMP_CREATOR_VAULT_WSOL_ATA e, True, False),
          (WRAPPED_SOL_MINT e, False, False),
          (x_spl_token_ID e, False, False),
          (ASSOCIATED_TOKEN_PROGRAM e, False, False),
          (payer, True, False)]))"

definition distribute_creator_fees_v2_encodes_initialize_ata ::
  "ext \<Rightarrow> (nat \<Rightarrow> pubkey) \<Rightarrow> bool" where
  "distribute_creator_fees_v2_encodes_initialize_ata e u \<longleftrightarrow>
     list_all (\<lambda>(i, flag, byte).
       unwrap_and (distribute_creator_fees_v2_instruction e (u i) (route_MINT e) (WRAPPED_SOL_MINT e)
           (x_spl_token_ID e) flag []) (\<lambda>ix.
         length (ix_data ix) = 9 \<and> byte_get (ix_data ix) 8 = Some byte))
       [(0, True, 1), (1, False, 0)]"

definition transfer_creator_fees_to_pump_targets_the_coins_own_vault ::
  "ext \<Rightarrow> bool" where
  "transfer_creator_fees_to_pump_targets_the_coins_own_vault e \<longleftrightarrow>
     unwrap_and (transfer_creator_fees_to_pump_instruction e (route_SHARING_CONFIG e)) (\<lambda>ix.
       ix_program_id ix = PUMP_SWAP_PROGRAM_ID e \<and>
       ix_data ix = [139, 52, 134, 85, 228, 229, 108, 241] \<and> length (ix_accounts ix) = 10 \<and>
       account_key ix 4 = Some (route_SHARING_CONFIG e) \<and>
       account_key ix 7 = Some (route_PUMP_CREATOR_VAULT e) \<and> am_is_writable (ix_accounts ix ! 7) \<and>
       unwrap_and (distribute_creator_fees_instruction e (route_MINT e) (route_SHAREHOLDERS e)) (\<lambda>payout.
         account_key payout 3 = account_key ix 7))"

definition transfer_creator_fees_to_pump_v2_adds_a_payer_and_the_vault_ata ::
  "ext \<Rightarrow> (nat \<Rightarrow> pubkey) \<Rightarrow> bool" where
  "transfer_creator_fees_to_pump_v2_adds_a_payer_and_the_vault_ata e u \<longleftrightarrow>
     unwrap_and (transfer_creator_fees_to_pump_v2_instruction e (u 0) (route_SHARING_CONFIG e) (WRAPPED_SOL_MINT e) (x_spl_token_ID e)) (\<lambda>ix. ix_program_id ix = PUMP_SWAP_PROGRAM_ID e \<and>
       ix_data ix = [1, 33, 78, 185, 33, 67, 44, 92] \<and> metas ix =
         [(u 0, True, True),
          (WRAPPED_SOL_MINT e, False, False),
          (x_spl_token_ID e, False, False),
          (SYSTEM_PROGRAM e, False, False),
          (ASSOCIATED_TOKEN_PROGRAM e, False, False),
          (route_SHARING_CONFIG e, False, False),
          (find_coin_creator_vault_authority e (route_SHARING_CONFIG e), True, False),
          (x_get_ata e (find_coin_creator_vault_authority e (route_SHARING_CONFIG e)) (WRAPPED_SOL_MINT e) (x_spl_token_ID e), True, False),
          (route_PUMP_CREATOR_VAULT e, True, False),
          (route_PUMP_CREATOR_VAULT_WSOL_ATA e, True, False),
          (EVENT_AUTHORITY e, False, False),
          (PUMP_SWAP_PROGRAM_ID e, False, False)])"

definition transfer_creator_fees_to_pump_matches_a_live_sweep ::
  "ext \<Rightarrow> bool" where
  "transfer_creator_fees_to_pump_matches_a_live_sweep e \<longleftrightarrow>
     unwrap_and (transfer_creator_fees_to_pump_instruction e (single_SHARING_CONFIG e)) (\<lambda>ix. ix_program_id ix = PUMP_SWAP_PROGRAM_ID e \<and>
       ix_data ix = [139, 52, 134, 85, 228, 229, 108, 241] \<and> metas ix =
         [(WRAPPED_SOL_MINT e, False, False),
          (x_spl_token_ID e, False, False),
          (SYSTEM_PROGRAM e, False, False),
          (ASSOCIATED_TOKEN_PROGRAM e, False, False),
          (single_SHARING_CONFIG e, False, False),
          (single_VAULT_AUTHORITY e, True, False),
          (single_VAULT_WSOL_ATA e, True, False),
          (single_PUMP_CREATOR_VAULT e, True, False),
          (EVENT_AUTHORITY e, False, False),
          (PUMP_SWAP_PROGRAM_ID e, False, False)])"

definition distribute_creator_fees_matches_a_single_shareholder_payout ::
  "ext \<Rightarrow> bool" where
  "distribute_creator_fees_matches_a_single_shareholder_payout e \<longleftrightarrow>
     unwrap_and (distribute_creator_fees_instruction e (single_MINT e) [single_SHAREHOLDER e]) (\<lambda>ix. ix_program_id ix = PUMPFUN_PROGRAM e \<and>
       ix_data ix = [165, 114, 103, 0, 121, 206, 247, 81] \<and> metas ix =
         [(single_MINT e, False, False),
          (single_BONDING_CURVE e, False, False),
          (single_SHARING_CONFIG e, False, False),
          (single_PUMP_CREATOR_VAULT e, True, False),
          (SYSTEM_PROGRAM e, False, False),
          (PUMPFUN_EVENT_AUTHORITY e, False, False),
          (PUMPFUN_PROGRAM e, False, False),
          (single_SHAREHOLDER e, True, False)] \<and>
       list_all (\<lambda>m. \<not> am_is_signer m) (ix_accounts ix))"

definition transfer_creator_fees_to_pump_v2_resolves_a_token_2022_quote ::
  "ext \<Rightarrow> (nat \<Rightarrow> pubkey) \<Rightarrow> bool" where
  "transfer_creator_fees_to_pump_v2_resolves_a_token_2022_quote e u \<longleftrightarrow>
     unwrap_and (transfer_creator_fees_to_pump_v2_instruction e (u 0) (t22_COIN_CREATOR e)
         (t22_QUOTE_MINT e) (x_spl_token_2022_ID e)) (\<lambda>ix. metas ix =
         [(u 0, True, True),
          (t22_QUOTE_MINT e, False, False),
          (x_spl_token_2022_ID e, False, False),
          (SYSTEM_PROGRAM e, False, False),
          (ASSOCIATED_TOKEN_PROGRAM e, False, False),
          (t22_COIN_CREATOR e, False, False),
          (t22_VAULT_AUTHORITY e, True, False),
          (t22_VAULT_ATA e, True, False),
          (t22_PUMP_CREATOR_VAULT e, True, False),
          (t22_PUMP_CREATOR_VAULT_ATA e, True, False),
          (EVENT_AUTHORITY e, False, False),
          (PUMP_SWAP_PROGRAM_ID e, False, False)]) \<and>
     unwrap_and (transfer_creator_fees_to_pump_instruction e (t22_COIN_CREATOR e)) (\<lambda>v1.
       let v1_keys = map am_pubkey (ix_accounts v1) in
       t22_QUOTE_MINT e \<notin> set v1_keys \<and> t22_PUMP_CREATOR_VAULT_ATA e \<notin> set v1_keys) \<and>
     t22_PUMP_CREATOR_VAULT e \<noteq> single_PUMP_CREATOR_VAULT e"

text \<open>\<open>pool_detection::pool\<close>; its five draws are \<open>u 0\<close> to \<open>u 4\<close>.\<close>

definition detection_pool :: "ext \<Rightarrow> (nat \<Rightarrow> pubkey) \<Rightarrow> pubkey \<Rightarrow> pubkey \<Rightarrow> PoolInfo" where
  "detection_pool e u base creator = \<lparr>
     pi_pool = u 0, pool_account_data_len = 300, base_mint = base, quote_mint = WRAPPED_SOL_MINT e,
     lp_mint = u 1, pool_base_token_account = u 2, pool_quote_token_account = u 3, pi_creator = u 4,
     coin_creator = creator, is_mayhem_mode = False, is_cashback_coin = False, virtual_quote_reserves = 0,
     pi_creator_fee_bps = 0, is_holder_reward = False, protocol_fees = 0, creator_fees = 0,
     base_token_program = x_spl_token_ID e, quote_token_program = x_spl_token_ID e\<rparr>"

definition a_live_migrated_pool_reports_its_sharing_config ::
  "ext \<Rightarrow> bool" where
  "a_live_migrated_pool_reports_its_sharing_config e \<longleftrightarrow>
     unwrap_and (decode_pool e (MIGRATED_POOL e) POOL_FEE_SHARING) (\<lambda>info.
       base_mint info = MIGRATED_BASE_MINT e \<and> quote_mint info = WRAPPED_SOL_MINT e \<and>
       token_side e info = Base \<and> coin_creator info = MIGRATED_SHARING_CONFIG e \<and>
       fee_sharing_config e info = Some (coin_creator info) \<and>
       fee_sharing_config e info = Some (sharing_config_pda e (base_mint info)))"

definition a_pool_whose_coin_creator_is_the_configs_pda_is_fee_sharing ::
  "ext \<Rightarrow> (nat \<Rightarrow> pubkey) \<Rightarrow> bool" where
  "a_pool_whose_coin_creator_is_the_configs_pda_is_fee_sharing e u \<longleftrightarrow>
     (let info = detection_pool e u (route_MINT e) (route_SHARING_CONFIG e)
      in token_side e info = Base \<and> fee_sharing_config e info = Some (route_SHARING_CONFIG e))"

definition an_ordinary_coin_creator_is_not_fee_sharing ::
  "ext \<Rightarrow> (nat \<Rightarrow> pubkey) \<Rightarrow> bool" where
  "an_ordinary_coin_creator_is_not_fee_sharing e u \<longleftrightarrow>
     fee_sharing_config e (detection_pool e (\<lambda>i. u (Suc i)) (route_MINT e) (u 0)) = None \<and>
     fee_sharing_config e (detection_pool e (\<lambda>i. u (i + 6)) (route_MINT e) pubkey_default) = None"

definition a_sol_base_pool_never_matches_a_coins_config ::
  "ext \<Rightarrow> (nat \<Rightarrow> pubkey) \<Rightarrow> bool" where
  "a_sol_base_pool_never_matches_a_coins_config e u \<longleftrightarrow>
     (let info = detection_pool e u (WRAPPED_SOL_MINT e) (route_SHARING_CONFIG e)\<lparr>quote_mint := route_MINT e\<rparr>
      in token_side e info = Quote \<and> fee_sharing_config e info = None)"

section \<open>coin_creator_ix.rs\<close>

definition migrate_pool_coin_creator_matches_the_idl ::
  "ext \<Rightarrow> bool" where
  "migrate_pool_coin_creator_matches_the_idl e \<longleftrightarrow>
     unwrap_and (migrate_pool_coin_creator_instruction e (MIGRATED_POOL e) (MIGRATED_BASE_MINT e)) (\<lambda>ix. ix_program_id ix = PUMP_SWAP_PROGRAM_ID e \<and>
       ix_data ix = [208, 8, 159, 4, 74, 175, 16, 58] \<and> metas ix =
         [(MIGRATED_POOL e, True, False),
          (MIGRATED_SHARING_CONFIG e, False, False),
          (EVENT_AUTHORITY e, False, False),
          (PUMP_SWAP_PROGRAM_ID e, False, False)])"

definition migrate_pool_coin_creator_writes_the_config_the_routing_reads_back ::
  "ext \<Rightarrow> bool" where
  "migrate_pool_coin_creator_writes_the_config_the_routing_reads_back e \<longleftrightarrow>
     unwrap_and (migrate_pool_coin_creator_instruction e (MIGRATED_POOL e) (MIGRATED_BASE_MINT e)) (\<lambda>ix.
       account_key ix 1 = Some (sharing_config_pda e (MIGRATED_BASE_MINT e)) \<and>
       unwrap_and (decode_pool e (MIGRATED_POOL e) POOL_FEE_SHARING) (\<lambda>info.
         base_mint info = MIGRATED_BASE_MINT e \<and> Some (coin_creator info) = account_key ix 1))"

definition set_coin_creator_matches_the_idl ::
  "ext \<Rightarrow> bool" where
  "set_coin_creator_matches_the_idl e \<longleftrightarrow>
     (let pool = key 7 in
     unwrap_and (set_coin_creator_instruction e pool (LEGACY_MINT e)) (\<lambda>ix. ix_program_id ix = PUMP_SWAP_PROGRAM_ID e \<and>
       ix_data ix = [210, 149, 128, 45, 188, 58, 78, 175] \<and> metas ix =
         [(pool, True, False),
          (LEGACY_METADATA e, False, False),
          (LEGACY_BONDING_CURVE e, False, False),
          (EVENT_AUTHORITY e, False, False),
          (PUMP_SWAP_PROGRAM_ID e, False, False)]))"

definition token_metadata_pda_matches_live_metaplex_accounts ::
  "ext \<Rightarrow> bool" where
  "token_metadata_pda_matches_live_metaplex_accounts e \<longleftrightarrow>
     token_metadata_pda e (x_pubkey e ''EPjFWdd5AufqSSqeM2qN1xzybapC8G4wEGGkZwyTDt1v'') =
       x_pubkey e ''5x38Kp4hvdomTCnCrAny4UtMUt5rQBdB6px2K1Ui45Wq'' \<and>
     token_metadata_pda e (LEGACY_MINT e) = LEGACY_METADATA e \<and>
     bonding_curve_pda e (LEGACY_MINT e) = LEGACY_BONDING_CURVE e"

section \<open>fee_sweeps.rs\<close>

definition recorded_sweep_pool :: "ext \<Rightarrow> PoolInfo res" where
  "recorded_sweep_pool e =
     pool_info_from_account_data (sweep_POOL e) POOL_SWEPT (sweep_TOKEN_2022 e) (sweep_TOKEN_2022 e)"

definition pool_creator_fee_sweep_matches_the_recorded_mainnet_transaction ::
  "ext \<Rightarrow> bool" where
  "pool_creator_fee_sweep_matches_the_recorded_mainnet_transaction e \<longleftrightarrow>
     unwrap_and (recorded_sweep_pool e) (\<lambda>pool.
     unwrap_and (sweep_pool_creator_fee_instruction e (sweep_PAYER e) pool) (\<lambda>ix. ix_program_id ix = PUMP_SWAP_PROGRAM_ID e \<and>
       ix_data ix = [32, 246, 191, 52, 8, 201, 73, 186] \<and> metas ix =
         [(sweep_PAYER e, True, True),
          (x_pubkey e ''ADyA8hdefvWN2dbGGWFotbzWxrAvLW83WG6QCVXvJKqw'', False, False),
          (sweep_POOL e, True, False),
          (x_pubkey e ''BN4Z5NtntHhu6p3atEqkeAVi8Bn9Ri2QTv8FD7iupump'', False, False),
          (sweep_TOKEN_2022 e, False, False),
          (x_pubkey e ''JDe8yMPR3VuLdPYtiE3D4S9pAdJBSPMz77Tcctb3EZro'', True, False),
          (x_pubkey e ''CbvjtLskdpRbGLaKsQmtF9UMwEdyWhaeLkB7PiBZWPqv'', False, False),
          (x_pubkey e ''7zBqtpLBQqzaZNypdTufQs2ztqAzTK1Xb3uus1aCARcL'', True, False),
          (x_pubkey e ''11111111111111111111111111111111'', False, False),
          (x_pubkey e ''ATokenGPvbdGVxr1b2hvZbsiqW5xWH25efTNsLJA8knL'', False, False),
          (x_pubkey e ''GS4CU59F31iL7aR2Q8zVS8DRrcRnXX1yjQ66TqNVQnaR'', False, False),
          (PUMP_SWAP_PROGRAM_ID e, False, False)]))"

definition a_coins_pool_is_derived_from_its_mint ::
  "ext \<Rightarrow> bool" where
  "a_coins_pool_is_derived_from_its_mint e \<longleftrightarrow>
     pump_pool_authority_pda e (MIGRATED_BASE_MINT e) = x_pubkey e ''4xRZEkKPs2RDmKx5FAQdrQUD66JdkcwLs3JNvvRA3qEc'' \<and>
     canonical_pool_pda e (MIGRATED_BASE_MINT e) (WRAPPED_SOL_MINT e) =
       x_pubkey e ''FAbQ88YXBRCw8A2t7Lomg9s1Ds2dX7hUvqwWtdfG4AWL''"

definition bonding_curve_creator_fee_sweep_matches_the_idl ::
  "ext \<Rightarrow> (nat \<Rightarrow> pubkey) \<Rightarrow> bool" where
  "bonding_curve_creator_fee_sweep_matches_the_idl e u \<longleftrightarrow>
     (let payer = u 0; mint = u 1; creator = u 2; curve = bonding_curve_pda e mint;
          vault = pump_creator_vault_pda e creator in
     unwrap_and (sweep_bonding_curve_creator_fee_instruction e payer mint creator (WRAPPED_SOL_MINT e) (x_spl_token_ID e)) (\<lambda>ix. ix_program_id ix = PUMPFUN_PROGRAM e \<and>
       ix_data ix = [32, 246, 191, 52, 8, 201, 73, 186] \<and> metas ix =
         [(payer, True, True),
          (x_pubkey e ''4wTV1YmiEkRvAtNtsSGPtUrqRYQMe5SKy2uB4Jjaxnjf'', False, False),
          (mint, False, False),
          (WRAPPED_SOL_MINT e, False, False),
          (x_spl_token_ID e, False, False),
          (x_pubkey e ''ATokenGPvbdGVxr1b2hvZbsiqW5xWH25efTNsLJA8knL'', False, False),
          (x_pubkey e ''11111111111111111111111111111111'', False, False),
          (curve, True, False),
          (find_coin_creator_vault_ata e curve (x_spl_token_ID e) (WRAPPED_SOL_MINT e), True, False),
          (vault, True, False),
          (find_coin_creator_vault_ata e vault (x_spl_token_ID e) (WRAPPED_SOL_MINT e), True, False),
          (x_pubkey e ''Ce6TQqeHC9p8KetsN6JsjHK7UTZk7nasjjnr7XxXp9F1'', False, False),
          (PUMPFUN_PROGRAM e, False, False)]))"

definition collecting_a_pools_creator_fee_sweeps_it_first ::
  "ext \<Rightarrow> (nat \<Rightarrow> pubkey) \<Rightarrow> bool" where
  "collecting_a_pools_creator_fee_sweeps_it_first e u \<longleftrightarrow>
     unwrap_and (recorded_sweep_pool e) (\<lambda>pool.
     unwrap_and (build_collect_pool_creator_fee_ixs e pool (u 0) False) (\<lambda>ixs.
       length ixs = 2 \<and> ix_data (ixs ! 0) = [32, 246, 191, 52, 8, 201, 73, 186] \<and>
       ix_data (ixs ! 1) = [160, 57, 89, 42, 181, 139, 43, 66] \<and>
       unwrap_and (sweep_pool_creator_fee_instruction e (u 0) pool) (\<lambda>sweep. ixs ! 0 = sweep)))"

text \<open>The message of \<open>FeeSharingPool\<close> is the one that names \<open>build_creator_fee_withdraw_ixs\<close>.\<close>

definition collecting_refuses_a_fee_sharing_pool ::
  "ext \<Rightarrow> (nat \<Rightarrow> pubkey) \<Rightarrow> bool" where
  "collecting_refuses_a_fee_sharing_pool e u \<longleftrightarrow>
     unwrap_and (decode_pool e (u 0) POOL_FEE_SHARING) (\<lambda>pool.
       case build_collect_pool_creator_fee_ixs e pool (u 1) False of
         Inl (FeeSharingPool _) \<Rightarrow> True | _ \<Rightarrow> False)"

definition reads_the_waiting_fee_at_its_idl_offset :: bool where
  "reads_the_waiting_fee_at_its_idl_offset \<longleftrightarrow>
     bonding_curve_creator_fee CURVE = Inr 0 \<and>
     bonding_curve_creator_fee (copy_at CURVE 125 (to_le_bytes (4730722 :: u64))) = Inr 4730722"

definition an_account_predating_the_field_has_nothing_waiting :: bool where
  "an_account_predating_the_field_has_nothing_waiting \<longleftrightarrow>
     bonding_curve_creator_fee (take 129 CURVE) = Inr 0"

definition rejects_another_account_type :: bool where
  "rejects_another_account_type \<longleftrightarrow>
     isl (bonding_curve_creator_fee (CURVE[0 := CURVE ! 0 XOR 1]))"

section \<open>They pass\<close>

lemmas route_consts = route_MINT_def route_BONDING_CURVE_def route_SHARING_CONFIG_def route_PUMP_CREATOR_VAULT_def
  route_PUMP_CREATOR_VAULT_WSOL_ATA_def single_MINT_def single_BONDING_CURVE_def
  single_SHARING_CONFIG_def single_PUMP_CREATOR_VAULT_def single_VAULT_AUTHORITY_def
  single_VAULT_WSOL_ATA_def single_SHAREHOLDER_def t22_COIN_CREATOR_def t22_QUOTE_MINT_def
  t22_VAULT_AUTHORITY_def t22_VAULT_ATA_def t22_PUMP_CREATOR_VAULT_def
  t22_PUMP_CREATOR_VAULT_ATA_def SYSTEM_PROGRAM_def ASSOCIATED_TOKEN_PROGRAM_def MIGRATED_POOL_def
  MIGRATED_BASE_MINT_def MIGRATED_SHARING_CONFIG_def LEGACY_MINT_def LEGACY_METADATA_def
  LEGACY_BONDING_CURVE_def sweep_PAYER_def sweep_POOL_def sweep_TOKEN_2022_def
  route_SHAREHOLDERS_def

lemmas pda_defs = sharing_config_pda_def bonding_curve_pda_def pump_creator_vault_pda_def
  find_coin_creator_vault_authority_def pump_pool_authority_pda_def canonical_pool_pda_def calc_pool_pda_def
  calc_pool_pda_with_index_def token_metadata_pda_def find_coin_creator_vault_ata_def
  PUMP_SWAP_PROGRAM_ID_def PUMPFUN_PROGRAM_def FEE_PROGRAM_def TOKEN_METADATA_PROGRAM_def WRAPPED_SOL_MINT_def

lemmas mainnet_derived = iffD1 [OF mainnet_def, unfolded mainnet_pdas_def mainnet_atas_def, simplified]

lemmas creator_fee_instructions = distribute_creator_fees_instruction_def
  distribute_creator_fees_v2_instruction_def transfer_creator_fees_to_pump_instruction_def
  transfer_creator_fees_to_pump_v2_instruction_def migrate_pool_coin_creator_instruction_def
  set_coin_creator_instruction_def sweep_pool_creator_fee_instruction_def
  sweep_bonding_curve_creator_fee_instruction_def metas_def account_key_def has_accounts_def byte_get_def

text \<open>
  The account lists match, address by address: both sides name the same texts once the recorded
  derivations replace the derivations of the crate.
\<close>

lemma route_tests_pass:
  assumes "mainnet e"
  shows "the_whole_route_derives_from_the_mint e"
    and "distribute_creator_fees_matches_a_live_payout e"
    and "distribute_creator_fees_preserves_shareholder_order e"
    and "distribute_creator_fees_accepts_an_empty_shareholder_list e"
    and "distribute_creator_fees_v2_matches_a_live_payout e"
    and "distribute_creator_fees_v2_encodes_initialize_ata e u"
    and "transfer_creator_fees_to_pump_targets_the_coins_own_vault e"
    and "transfer_creator_fees_to_pump_v2_adds_a_payer_and_the_vault_ata e u"
    and "transfer_creator_fees_to_pump_matches_a_live_sweep e"
    and "distribute_creator_fees_matches_a_single_shareholder_payout e"
proof -
  note derived = mainnet_derived [OF assms]
  show "the_whole_route_derives_from_the_mint e"
    "distribute_creator_fees_matches_a_live_payout e"
    "distribute_creator_fees_preserves_shareholder_order e"
    "distribute_creator_fees_accepts_an_empty_shareholder_list e"
    "distribute_creator_fees_v2_matches_a_live_payout e"
    "distribute_creator_fees_v2_encodes_initialize_ata e u"
    "transfer_creator_fees_to_pump_targets_the_coins_own_vault e"
    "transfer_creator_fees_to_pump_v2_adds_a_payer_and_the_vault_ata e u"
    "transfer_creator_fees_to_pump_matches_a_live_sweep e"
    "distribute_creator_fees_matches_a_single_shareholder_payout e"
    by (simp_all add: derived route_consts pda_defs creator_fee_instructions Let_def
        bool_as_u8_def the_whole_route_derives_from_the_mint_def distribute_creator_fees_matches_a_live_payout_def
        distribute_creator_fees_preserves_shareholder_order_def
        distribute_creator_fees_accepts_an_empty_shareholder_list_def
        distribute_creator_fees_v2_matches_a_live_payout_def
        distribute_creator_fees_v2_encodes_initialize_ata_def
        transfer_creator_fees_to_pump_targets_the_coins_own_vault_def
        transfer_creator_fees_to_pump_v2_adds_a_payer_and_the_vault_ata_def
        transfer_creator_fees_to_pump_matches_a_live_sweep_def
        distribute_creator_fees_matches_a_single_shareholder_payout_def)
qed

lemma coin_creator_tests_pass:
  assumes "mainnet e"
  shows "migrate_pool_coin_creator_matches_the_idl e"
    and "set_coin_creator_matches_the_idl e"
    and "token_metadata_pda_matches_live_metaplex_accounts e"
    and "a_coins_pool_is_derived_from_its_mint e"
    and "bonding_curve_creator_fee_sweep_matches_the_idl e u"
proof -
  note derived = mainnet_derived [OF assms]
  show "migrate_pool_coin_creator_matches_the_idl e"
    "set_coin_creator_matches_the_idl e"
    "token_metadata_pda_matches_live_metaplex_accounts e"
    "a_coins_pool_is_derived_from_its_mint e"
    "bonding_curve_creator_fee_sweep_matches_the_idl e u"
    by (simp_all add: derived route_consts pda_defs creator_fee_instructions Let_def
        PUMPFUN_GLOBAL_def PUMPFUN_EVENT_AUTHORITY_def
        migrate_pool_coin_creator_matches_the_idl_def set_coin_creator_matches_the_idl_def
        token_metadata_pda_matches_live_metaplex_accounts_def a_coins_pool_is_derived_from_its_mint_def
        bonding_curve_creator_fee_sweep_matches_the_idl_def)
qed

text \<open>The texts of different keys; the keys in the fixtures.\<close>

lemma more_keys:
  "base58_decode ''GS4CU59F31iL7aR2Q8zVS8DRrcRnXX1yjQ66TqNVQnaR'' = Some
    [229, 74, 112, 149, 40, 131, 159, 97, 192, 185, 184, 96, 121, 137, 28, 19, 146, 22, 228, 122,
     113, 182, 47, 183, 59, 236, 114, 22, 148, 88, 116, 94]"
  "base58_decode ''JDe8yMPR3VuLdPYtiE3D4S9pAdJBSPMz77Tcctb3EZro'' = Some
    [255, 211, 163, 142, 164, 68, 249, 226, 85, 34, 93, 193, 121, 227, 39, 61, 14, 232, 127, 3, 150,
     171, 57, 11, 24, 252, 46, 137, 7, 164, 10, 112]"
  by (rule base58_decodeI, simp add: base58_digits)+


lemma curve_tests_pass:
  "reads_the_waiting_fee_at_its_idl_offset" "an_account_predating_the_field_has_nothing_waiting"
  "rejects_another_account_type"
proof -
  have fee: "slice_get (copy_at CURVE 125 (to_le_bytes (4730722 :: u64))) 125 133 = Some (to_le_bytes (4730722 :: u64))"
    using slice_copy_at [of 125 "to_le_bytes (4730722 :: u64)" CURVE] by (simp add: CURVE_def)
  have "slice_get (copy_at CURVE 125 bs) 0 8 = Some BONDING_CURVE_DISCRIMINATOR" for bs
    by (simp add: slice_get_def copy_at_def CURVE_def BONDING_CURVE_DISCRIMINATOR_def)
  moreover have "bonding_curve_creator_fee CURVE = Inr 0"
    by (simp add: bonding_curve_creator_fee_def slice_get_def CURVE_def BONDING_CURVE_DISCRIMINATOR_def
        BONDING_CURVE_CREATOR_FEE_OFFSET_def from_le_bytes_def)
  ultimately show "reads_the_waiting_fee_at_its_idl_offset"
    by (simp add: reads_the_waiting_fee_at_its_idl_offset_def bonding_curve_creator_fee_def fee
        BONDING_CURVE_CREATOR_FEE_OFFSET_def)
qed (simp_all add: an_account_predating_the_field_has_nothing_waiting_def rejects_another_account_type_def
    bonding_curve_creator_fee_def slice_get_def CURVE_def BONDING_CURVE_DISCRIMINATOR_def
    BONDING_CURVE_CREATOR_FEE_OFFSET_def)

lemma pool_keys:
  assumes "mainnet e"
  shows "Pubkey (take 32 (drop 43 POOL_FEE_SHARING)) = MIGRATED_BASE_MINT e"
    and "Pubkey (take 32 (drop 75 POOL_FEE_SHARING)) = WRAPPED_SOL_MINT e"
    and "Pubkey (take 32 (drop 211 POOL_FEE_SHARING)) = MIGRATED_SHARING_CONFIG e"
    and "Pubkey (take 32 (drop 43 POOL_SWEPT)) = x_pubkey e ''GaCewzuGZ4U3shAmiLnqXMAN8WX4X7QRdJb3vy8ppump''"
    and "Pubkey (take 32 (drop 75 POOL_SWEPT)) = x_pubkey e ''BN4Z5NtntHhu6p3atEqkeAVi8Bn9Ri2QTv8FD7iupump''"
    and "Pubkey (take 32 (drop 171 POOL_SWEPT)) = x_pubkey e ''JDe8yMPR3VuLdPYtiE3D4S9pAdJBSPMz77Tcctb3EZro''"
    and "Pubkey (take 32 (drop 211 POOL_SWEPT)) = x_pubkey e ''EPnuYuF9m6Z2mvxnp4rMDNbN1VbwVe6e3YdZKdPo8UZw''"
  by (simp_all add: key_bytes [OF assms] table_keys more_keys POOL_FEE_SHARING_def POOL_SWEPT_def
      MIGRATED_BASE_MINT_def WRAPPED_SOL_MINT_def MIGRATED_SHARING_CONFIG_def)

lemma keys_differ:
  assumes "mainnet e"
  shows "route_PUMP_CREATOR_VAULT e \<noteq> x_pubkey e ''ExDDic9zyNLvrRWL2qn2FepmmPApLFgFZgYaYocZ9Ksk''"
    and "t22_PUMP_CREATOR_VAULT e \<noteq> single_PUMP_CREATOR_VAULT e"
    and "MIGRATED_BASE_MINT e \<noteq> WRAPPED_SOL_MINT e" and "route_MINT e \<noteq> WRAPPED_SOL_MINT e"
    and "route_SHARING_CONFIG e \<noteq> x_pubkey e ''JByeZXCdfwWAbviYMpqZ1scSuopRtz5DwzcLtQ3bd3uH''"
    and "pubkey_default \<noteq> route_SHARING_CONFIG e"
    and "x_pubkey e ''EPnuYuF9m6Z2mvxnp4rMDNbN1VbwVe6e3YdZKdPo8UZw'' \<noteq>
      x_pubkey e ''AnF2iyZS2FmwzdHs4JGnEmsg6FRh7gtk39rtSKMgxHav''"
    and "t22_QUOTE_MINT e \<notin> set [x_pubkey e ''2KtjWMuu5QKFTiqspXdE7g3JXucLXfTtg6a9WK2KSCdC'', t22_COIN_CREATOR e,
      t22_VAULT_AUTHORITY e, t22_PUMP_CREATOR_VAULT e, WRAPPED_SOL_MINT e, SYSTEM_PROGRAM e,
      ASSOCIATED_TOKEN_PROGRAM e, x_spl_token_ID e, EVENT_AUTHORITY e, PUMP_SWAP_PROGRAM_ID e]"
    and "t22_PUMP_CREATOR_VAULT_ATA e \<notin> set [x_pubkey e ''2KtjWMuu5QKFTiqspXdE7g3JXucLXfTtg6a9WK2KSCdC'',
      t22_COIN_CREATOR e, t22_VAULT_AUTHORITY e, t22_PUMP_CREATOR_VAULT e, WRAPPED_SOL_MINT e, SYSTEM_PROGRAM e,
      ASSOCIATED_TOKEN_PROGRAM e, x_spl_token_ID e, EVENT_AUTHORITY e, PUMP_SWAP_PROGRAM_ID e]"
proof -
  have "x_spl_token_ID e = x_pubkey e ''TokenkegQfeZyiNwAJbNbGKPFXCWuBvf9Ss623VQ5DA''"
    using assms by (simp add: mainnet_def)
  note keys = this key_bytes [OF assms] table_keys more_keys route_consts pubkey_default_def zero_key
    WRAPPED_SOL_MINT_def EVENT_AUTHORITY_def PUMP_SWAP_PROGRAM_ID_def
  show "route_PUMP_CREATOR_VAULT e \<noteq> x_pubkey e ''ExDDic9zyNLvrRWL2qn2FepmmPApLFgFZgYaYocZ9Ksk''"
    by (simp add: keys)
  show "t22_PUMP_CREATOR_VAULT e \<noteq> single_PUMP_CREATOR_VAULT e"
    by (simp add: keys)
  show "MIGRATED_BASE_MINT e \<noteq> WRAPPED_SOL_MINT e"
    by (simp add: keys)
  show "route_MINT e \<noteq> WRAPPED_SOL_MINT e"
    by (simp add: keys)
  show "route_SHARING_CONFIG e \<noteq> x_pubkey e ''JByeZXCdfwWAbviYMpqZ1scSuopRtz5DwzcLtQ3bd3uH''"
    by (simp add: keys)
  show "pubkey_default \<noteq> route_SHARING_CONFIG e"
    by (simp add: keys)
  show "x_pubkey e ''EPnuYuF9m6Z2mvxnp4rMDNbN1VbwVe6e3YdZKdPo8UZw'' \<noteq>
      x_pubkey e ''AnF2iyZS2FmwzdHs4JGnEmsg6FRh7gtk39rtSKMgxHav''"
    by (simp add: keys)
  show "t22_QUOTE_MINT e \<notin> set [x_pubkey e ''2KtjWMuu5QKFTiqspXdE7g3JXucLXfTtg6a9WK2KSCdC'', t22_COIN_CREATOR e,
      t22_VAULT_AUTHORITY e, t22_PUMP_CREATOR_VAULT e, WRAPPED_SOL_MINT e, SYSTEM_PROGRAM e,
      ASSOCIATED_TOKEN_PROGRAM e, x_spl_token_ID e, EVENT_AUTHORITY e, PUMP_SWAP_PROGRAM_ID e]"
    by (simp add: keys)
  show "t22_PUMP_CREATOR_VAULT_ATA e \<notin> set [x_pubkey e ''2KtjWMuu5QKFTiqspXdE7g3JXucLXfTtg6a9WK2KSCdC'',
      t22_COIN_CREATOR e, t22_VAULT_AUTHORITY e, t22_PUMP_CREATOR_VAULT e, WRAPPED_SOL_MINT e, SYSTEM_PROGRAM e,
      ASSOCIATED_TOKEN_PROGRAM e, x_spl_token_ID e, EVENT_AUTHORITY e, PUMP_SWAP_PROGRAM_ID e]"
    by (simp add: keys)
qed

lemma detection_tests_pass:
  assumes "mainnet e" and "\<forall>i. u i \<noteq> route_SHARING_CONFIG e"
  shows "the_two_creator_vault_seeds_are_not_interchangeable e"
    and "a_pool_whose_coin_creator_is_the_configs_pda_is_fee_sharing e u"
    and "an_ordinary_coin_creator_is_not_fee_sharing e u"
    and "a_sol_base_pool_never_matches_a_coins_config e u"
proof -
  note differ = keys_differ [OF assms(1)]
  have derived: "sharing_config_pda e (route_MINT e) = route_SHARING_CONFIG e"
    "pump_creator_vault_pda e (route_SHARING_CONFIG e) = route_PUMP_CREATOR_VAULT e"
    "find_coin_creator_vault_authority e (route_SHARING_CONFIG e) =
      x_pubkey e ''ExDDic9zyNLvrRWL2qn2FepmmPApLFgFZgYaYocZ9Ksk''"
    "sharing_config_pda e (WRAPPED_SOL_MINT e) = x_pubkey e ''JByeZXCdfwWAbviYMpqZ1scSuopRtz5DwzcLtQ3bd3uH''"
    by (simp_all add: mainnet_derived [OF assms(1)] pda_defs route_consts)
  show "the_two_creator_vault_seeds_are_not_interchangeable e"
    using differ(1) by (simp add: the_two_creator_vault_seeds_are_not_interchangeable_def derived)
  show "a_pool_whose_coin_creator_is_the_configs_pda_is_fee_sharing e u"
    using differ(4) by (simp add: a_pool_whose_coin_creator_is_the_configs_pda_is_fee_sharing_def Let_def
        detection_pool_def token_side_def sol_is_base_def fee_sharing_config_def derived)
  show "an_ordinary_coin_creator_is_not_fee_sharing e u"
    using differ(6) assms(2) by (simp add: an_ordinary_coin_creator_is_not_fee_sharing_def
        detection_pool_def fee_sharing_config_def derived)
  show "a_sol_base_pool_never_matches_a_coins_config e u"
    using differ(5) by (simp add: a_sol_base_pool_never_matches_a_coins_config_def Let_def
        detection_pool_def token_side_def sol_is_base_def fee_sharing_config_def derived)
qed

lemma token_2022_quote_test_passes:
  assumes "mainnet e"
  shows "transfer_creator_fees_to_pump_v2_resolves_a_token_2022_quote e u"
proof -
  have ids: "x_spl_token_2022_ID e = x_pubkey e ''TokenzQdBNbLqP5VEhdkAS6EPFLC1PHnBqCXEpPxuEb''"
    "x_system_program_ID e = SYSTEM_PROGRAM e" "x_ata_program_ID e = ASSOCIATED_TOKEN_PROGRAM e"
    using assms by (simp_all add: mainnet_def SYSTEM_PROGRAM_def ASSOCIATED_TOKEN_PROGRAM_def)
  have derived: "find_coin_creator_vault_authority e (t22_COIN_CREATOR e) = t22_VAULT_AUTHORITY e"
    "pump_creator_vault_pda e (t22_COIN_CREATOR e) = t22_PUMP_CREATOR_VAULT e"
    "find_coin_creator_vault_ata e (t22_VAULT_AUTHORITY e) (x_spl_token_2022_ID e) (t22_QUOTE_MINT e) = t22_VAULT_ATA e"
    "find_coin_creator_vault_ata e (t22_PUMP_CREATOR_VAULT e) (x_spl_token_2022_ID e) (t22_QUOTE_MINT e) =
      t22_PUMP_CREATOR_VAULT_ATA e"
    "find_coin_creator_vault_ata e (t22_VAULT_AUTHORITY e) (x_spl_token_ID e) (WRAPPED_SOL_MINT e) =
      x_pubkey e ''2KtjWMuu5QKFTiqspXdE7g3JXucLXfTtg6a9WK2KSCdC''"
    by (simp_all add: mainnet_derived [OF assms] pda_defs route_consts)
  show ?thesis
    using keys_differ(2,8,9) [OF assms]
    by (simp add: transfer_creator_fees_to_pump_v2_resolves_a_token_2022_quote_def derived
        transfer_creator_fees_to_pump_v2_instruction_def transfer_creator_fees_to_pump_instruction_def
        ids(2,3) metas_def Let_def)
qed

text \<open>What the two pools decode to.\<close>

lemma pool_lengths: "length POOL_FEE_SHARING = 301" "length POOL_SWEPT = 301"
  by (simp_all add: POOL_FEE_SHARING_def POOL_SWEPT_def)

lemma sharing_pool:
  assumes "mainnet e"
  shows "\<exists>info. decode_pool e k POOL_FEE_SHARING = Inr info \<and> base_mint info = MIGRATED_BASE_MINT e \<and>
    quote_mint info = WRAPPED_SOL_MINT e \<and> coin_creator info = MIGRATED_SHARING_CONFIG e"
  by (simp add: decode_pool_def pool_info_eq pool_lengths pool_info_of_def pool_from_bytes_def field_def drop_take
      pool_keys [OF assms])

lemma swept_pool:
  assumes "mainnet e"
  shows "\<exists>swept. recorded_sweep_pool e = Inr swept \<and> pi_pool swept = sweep_POOL e \<and>
    quote_token_program swept = sweep_TOKEN_2022 e \<and>
    base_mint swept = x_pubkey e ''GaCewzuGZ4U3shAmiLnqXMAN8WX4X7QRdJb3vy8ppump'' \<and>
    quote_mint swept = x_pubkey e ''BN4Z5NtntHhu6p3atEqkeAVi8Bn9Ri2QTv8FD7iupump'' \<and>
    pool_quote_token_account swept = x_pubkey e ''JDe8yMPR3VuLdPYtiE3D4S9pAdJBSPMz77Tcctb3EZro'' \<and>
    coin_creator swept = x_pubkey e ''EPnuYuF9m6Z2mvxnp4rMDNbN1VbwVe6e3YdZKdPo8UZw''"
  by (simp add: recorded_sweep_pool_def pool_info_eq pool_lengths pool_info_of_def pool_from_bytes_def field_def
      drop_take pool_keys [OF assms])

lemma sharing_pool_tests_pass:
  assumes "mainnet e"
  shows "a_live_migrated_pool_reports_its_sharing_config e"
    and "migrate_pool_coin_creator_writes_the_config_the_routing_reads_back e"
    and "collecting_refuses_a_fee_sharing_pool e u"
proof -
  have pda: "sharing_config_pda e (MIGRATED_BASE_MINT e) = MIGRATED_SHARING_CONFIG e"
    by (simp add: mainnet_derived [OF assms] pda_defs route_consts)
  show "a_live_migrated_pool_reports_its_sharing_config e"
    using keys_differ(3) [OF assms] sharing_pool [OF assms, of "MIGRATED_POOL e"]
    by (auto simp: a_live_migrated_pool_reports_its_sharing_config_def fee_sharing_config_def pda
        token_side_def sol_is_base_def)
  show "migrate_pool_coin_creator_writes_the_config_the_routing_reads_back e"
    using sharing_pool [OF assms, of "MIGRATED_POOL e"]
    by (auto simp: migrate_pool_coin_creator_writes_the_config_the_routing_reads_back_def pda
        migrate_pool_coin_creator_instruction_def account_key_def byte_get_def)
  show "collecting_refuses_a_fee_sharing_pool e u"
    using sharing_pool [OF assms, of "u 0"]
    by (auto simp: collecting_refuses_a_fee_sharing_pool_def build_collect_pool_creator_fee_ixs_def
        fee_sharing_config_def pda)
qed

lemma sweep_tests_pass:
  assumes "mainnet e"
  shows "pool_creator_fee_sweep_matches_the_recorded_mainnet_transaction e"
    and "collecting_a_pools_creator_fee_sweeps_it_first e u"
proof -
  obtain swept where swept: "recorded_sweep_pool e = Inr swept"
      "pi_pool swept = sweep_POOL e" "quote_token_program swept = sweep_TOKEN_2022 e"
      "base_mint swept = x_pubkey e ''GaCewzuGZ4U3shAmiLnqXMAN8WX4X7QRdJb3vy8ppump''"
      "quote_mint swept = x_pubkey e ''BN4Z5NtntHhu6p3atEqkeAVi8Bn9Ri2QTv8FD7iupump''"
      "pool_quote_token_account swept = x_pubkey e ''JDe8yMPR3VuLdPYtiE3D4S9pAdJBSPMz77Tcctb3EZro''"
      "coin_creator swept = x_pubkey e ''EPnuYuF9m6Z2mvxnp4rMDNbN1VbwVe6e3YdZKdPo8UZw''"
    using swept_pool [OF assms] by blast
  have derived: "find_coin_creator_vault_authority e (x_pubkey e ''EPnuYuF9m6Z2mvxnp4rMDNbN1VbwVe6e3YdZKdPo8UZw'') =
      x_pubkey e ''CbvjtLskdpRbGLaKsQmtF9UMwEdyWhaeLkB7PiBZWPqv''"
    "find_coin_creator_vault_ata e (x_pubkey e ''CbvjtLskdpRbGLaKsQmtF9UMwEdyWhaeLkB7PiBZWPqv'')
      (sweep_TOKEN_2022 e) (x_pubkey e ''BN4Z5NtntHhu6p3atEqkeAVi8Bn9Ri2QTv8FD7iupump'') =
      x_pubkey e ''7zBqtpLBQqzaZNypdTufQs2ztqAzTK1Xb3uus1aCARcL''"
    "sharing_config_pda e (x_pubkey e ''GaCewzuGZ4U3shAmiLnqXMAN8WX4X7QRdJb3vy8ppump'') =
      x_pubkey e ''AnF2iyZS2FmwzdHs4JGnEmsg6FRh7gtk39rtSKMgxHav''"
    "x_system_program_ID e = x_pubkey e ''11111111111111111111111111111111''"
    "x_ata_program_ID e = x_pubkey e ''ATokenGPvbdGVxr1b2hvZbsiqW5xWH25efTNsLJA8knL''"
    by (simp_all add: mainnet_derived [OF assms] pda_defs route_consts)
  show "pool_creator_fee_sweep_matches_the_recorded_mainnet_transaction e"
    by (simp add: pool_creator_fee_sweep_matches_the_recorded_mainnet_transaction_def swept
        sweep_pool_creator_fee_instruction_def derived metas_def GLOBAL_CONFIG_def EVENT_AUTHORITY_def)
  show "collecting_a_pools_creator_fee_sweeps_it_first e u"
    using keys_differ(7) [OF assms]
    by (simp add: collecting_a_pools_creator_fee_sweeps_it_first_def build_collect_pool_creator_fee_ixs_def swept
        fee_sharing_config_def derived sweep_pool_creator_fee_instruction_def build_collect_coin_creator_fee_ixs_def
        make_collect_coin_creator_fee_instruction_def Let_def)
qed

text \<open>
  C30: where the outside world derives the recorded addresses, every offline test of the three files
  holds, for all keys it draws but the one address it must not draw: the payout, the transfers, the
  migration, the backfill and the sweeps have account for account, with their flags and data, the
  lists of the recorded transactions; a pool is found to share its fees exactly when its coin
  creator is the config of its base mint, and then a plain collection is refused; the fee of a
  bonding curve is read where the interface description puts it.
\<close>

theorem recorded_routes_rebuilt:
  assumes "mainnet e" and "\<forall>i. u i \<noteq> route_SHARING_CONFIG e"
  shows "the_whole_route_derives_from_the_mint e \<and>
    the_two_creator_vault_seeds_are_not_interchangeable e \<and>
    distribute_creator_fees_matches_a_live_payout e \<and>
    distribute_creator_fees_preserves_shareholder_order e \<and>
    distribute_creator_fees_accepts_an_empty_shareholder_list e \<and>
    distribute_creator_fees_v2_matches_a_live_payout e \<and>
    distribute_creator_fees_v2_encodes_initialize_ata e u \<and>
    transfer_creator_fees_to_pump_targets_the_coins_own_vault e \<and>
    transfer_creator_fees_to_pump_v2_adds_a_payer_and_the_vault_ata e u \<and>
    transfer_creator_fees_to_pump_matches_a_live_sweep e \<and>
    distribute_creator_fees_matches_a_single_shareholder_payout e \<and>
    transfer_creator_fees_to_pump_v2_resolves_a_token_2022_quote e u \<and>
    a_live_migrated_pool_reports_its_sharing_config e \<and>
    a_pool_whose_coin_creator_is_the_configs_pda_is_fee_sharing e u \<and>
    an_ordinary_coin_creator_is_not_fee_sharing e u \<and>
    a_sol_base_pool_never_matches_a_coins_config e u \<and>
    migrate_pool_coin_creator_matches_the_idl e \<and>
    migrate_pool_coin_creator_writes_the_config_the_routing_reads_back e \<and>
    set_coin_creator_matches_the_idl e \<and>
    token_metadata_pda_matches_live_metaplex_accounts e \<and>
    pool_creator_fee_sweep_matches_the_recorded_mainnet_transaction e \<and>
    a_coins_pool_is_derived_from_its_mint e \<and>
    bonding_curve_creator_fee_sweep_matches_the_idl e u \<and>
    collecting_a_pools_creator_fee_sweeps_it_first e u \<and>
    collecting_refuses_a_fee_sharing_pool e u \<and>
    reads_the_waiting_fee_at_its_idl_offset \<and>
    an_account_predating_the_field_has_nothing_waiting \<and>
    rejects_another_account_type"
  by (intro conjI route_tests_pass coin_creator_tests_pass detection_tests_pass [OF assms]
      sharing_pool_tests_pass sweep_tests_pass curve_tests_pass token_2022_quote_test_passes assms(1))

theorem recorded_routes_rebuilt_witness:
  "the_whole_route_derives_from_the_mint ext_mainnet \<and>
    distribute_creator_fees_matches_a_live_payout ext_mainnet \<and>
    collecting_refuses_a_fee_sharing_pool ext_mainnet (\<lambda>i. pubkey_default)"
  using recorded_routes_rebuilt [OF mainnet_example, of "\<lambda>i. pubkey_default"] keys_differ(6) [OF mainnet_example]
  by blast

end
