(* ===== verification/Trades.thy ===== *)
theory Trades
  imports Pricing
begin

text \<open>
  What the three quotes promise when they are used again and again. A market is a pool, by its
  effective reserves, and what its traders have gained from it together. A step is one swap at
  the price of the quote of that moment: any amount, any fee schedule, any slippage, in any
  order, with any part of the fee left in the pool. The invariant of the steps bounds what a
  sequence of swaps can take out.
\<close>

section \<open>Swaps at quoted prices\<close>

record market =
  mk_base :: u64
  mk_quote :: u64
  tr_base :: int
  tr_quote :: int

inductive trade :: "market \<Rightarrow> market \<Rightarrow> bool" where
  sell: "Q = quote_sell a (mk_base m) (mk_quote m) f s \<Longrightarrow>
    unat b' = unat (mk_base m) + unat a \<Longrightarrow>
    unat (mk_quote m) - unat (gross_amount_out Q) \<le> unat q' \<Longrightarrow>
    unat q' \<le> unat (mk_quote m) - unat (amount_out Q) \<Longrightarrow>
    trade m \<lparr>mk_base = b', mk_quote = q', tr_base = tr_base m - int (unat a),
      tr_quote = tr_quote m + int (unat (amount_out Q))\<rparr>"
| buy: "Q = quote_buy_exact_quote_in a (mk_base m) (mk_quote m) f s \<Longrightarrow>
    b' = mk_base m - amount_out Q \<Longrightarrow>
    unat (mk_quote m) + (unat a - unat (sq_fee Q) - 1) \<le> unat q' \<Longrightarrow>
    unat q' \<le> unat (mk_quote m) + unat a \<Longrightarrow>
    trade m \<lparr>mk_base = b', mk_quote = q', tr_base = tr_base m + int (unat (amount_out Q)),
      tr_quote = tr_quote m - int (unat a)\<rparr>"
| buy_exact: "quote_buy_exact_base_out y (mk_base m) (mk_quote m) f s = Some R \<Longrightarrow>
    quote_amount_in R \<noteq> u64_MAX \<Longrightarrow>
    b' = mk_base m - y \<Longrightarrow>
    unat (mk_quote m) + unat (quote_amount_in R) \<le> unat q' \<Longrightarrow>
    unat q' \<le> unat (mk_quote m) + unat (total_quote_in R) \<Longrightarrow>
    trade m \<lparr>mk_base = b', mk_quote = q', tr_base = tr_base m + int (unat y),
      tr_quote = tr_quote m - int (unat (total_quote_in R))\<rparr>"

inductive_cases tradeE: "trade m m'"

section \<open>The invariant\<close>

text \<open>
  Against the market \<open>m\<close>: the product of the reserves has not fallen, the base is where it was or
  with the traders, and the traders hold no quote that did not come out of the pool.
\<close>

definition backed :: "market \<Rightarrow> market \<Rightarrow> bool" where
  "backed m m' \<longleftrightarrow>
     unat (mk_base m) * unat (mk_quote m) \<le> unat (mk_base m') * unat (mk_quote m') \<and>
     tr_base m' + int (unat (mk_base m')) = tr_base m + int (unat (mk_base m)) \<and>
     tr_quote m' + int (unat (mk_quote m')) \<le> tr_quote m + int (unat (mk_quote m))"

lemma backed_refl: "backed m m"
  by (simp add: backed_def)

lemma backed_trans: "backed m m' \<Longrightarrow> backed m' m'' \<Longrightarrow> backed m m''"
  by (auto simp: backed_def)

text \<open>One lemma per swap, on natural numbers.\<close>

lemma sell_keeps_product:
  assumes "rout - cp_out rin rout x \<le> rout'"
  shows "rin * rout \<le> (rin + x) * rout'"
  using cp_invariant [of rin rout x] mult_le_mono2 [OF assms] by (rule order_trans)

lemma exact_out_keeps_product:
  assumes "cp_needed rin rout y \<le> x" and "y < rout"
  shows "rin * rout \<le> (rin + x) * (rout - y)"
proof (cases "rin = 0")
  case False
  then have "y \<le> cp_out rin rout x" using cp_needed_le_iff [OF _ assms(2)] assms(1) by simp
  then have "(rin + x) * (rout - cp_out rin rout x) \<le> (rin + x) * (rout - y)"
    by (intro mult_le_mono2 diff_le_mono2)
  with cp_invariant [of rin rout x] show ?thesis by (rule order_trans)
qed simp

lemma trade_backed: "trade m m' \<Longrightarrow> backed m m'"
proof (induction rule: trade.induct)
  case (sell Q a m f s b' q')
  have g: "unat (gross_amount_out Q) = cp_out (unat (mk_base m)) (unat (mk_quote m)) (unat a)"
    by (simp add: sell(1) unat_constant_product_out)
  have "amount_out Q \<le> gross_amount_out Q" by (simp add: sell(1) word_le_nat_alt unat_saturating_sub)
  then have "unat (amount_out Q) \<le> unat (mk_quote m)"
    using cp_out_le [of "unat (mk_base m)" "unat (mk_quote m)" "unat a"] by (simp add: word_le_nat_alt g)
  then show ?case
    using sell_keeps_product [OF sell(3) [unfolded g]] sell(2,4) by (simp add: backed_def)
next
  case (buy Q a m f s b' q')
  have y: "unat (amount_out Q) =
      cp_out (unat (mk_quote m)) (unat (mk_base m)) (unat a - unat (sq_fee Q) - 1)"
    by (simp add: buy(1) unat_buy_out unat_buy_fee curve_input_def)
  have le: "amount_out Q \<le> mk_base m" using cp_out_le unfolding word_le_nat_alt y .
  then have b': "unat b' = unat (mk_base m) - unat (amount_out Q)" by (simp add: buy(2) unat_sub)
  have "unat (mk_quote m) * unat (mk_base m) \<le>
      (unat (mk_quote m) + (unat a - unat (sq_fee Q) - 1)) * unat b'"
    unfolding b' y by (rule cp_invariant)
  also have "\<dots> \<le> unat q' * unat b'" using buy(3) by simp
  finally show ?case using buy(4) le by (simp add: backed_def b' mult.commute word_le_nat_alt)
next
  case (buy_exact y m f s R b' q')
  obtain x where x: "constant_product_in y (mk_quote m) (mk_base m) = Some x" "quote_amount_in R = x"
    using buy_exact(1) by (rule quote_buy_exact_base_out_SomeE)
  have lt: "unat y < unat (mk_base m)" by (rule unat_constant_product_in(2) [OF x(1)])
  have "cp_needed (unat (mk_quote m)) (unat (mk_base m)) (unat y) \<le> unat x"
    using unat_constant_product_in(1) [OF x(1)] buy_exact(2) x(2)
    by (auto simp: min_def word_unat_eq_iff unat_u64_MAX split: if_splits)
  then have "unat (mk_quote m) * unat (mk_base m) \<le>
      (unat (mk_quote m) + unat x) * (unat (mk_base m) - unat y)"
    using lt by (rule exact_out_keeps_product)
  also have "\<dots> \<le> unat q' * (unat (mk_base m) - unat y)" using buy_exact(4) x(2) by simp
  finally have "unat (mk_quote m) * unat (mk_base m) \<le> unat q' * (unat (mk_base m) - unat y)" .
  moreover have "unat b' = unat (mk_base m) - unat y"
    using lt by (simp add: buy_exact(3) unat_sub word_le_nat_alt)
  ultimately show ?case using buy_exact(5) lt by (simp add: backed_def mult.commute)
qed

lemma trades_backed: "trade\<^sup>*\<^sup>* m m' \<Longrightarrow> backed m m'"
  by (induction rule: rtranclp_induct) (auto intro: backed_refl trade_backed backed_trans)

lemma backed_no_profit:
  assumes "backed m m'" and "0 < mk_base m" and "0 < mk_quote m"
  shows "tr_base m \<le> tr_base m' \<Longrightarrow> tr_quote m' \<le> tr_quote m"
    and "tr_quote m \<le> tr_quote m' \<Longrightarrow> tr_base m' \<le> tr_base m"
proof -
  let ?b = "unat (mk_base m)" and ?q = "unat (mk_quote m)"
  let ?b' = "unat (mk_base m')" and ?q' = "unat (mk_quote m')"
  have pos: "0 < ?b" "0 < ?q" using assms(2,3) by (simp_all add: word_less_nat_alt)
  have product: "?b * ?q \<le> ?b' * ?q'" using assms(1) by (simp add: backed_def)
  show "tr_quote m' \<le> tr_quote m" if "tr_base m \<le> tr_base m'"
  proof -
    have "?b' \<le> ?b" using that assms(1) by (auto simp: backed_def)
    then have "?b * ?q \<le> ?b * ?q'" using product by (meson mult_le_mono1 order_trans)
    then show ?thesis using pos assms(1) by (auto simp: backed_def)
  qed
  show "tr_base m' \<le> tr_base m" if "tr_quote m \<le> tr_quote m'"
  proof -
    have "?q' \<le> ?q" using that assms(1) by (auto simp: backed_def)
    then have "?b * ?q \<le> ?b' * ?q" using product by (meson mult_le_mono2 order_trans)
    then show ?thesis using pos assms(1) by (auto simp: backed_def)
  qed
qed

text \<open>
  C4: swaps at quoted prices never drain the pool. From a pool with both reserves nonempty, after any
  sequence of sells, buys and exact buys, of any traders, amounts, fee schedules and slippages,
  the product of the reserves is at least what it was and the traders together have not gained on one side without paying on the
  other: with as much of the base as before they hold no more of the quote, and the other way round.
\<close>

theorem swaps_never_drain:
  assumes "trade\<^sup>*\<^sup>* m m'" and "0 < mk_base m" and "0 < mk_quote m"
  shows "unat (mk_base m) * unat (mk_quote m) \<le> unat (mk_base m') * unat (mk_quote m') \<and>
    tr_base m' - tr_base m = int (unat (mk_base m)) - int (unat (mk_base m')) \<and>
    tr_quote m' - tr_quote m \<le> int (unat (mk_quote m)) - int (unat (mk_quote m')) \<and>
    \<not> (tr_base m \<le> tr_base m' \<and> tr_quote m < tr_quote m') \<and>
    \<not> (tr_quote m \<le> tr_quote m' \<and> tr_base m < tr_base m')"
  using trades_backed [OF assms(1)] backed_no_profit [OF trades_backed [OF assms(1)] assms(2,3)]
  by (auto simp: backed_def)

text \<open>A sell, and a buy after it with what the sell paid.\<close>

definition market_example :: market where
  "market_example = \<lparr>mk_base = 1000, mk_quote = 2000, tr_base = 0, tr_quote = 0\<rparr>"

lemma trades_example:
  "trade\<^sup>*\<^sup>* market_example \<lparr>mk_base = 1001, mk_quote = 2000, tr_base = - 1, tr_quote = 0\<rparr>"
proof -
  let ?m = "\<lparr>mk_base = 1010, mk_quote = 1981, tr_base = - 10, tr_quote = 19\<rparr>"
  have sell: "unat (amount_out (quote_sell 10 1000 2000 fees_default 0)) = 19"
      "unat (gross_amount_out (quote_sell 10 1000 2000 fees_default 0)) = 19"
    by (simp_all add: unat_saturating_sub unat_constant_product_out cp_out_def unat_fee_on exact_fee_def
        fees_default_def)
  have "trade market_example ?m"
    using trade.sell [OF refl, of 1010 market_example 10 fees_default 0 1981] sell
    by (simp add: market_example_def del: quote_sell_simps)
  moreover have buy: "amount_out (quote_buy_exact_quote_in 19 1010 1981 fees_default 0) = 9"
      "sq_fee (quote_buy_exact_quote_in 19 1010 1981 fees_default 0) = 0"
    by (simp_all add: word_unat_eq_iff unat_buy_out unat_buy_fee curve_input_def exact_fee_def cp_out_def
        fees_default_def)
  have "trade ?m \<lparr>mk_base = 1001, mk_quote = 2000, tr_base = - 1, tr_quote = 0\<rparr>"
    using trade.buy [OF refl refl, of ?m 19 fees_default 0 2000] buy by simp
  ultimately show ?thesis by (meson converse_rtranclp_into_rtranclp rtranclp.rtrancl_refl)
qed

theorem swaps_never_drain_witness:
  "trade\<^sup>*\<^sup>* market_example \<lparr>mk_base = 1001, mk_quote = 2000, tr_base = - 1, tr_quote = 0\<rparr> \<and>
    unat (mk_base market_example) * unat (mk_quote market_example) \<le> 1001 * 2000"
  using trades_example swaps_never_drain [OF trades_example] by (simp add: market_example_def)

end
