(* ===== verification/Decoder_Errors.thy ===== *)
theory Decoder_Errors
  imports Fee_Schedule Config_Accounts
begin

text \<open>
  What the account decoders of \<open>state.rs\<close> report when they reject an account. An account is
  described by its layout, the list of its fields; \<open>defect\<close> walks a layout over the bytes and
  gives the first thing that is wrong with them. Each read of the source is shown to follow
  its field, so that a decoder rejects an account exactly when its layout finds a defect, with
  exactly that error.
\<close>

named_theorems layout_intros "reads that follow a layout"

section \<open>Layouts and their defects\<close>

text \<open>
  A field is a number of bytes of any value, a flag, the status of a sharing configuration, or
  a vector: its number of elements in four bytes, then elements of a fixed width.
\<close>

datatype wire_field = Bytes nat | Flag | Status | Elements nat

fun defect :: "wire_field list \<Rightarrow> bytes \<Rightarrow> nat \<Rightarrow> err option" where
  "defect [] data pos = None"
| "defect (Bytes n # fs) data pos =
     (if length data < pos + n then Some (Truncated (pos + n) (length data))
      else defect fs data (pos + n))"
| "defect (Flag # fs) data pos =
     (if length data < pos + 1 then Some (Truncated (pos + 1) (length data))
      else if 1 < data ! pos then Some (InvalidBool (data ! pos))
      else defect fs data (pos + 1))"
| "defect (Status # fs) data pos =
     (if length data < pos + 1 then Some (Truncated (pos + 1) (length data))
      else if 1 < data ! pos then Some (InvalidConfigStatus (data ! pos))
      else defect fs data (pos + 1))"
| "defect (Elements width # fs) data pos =
     (if length data < pos + 4 then Some (Truncated (pos + 4) (length data))
      else let n = unat (from_le_bytes (take 4 (drop pos data)) :: u32);
               remaining = length data - (pos + 4)
        in if remaining < n * width then Some (VecTooLong n remaining)
           else defect fs data (pos + 4 + n * width))"

text \<open>What is wrong with an account: too few bytes for a discriminator, another one, or a field.\<close>

definition account_defect :: "bytes \<Rightarrow> string \<Rightarrow> wire_field list \<Rightarrow> bytes \<Rightarrow> err option" where
  "account_defect disc account layout data =
     (if length data < 8 then Some (TooShortForDiscriminator account)
      else if take 8 data \<noteq> disc then Some (UnexpectedDiscriminator account (take 8 data) disc)
      else defect layout data 8)"

definition rejection :: "'a res \<Rightarrow> err option" where
  "rejection z = (case z of Inl err \<Rightarrow> Some err | Inr _ \<Rightarrow> None)"

lemma rejection_simps [simp]: "rejection (Inl err) = Some err" "rejection (Inr x) = None"
  by (simp_all add: rejection_def)

section \<open>Reads that follow a layout\<close>

definition inside :: "reader \<Rightarrow> bool" where
  "inside r \<longleftrightarrow> rd_pos r \<le> length (rd_data r) \<and> length (rd_data r) < 2 ^ 63"

text \<open>
  A read follows the fields \<open>fs\<close> when it fails exactly with their defect, whatever comes after
  them, and otherwise leaves the reader behind them.
\<close>

definition follows :: "(reader \<Rightarrow> ('a \<times> reader) res) \<Rightarrow> wire_field list \<Rightarrow> bool" where
  "follows rd fs \<longleftrightarrow> (\<forall>r gs. inside r \<longrightarrow> (case rd r of
     Inl err \<Rightarrow> defect (fs @ gs) (rd_data r) (rd_pos r) = Some err
   | Inr (x, r') \<Rightarrow> rd_data r' = rd_data r \<and> inside r' \<and>
       defect (fs @ gs) (rd_data r) (rd_pos r) = defect gs (rd_data r) (rd_pos r')))"

definition rejects_by :: "(reader \<Rightarrow> 'a res) \<Rightarrow> wire_field list \<Rightarrow> bool" where
  "rejects_by k fs \<longleftrightarrow> (\<forall>r. inside r \<longrightarrow> rejection (k r) = defect fs (rd_data r) (rd_pos r))"

lemma followsD:
  assumes "follows rd fs" and "inside r"
  shows "rd r = Inl err \<Longrightarrow> defect (fs @ gs) (rd_data r) (rd_pos r) = Some err"
    and "rd r = Inr (x, r') \<Longrightarrow> rd_data r' = rd_data r \<and> inside r' \<and>
      defect (fs @ gs) (rd_data r) (rd_pos r) = defect gs (rd_data r) (rd_pos r')"
  using assms(1) [unfolded follows_def, rule_format, OF assms(2), of gs] by simp_all

lemma followsI:
  assumes "\<And>r gs err. inside r \<Longrightarrow> rd r = Inl err \<Longrightarrow>
      defect (fs @ gs) (rd_data r) (rd_pos r) = Some err"
    and "\<And>r gs x r'. inside r \<Longrightarrow> rd r = Inr (x, r') \<Longrightarrow> rd_data r' = rd_data r \<and> inside r' \<and>
      defect (fs @ gs) (rd_data r) (rd_pos r) = defect gs (rd_data r) (rd_pos r')"
  shows "follows rd fs"
  unfolding follows_def
proof (intro allI impI)
  fix r gs
  assume r: "inside r"
  show "case rd r of Inl err \<Rightarrow> defect (fs @ gs) (rd_data r) (rd_pos r) = Some err
      | Inr (x, r') \<Rightarrow> rd_data r' = rd_data r \<and> inside r' \<and>
          defect (fs @ gs) (rd_data r) (rd_pos r) = defect gs (rd_data r) (rd_pos r')"
  proof (cases "rd r")
    case (Inr z)
    then show ?thesis using assms(2) [OF r] by (cases z) simp
  qed (simp add: assms(1) [OF r])
qed

lemma follows_return [layout_intros]: "follows (\<lambda>r. Inr (x, r)) []"
  by (simp add: follows_def)

lemma rejects_by_return [layout_intros]: "rejects_by (\<lambda>r. Inr x) []"
  by (simp add: rejects_by_def)

lemma bindE_readE:
  assumes "bindE (rd r) (\<lambda>(x, r). k x r) = z"
  obtains (failed) err where "rd r = Inl err" and "z = Inl err"
    | (got) x r' where "rd r = Inr (x, r')" and "k x r' = z"
  using assms by (cases "rd r") auto

lemma follows_bind [layout_intros]:
  assumes rd: "follows rd fs" and k: "\<And>x. follows (k x) gs"
  shows "follows (\<lambda>r. bindE (rd r) (\<lambda>(x, r). k x r)) (fs @ gs)"
proof (rule followsI)
  fix r hs err
  assume r: "inside r" and "bindE (rd r) (\<lambda>(x, r). k x r) = Inl err"
  from this(2) show "defect ((fs @ gs) @ hs) (rd_data r) (rd_pos r) = Some err"
  proof (cases rule: bindE_readE)
    case (got x r')
    with followsD(2) [OF rd r got(1), of "gs @ hs"] followsD(1) [OF k, of r' x err hs]
    show ?thesis by simp
  qed (use followsD(1) [OF rd r] in simp)
next
  fix r hs x r''
  assume r: "inside r" and "bindE (rd r) (\<lambda>(x, r). k x r) = Inr (x, r'')"
  from this(2) show "rd_data r'' = rd_data r \<and> inside r'' \<and>
      defect ((fs @ gs) @ hs) (rd_data r) (rd_pos r) = defect hs (rd_data r) (rd_pos r'')"
  proof (cases rule: bindE_readE)
    case (got y r')
    with followsD(2) [OF rd r got(1), of "gs @ hs"] followsD(2) [OF k, of r' y x r'' hs]
    show ?thesis by simp
  qed simp
qed

lemma rejects_by_bind [layout_intros]:
  assumes rd: "follows rd fs" and k: "\<And>x. rejects_by (k x) gs"
  shows "rejects_by (\<lambda>r. bindE (rd r) (\<lambda>(x, r). k x r)) (fs @ gs)"
  unfolding rejects_by_def
proof (intro allI impI)
  fix r
  assume r: "inside r"
  show "rejection (bindE (rd r) (\<lambda>(x, r). k x r)) = defect (fs @ gs) (rd_data r) (rd_pos r)"
  proof (cases "rd r")
    case (Inr z)
    obtain x r' where z: "z = (x, r')" by (cases z)
    from followsD(2) [OF rd r Inr [unfolded z], of gs] k [unfolded rejects_by_def, rule_format, of r' x]
    show ?thesis by (simp add: Inr z)
  qed (use followsD(1) [OF rd r] in simp)
qed

section \<open>The reads\<close>

text \<open>All fixed-width reads take at most 32 bytes, so their ends stay far from \<open>usize::MAX\<close>.\<close>

lemma take_follows: "n \<le> 32 \<Longrightarrow> follows (rd_take n) [Bytes n]"
  by (rule followsI)
    (auto simp: rd_take_def inside_def Let_def bindE_eq_Inl_iff bindE_eq_Inr_iff slice_get_def ok_or_def
      split: if_splits option.splits)

lemma mapped_follows: "follows rd fs \<Longrightarrow> follows (\<lambda>r. bindE (rd r) (\<lambda>(s, r). Inr (f s, r))) fs"
  using follows_bind [OF _ follows_return, of rd fs f] by simp

lemma fixed_follows [layout_intros]:
  "follows rd_u8 [Bytes 1]" "follows rd_u16 [Bytes 2]" "follows rd_u32 [Bytes 4]"
  "follows rd_u64 [Bytes 8]" "follows rd_u128 [Bytes 16]" "follows rd_i64 [Bytes 8]"
  "follows rd_pubkey [Bytes 32]"
  by (simp_all add: rd_u8_def [abs_def] rd_u16_def [abs_def] rd_u32_def [abs_def] rd_u64_def [abs_def]
      rd_u128_def [abs_def] rd_i64_def [abs_def] rd_pubkey_def [abs_def] take_follows mapped_follows)

lemma u8_read_iff:
  "inside r \<Longrightarrow> rd_u8 r = (if length (rd_data r) < rd_pos r + 1
     then Inl (Truncated (rd_pos r + 1) (length (rd_data r)))
     else Inr (rd_data r ! rd_pos r, rd_adv r 1))"
  by (auto simp: rd_u8_def rd_take_def inside_def Let_def slice_get_def ok_or_def rd_adv_def)

lemma above_1: "(b :: u8) \<noteq> 0 \<Longrightarrow> b \<noteq> 1 \<Longrightarrow> 1 < b"
  by (simp add: word_less_nat_alt word_unat_eq_iff)

lemma bool_follows [layout_intros]: "follows rd_bool [Flag]"
  by (rule followsI) (auto simp: rd_bool_def u8_read_iff above_1 inside_def split: if_splits)

lemma config_status_follows [layout_intros]: "follows config_status_read [Status]"
  by (rule followsI) (auto simp: config_status_read_def u8_read_iff above_1 inside_def split: if_splits)

lemma many_follows: "follows rd fs \<Longrightarrow> follows (rd_many rd n) (concat (replicate n fs))"
proof (induction n)
  case 0
  then show ?case by (simp add: follows_def)
next
  case (Suc n)
  have "rd_many rd (Suc n) = (\<lambda>r. bindE (rd r) (\<lambda>(x, r). bindE (rd_many rd n r) (\<lambda>(xs, r). Inr (x # xs, r))))"
    by (rule ext) simp
  then show ?case using Suc by (simp add: follows_bind mapped_follows)
qed

lemma concat_replicate_single: "concat (replicate n [x]) = replicate n x"
  by (induction n) simp_all

lemma array_follows [layout_intros]:
  "follows (rd_u64_array n) (replicate n (Bytes 8))"
  "follows (rd_pubkey_array n) (replicate n (Bytes 32))"
  using many_follows [of rd_u64 "[Bytes 8]" n] many_follows [of rd_pubkey "[Bytes 32]" n]
  by (simp_all add: rd_u64_array_def [abs_def] rd_pubkey_array_def [abs_def] fixed_follows
      concat_replicate_single)

subsection \<open>Vectors\<close>

text \<open>Elements whose fields may hold any bytes have no defect once their bytes are there.\<close>

definition plain :: "wire_field list \<Rightarrow> nat \<Rightarrow> bool" where
  "plain fs width \<longleftrightarrow> (\<forall>gs data pos. pos + width \<le> length data \<longrightarrow>
     defect (fs @ gs) data pos = defect gs data (pos + width))"

lemma plain_many:
  "plain fs width \<Longrightarrow> pos + n * width \<le> length data \<Longrightarrow>
    defect (concat (replicate n fs) @ gs) data pos = defect gs data (pos + n * width)"
proof (induction n arbitrary: pos)
  case (Suc n)
  then have "defect (fs @ concat (replicate n fs) @ gs) data pos =
      defect (concat (replicate n fs) @ gs) data (pos + width)"
    unfolding plain_def by simp
  with Suc.IH [of "pos + width"] Suc.prems show ?case by (simp add: add.assoc)
qed simp

lemma u32_read_iff:
  "inside r \<Longrightarrow> rd_u32 r = (if length (rd_data r) < rd_pos r + 4
     then Inl (Truncated (rd_pos r + 4) (length (rd_data r)))
     else Inr (from_le_bytes (take 4 (drop (rd_pos r) (rd_data r))), rd_adv r 4))"
  by (auto simp: rd_u32_def rd_take_def inside_def Let_def slice_get_def ok_or_def rd_adv_def)

lemma vec_unfold:
  assumes r: "inside r" and long: "rd_pos r + 4 \<le> length (rd_data r)"
    and n: "n = unat (from_le_bytes (take 4 (drop (rd_pos r) (rd_data r))) :: u32)"
  shows "rd_vec width rd r = (if length (rd_data r) - (rd_pos r + 4) < n * width
     then Inl (VecTooLong n (length (rd_data r) - (rd_pos r + 4))) else rd_many rd n (rd_adv r 4))"
  using r long by (auto simp: rd_vec_def u32_read_iff Let_def n inside_def min_def)

lemma vec_follows:
  assumes rd: "follows rd fs" and fs: "plain fs width"
  shows "follows (rd_vec width rd) [Elements width]"
proof (rule followsI)
  fix r gs err
  assume r: "inside r" and bad: "rd_vec width rd r = Inl err"
  define n where n: "n = unat (from_le_bytes (take 4 (drop (rd_pos r) (rd_data r))) :: u32)"
  show "defect ([Elements width] @ gs) (rd_data r) (rd_pos r) = Some err"
  proof (cases "length (rd_data r) < rd_pos r + 4")
    case True
    then show ?thesis using bad r by (simp add: rd_vec_def u32_read_iff)
  next
    case False
    then have in4: "inside (rd_adv r 4)" using r by (simp add: inside_def)
    have unfold: "rd_vec width rd r = (if length (rd_data r) - (rd_pos r + 4) < n * width
        then Inl (VecTooLong n (length (rd_data r) - (rd_pos r + 4))) else rd_many rd n (rd_adv r 4))"
      using False by (intro vec_unfold [OF r _ n]) simp
    have "length (rd_data r) - (rd_pos r + 4) < n * width"
    proof (rule ccontr)
      assume fits: "\<not> length (rd_data r) - (rd_pos r + 4) < n * width"
      then have "rd_many rd n (rd_adv r 4) = Inl err" using bad unfold by simp
      moreover have "rd_pos r + 4 + n * width \<le> length (rd_data r)" using fits False by linarith
      ultimately show False
        using followsD(1) [OF many_follows [OF rd] in4, of n err "[]"]
          plain_many [OF fs, of "rd_pos r + 4" n "rd_data r" "[]"] by simp
    qed
    then show ?thesis using False bad unfold by (simp add: Let_def flip: n)
  qed
next
  fix r gs x r'
  assume r: "inside r" and good: "rd_vec width rd r = Inr (x, r')"
  define n where n: "n = unat (from_le_bytes (take 4 (drop (rd_pos r) (rd_data r))) :: u32)"
  have long: "rd_pos r + 4 \<le> length (rd_data r)"
    using good r by (auto simp: rd_vec_def u32_read_iff split: if_splits)
  then have in4: "inside (rd_adv r 4)" using r by (simp add: inside_def)
  have fits: "n * width \<le> length (rd_data r) - (rd_pos r + 4)" "rd_many rd n (rd_adv r 4) = Inr (x, r')"
    using good vec_unfold [OF r long n, of width rd] by (simp_all split: if_splits)
  show "rd_data r' = rd_data r \<and> inside r' \<and>
      defect ([Elements width] @ gs) (rd_data r) (rd_pos r) = defect gs (rd_data r) (rd_pos r')"
    using followsD(2) [OF many_follows [OF rd] in4 fits(2), of gs] fits(1) long
      plain_many [OF fs, of "rd_pos r + 4" n "rd_data r" gs]
    by (simp add: Let_def flip: n)
qed

subsection \<open>The elements of the source\<close>

abbreviation fees_fields :: "wire_field list" where
  "fees_fields \<equiv> [Bytes 8, Bytes 8, Bytes 8]"

lemma fees_follows [layout_intros]: "follows fees_read fees_fields"
proof -
  have "follows fees_read ([Bytes 8] @ [Bytes 8] @ [Bytes 8] @ [])"
    unfolding fees_read_def [abs_def] by (rule layout_intros)+
  then show ?thesis by simp
qed

lemma fee_tier_follows: "follows fee_tier_read (Bytes 16 # fees_fields)"
proof -
  have "follows fee_tier_read ([Bytes 16] @ fees_fields @ [])"
    unfolding fee_tier_read_def [abs_def] by (rule layout_intros)+
  then show ?thesis by simp
qed

lemma shareholder_follows: "follows shareholder_read [Bytes 32, Bytes 2]"
proof -
  have "follows shareholder_read ([Bytes 32] @ [Bytes 2] @ [])"
    unfolding shareholder_read_def [abs_def] by (rule layout_intros)+
  then show ?thesis by simp
qed

lemma element_vec_follows [layout_intros]:
  "follows (rd_vec FeeTier_ENCODED_LEN fee_tier_read) [Elements 40]"
  "follows (rd_vec Shareholder_ENCODED_LEN shareholder_read) [Elements 34]"
  using vec_follows [OF fee_tier_follows, of 40] vec_follows [OF shareholder_follows, of 34]
  by (simp_all add: plain_def add.commute FeeTier_ENCODED_LEN_def Shareholder_ENCODED_LEN_def)

section \<open>The decoders\<close>

text \<open>
  The layouts of the five accounts behind their discriminators. \<open>FeeConfig\<close>: bump, admin, the
  flat fees, the two ladders of tiers of 40 bytes. \<open>GlobalConfig\<close>: admin, two fees, the
  disable flags, eight recipients, the coin creator fee, three keys, the mayhem flag, seven
  reserved recipients, the cashback flag, eight buyback recipients and the buyback fee.
\<close>

definition fee_config_layout :: "wire_field list" where
  "fee_config_layout = [Bytes 1, Bytes 32] @ fees_fields @ [Elements 40, Elements 40]"

definition global_config_layout :: "wire_field list" where
  "global_config_layout = [Bytes 32, Bytes 8, Bytes 8, Bytes 1] @ replicate 8 (Bytes 32)
     @ [Bytes 8, Bytes 32, Bytes 32, Bytes 32, Flag] @ replicate 7 (Bytes 32) @ [Flag]
     @ replicate 8 (Bytes 32) @ [Bytes 8]"

text \<open>
  \<open>UserVolumeAccumulator\<close>: user, the claim flag, three amounts and a timestamp, a flag, two
  amounts. \<open>GlobalVolumeAccumulator\<close>: three times, the mint, two arrays of thirty days.
  \<open>SharingConfig\<close>: bump, version, status, mint, admin, the revocation flag and the
  shareholders of 34 bytes.
\<close>

definition user_volume_accumulator_layout :: "wire_field list" where
  "user_volume_accumulator_layout =
     [Bytes 32, Flag, Bytes 8, Bytes 8, Bytes 8, Bytes 8, Flag, Bytes 8, Bytes 8]"

definition global_volume_accumulator_layout :: "wire_field list" where
  "global_volume_accumulator_layout =
     [Bytes 8, Bytes 8, Bytes 8, Bytes 32] @ replicate 30 (Bytes 8) @ replicate 30 (Bytes 8)"

definition sharing_config_layout :: "wire_field list" where
  "sharing_config_layout = [Bytes 1, Bytes 1, Status, Bytes 32, Bytes 32, Flag, Elements 34]"

lemma account_rejects:
  assumes "rejects_by k fs" and "fs = layout" and "length data < 2 ^ 63"
  shows "rejection (bindE (rd_after_discriminator data disc account) k) =
    account_defect disc account layout data"
  using assms(1) [unfolded rejects_by_def, rule_format, of "\<lparr>rd_data = data, rd_pos = 8\<rparr>"] assms(2,3)
  by (auto simp: account_defect_def rd_after_discriminator_def slice_get_def ok_or_def inside_def)

lemma fee_config_rejects:
  "length data < 2 ^ 63 \<Longrightarrow> rejection (fee_config_from_account_data data) =
    account_defect FEE_CONFIG_DISCRIMINATOR ''FeeConfig'' fee_config_layout data"
  unfolding fee_config_from_account_data_def
  by (rule account_rejects, (rule layout_intros)+, simp_all add: fee_config_layout_def)

lemma global_config_rejects:
  "length data < 2 ^ 63 \<Longrightarrow> rejection (global_config_from_account_data data) =
    account_defect GLOBAL_CONFIG_DISCRIMINATOR ''GlobalConfig'' global_config_layout data"
  unfolding global_config_from_account_data_def
  by (rule account_rejects, (rule layout_intros)+, simp_all add: global_config_layout_def)

lemma user_volume_accumulator_rejects:
  "length data < 2 ^ 63 \<Longrightarrow> rejection (user_volume_accumulator_from_account_data data) =
    account_defect USER_VOLUME_ACCUMULATOR_DISCRIMINATOR ''UserVolumeAccumulator''
      user_volume_accumulator_layout data"
  unfolding user_volume_accumulator_from_account_data_def
  by (rule account_rejects, (rule layout_intros)+, simp_all add: user_volume_accumulator_layout_def)

lemma global_volume_accumulator_rejects:
  "length data < 2 ^ 63 \<Longrightarrow> rejection (global_volume_accumulator_from_account_data data) =
    account_defect GLOBAL_VOLUME_ACCUMULATOR_DISCRIMINATOR ''GlobalVolumeAccumulator''
      global_volume_accumulator_layout data"
  unfolding global_volume_accumulator_from_account_data_def
  by (rule account_rejects, (rule layout_intros)+,
      simp_all add: global_volume_accumulator_layout_def VOLUME_ACCUMULATOR_DAYS_def)

lemma sharing_config_rejects:
  "length data < 2 ^ 63 \<Longrightarrow> rejection (sharing_config_from_account_data data) =
    account_defect SHARING_CONFIG_DISCRIMINATOR ''SharingConfig'' sharing_config_layout data"
  unfolding sharing_config_from_account_data_def
  by (rule account_rejects, (rule layout_intros)+, simp_all add: sharing_config_layout_def)

text \<open>
  C28: a sequential decoder of \<open>state.rs\<close> rejects an account exactly when the account has a
  defect, and with that defect as its error: fewer than eight bytes; another discriminator,
  which the error shows; or the first field of the account's layout that does not fit: one
  that runs past the end, with the end it needs and the length there is; a flag or status
  byte above 1; a vector (fee tiers of 40 bytes, shareholders of 34) whose elements need more
  bytes than are left, with its length and those bytes. Every other account is decoded; no
  decoder panics or reports an offset overflow. The account is below \<open>2 ^ 63\<close> bytes, as every
  byte slice of Rust is.
\<close>

theorem decoders_reject_exactly:
  assumes "length data < 2 ^ 63"
  shows "rejection (fee_config_from_account_data data) =
      account_defect FEE_CONFIG_DISCRIMINATOR ''FeeConfig'' fee_config_layout data \<and>
    rejection (global_config_from_account_data data) =
      account_defect GLOBAL_CONFIG_DISCRIMINATOR ''GlobalConfig'' global_config_layout data \<and>
    rejection (user_volume_accumulator_from_account_data data) =
      account_defect USER_VOLUME_ACCUMULATOR_DISCRIMINATOR ''UserVolumeAccumulator''
        user_volume_accumulator_layout data \<and>
    rejection (global_volume_accumulator_from_account_data data) =
      account_defect GLOBAL_VOLUME_ACCUMULATOR_DISCRIMINATOR ''GlobalVolumeAccumulator''
        global_volume_accumulator_layout data \<and>
    rejection (sharing_config_from_account_data data) =
      account_defect SHARING_CONFIG_DISCRIMINATOR ''SharingConfig'' sharing_config_layout data"
  by (intro conjI fee_config_rejects global_config_rejects user_volume_accumulator_rejects
      global_volume_accumulator_rejects sharing_config_rejects assms)

text \<open>An accumulator whose claim flag is 2, and the same one with the flag set and cut short.\<close>

theorem decoders_reject_exactly_witness:
  "rejection (user_volume_accumulator_from_account_data
      (USER_VOLUME_ACCUMULATOR_DISCRIMINATOR @ replicate 32 7 @ [2])) = Some (InvalidBool 2) \<and>
   rejection (user_volume_accumulator_from_account_data
      (USER_VOLUME_ACCUMULATOR_DISCRIMINATOR @ replicate 32 7 @ [1, 0, 0])) = Some (Truncated 49 43) \<and>
   rejection (sharing_config_from_account_data
      (SHARING_CONFIG_DISCRIMINATOR @ [255, 1, 1] @ replicate 64 7 @ [0, 3, 0, 0, 0, 9])) =
     Some (VecTooLong 3 1) \<and>
   rejection (global_config_from_account_data [0, 1, 2, 3, 4, 5, 6, 7, 8]) =
     Some (UnexpectedDiscriminator ''GlobalConfig'' [0, 1, 2, 3, 4, 5, 6, 7] GLOBAL_CONFIG_DISCRIMINATOR)"
  using
    decoders_reject_exactly [of "USER_VOLUME_ACCUMULATOR_DISCRIMINATOR @ replicate 32 7 @ [2]"]
    decoders_reject_exactly [of "USER_VOLUME_ACCUMULATOR_DISCRIMINATOR @ replicate 32 7 @ [1, 0, 0]"]
    decoders_reject_exactly [of "SHARING_CONFIG_DISCRIMINATOR @ [255, 1, 1] @ replicate 64 7 @ [0, 3, 0, 0, 0, 9]"]
    decoders_reject_exactly [of "[0, 1, 2, 3, 4, 5, 6, 7, 8]"]
  by (simp add: account_defect_def user_volume_accumulator_layout_def sharing_config_layout_def
      USER_VOLUME_ACCUMULATOR_DISCRIMINATOR_def SHARING_CONFIG_DISCRIMINATOR_def
      GLOBAL_CONFIG_DISCRIMINATOR_def from_le_bytes_def nth_append)

end
