(* ===== verification/Spec2Isabelle.thy ===== *)
theory Spec2Isabelle
  imports Examples Recorded_Swaps Recorded_Accounts Recorded_Routes Trades Decoder_Errors
begin

text \<open>
  A verification development for the pump-swap SDK, a Rust client library of the pump-amm
  program on Solana. It prices swaps, decodes the accounts of the program, builds instructions
  and instruction sequences, submits them through an RPC endpoint, and sends bundles through
  a pool of Jito block engines. Six programs under \<open>examples/\<close> run it.

  \<^bold>\<open>Parts and theories.\<close> Each theory models one part, in the order the code has it.

  \<^item> \<open>Prelude\<close>: machine integers as words, the standard-library operations on them (checked and
    saturating arithmetic, \<open>div_ceil\<close>, little-endian bytes), \<open>Result\<close> as the sum type
    \<open>'a res\<close> with the datatype \<open>err\<close>, and the shared lemmas.
  \<^item> \<open>F64\<close>: the \<open>f64\<close> type with its rounding, which \<open>math.rs\<close> and \<open>client.rs\<close> use for slippage
    and LP shares. A finite value is the rational it denotes; signed zeros are not told apart,
    which no operation of the crate observes.
  \<^item> \<open>Reader\<close>: \<open>struct Reader\<close> of \<open>src/state.rs\<close>, with the locales \<open>borsh_codec\<close> and
    \<open>borsh_fixed\<close> as the contract of a decoder and an encoding; every decoder of the crate is
    an interpretation.
  \<^item> \<open>World\<close>: \<open>src/constants.rs\<close>, and the record \<open>ext\<close> of what the crate takes from other
    crates: address derivation, SPL constructors, the random choice, base58, the rent, and
    whether the build has overflow checks.
  \<^item> \<open>Fee_Schedule\<close>, \<open>Config_Accounts\<close>, \<open>Pool_State\<close>: the accounts of \<open>src/state.rs\<close>, their
    decoders, their queries, and the orientation and effective reserves of a pool.
  \<^item> \<open>Addresses\<close>: the address derivations and recipient choices of \<open>src/util.rs\<close>.
  \<^item> \<open>Pricing\<close>: \<open>src/math.rs\<close>. The locale \<open>swap_curve\<close> states what the quotes need of the two
    curve steps; it is interpreted on \<open>constant_product_out\<close> and \<open>constant_product_in\<close>.
  \<^item> \<open>Instruction_Args\<close>, \<open>Instructions\<close>: \<open>src/instruction.rs\<close>. The locale \<open>anchor_args\<close> relates
    the bytes an argument struct is sent as to what an Anchor program reads from them.
  \<^item> \<open>Swap_Builders\<close>: the builders of \<open>src/client.rs\<close> that make no RPC call. The locale
    \<open>swap_builder\<close> is the contract the five swap sequences share.
  \<^item> \<open>Rpc\<close>, \<open>Client\<close>: the reads, and the operations that compose reads, builders and a
    submission. An \<open>async fn\<close> is a function from the environment (the endpoint's state and the
    log of sleeps) to a result and the environment after it.
  \<^item> \<open>Jito\<close>: \<open>JitoPool\<close> and the bundle sender of \<open>src/util.rs\<close>, as functions and as a step
    relation of concurrent callers.

  \<^item> \<open>Trades\<close>: no code of its own, but the market that the quotes of \<open>Pricing\<close> make: a step relation
    of swaps at quoted prices with its invariant.
  \<^item> \<open>Decoder_Errors\<close>: no code of its own, but what the decoders report when they reject an account:
    the layouts of the accounts, field by field, and the first defect of given bytes.
  \<^item> \<open>Endpoint\<close>: no code of its own, but what the operations of \<open>Rpc\<close> and \<open>Client\<close> ask of the
    RPC endpoint. The locale \<open>traced_endpoint\<close> is an endpoint that keeps its calls, interpreted on
    \<open>traced rpc\<close> for every endpoint \<open>rpc\<close>; its lemmas follow the calls through the binds.
  \<^item> \<open>Host\<close>, \<open>Examples\<close>: the programs under \<open>examples/\<close>: environment variables, the text functions
    and \<open>f64\<close> parser of the standard library, and each \<open>main\<close> with its loops and helpers; and
    \<open>clone_keypairs\<close> of \<open>src/util.rs\<close>. The record \<open>host\<close> holds the process, the connection to an
    endpoint and the parsers of the Solana crates.
  \<^item> \<open>Unit_Tests\<close>: the \<open>#[cfg(test)]\<close> modules of \<open>math.rs\<close>, \<open>util.rs\<close>, \<open>instruction.rs\<close> and
    \<open>client.rs\<close>, each test a predicate of the keys, seeds and picks it draws.
  \<^item> \<open>Recorded_Swaps\<close>: the offline tests of \<open>tests/swap_math.rs\<close>, with the recorded swap events and
    pool accounts of \<open>tests/fixtures\<close> byte by byte.
  \<^item> \<open>Mainnet\<close>: the base58 decoder of \<open>pubkey!\<close>, and the recorded derivations of the live programs as a
    table, with one outside world that derives them.
  \<^item> \<open>Recorded_Accounts\<close>, \<open>Recorded_Routes\<close>: the offline tests of the other files under \<open>tests/\<close>, with
    the recorded configuration, fee schedule, accumulators, sharing configs, pools and curve.

  \<^bold>\<open>Correspondence.\<close> A definition has the name of the function, type or constant it models; a
  Rust method \<open>T::f\<close> is \<open>t_f\<close>, \<open>T_f\<close> or \<open>f\<close>. Record fields have the source's names, with a
  prefix where two structs share one. Every \<open>?\<close>, early return, \<open>bail!\<close> and panic is a branch
  of the result type. Plain \<open>+\<close>, \<open>*\<close> and \<open>-\<close> that can overflow are \<open>add_u64\<close>, \<open>mul_u64\<close> and
  \<open>sub_i64\<close>, which panic or wrap by the build profile. A random draw is an argument: the record \<open>draws\<close> holds
  the seed bytes and the two indices a builder draws.

  \<^bold>\<open>What the lemmas show.\<close> On prices: the curve steps are exact on all \<open>u64\<close> inputs, the fees
  split a spend, minima and caps are on the safe side of the priced amounts, no sequence of swaps
  drains the pool, and where \<open>f64\<close> loses precision. On accounts: every decoder accepts exactly the
  encodings of its record, and rejects the others with the first defect of the account's layout.
  On instructions: data round trips, signers, discriminators, and the account list of a swap role
  by role. On sequences: they bracket the swap by the creation and closing of one WSOL
  account, and under documented behaviour of the SPL crates they fail exactly when no account
  derives from the seed, the funding overflows, or the SPL crate refuses to close the token
  account of a sale, as it does on every Token-2022 pool. On reads and submissions: which calls are made, which errors are
  returned, that a sale submits what it priced, that a buy requests no more than its cap
  affords, that a pool with unknown fees is never traded, that every operation submits at most
  once and last, and how the liquidity operations handle the WSOL account. On the programs:
  what a creator-fee cycle sweeps, the order and pauses of a batch, that the simulations submit
  nothing, and that the layout check looks at the swap. On the unit tests: they pass for every draw, and
  not only those of one run. On the recorded swaps: the quotes are to the unit what the program
  paid and charged. On the recorded accounts and transactions: the decoders read what is in them, the
  schedule gives the fees that were charged, and the creator-fee instructions have the account lists
  that were sent. On the Jito pool: the cooldown is kept under every interleaving, no
  caller is stuck, consecutive calls rotate through the clients, the function refines the
  step relation, and the bundle sender sends what, to whom and how often.

  \<^bold>\<open>Loops.\<close> The retry loop of \<open>fetch_ui_pooled_amounts\<close> is structural in its six attempts. The
  loops of \<open>next_client\<close> and \<open>send_bundle_with_retry\<close> are functions with termination proofs
  (the remaining cooldown, the remaining attempts), and the batch is structural in its
  wallets, so there is no fuel anywhere.

  \<^bold>\<open>Hypotheses on other code.\<close> \<open>choose_documented\<close>: a draw from a nonempty slice is one of its
  elements. \<open>spl_token_documented\<close>: the SPL constructors succeed for the SPL program.
  \<open>close_checks_program\<close>: the one that closes an account refuses any other program.
  \<open>spl_programs_documented\<close>: the constructors of a sequence target their own programs.
  \<open>sequences_documented\<close>, for the unit tests: the data of \<open>InitializeAccount\<close> starts with its tag,
  and the decoder of the funding test reads back the lamports of \<open>create_account_with_seed\<close>. All hold
  of the concrete \<open>ext_example\<close> that the witnesses use. \<open>mainnet\<close>, for the recorded accounts and routes:
  \<open>pubkey!\<close> decodes base58, and the derivations have their recorded values on the recorded seeds, which
  holds of \<open>ext_mainnet\<close>. Nothing is assumed about the RPC
  endpoint or the block engines.

  \<^bold>\<open>Not modelled.\<close> Signatures: a keypair is its public key, and a signed transaction its
  instructions, payer and blockhash. Logging, the \<open>Debug\<close> and serde derives, and the re-exports of
  \<open>src/lib.rs\<close>: no behaviour. The HTTP calls of the RPC and Jito crates: they are parameters.
  What a program prints is kept where it reports an answer of the endpoint. Under \<open>tests/\<close>: the
  tests that need a live endpoint, which assert about the live programs, and those that measure
  what external crates serialise (the transaction encoding of \<open>wire_format.rs\<close>, the payout sizes of
  \<open>fee_sweeps.rs\<close>). The struct \<open>PumpSwapClient\<close> is its endpoint: its \<open>program_id\<close> is never read. Nothing
  else of the crate is left out: what remains is imports, comments and the headers of \<open>impl\<close> blocks.
\<close>

section \<open>Properties that span components\<close>

text \<open>
  C13: every sequential decoder of \<open>state.rs\<close> accepts exactly the accounts that start with the
  account's discriminator and the encoding of a well-formed record, and returns that record:
  what is decoded is what was encoded, and trailing bytes are ignored.
\<close>

theorem account_decoders_exact:
  assumes "length data < 2 ^ 64"
  shows "(fee_config_from_account_data data = Inr fc \<longleftrightarrow>
      fee_config_ok fc \<and> prefix (FEE_CONFIG_DISCRIMINATOR @ enc_fee_config fc) data) \<and>
    (global_config_from_account_data data = Inr gc \<longleftrightarrow>
      global_config_ok gc \<and> prefix (GLOBAL_CONFIG_DISCRIMINATOR @ enc_global_config gc) data) \<and>
    (user_volume_accumulator_from_account_data data = Inr uva \<longleftrightarrow>
      pk_ok (uva_user uva) \<and>
      prefix (USER_VOLUME_ACCUMULATOR_DISCRIMINATOR @ enc_user_volume_accumulator uva) data) \<and>
    (global_volume_accumulator_from_account_data data = Inr gva \<longleftrightarrow>
      global_volume_accumulator_ok gva \<and>
      prefix (GLOBAL_VOLUME_ACCUMULATOR_DISCRIMINATOR @ enc_global_volume_accumulator gva) data) \<and>
    (sharing_config_from_account_data data = Inr sc \<longleftrightarrow>
      sharing_config_ok sc \<and> prefix (SHARING_CONFIG_DISCRIMINATOR @ enc_sharing_config sc) data)"
  using fee_config_decode_iff [OF assms] global_config_decode_iff [OF assms]
    user_volume_accumulator_decode_iff [OF assms] global_volume_accumulator_decode_iff [OF assms]
    sharing_config_decode_iff [OF assms]
  by blast

theorem account_decoders_exact_witness:
  "sharing_config_from_account_data (SHARING_CONFIG_DISCRIMINATOR @ enc_sharing_config sharing_example @ [7]) =
    Inr sharing_example"
proof -
  have "length (SHARING_CONFIG_DISCRIMINATOR @ enc_sharing_config sharing_example @ [7]) < 2 ^ 64"
    by (simp add: SHARING_CONFIG_DISCRIMINATOR_def enc_sharing_config_def sharing_example_def
        enc_config_status_def enc_vec_def enc_shareholder_def enc_bool_def)
  moreover have "sharing_config_ok sharing_example"
    by (simp add: sharing_config_ok_def sharing_example_def vec_ok_def)
  ultimately show ?thesis
    using account_decoders_exact [of "SHARING_CONFIG_DISCRIMINATOR @ enc_sharing_config sharing_example @ [7]"]
    by (simp only: append_assoc [symmetric]) (simp add: prefix_def)
qed

end
